(* ===== verification/Prelude.thy ===== *)
theory Prelude
  imports Complex_Main "HOL-Library.AList" "HOL-Library.Char_ord" "HOL-Library.List_Lexorder"
    "HOL-Library.Multiset" "HOL-Library.Product_Lexorder" "HOL-Library.Sublist" "HOL-Library.Word"
begin

text \<open>
  The shared layer of the development: what the Go sources use of their language and of its
  standard library, and the generic lemmas the components rest on.

  \<^item> Errors: a fallible function returns \<open>'e + 'a\<close>, with \<open>Inl\<close> for the error; \<open>check\<close> and
    \<open>bind\<close> write the early returns of the source in its own order.
  \<^item> Strings: a Go string is a sequence of bytes, here a \<open>char list\<close>; \<open>TrimSpace\<close>, \<open>ToLower\<close>,
    \<open>HasPrefix\<close>, \<open>HasSuffix\<close>, \<open>TrimPrefix\<close>, \<open>TrimSuffix\<close>, \<open>Contains_str\<close> and \<open>Split_str\<close> model the
    functions of the package strings on bytes.
  \<^item> Maps: a Go map is an association list with distinct keys (\<open>gomap\<close>); the list order plays the
    role of the unspecified iteration order.
  \<^item> Sorting: \<open>SliceStable\<close> models sort.SliceStable for a given \<open>less\<close>, with its contract in the
    locale \<open>strict_weak_order\<close>.
  \<^item> Numbers: 64-bit signed wrap-around, truncated division, float64 comparisons, instants and
    saturating durations.
\<close>

named_theorems go_defs \<open>definitions of the Go standard library layer\<close>
named_theorems valid_defs \<open>definitions of the Validate methods\<close>

section \<open>Errors and early returns\<close>

definition bind :: "'e + 'a \<Rightarrow> ('a \<Rightarrow> 'e + 'b) \<Rightarrow> 'e + 'b" where
  "bind r f = (case r of Inl e \<Rightarrow> Inl e | Inr x \<Rightarrow> f x)"

definition check :: "bool \<Rightarrow> 'e \<Rightarrow> 'e + 'a \<Rightarrow> 'e + 'a" where
  \<comment> \<open>\<open>if bad { return err }\<close> followed by the rest of the function\<close>
  "check bad e rest = (if bad then Inl e else rest)"

lemma bind_simps [simp]: "bind (Inl e) f = Inl e" "bind (Inr x) f = f x"
  by (simp_all add: bind_def)

lemma bind_eq_Inr [simp]: "bind r f = Inr y \<longleftrightarrow> (\<exists>x. r = Inr x \<and> f x = Inr y)"
  by (cases r) auto

lemma bind_eq_Inl: "bind r f = Inl e \<longleftrightarrow> r = Inl e \<or> (\<exists>x. r = Inr x \<and> f x = Inl e)"
  by (cases r) auto

lemma bind_split: "P (bind r f) \<longleftrightarrow> (\<forall>e. r = Inl e \<longrightarrow> P (Inl e)) \<and> (\<forall>x. r = Inr x \<longrightarrow> P (f x))"
  by (cases r) auto

lemma check_eq_Inr [simp]: "check bad e rest = Inr y \<longleftrightarrow> \<not> bad \<and> rest = Inr y"
  by (simp add: check_def)

lemma check_True [simp]: "check True e rest = Inl e"
  by (simp add: check_def)

lemma check_False [simp]: "check False e rest = rest"
  by (simp add: check_def)

fun traverse :: "('a \<Rightarrow> 'e + 'b) \<Rightarrow> 'a list \<Rightarrow> 'e + 'b list" where
  "traverse f [] = Inr []"
| "traverse f (x # xs) = bind (f x) (\<lambda>y. bind (traverse f xs) (\<lambda>ys. Inr (y # ys)))"

lemma traverse_unit:
  "traverse f xs = Inr us \<Longrightarrow> x \<in> set xs \<Longrightarrow> \<exists>u. f x = Inr u"
  by (induction xs arbitrary: us) auto

lemma traverse_length: "traverse f xs = Inr ys \<Longrightarrow> length ys = length xs"
  by (induction xs arbitrary: ys) auto

lemma traverse_Inr_iff: "(\<exists>ys. traverse f xs = Inr ys) \<longleftrightarrow> (\<forall>x\<in>set xs. \<exists>y. f x = Inr y)"
  by (induction xs) auto

lemma traverse_Inl_iff: "(\<exists>e. traverse f xs = Inl e) \<longleftrightarrow> (\<exists>x\<in>set xs. \<exists>e. f x = Inl e)"
proof -
  have *: "(\<exists>e. r = Inl e) \<longleftrightarrow> \<not> (\<exists>y. r = Inr y)" for r :: "'x + 'y"
    by (cases r) auto
  show ?thesis
    by (simp only: * traverse_Inr_iff) blast
qed

section \<open>Strings\<close>

text \<open>
  unicode.IsSpace holds of the code points U+0009 to U+000D, U+0020, U+0085, U+00A0, U+1680,
  U+2000 to U+200A, U+2028, U+2029, U+202F, U+205F and U+3000; these are their UTF-8 encodings.
  Because UTF-8 is self-synchronising, a string starts (ends) with the rune exactly when its bytes
  start (end) with the encoding, so trimming runes is trimming these byte strings.
\<close>

definition space_encodings :: "string list" where
  "space_encodings =
     [[CHR 0x09], [CHR 0x0A], [CHR 0x0B], [CHR 0x0C], [CHR 0x0D], [CHR 0x20],
      [CHR 0xC2, CHR 0x85], [CHR 0xC2, CHR 0xA0], [CHR 0xE1, CHR 0x9A, CHR 0x80],
      [CHR 0xE2, CHR 0x80, CHR 0x80], [CHR 0xE2, CHR 0x80, CHR 0x81], [CHR 0xE2, CHR 0x80, CHR 0x82],
      [CHR 0xE2, CHR 0x80, CHR 0x83], [CHR 0xE2, CHR 0x80, CHR 0x84], [CHR 0xE2, CHR 0x80, CHR 0x85],
      [CHR 0xE2, CHR 0x80, CHR 0x86], [CHR 0xE2, CHR 0x80, CHR 0x87], [CHR 0xE2, CHR 0x80, CHR 0x88],
      [CHR 0xE2, CHR 0x80, CHR 0x89], [CHR 0xE2, CHR 0x80, CHR 0x8A], [CHR 0xE2, CHR 0x80, CHR 0xA8],
      [CHR 0xE2, CHR 0x80, CHR 0xA9], [CHR 0xE2, CHR 0x80, CHR 0xAF], [CHR 0xE2, CHR 0x81, CHR 0x9F],
      [CHR 0xE3, CHR 0x80, CHR 0x80]]"

definition strip_one :: "string list \<Rightarrow> string \<Rightarrow> string option" where
  "strip_one encs s = map_option (\<lambda>p. drop (length p) s) (find (\<lambda>p. p \<noteq> [] \<and> prefix p s) encs)"

lemma strip_one_shorter: "strip_one encs s = Some r \<Longrightarrow> length r < length s"
  by (auto simp: strip_one_def find_Some_iff prefix_def)

function strip_all :: "string list \<Rightarrow> string \<Rightarrow> string" where
  "strip_all encs s = (case strip_one encs s of None \<Rightarrow> s | Some r \<Rightarrow> strip_all encs r)"
  by pat_completeness auto
termination
  by (relation "measure (\<lambda>(encs, s). length s)") (auto dest: strip_one_shorter)

declare strip_all.simps [simp del]

definition TrimSpace :: "string \<Rightarrow> string" where
  "TrimSpace s = rev (strip_all (map rev space_encodings) (rev (strip_all space_encodings s)))"

lemma strip_one_Nil [simp]: "strip_one encs [] = None"
  by (auto simp: strip_one_def find_None_iff)

lemma strip_all_Nil [simp]: "strip_all encs [] = []"
  by (simp add: strip_all.simps)

lemma TrimSpace_Nil [simp]: "TrimSpace [] = []"
  by (simp add: TrimSpace_def)

lemma strip_all_stuck: "strip_one encs (strip_all encs s) = None"
proof (induction encs s rule: strip_all.induct)
  case (1 encs s)
  then show ?case
    by (cases "strip_one encs s") (simp_all add: strip_all.simps [of encs s])
qed

lemma strip_all_id: "strip_one encs s = None \<Longrightarrow> strip_all encs s = s"
  by (simp add: strip_all.simps [of encs s])

lemma strip_all_suffix: "suffix (strip_all encs s) s"
proof (induction encs s rule: strip_all.induct)
  case (1 encs s)
  show ?case
  proof (cases "strip_one encs s")
    case None
    then show ?thesis by (simp add: strip_all_id)
  next
    case (Some r)
    then have "suffix r s"
      by (auto simp: strip_one_def suffix_drop)
    with 1 [OF Some] Some show ?thesis
      by (simp add: strip_all.simps [of encs s] suffix_order.trans)
  qed
qed

lemma strip_all_Nil_imp: "prefix s t \<Longrightarrow> strip_one encs t = None \<Longrightarrow> strip_one encs s = None"
  by (auto simp: strip_one_def find_None_iff intro: prefix_order.trans)

text \<open>Trimming is idempotent: what it returns has no space left at either end.\<close>

lemma TrimSpace_idem [simp]: "TrimSpace (TrimSpace s) = TrimSpace s"
proof -
  let ?l = "strip_all space_encodings s"
  let ?r = "strip_all (map rev space_encodings) (rev ?l)"
  have "suffix ?r (rev ?l)" by (rule strip_all_suffix)
  then have "prefix (rev ?r) ?l"
    by (simp add: suffix_to_prefix)
  then have "strip_one space_encodings (rev ?r) = None"
    by (rule strip_all_Nil_imp) (rule strip_all_stuck)
  then show ?thesis
    by (simp add: TrimSpace_def strip_all_id strip_all_stuck)
qed

lemma TrimSpace_sublist: "sublist (TrimSpace s) s"
proof -
  let ?l = "strip_all space_encodings s"
  have "prefix (TrimSpace s) ?l"
    using strip_all_suffix [of "map rev space_encodings" "rev ?l"]
    by (simp add: TrimSpace_def suffix_to_prefix)
  moreover have "suffix ?l s" by (rule strip_all_suffix)
  ultimately show ?thesis
    by (metis prefix_imp_sublist sublist_order.order_trans suffix_imp_sublist)
qed

lemma TrimSpace_set: "set (TrimSpace s) \<subseteq> set s"
  by (rule set_mono_sublist) (rule TrimSpace_sublist)

definition is_blank :: "string \<Rightarrow> bool" where
  \<comment> \<open>the test \<open>strings.TrimSpace(s) == ""\<close> of every Validate method\<close>
  "is_blank s \<longleftrightarrow> TrimSpace s = []"

lemma is_blank_Nil [simp]: "is_blank []"
  by (simp add: is_blank_def)

lemma not_blank_nonempty: "\<not> is_blank s \<Longrightarrow> s \<noteq> []"
  by auto

definition is_ascii :: "char \<Rightarrow> bool" where
  \<comment> \<open>the top bit of the byte is clear\<close>
  "is_ascii c \<longleftrightarrow> \<not> digit7 c"

definition ascii_lower :: "char \<Rightarrow> char" where
  "ascii_lower c = (case map_of (zip ''ABCDEFGHIJKLMNOPQRSTUVWXYZ'' ''abcdefghijklmnopqrstuvwxyz'') c of
     None \<Rightarrow> c | Some l \<Rightarrow> l)"

definition ToLower :: "(string \<Rightarrow> string) \<Rightarrow> string \<Rightarrow> string" where
  \<comment> \<open>strings.ToLower: the ASCII fast path, and \<open>uc\<close>, the Unicode case tables' mapping, elsewhere\<close>
  "ToLower uc s = (if list_all is_ascii s then map ascii_lower s else uc s)"

definition HasPrefix :: "string \<Rightarrow> string \<Rightarrow> bool" where
  "HasPrefix s p \<longleftrightarrow> take (length p) s = p"

definition HasSuffix :: "string \<Rightarrow> string \<Rightarrow> bool" where
  "HasSuffix s p \<longleftrightarrow> length p \<le> length s \<and> drop (length s - length p) s = p"

definition TrimPrefix :: "string \<Rightarrow> string \<Rightarrow> string" where
  "TrimPrefix s p = (if HasPrefix s p then drop (length p) s else s)"

definition TrimSuffix :: "string \<Rightarrow> string \<Rightarrow> string" where
  "TrimSuffix s p = (if HasSuffix s p then take (length s - length p) s else s)"

fun Contains_str :: "string \<Rightarrow> string \<Rightarrow> bool" where
  "Contains_str [] p \<longleftrightarrow> p = []"
| "Contains_str (c # s) p \<longleftrightarrow> HasPrefix (c # s) p \<or> Contains_str s p"

lemma HasPrefix_iff: "HasPrefix s p \<longleftrightarrow> (\<exists>r. s = p @ r)"
  unfolding HasPrefix_def by (metis append_eq_conv_conj append_take_drop_id)

lemma HasSuffix_iff: "HasSuffix s p \<longleftrightarrow> (\<exists>r. s = r @ p)"
  unfolding HasSuffix_def
  by (metis append_take_drop_id diff_diff_cancel diff_le_self length_append length_drop
      le_add2 add_diff_cancel_right' append_eq_conv_conj)

lemma Contains_str_iff: "Contains_str s p \<longleftrightarrow> (\<exists>a b. s = a @ p @ b)"
proof (induction s)
  case Nil
  then show ?case by auto
next
  case (Cons c s)
  have "(\<exists>a b. c # s = a @ p @ b) \<longleftrightarrow> (\<exists>b. c # s = p @ b) \<or> (\<exists>a b. s = a @ p @ b)"
    by (metis append_Cons append_Nil append_eq_Cons_conv)
  with Cons show ?case by (simp add: HasPrefix_iff)
qed

lemma TrimPrefix_append [simp]: "TrimPrefix (p @ s) p = s"
  by (simp add: TrimPrefix_def HasPrefix_def)

lemma TrimSuffix_append [simp]: "TrimSuffix (s @ p) p = s"
  by (simp add: TrimSuffix_def HasSuffix_def)

fun split_char :: "char \<Rightarrow> string \<Rightarrow> string list" where
  \<comment> \<open>strings.Split with a one-byte separator\<close>
  "split_char d [] = [[]]"
| "split_char d (c # s) =
     (if c = d then [] # split_char d s
      else (case split_char d s of [] \<Rightarrow> [[c]] | p # ps \<Rightarrow> (c # p) # ps))"

lemma split_char_nonempty [simp]: "split_char d s \<noteq> []"
  by (induction s) (auto split: list.splits)

fun join_char :: "char \<Rightarrow> string list \<Rightarrow> string" where
  "join_char d [] = []"
| "join_char d [p] = p"
| "join_char d (p # q # ps) = p @ d # join_char d (q # ps)"

lemma join_char_Cons: "ps \<noteq> [] \<Longrightarrow> join_char d (p # ps) = p @ d # join_char d ps"
  by (cases ps) auto

lemma join_split_char: "join_char d (split_char d s) = s"
proof (induction s)
  case Nil
  then show ?case by simp
next
  case (Cons c s)
  obtain p ps where "split_char d s = p # ps"
    by (metis list.exhaust split_char_nonempty)
  with Cons show ?case
    by (cases ps) (auto simp: join_char_Cons)
qed

lemmas str_defs [go_defs] = ToLower_def HasPrefix_def HasSuffix_def TrimPrefix_def TrimSuffix_def

section \<open>Decimal printing\<close>

fun digit_char :: "nat \<Rightarrow> char" where
  "digit_char n = char_of (48 + n mod 10)"

fun show_nat :: "nat \<Rightarrow> string" where
  \<comment> \<open>the verb \<open>%d\<close> on a non-negative integer\<close>
  "show_nat n = (if n < 10 then [digit_char n] else show_nat (n div 10) @ [digit_char n])"

declare show_nat.simps [simp del]

definition pad6 :: "string \<Rightarrow> string" where
  "pad6 s = replicate (6 - length s) (CHR ''0'') @ s"

definition show_06d :: "nat \<Rightarrow> string" where
  \<comment> \<open>the verb \<open>%06d\<close>\<close>
  "show_06d n = pad6 (show_nat n)"

fun nat_of_digits :: "string \<Rightarrow> nat" where
  "nat_of_digits s = foldl (\<lambda>a c. 10 * a + (of_char c - 48)) 0 s"

lemma of_char_digit: "of_char (digit_char n) = (48 + n mod 10 :: nat)"
  by simp

lemma nat_of_digits_snoc:
  "nat_of_digits (s @ [digit_char n]) = 10 * nat_of_digits s + n mod 10"
  by (simp del: digit_char.simps add: of_char_digit)

lemma nat_of_digits_show_nat: "nat_of_digits (show_nat n) = n"
proof (induction n rule: show_nat.induct)
  case (1 n)
  show ?case
  proof (cases "n < 10")
    case True
    then show ?thesis
      by (simp add: show_nat.simps [of n] del: digit_char.simps)
        (simp add: of_char_digit del: digit_char.simps)
  next
    case False
    with 1 show ?thesis
      by (simp add: show_nat.simps [of n] nat_of_digits_snoc del: nat_of_digits.simps digit_char.simps)
  qed
qed

lemma foldl_zeros: "foldl (\<lambda>a c. 10 * a + (of_char c - 48)) (0::nat) (replicate k (CHR ''0'')) = 0"
  by (induction k) simp_all

lemma nat_of_digits_show_06d: "nat_of_digits (show_06d n) = n"
  using nat_of_digits_show_nat [of n]
  by (simp add: show_06d_def pad6_def foldl_zeros)

lemma show_06d_inject [simp]: "show_06d m = show_06d n \<longleftrightarrow> m = n"
  by (metis nat_of_digits_show_06d)

section \<open>Maps\<close>

text \<open>
  A Go map is an association list whose keys are distinct (\<open>gm_ok\<close>). The operations are those of
  \<open>HOL-Library.AList\<close>; a lookup in a missing inner map reads as the empty map, as reading a nil Go
  map does.
\<close>

type_synonym ('k, 'v) gomap = "('k \<times> 'v) list"

abbreviation gm_get :: "('k, 'v) gomap \<Rightarrow> 'k \<Rightarrow> 'v option" where
  "gm_get \<equiv> map_of"

abbreviation gm_set :: "'k \<Rightarrow> 'v \<Rightarrow> ('k, 'v) gomap \<Rightarrow> ('k, 'v) gomap" where
  "gm_set \<equiv> AList.update"

abbreviation gm_del :: "'k \<Rightarrow> ('k, 'v) gomap \<Rightarrow> ('k, 'v) gomap" where
  "gm_del \<equiv> AList.delete"

definition gm_has :: "('k, 'v) gomap \<Rightarrow> 'k \<Rightarrow> bool" where
  "gm_has m k \<longleftrightarrow> gm_get m k \<noteq> None"

definition gm_ok :: "('k, 'v) gomap \<Rightarrow> bool" where
  "gm_ok m \<longleftrightarrow> distinct (map fst m)"

definition gm_values :: "('k, 'v) gomap \<Rightarrow> 'v list" where
  "gm_values m = map snd m"

definition gm_default :: "'v \<Rightarrow> ('k, 'v) gomap \<Rightarrow> 'k \<Rightarrow> 'v" where
  \<comment> \<open>an index expression without the comma-ok form: the zero value for a missing key\<close>
  "gm_default d m k = (case gm_get m k of None \<Rightarrow> d | Some v \<Rightarrow> v)"

locale map_interface =
  fixes empty :: "'m"
    and get :: "'m \<Rightarrow> 'k \<Rightarrow> 'v option"
    and set :: "'k \<Rightarrow> 'v \<Rightarrow> 'm \<Rightarrow> 'm"
    and del :: "'k \<Rightarrow> 'm \<Rightarrow> 'm"
    and ok :: "'m \<Rightarrow> bool"
  assumes get_empty: "get empty k = None"
    and get_set: "get (set k v m) j = (if j = k then Some v else get m j)"
    and get_del: "get (del k m) j = (if j = k then None else get m j)"
    and ok_empty: "ok empty"
    and ok_set: "ok m \<Longrightarrow> ok (set k v m)"
    and ok_del: "ok m \<Longrightarrow> ok (del k m)"
begin

lemma get_set_same: "get (set k v m) k = Some v"
  by (simp add: get_set)

lemma get_set_other: "j \<noteq> k \<Longrightarrow> get (set k v m) j = get m j"
  by (simp add: get_set)

lemma get_fold_set:
  "get (fold (\<lambda>x. set (key x) (val x)) xs m) k =
     (case find (\<lambda>x. key x = k) (rev xs) of None \<Rightarrow> get m k | Some x \<Rightarrow> Some (val x))"
proof (induction xs rule: rev_induct)
  case Nil
  then show ?case by simp
next
  case (snoc x xs)
  then show ?case by (simp add: get_set)
qed

lemma ok_fold_set: "ok m \<Longrightarrow> ok (fold (\<lambda>x. set (key x) (val x)) xs m)"
  by (induction xs arbitrary: m) (auto intro: ok_set)

end

interpretation gm: map_interface "[]" gm_get gm_set gm_del gm_ok
proof
  fix k :: 'a and j :: 'a and v :: 'b and m :: "('a, 'b) gomap"
  show "gm_get [] k = None" by simp
  show "gm_get (gm_set k v m) j = (if j = k then Some v else gm_get m j)"
    by (simp add: update_conv')
  show "gm_get (gm_del k m) j = (if j = k then None else gm_get m j)"
    by (simp add: delete_conv')
  show "gm_ok []" by (simp add: gm_ok_def)
  show "gm_ok m \<Longrightarrow> gm_ok (gm_set k v m)"
    by (simp add: gm_ok_def distinct_update)
  show "gm_ok m \<Longrightarrow> gm_ok (gm_del k m)"
    by (simp add: gm_ok_def distinct_delete)
qed

lemmas gm_simps [simp] = gm.get_set gm.get_del gm.ok_empty gm.ok_set gm.ok_del

lemma gm_has_iff [simp]: "gm_has m k \<longleftrightarrow> (\<exists>v. gm_get m k = Some v)"
  by (auto simp: gm_has_def)

lemma gm_default_simps [simp]:
  "gm_get m k = None \<Longrightarrow> gm_default d m k = d"
  "gm_get m k = Some v \<Longrightarrow> gm_default d m k = v"
  by (simp_all add: gm_default_def)

lemma gm_default_set [simp]: "gm_default d (gm_set k v m) j = (if j = k then v else gm_default d m j)"
  by (simp add: gm_default_def)

lemma in_gm_values: "gm_ok m \<Longrightarrow> v \<in> set (gm_values m) \<longleftrightarrow> (\<exists>k. gm_get m k = Some v)"
  by (force simp: gm_ok_def gm_values_def dest: map_of_SomeD intro: map_of_is_SomeI)

lemma gm_get_SomeD: "gm_get m k = Some v \<Longrightarrow> v \<in> set (gm_values m)"
  by (force simp: gm_values_def dest: map_of_SomeD)

text \<open>Two maps with the same lookups hold the same entries, whatever the iteration order.\<close>

lemma gm_mset_eq:
  assumes "gm_ok m" and "gm_ok n" and "gm_get m = gm_get n"
  shows "mset m = mset n"
proof -
  have "set m = set n"
    using assms by (auto simp: gm_ok_def dest: map_of_is_SomeI map_of_SomeD)
      (metis map_of_is_SomeI map_of_SomeD)+
  moreover have "distinct m" "distinct n"
    using assms by (auto simp: gm_ok_def distinct_map)
  ultimately show ?thesis by (simp add: set_eq_iff_mset_eq_distinct)
qed

text \<open>Copying a map entry by entry gives a map with the transformed entries.\<close>

lemma get_fold_copy_acc:
  assumes "distinct (map fst ms)"
  shows "gm_get (fold (\<lambda>(k, v). gm_set k (f k v)) ms acc) j =
    (case gm_get ms j of None \<Rightarrow> gm_get acc j | Some v \<Rightarrow> Some (f j v))"
  using assms
proof (induction ms arbitrary: acc)
  case Nil
  then show ?case by simp
next
  case (Cons kv ms)
  obtain k v where kv: "kv = (k, v)" by (cases kv)
  have "gm_get ms k = None"
    using Cons.prems kv by (simp add: map_of_eq_None_iff)
  with Cons kv show ?case by (auto split: option.splits)
qed

lemma get_fold_copy:
  "gm_ok ms \<Longrightarrow> gm_get (fold (\<lambda>(k, v). gm_set k (f k v)) ms []) j = map_option (f j) (gm_get ms j)"
  by (simp add: get_fold_copy_acc gm_ok_def split: option.split)

lemma copy_step_conv: "(\<lambda>(k, v). gm_set k (f k v)) = (\<lambda>x. gm_set (fst x) (f (fst x) (snd x)))"
  by (auto simp: fun_eq_iff)

lemma ok_fold_copy: "gm_ok (fold (\<lambda>(k, v). gm_set k (f k v)) ms [])"
  unfolding copy_step_conv by (rule gm.ok_fold_set) simp

lemma gm_set_fresh: "k \<notin> fst ` set ys \<Longrightarrow> gm_set k w ys = ys @ [(k, w)]"
  by (induction ys) (auto simp: rev_image_eqI)

lemma fold_gm_set_fresh:
  "distinct (map fst ms) \<Longrightarrow> fst ` set acc \<inter> fst ` set ms = {} \<Longrightarrow>
     fold (\<lambda>(k, v). gm_set k (f v)) ms acc = acc @ map (\<lambda>(k, v). (k, f v)) ms"
proof (induction ms arbitrary: acc)
  case Nil
  then show ?case by simp
next
  case (Cons kv ms)
  obtain k v where kv: "kv = (k, v)" by (cases kv)
  have "gm_set k (f v) acc = acc @ [(k, f v)]"
    using Cons.prems kv by (intro gm_set_fresh) auto
  with Cons kv show ?case by auto
qed

section \<open>Sorting\<close>

text \<open>
  sort.SliceStable with a comparison \<open>lt\<close>: insertion from the right, an element going before the
  first one that is not smaller, which keeps equal elements in their order. sort.Slice promises no
  order between equal elements; where the source uses it the keys are distinct, and
  \<open>SliceStable_key_cong\<close> shows that the result is then the same.
\<close>

fun insert_by :: "('a \<Rightarrow> 'a \<Rightarrow> bool) \<Rightarrow> 'a \<Rightarrow> 'a list \<Rightarrow> 'a list" where
  "insert_by lt x [] = [x]"
| "insert_by lt x (y # ys) = (if lt y x then y # insert_by lt x ys else x # y # ys)"

definition SliceStable :: "('a \<Rightarrow> 'a \<Rightarrow> bool) \<Rightarrow> 'a list \<Rightarrow> 'a list" where
  "SliceStable lt xs = foldr (insert_by lt) xs []"

lemma SliceStable_Nil [simp]: "SliceStable lt [] = []"
  by (simp add: SliceStable_def)

lemma SliceStable_Cons [simp]: "SliceStable lt (x # xs) = insert_by lt x (SliceStable lt xs)"
  by (simp add: SliceStable_def)

lemma mset_insert_by [simp]: "mset (insert_by lt x ys) = add_mset x (mset ys)"
  by (induction ys) auto

lemma mset_SliceStable [simp]: "mset (SliceStable lt xs) = mset xs"
  by (induction xs) auto

lemma set_SliceStable [simp]: "set (SliceStable lt xs) = set xs"
  using mset_SliceStable by (metis set_mset_mset)

lemma length_SliceStable [simp]: "length (SliceStable lt xs) = length xs"
  using mset_SliceStable by (metis size_mset)

lemma set_insert_by [simp]: "set (insert_by lt x ys) = insert x (set ys)"
  using mset_insert_by [of lt x ys] by (metis set_mset_add_mset_insert set_mset_mset)

lemma find_eq_hd_filter: "find P xs = (case filter P xs of [] \<Rightarrow> None | x # _ \<Rightarrow> Some x)"
  by (induction xs) auto

locale strict_weak_order =
  fixes lt :: "'a \<Rightarrow> 'a \<Rightarrow> bool"
  assumes irrefl: "\<not> lt x x"
    and trans: "lt x y \<Longrightarrow> lt y z \<Longrightarrow> lt x z"
    and neg_trans: "lt x z \<Longrightarrow> lt x y \<or> lt y z"
begin

abbreviation sorted_by :: "'a list \<Rightarrow> bool" where
  "sorted_by \<equiv> sorted_wrt (\<lambda>x y. \<not> lt y x)"

definition tied :: "'a \<Rightarrow> 'a \<Rightarrow> bool" where
  "tied x y \<longleftrightarrow> \<not> lt x y \<and> \<not> lt y x"

lemma asym: "lt x y \<Longrightarrow> \<not> lt y x"
  using irrefl trans by blast

lemma sorted_insert_by: "sorted_by ys \<Longrightarrow> sorted_by (insert_by lt x ys)"
  by (induction ys) (auto dest: asym neg_trans trans)

lemma sorted_SliceStable: "sorted_by (SliceStable lt xs)"
  by (induction xs) (auto intro: sorted_insert_by)

lemma filter_insert_by:
  assumes "sorted_by ys"
  shows "filter (tied a) (insert_by lt x ys) = (if tied a x then x # filter (tied a) ys else filter (tied a) ys)"
  using assms
proof (induction ys)
  case Nil
  then show ?case by simp
next
  case (Cons y ys)
  have "\<not> tied a y" if "lt y x" "tied a x"
    using that unfolding tied_def by (meson neg_trans)
  with Cons show ?case by auto
qed

text \<open>Stability: elements that compare equal keep their order.\<close>

lemma SliceStable_stable: "filter (tied a) (SliceStable lt xs) = filter (tied a) xs"
  by (induction xs) (auto simp: filter_insert_by sorted_SliceStable)

lemma SliceStable_id: "sorted_by xs \<Longrightarrow> SliceStable lt xs = xs"
proof (induction xs)
  case Nil
  then show ?case by simp
next
  case (Cons x xs)
  then show ?case by (cases xs) auto
qed

lemma SliceStable_idem [simp]: "SliceStable lt (SliceStable lt xs) = SliceStable lt xs"
  by (rule SliceStable_id) (rule sorted_SliceStable)

lemma hd_SliceStable_least: "x \<in> set xs \<Longrightarrow> \<not> lt x (hd (SliceStable lt xs))"
proof -
  assume x: "x \<in> set xs"
  then obtain y ys where s: "SliceStable lt xs = y # ys"
    by (metis list.exhaust list.set(1) empty_iff set_SliceStable)
  have "set (y # ys) = set xs"
    using s set_SliceStable [of lt xs] by simp
  with x have "x = y \<or> x \<in> set ys" by auto
  moreover have "\<forall>z\<in>set ys. \<not> lt z y"
    using sorted_SliceStable [of xs] s by simp
  ultimately show ?thesis using s irrefl by auto
qed

lemma find_SliceStable_least:
  assumes "find P (SliceStable lt xs) = Some x"
  shows "x \<in> set xs \<and> P x \<and> (\<forall>y\<in>set xs. P y \<longrightarrow> \<not> lt y x)"
proof -
  let ?s = "SliceStable lt xs"
  obtain ys where f: "filter P ?s = x # ys"
    using assms by (auto simp: find_eq_hd_filter split: list.splits)
  have "sorted_by (filter P ?s)"
    by (rule sorted_wrt_filter) (rule sorted_SliceStable)
  with f have least: "\<forall>y\<in>set ys. \<not> lt y x" by simp
  have "y \<in> set xs \<and> P y \<longleftrightarrow> y \<in> set (filter P ?s)" for y by simp
  then have mem: "y \<in> set xs \<and> P y \<longleftrightarrow> y = x \<or> y \<in> set ys" for y
    by (simp only: f set_simps insert_iff)
  then have "x \<in> set xs \<and> P x" by blast
  moreover have "\<not> lt y x" if "y \<in> set xs" "P y" for y
    using mem [of y] that least irrefl by auto
  ultimately show ?thesis by blast
qed

end

text \<open>
  A comparison by a key into a linear order is a strict weak order, and the result of sorting
  entries with distinct keys does not depend on their initial order.
\<close>

definition key_less :: "('a \<Rightarrow> 'b::linorder) \<Rightarrow> 'a \<Rightarrow> 'a \<Rightarrow> bool" where
  "key_less f x y \<longleftrightarrow> f x < f y"

interpretation keyed: strict_weak_order "key_less f"
  by unfold_locales (auto simp: key_less_def)

lemma SliceStable_sort_key: "SliceStable (key_less f) xs = sort_key f xs"
proof -
  have "insert_by (key_less f) x ys = insort_key f x ys" for x ys
    by (induction ys) (auto simp: key_less_def)
  then show ?thesis
    by (induction xs) simp_all
qed

lemma filter_key_replicate:
  assumes "inj_on f (set zs)" and "k \<in> set zs"
  shows "filter (\<lambda>x. f k = f x) zs = replicate (count (mset zs) k) k"
proof -
  have "\<And>x. x \<in> set zs \<Longrightarrow> f k = f x \<longleftrightarrow> x = k"
    using assms by (auto simp: inj_on_def)
  then have "filter (\<lambda>x. f k = f x) zs = filter (\<lambda>x. x = k) zs"
    by (simp cong: filter_cong)
  also have "\<dots> = replicate (count (mset zs) k) k"
    by (induction zs) auto
  finally show ?thesis .
qed

lemma SliceStable_key_cong:
  assumes eq: "mset xs = mset ys" and inj: "inj_on f (set xs)"
  shows "SliceStable (key_less f) xs = SliceStable (key_less f) ys"
  unfolding SliceStable_sort_key
proof (rule properties_for_sort_key)
  have set: "set xs = set ys" using eq by (metis set_mset_mset)
  show "mset (sort_key f ys) = mset xs" using eq by simp
  show "filter (\<lambda>x. f k = f x) (sort_key f ys) = filter (\<lambda>x. f k = f x) xs" if "k \<in> set (sort_key f ys)" for k
    using that inj eq set by (subst (1 2) filter_key_replicate) auto
  show "sorted (map f (sort_key f ys))" by simp
qed

section \<open>Numbers and time\<close>

definition wrap64 :: "int \<Rightarrow> int" where
  \<comment> \<open>the value of a Go \<open>int\<close> or \<open>int64\<close> after an arithmetic operation\<close>
  "wrap64 x = (x + 2 ^ 63) mod 2 ^ 64 - 2 ^ 63"

abbreviation max_int64 :: int where "max_int64 \<equiv> 9223372036854775807"
abbreviation min_int64 :: int where "min_int64 \<equiv> -9223372036854775808"

definition int64 :: "int \<Rightarrow> bool" where
  "int64 x \<longleftrightarrow> min_int64 \<le> x \<and> x \<le> max_int64"

lemma wrap64_id: "int64 x \<Longrightarrow> wrap64 x = x"
  by (simp add: wrap64_def int64_def)

lemma wrap64_int64: "int64 (wrap64 x)"
proof -
  have "0 \<le> (x + 2 ^ 63) mod 2 ^ 64" "(x + 2 ^ 63) mod 2 ^ 64 < (2 ^ 64 :: int)"
    by simp_all
  then show ?thesis by (simp add: wrap64_def int64_def)
qed

definition quot :: "int \<Rightarrow> int \<Rightarrow> int" where
  \<comment> \<open>Go's integer division, which truncates towards zero\<close>
  "quot a b = sgn a * sgn b * (\<bar>a\<bar> div \<bar>b\<bar>)"

lemma quot_nonneg: "0 \<le> a \<Longrightarrow> 0 < b \<Longrightarrow> quot a b = a div b"
  by (cases "a = 0") (simp_all add: quot_def)

text \<open>
  An instant is its distance from Go's zero time in nanoseconds, so \<open>IsZero\<close> is \<open>t = 0\<close>; a duration
  is a 64-bit number of nanoseconds, and \<open>Time.Sub\<close> saturates.
\<close>

type_synonym time = int
type_synonym duration = int

definition IsZero :: "time \<Rightarrow> bool" where
  "IsZero t \<longleftrightarrow> t = 0"

definition Time_Sub :: "time \<Rightarrow> time \<Rightarrow> duration" where
  "Time_Sub t u = max min_int64 (min max_int64 (t - u))"

abbreviation nsecond :: duration where "nsecond \<equiv> 1000000000"
abbreviation nminute :: duration where "nminute \<equiv> 60000000000"

lemma Time_Sub_less_iff: "int64 d \<Longrightarrow> Time_Sub t u < d \<longleftrightarrow> t - u < d \<and> min_int64 < d"
  by (auto simp: Time_Sub_def int64_def max_def min_def)

lemma Time_Sub_less: "0 < d \<Longrightarrow> int64 d \<Longrightarrow> Time_Sub t u < d \<longleftrightarrow> t - u < d"
  by (simp add: Time_Sub_less_iff)

lemma Time_Sub_le: "0 \<le> d \<Longrightarrow> d < max_int64 \<Longrightarrow> Time_Sub t u \<le> d \<longleftrightarrow> t - u \<le> d"
  by (auto simp: Time_Sub_def max_def min_def)

text \<open>
  A float64, as far as comparisons are concerned: a finite value is a rational number, and every
  comparison with a NaN is false.
\<close>

datatype float64 = NaN | NInf | Fin rat | PInf

fun f_less :: "float64 \<Rightarrow> float64 \<Rightarrow> bool" where
  "f_less NaN _ = False"
| "f_less _ NaN = False"
| "f_less NInf y = (y \<noteq> NInf)"
| "f_less (Fin a) NInf = False"
| "f_less (Fin a) (Fin b) = (a < b)"
| "f_less (Fin a) PInf = True"
| "f_less PInf y = False"

fun f_eq :: "float64 \<Rightarrow> float64 \<Rightarrow> bool" where
  "f_eq NaN _ = False"
| "f_eq x y = (x = y)"

definition f_ge :: "float64 \<Rightarrow> float64 \<Rightarrow> bool" where
  "f_ge x y \<longleftrightarrow> f_less y x \<or> f_eq y x"

section \<open>Contexts\<close>

text \<open>The two errors a Go context can end with.\<close>

datatype ctx_error = Canceled | DeadlineExceeded

end
