(* ===== verification/Domain.thy ===== *)
theory Domain
  imports Prelude
begin

text \<open>
  The shared data types of internal/domain/types.go: tenants, devices, nodes, heartbeats, audit
  events and configuration bundles, each with its Validate method. A validator returns the first
  failing check of the source as an error, or accepts. The lemmas say that acceptance is exactly
  the conjunction of the checks.
\<close>

datatype domain_error =
    TenantIDRequired | TenantNameRequired
  | DeviceIDRequired | DeviceTenantIDRequired | DeviceKindRequired | DeviceNameRequired
  | NodeIDRequired | NodeTenantIDRequired | NodeRoleRequired | NodeRegionRequired
  | HeartbeatTenantIDRequired | HeartbeatNodeIDRequired
  | AuditIDRequired | AuditTenantIDRequired | AuditActionRequired
  | AuditObjectTypeRequired | AuditObjectIDRequired
  | ConfigIDRequired | ConfigTenantIDRequired | ConfigTargetIDRequired | ConfigVersionRequired

record Tenant =
  Tenant_ID :: string
  Tenant_Name :: string
  Tenant_CreatedAt :: time

definition Tenant_Validate :: "Tenant \<Rightarrow> domain_error + unit" where
  "Tenant_Validate t =
     check (is_blank (Tenant_ID t)) TenantIDRequired (
     check (is_blank (Tenant_Name t)) TenantNameRequired (Inr ()))"

definition DeviceClient :: string where "DeviceClient = ''client''"
definition DeviceEdge :: string where "DeviceEdge = ''edge''"
definition DeviceCore :: string where "DeviceCore = ''core''"
definition DeviceEgress :: string where "DeviceEgress = ''egress''"

record Device =
  Device_ID :: string
  Device_TenantID :: string
  Device_SiteID :: string
  Device_Kind :: string
  Device_Name :: string
  Device_Platform :: string
  Device_Status :: string
  Device_ConfigVersion :: string
  Device_CreatedAt :: time
  Device_UpdatedAt :: time

definition Device_Validate :: "Device \<Rightarrow> domain_error + unit" where
  "Device_Validate d =
     check (is_blank (Device_ID d)) DeviceIDRequired (
     check (is_blank (Device_TenantID d)) DeviceTenantIDRequired (
     check (Device_Kind d = []) DeviceKindRequired (
     check (is_blank (Device_Name d)) DeviceNameRequired (Inr ()))))"

definition NodeChinaEntry :: string where "NodeChinaEntry = ''china-entry''"
definition NodeOverseasEdge :: string where "NodeOverseasEdge = ''overseas-edge''"
definition NodeCore :: string where "NodeCore = ''core''"
definition NodeEgress :: string where "NodeEgress = ''egress''"

record Node =
  Node_ID :: string
  Node_TenantID :: string
  Node_Role :: string
  Node_Region :: string
  Node_Endpoint :: string
  Node_Healthy :: bool
  Node_CreatedAt :: time
  Node_UpdatedAt :: time

definition Node_Validate :: "Node \<Rightarrow> domain_error + unit" where
  "Node_Validate n =
     check (is_blank (Node_ID n)) NodeIDRequired (
     check (is_blank (Node_TenantID n)) NodeTenantIDRequired (
     check (Node_Role n = []) NodeRoleRequired (
     check (is_blank (Node_Region n)) NodeRegionRequired (Inr ()))))"

record NodeHeartbeat =
  NodeHeartbeat_TenantID :: string
  NodeHeartbeat_NodeID :: string
  NodeHeartbeat_Healthy :: bool
  NodeHeartbeat_Endpoint :: string

definition NodeHeartbeat_Validate :: "NodeHeartbeat \<Rightarrow> domain_error + unit" where
  "NodeHeartbeat_Validate h =
     check (is_blank (NodeHeartbeat_TenantID h)) HeartbeatTenantIDRequired (
     check (is_blank (NodeHeartbeat_NodeID h)) HeartbeatNodeIDRequired (Inr ()))"

record AuditEvent =
  AuditEvent_ID :: string
  AuditEvent_TenantID :: string
  AuditEvent_Actor :: string
  AuditEvent_Action :: string
  AuditEvent_ObjectType :: string
  AuditEvent_ObjectID :: string
  AuditEvent_Message :: string
  AuditEvent_CreatedAt :: time

definition AuditEvent_Validate :: "AuditEvent \<Rightarrow> domain_error + unit" where
  "AuditEvent_Validate e =
     check (is_blank (AuditEvent_ID e)) AuditIDRequired (
     check (is_blank (AuditEvent_TenantID e)) AuditTenantIDRequired (
     check (is_blank (AuditEvent_Action e)) AuditActionRequired (
     check (is_blank (AuditEvent_ObjectType e)) AuditObjectTypeRequired (
     check (is_blank (AuditEvent_ObjectID e)) AuditObjectIDRequired (Inr ())))))"

record Inventory =
  Inventory_Tenant :: Tenant
  Inventory_Devices :: "Device list"
  Inventory_Nodes :: "Node list"

record ConfigBundle =
  ConfigBundle_ID :: string
  ConfigBundle_TenantID :: string
  ConfigBundle_TargetID :: string
  ConfigBundle_Version :: string
  ConfigBundle_Values :: "(string, string) gomap option"  \<comment> \<open>None is the nil map\<close>
  ConfigBundle_CreatedAt :: time

definition ConfigBundle_Validate :: "ConfigBundle \<Rightarrow> domain_error + unit" where
  "ConfigBundle_Validate c =
     check (is_blank (ConfigBundle_ID c)) ConfigIDRequired (
     check (is_blank (ConfigBundle_TenantID c)) ConfigTenantIDRequired (
     check (is_blank (ConfigBundle_TargetID c)) ConfigTargetIDRequired (
     check (is_blank (ConfigBundle_Version c)) ConfigVersionRequired (Inr ()))))"

lemmas domain_validate_defs [valid_defs] =
  Tenant_Validate_def Device_Validate_def Node_Validate_def NodeHeartbeat_Validate_def
  AuditEvent_Validate_def ConfigBundle_Validate_def

lemma AuditEvent_Validate_iff:
  "AuditEvent_Validate e = Inr u \<longleftrightarrow>
     \<not> is_blank (AuditEvent_ID e) \<and> \<not> is_blank (AuditEvent_TenantID e) \<and> \<not> is_blank (AuditEvent_Action e) \<and>
     \<not> is_blank (AuditEvent_ObjectType e) \<and> \<not> is_blank (AuditEvent_ObjectID e)"
  by (simp add: AuditEvent_Validate_def)

text \<open>A validated object carries a non-empty identifier and a non-empty tenant.\<close>

lemma validated_ids:
  "Tenant_Validate t = Inr u \<Longrightarrow> Tenant_ID t \<noteq> []"
  "Device_Validate d = Inr u \<Longrightarrow> Device_ID d \<noteq> [] \<and> Device_TenantID d \<noteq> []"
  "Node_Validate n = Inr u \<Longrightarrow> Node_ID n \<noteq> [] \<and> Node_TenantID n \<noteq> []"
  "NodeHeartbeat_Validate h = Inr u \<Longrightarrow> NodeHeartbeat_NodeID h \<noteq> [] \<and> NodeHeartbeat_TenantID h \<noteq> []"
  "ConfigBundle_Validate c = Inr u \<Longrightarrow> ConfigBundle_ID c \<noteq> [] \<and> ConfigBundle_TenantID c \<noteq> []"
  by (auto simp: valid_defs)

end
