(* ===== verification/Telemetry.thy ===== *)
theory Telemetry
  imports Prelude
begin

text \<open>
  Telemetry reports of internal/telemetry/telemetry.go: their validation and the redaction of
  sensitive log fields before a report is stored. \<open>uc\<close> is the case mapping of non-ASCII strings
  that \<open>ToLower\<close> takes; \<open>clock\<close> is the reading of time.Now that a report without a timestamp gets.
\<close>

datatype telemetry_error =
    TelemetryTenantIDRequired | TelemetrySubjectIDRequired | TelemetrySubjectKindRequired
  | TelemetryMetricNameRequired | TelemetryMetricNegative string

definition SubjectAgent :: string where "SubjectAgent = ''agent''"
definition SubjectEdge :: string where "SubjectEdge = ''edge''"
definition SubjectCore :: string where "SubjectCore = ''core''"
definition SubjectEgress :: string where "SubjectEgress = ''egress''"

record LogRecord =
  LogRecord_Level :: string
  LogRecord_Message :: string
  LogRecord_Fields :: "(string, string) gomap option"

record Report =
  Report_TenantID :: string
  Report_SubjectID :: string
  Report_SubjectKind :: string
  Report_Timestamp :: time
  Report_Metrics :: "(string, float64) gomap option"
  Report_Logs :: "LogRecord list option"

fun validate_metrics :: "(string, float64) gomap \<Rightarrow> telemetry_error + unit" where
  "validate_metrics [] = Inr ()"
| "validate_metrics ((name, value) # ms) =
     check (is_blank name) TelemetryMetricNameRequired (
     check (f_less value (Fin 0)) (TelemetryMetricNegative name) (validate_metrics ms))"

definition Report_Validate :: "Report \<Rightarrow> telemetry_error + unit" where
  "Report_Validate r =
     check (is_blank (Report_TenantID r)) TelemetryTenantIDRequired (
     check (is_blank (Report_SubjectID r)) TelemetrySubjectIDRequired (
     check (Report_SubjectKind r = []) TelemetrySubjectKindRequired (
     validate_metrics (case Report_Metrics r of None \<Rightarrow> [] | Some m \<Rightarrow> m))))"

definition sensitiveKey :: "(string \<Rightarrow> string) \<Rightarrow> string \<Rightarrow> bool" where
  "sensitiveKey uc key =
     (let k = ToLower uc key in
      Contains_str k ''password'' \<or> Contains_str k ''token'' \<or> Contains_str k ''secret'' \<or>
      Contains_str k ''private_key'' \<or> Contains_str k ''credential'')"

definition sanitizeLog :: "(string \<Rightarrow> string) \<Rightarrow> LogRecord \<Rightarrow> LogRecord" where
  "sanitizeLog uc l =
     (case LogRecord_Fields l of
        None \<Rightarrow> l
      | Some fs \<Rightarrow> l\<lparr>LogRecord_Fields := Some (fold (\<lambda>(key, v).
            gm_set key (if sensitiveKey uc key then ''[redacted]'' else v)) fs [])\<rparr>)"

definition Report_Sanitized :: "(string \<Rightarrow> string) \<Rightarrow> time \<Rightarrow> Report \<Rightarrow> Report" where
  "Report_Sanitized uc clock r =
     (let c1 = (if IsZero (Report_Timestamp r) then r\<lparr>Report_Timestamp := clock\<rparr> else r);
          c2 = c1\<lparr>Report_Metrics := map_option (\<lambda>ms. fold (\<lambda>(k, v). gm_set k v) ms []) (Report_Metrics r)\<rparr>
      in c2\<lparr>Report_Logs := map_option (map (sanitizeLog uc)) (Report_Logs r)\<rparr>)"

lemma validate_metrics_ok_iff:
  "validate_metrics ms = Inr u \<longleftrightarrow> (\<forall>(name, v) \<in> set ms. \<not> is_blank name \<and> \<not> f_less v (Fin 0))"
  by (induction ms) auto

section \<open>Redaction\<close>

definition log_ok :: "LogRecord \<Rightarrow> bool" where
  \<comment> \<open>the fields of a log record form a Go map\<close>
  "log_ok l \<longleftrightarrow> (case LogRecord_Fields l of None \<Rightarrow> True | Some fs \<Rightarrow> gm_ok fs)"

definition log_field :: "LogRecord \<Rightarrow> string \<Rightarrow> string option" where
  "log_field l k = (case LogRecord_Fields l of None \<Rightarrow> None | Some fs \<Rightarrow> gm_get fs k)"

lemma log_field_sanitizeLog:
  assumes "log_ok l"
  shows "log_field (sanitizeLog uc l) k =
    (if sensitiveKey uc k then map_option (\<lambda>_. ''[redacted]'') (log_field l k) else log_field l k)"
proof (cases "LogRecord_Fields l")
  case None
  then show ?thesis by (simp add: sanitizeLog_def log_field_def)
next
  case (Some fs)
  with assms have "gm_ok fs" by (simp add: log_ok_def)
  from get_fold_copy [OF this, of "\<lambda>k v. if sensitiveKey uc k then ''[redacted]'' else v" k] Some
  show ?thesis
    by (cases "gm_get fs k") (auto simp: sanitizeLog_def log_field_def)
qed

lemma sanitizeLog_frame:
  "LogRecord_Level (sanitizeLog uc l) = LogRecord_Level l"
  "LogRecord_Message (sanitizeLog uc l) = LogRecord_Message l"
  by (simp_all add: sanitizeLog_def split: option.splits)

lemma sanitizeLog_ok: "log_ok l \<Longrightarrow> log_ok (sanitizeLog uc l)"
  by (auto simp: sanitizeLog_def log_ok_def ok_fold_copy split: option.splits)

lemma Report_Sanitized_fields [simp]:
  "Report_TenantID (Report_Sanitized uc c r) = Report_TenantID r"
  "Report_SubjectID (Report_Sanitized uc c r) = Report_SubjectID r"
  "Report_SubjectKind (Report_Sanitized uc c r) = Report_SubjectKind r"
  "Report_Logs (Report_Sanitized uc c r) = map_option (map (sanitizeLog uc)) (Report_Logs r)"
  by (simp_all add: Report_Sanitized_def Let_def)

text \<open>
  redaction of telemetry. In the sanitized copy of a report every log record keeps its place, its
  level and its message; a field whose key names a password, a token, a secret, a private key or a
  credential reads \<open>[redacted]\<close>, whatever the case of its key, and every other field keeps its
  value.
\<close>

lemma Report_Sanitized_redacts:
  assumes logs: "Report_Logs r = Some ls" and ok: "\<forall>l\<in>set ls. log_ok l"
  shows "\<exists>ls'. Report_Logs (Report_Sanitized uc clock r) = Some ls' \<and> length ls' = length ls \<and>
    (\<forall>i<length ls. LogRecord_Level (ls' ! i) = LogRecord_Level (ls ! i) \<and>
       LogRecord_Message (ls' ! i) = LogRecord_Message (ls ! i) \<and>
       (\<forall>k. log_field (ls' ! i) k =
          (if sensitiveKey uc k then map_option (\<lambda>_. ''[redacted]'') (log_field (ls ! i) k) else log_field (ls ! i) k)))"
  using ok by (intro exI [of _ "map (sanitizeLog uc) ls"])
    (simp add: logs sanitizeLog_frame log_field_sanitizeLog)

end
