(* ===== verification/Go_Net.thy ===== *)
theory Go_Net
  imports Prelude
begin

text \<open>
  IP addresses of the Go standard library (package net, as of the Go 1.19 that go.mod names):
  \<open>ParseIP\<close>, \<open>ParseCIDR\<close>, \<open>IPNet.Contains\<close> and what they call. An address is a list of bytes, 16 of
  them for what the parsers return; an IPv4 address is held in its IPv4-in-IPv6 form. The lemmas
  relate masking to address prefixes: a network contains exactly the addresses of its family that
  agree with it on the prefix bits.
\<close>

unbundle bit_operations_syntax

type_synonym byte = "8 word"
type_synonym ip = "byte list"

section \<open>Numbers\<close>

abbreviation big :: int where "big \<equiv> 16777215"

definition dec_value :: "char \<Rightarrow> int option" where
  "dec_value c = (let n = of_char c in if 48 \<le> n \<and> n \<le> 57 then Some (n - 48) else None)"

definition hex_value :: "char \<Rightarrow> int option" where
  "hex_value c = (let n = of_char c in
     if 48 \<le> n \<and> n \<le> 57 then Some (n - 48)
     else if 97 \<le> n \<and> n \<le> 102 then Some (n - 87)
     else if 65 \<le> n \<and> n \<le> 70 then Some (n - 55) else None)"

fun scan_num :: "(char \<Rightarrow> int option) \<Rightarrow> int \<Rightarrow> int \<Rightarrow> nat \<Rightarrow> string \<Rightarrow> (int \<times> nat) option" where
  \<comment> \<open>the digit loop of dtoi and xtoi: the value and the number of digits read, None past \<open>big\<close>\<close>
  "scan_num dig base n i [] = Some (n, i)"
| "scan_num dig base n i (c # s) =
     (case dig c of
        None \<Rightarrow> Some (n, i)
      | Some d \<Rightarrow> (let n' = n * base + d in if big \<le> n' then None else scan_num dig base n' (Suc i) s))"

definition dtoi :: "string \<Rightarrow> (int \<times> nat) option" where
  "dtoi s = (case scan_num dec_value 10 0 0 s of
     Some (n, i) \<Rightarrow> if i = 0 then None else Some (n, i) | None \<Rightarrow> None)"

definition xtoi :: "string \<Rightarrow> (int \<times> nat) option" where
  "xtoi s = (case scan_num hex_value 16 0 0 s of
     Some (n, i) \<Rightarrow> if i = 0 then None else Some (n, i) | None \<Rightarrow> None)"

lemma scan_num_bound:
  "scan_num dig base n i s = Some (m, j) \<Longrightarrow> i \<le> j \<and> j \<le> i + length s"
proof (induction s arbitrary: n i)
  case Nil
  then show ?case by simp
next
  case (Cons c s)
  then show ?case by (force simp: Let_def split: option.splits if_splits)
qed

lemma xtoi_bound: "xtoi s = Some (n, c) \<Longrightarrow> 0 < c \<and> c \<le> length s"
  by (auto simp: xtoi_def split: option.splits if_splits dest: scan_num_bound)

section \<open>Addresses\<close>

definition v4InV6Prefix :: ip where
  "v4InV6Prefix = replicate 10 0 @ [0xFF, 0xFF]"

fun parse_fields4 :: "nat \<Rightarrow> string \<Rightarrow> ip \<Rightarrow> (ip \<times> string) option" where
  \<comment> \<open>the loop of parseIPv4: \<open>k\<close> fields are still to be read, \<open>acc\<close> holds the ones read\<close>
  "parse_fields4 0 s acc = Some (acc, s)"
| "parse_fields4 (Suc k) s acc =
     (if s = [] then None
      else if acc \<noteq> [] \<and> hd s \<noteq> CHR ''.'' then None
      else let t = (if acc \<noteq> [] then tl s else s) in
        case dtoi t of
          None \<Rightarrow> None
        | Some (n, c) \<Rightarrow>
            if 0xFF < n then None
            else if 1 < c \<and> hd t = CHR ''0'' then None
            else parse_fields4 k (drop c t) (acc @ [of_int n]))"

definition parseIPv4 :: "string \<Rightarrow> ip option" where
  "parseIPv4 s = (case parse_fields4 4 s [] of
     Some (p, []) \<Rightarrow> Some (v4InV6Prefix @ p) | _ \<Rightarrow> None)"

fun parse_groups6 :: "nat \<Rightarrow> string \<Rightarrow> nat option \<Rightarrow> ip \<Rightarrow> (ip \<times> nat option \<times> string) option" where
  \<comment> \<open>the loop of parseIPv6: \<open>acc\<close> holds the bytes written so far, so \<open>i = length acc\<close>; at most eight
     groups fit, which is the bound of the loop\<close>
  "parse_groups6 0 s ell acc = Some (acc, ell, s)"
| "parse_groups6 (Suc k) s ell acc =
     (case xtoi s of
        None \<Rightarrow> None
      | Some (n, c) \<Rightarrow>
          if 0xFFFF < n then None
          else if c < length s \<and> s ! c = CHR ''.'' then
            (if ell = None \<and> length acc \<noteq> 12 then None
             else if 16 < length acc + 4 then None
             else case parseIPv4 s of
                    None \<Rightarrow> None
                  | Some ip4 \<Rightarrow> Some (acc @ drop 12 ip4, ell, []))
          else
            let acc' = acc @ [of_int (n div 256), of_int n]; t = drop c s in
            if t = [] then Some (acc', ell, [])
            else if hd t \<noteq> CHR '':'' \<or> length t = 1 then None
            else
              let u = tl t in
              if hd u = CHR '':'' then
                (if ell \<noteq> None then None
                 else if tl u = [] then Some (acc', Some (length acc'), [])
                 else parse_groups6 k (tl u) (Some (length acc')) acc')
              else parse_groups6 k u ell acc')"

definition parseIPv6 :: "string \<Rightarrow> ip option" where
  "parseIPv6 s =
     (let lead = HasPrefix s ''::''; ell0 = (if lead then Some 0 else None); t = (if lead then drop 2 s else s) in
      if lead \<and> t = [] then Some (replicate 16 0)
      else case parse_groups6 8 t ell0 [] of
        None \<Rightarrow> None
      | Some (acc, ell, rest) \<Rightarrow>
          if rest \<noteq> [] then None
          else if length acc < 16 then
            (case ell of
               None \<Rightarrow> None
             | Some e \<Rightarrow> Some (take e acc @ replicate (16 - length acc) 0 @ drop e acc))
          else if ell \<noteq> None then None
          else Some acc)"

fun ParseIP :: "string \<Rightarrow> ip option" where
  \<comment> \<open>the first dot or colon decides the family\<close>
  "ParseIP s =
     (case find (\<lambda>c. c = CHR ''.'' \<or> c = CHR '':'') s of
        None \<Rightarrow> None
      | Some c \<Rightarrow> if c = CHR ''.'' then parseIPv4 s else parseIPv6 s)"

definition To4 :: "ip \<Rightarrow> ip option" where
  "To4 p = (if length p = 4 then Some p
            else if length p = 16 \<and> take 12 p = v4InV6Prefix then Some (drop 12 p)
            else None)"

section \<open>Networks\<close>

record ipnet =
  net_ip :: ip
  net_mask :: ip

definition mask_byte :: "nat \<Rightarrow> byte" where
  \<comment> \<open>\<open>0xff\<close> when at least eight bits are left, \<open>^byte(0xff >> n)\<close> otherwise\<close>
  "mask_byte n = (if 8 \<le> n then 0xFF else NOT (drop_bit n 0xFF))"

fun CIDRMask :: "nat \<Rightarrow> nat \<Rightarrow> ip" where
  "CIDRMask ones 0 = []"
| "CIDRMask ones (Suc l) = mask_byte ones # CIDRMask (ones - 8) l"

definition ip_and :: "ip \<Rightarrow> ip \<Rightarrow> ip" where
  "ip_and p m = map2 (\<lambda>a b. a AND b) p m"

definition IP_Mask :: "ip \<Rightarrow> ip \<Rightarrow> ip" where
  \<comment> \<open>the empty list stands for the nil of mismatched lengths\<close>
  "IP_Mask p msk =
     (let msk = (if length msk = 16 \<and> length p = 4 \<and> take 12 msk = replicate 12 0xFF
                  then drop 12 msk else msk);
          p = (if length msk = 4 \<and> length p = 16 \<and> take 12 p = v4InV6Prefix then drop 12 p else p)
      in if length p = length msk then ip_and p msk else [])"

fun index_char :: "char \<Rightarrow> string \<Rightarrow> nat option" where
  "index_char d [] = None"
| "index_char d (c # s) = (if c = d then Some 0 else map_option Suc (index_char d s))"

definition cidr_addr :: "string \<Rightarrow> (nat \<times> ip) option" where
  \<comment> \<open>the address part of a CIDR string, with the length of its family in bytes\<close>
  "cidr_addr addr = (case parseIPv4 addr of
     Some p \<Rightarrow> Some (4, p) | None \<Rightarrow> map_option (Pair 16) (parseIPv6 addr))"

definition ParseCIDR :: "string \<Rightarrow> (ip \<times> ipnet) option" where
  "ParseCIDR s =
     (case index_char (CHR ''/'') s of
        None \<Rightarrow> None
      | Some i \<Rightarrow>
          (case (cidr_addr (take i s), dtoi (drop (Suc i) s)) of
             (Some (iplen, p), Some (n, j)) \<Rightarrow>
               if j \<noteq> length (drop (Suc i) s) \<or> 8 * int iplen < n then None
               else let m = CIDRMask (nat n) iplen in Some (p, \<lparr>net_ip = IP_Mask p m, net_mask = m\<rparr>)
           | _ \<Rightarrow> None))"

definition networkNumberAndMask :: "ipnet \<Rightarrow> ip \<times> ip" where
  "networkNumberAndMask n =
     (let ip = (case To4 (net_ip n) of Some x \<Rightarrow> x | None \<Rightarrow> net_ip n); m = net_mask n in
      if To4 (net_ip n) = None \<and> length ip \<noteq> 16 then ([], [])
      else if length m = 4 then (if length ip \<noteq> 4 then ([], []) else (ip, m))
      else if length m = 16 then (ip, if length ip = 4 then drop 12 m else m)
      else ([], []))"

definition IPNet_Contains :: "ipnet \<Rightarrow> ip \<Rightarrow> bool" where
  "IPNet_Contains n p =
     (let (nn, m) = networkNumberAndMask n; q = (case To4 p of Some x \<Rightarrow> x | None \<Rightarrow> p) in
      length q = length nn \<and> ip_and nn m = ip_and q m)"

section \<open>Masks and prefixes\<close>

definition byte_bits :: "byte \<Rightarrow> bool list" where
  \<comment> \<open>most significant bit first\<close>
  "byte_bits a = map (\<lambda>k. bit a (7 - k)) [0..<8]"

definition ip_bits :: "ip \<Rightarrow> bool list" where
  "ip_bits p = concat (map byte_bits p)"

definition same_prefix :: "nat \<Rightarrow> ip \<Rightarrow> ip \<Rightarrow> bool" where
  "same_prefix n p q \<longleftrightarrow> length p = length q \<and> take n (ip_bits p) = take n (ip_bits q)"

lemma length_byte_bits [simp]: "length (byte_bits a) = 8"
  by (simp add: byte_bits_def)

lemma ip_bits_Cons [simp]: "ip_bits (a # p) = byte_bits a @ ip_bits p" "ip_bits [] = []"
  by (simp_all add: ip_bits_def)

lemma length_CIDRMask [simp]: "length (CIDRMask n l) = l"
  by (induction l arbitrary: n) auto

lemma bit_mask_byte: "k < 8 \<Longrightarrow> bit (mask_byte n) k \<longleftrightarrow> 8 - n \<le> k"
proof -
  assume k: "k < 8"
  have ff: "(0xFF :: byte) = -1" by simp
  from k show ?thesis
    unfolding mask_byte_def ff
    by (auto simp: bit_simps)
qed

lemma byte_and_mask_eq:
  "a AND mask_byte n = b AND mask_byte n \<longleftrightarrow> take n (byte_bits a) = take n (byte_bits b)"
proof -
  have "a AND mask_byte n = b AND mask_byte n \<longleftrightarrow> (\<forall>k<8. 8 - n \<le> k \<longrightarrow> bit a k = bit b k)"
    by (auto simp: bit_eq_iff bit_and_iff bit_mask_byte possible_bit_word)
  also have "\<dots> \<longleftrightarrow> (\<forall>k<min n 8. bit a (7 - k) = bit b (7 - k))"
  proof safe
    fix k assume "\<forall>k<8. 8 - n \<le> k \<longrightarrow> bit a k = bit b k" "k < min n 8"
    moreover from this have "7 - k < 8" "8 - n \<le> 7 - k" by auto
    ultimately show "bit a (7 - k) \<Longrightarrow> bit b (7 - k)" "bit b (7 - k) \<Longrightarrow> bit a (7 - k)" by blast+
  next
    fix k :: nat assume *: "\<forall>k<min n 8. bit a (7 - k) = bit b (7 - k)" "k < 8" "8 - n \<le> k"
    then have "7 - k < min n 8" "7 - (7 - k) = k" by auto
    with * show "bit a k \<Longrightarrow> bit b k" "bit b k \<Longrightarrow> bit a k" by metis+
  qed
  also have "\<dots> \<longleftrightarrow> take n (byte_bits a) = take n (byte_bits b)"
    by (auto simp: byte_bits_def list_eq_iff_nth_eq nth_append)
  finally show ?thesis .
qed

lemma same_prefix_Cons:
  "same_prefix n (a # p) (b # q) \<longleftrightarrow> take n (byte_bits a) = take n (byte_bits b) \<and> same_prefix (n - 8) p q"
proof -
  have "take n (byte_bits a @ ip_bits p) = take n (byte_bits b @ ip_bits q) \<longleftrightarrow>
      take n (byte_bits a) = take n (byte_bits b) \<and> take (n - 8) (ip_bits p) = take (n - 8) (ip_bits q)"
    by (simp add: append_eq_append_conv)
  then show ?thesis by (auto simp: same_prefix_def)
qed

lemma ip_and_mask_eq:
  "length p = l \<Longrightarrow> length q = l \<Longrightarrow>
     ip_and p (CIDRMask n l) = ip_and q (CIDRMask n l) \<longleftrightarrow> same_prefix n p q"
proof (induction l arbitrary: n p q)
  case 0
  then show ?case by (simp add: ip_and_def same_prefix_def)
next
  case (Suc l)
  then obtain a p' b q' where "p = a # p'" "q = b # q'" "length p' = l" "length q' = l"
    by (auto simp: length_Suc_conv)
  with Suc.IH [of p' q' "n - 8"] show ?case
    by (auto simp: ip_and_def byte_and_mask_eq same_prefix_Cons)
qed

lemma ip_and_idem [simp]: "ip_and (ip_and p m) m = ip_and p m"
  by (auto simp: ip_and_def list_eq_iff_nth_eq and.assoc)

lemma length_ip_and [simp]: "length (ip_and p m) = min (length p) (length m)"
  by (simp add: ip_and_def)

lemma same_prefix_mono: "same_prefix n p q \<Longrightarrow> k \<le> n \<Longrightarrow> same_prefix k p q"
  unfolding same_prefix_def by (metis min.absorb1 take_take)

lemma same_prefix_refl [simp]: "same_prefix n p p"
  by (simp add: same_prefix_def)

section \<open>What the parsers return\<close>

lemma length_v4InV6Prefix [simp]: "length v4InV6Prefix = 12"
  by (simp add: v4InV6Prefix_def)

lemma parse_fields4_length: "parse_fields4 k s acc = Some (p, r) \<Longrightarrow> length p = length acc + k"
proof (induction k arbitrary: s acc)
  case 0
  then show ?case by simp
next
  case (Suc k)
  then show ?case
    by (force simp: Let_def split: if_splits option.splits)
qed

lemma parseIPv4_shape: "parseIPv4 s = Some p \<Longrightarrow> length p = 16 \<and> take 12 p = v4InV6Prefix"
  by (auto simp: parseIPv4_def split: option.splits list.splits dest!: parse_fields4_length)

definition ell_le :: "nat option \<Rightarrow> nat \<Rightarrow> bool" where
  "ell_le ell n \<longleftrightarrow> (case ell of None \<Rightarrow> True | Some e \<Rightarrow> e \<le> n)"

lemma ell_le_simps [simp]: "ell_le None n" "ell_le (Some e) n \<longleftrightarrow> e \<le> n"
  by (simp_all add: ell_le_def)

lemma ell_le_mono: "ell_le ell n \<Longrightarrow> n \<le> k \<Longrightarrow> ell_le ell k"
  by (cases ell) auto

lemma parse_groups6_bounds:
  "parse_groups6 k s ell acc = Some (acc', ell', r) \<Longrightarrow> length acc + 2 * k = 16 \<Longrightarrow>
     ell_le ell (length acc) \<Longrightarrow> length acc' \<le> 16 \<and> ell_le ell' (length acc')"
proof (induction k arbitrary: s ell acc)
  case 0
  then show ?case by simp
next
  case (Suc k)
  have v4: "length p = 16" if "parseIPv4 t = Some p" for t p
    using parseIPv4_shape [OF that] by simp
  show ?case
  proof (cases "xtoi s")
    case None
    with Suc.prems show ?thesis by simp
  next
    case (Some nc)
    obtain n c where nc: "nc = (n, c)" by (cases nc)
    let ?acc = "acc @ [of_int (n div 256), of_int n]"
    have len: "length ?acc + 2 * k = 16" using Suc.prems(2) by simp
    have ell: "ell_le ell (length ?acc)" by (rule ell_le_mono [OF Suc.prems(3)]) simp
    have step: "length acc' \<le> 16 \<and> ell_le ell' (length acc')"
      if "parse_groups6 k t e ?acc = Some (acc', ell', r)" "ell_le e (length ?acc)" for t e
      using Suc.IH [OF that(1) len that(2)] .
    show ?thesis
      using Suc.prems(1,2) Some nc ell step ell_le_mono [OF Suc.prems(3)]
      by (auto simp: Let_def split: if_splits option.splits dest!: v4)
  qed
qed

lemma parseIPv6_length:
  assumes "parseIPv6 s = Some p"
  shows "length p = 16"
proof -
  have b: "length acc \<le> 16 \<and> ell_le ell' (length acc)"
    if "parse_groups6 8 t ell [] = Some (acc, ell', r)" "ell_le ell 0" for t ell acc ell' r
    using parse_groups6_bounds [OF that(1)] that(2) by simp
  from assms show ?thesis
    by (auto simp: parseIPv6_def Let_def split: if_splits option.splits dest!: b)
qed

lemma ParseIP_length: "ParseIP s = Some p \<Longrightarrow> length p = 16"
  by (auto split: option.splits if_splits dest: parseIPv4_shape parseIPv6_length)

lemma cidr_addr_shape:
  "cidr_addr a = Some (l, p) \<Longrightarrow> length p = 16 \<and> (l = 4 \<and> take 12 p = v4InV6Prefix \<or> l = 16)"
  by (auto simp: cidr_addr_def split: option.splits dest: parseIPv4_shape parseIPv6_length)

lemma ParseCIDR_shape:
  assumes "ParseCIDR s = Some (p, net)"
  obtains l n where "net = \<lparr>net_ip = IP_Mask p (CIDRMask n l), net_mask = CIDRMask n l\<rparr>"
    and "n \<le> 8 * l" and "length p = 16" and "l = 4 \<and> take 12 p = v4InV6Prefix \<or> l = 16"
  using assms
  by (auto simp: ParseCIDR_def Let_def split: option.splits if_splits prod.splits dest!: cidr_addr_shape)

section \<open>Containment\<close>

lemma Contains_v4_net:
  assumes p: "length p = 16" "take 12 p = v4InV6Prefix" and q: "length q = 16"
  shows "IPNet_Contains \<lparr>net_ip = IP_Mask p (CIDRMask n 4), net_mask = CIDRMask n 4\<rparr> q \<longleftrightarrow>
    take 12 q = v4InV6Prefix \<and> same_prefix n (drop 12 p) (drop 12 q)"
  using assms
  by (auto simp: IPNet_Contains_def networkNumberAndMask_def IP_Mask_def To4_def ip_and_mask_eq)

text \<open>An IPv6 network that is not IPv4-mapped after masking contains the unmapped addresses on its prefix.\<close>

lemma Contains_v6_net:
  assumes p: "length p = 16" "take 12 (ip_and p (CIDRMask n 16)) \<noteq> v4InV6Prefix" and q: "length q = 16"
  shows "IPNet_Contains \<lparr>net_ip = IP_Mask p (CIDRMask n 16), net_mask = CIDRMask n 16\<rparr> q \<longleftrightarrow>
    take 12 q \<noteq> v4InV6Prefix \<and> same_prefix n p q"
  using assms
  by (auto simp: IPNet_Contains_def networkNumberAndMask_def IP_Mask_def To4_def ip_and_mask_eq Let_def)

end
