(* ===== verification/Policy.thy ===== *)
theory Policy
  imports Go_Net
begin

text \<open>
  The routing policy of internal/policy: the rule engine (policy.go), the built-in class rules and
  the merging of rule sets (bundle.go) and the traffic classifier (classifier.go).

  \<open>NewEngine\<close> validates and sorts the rules, \<open>Evaluate\<close> takes the first applicable one. The
  comparison of both sort calls is \<open>rule_less\<close>; it is interpreted as a strict weak order, and the
  abstract reading of the engine, the best applicable rule of the tenant, is proved from that
  contract. \<open>uc\<close> is the case mapping of non-ASCII strings that \<open>ToLower\<close> takes.
\<close>

section \<open>Rules\<close>

definition ClassAI :: string where "ClassAI = ''ai''"
definition ClassVideo :: string where "ClassVideo = ''video''"
definition ClassEnterprise :: string where "ClassEnterprise = ''enterprise''"
definition ClassDomestic :: string where "ClassDomestic = ''domestic''"
definition ClassDefault :: string where "ClassDefault = ''default''"

lemmas class_defs = ClassAI_def ClassVideo_def ClassEnterprise_def ClassDomestic_def ClassDefault_def

datatype policy_error =
    RuleIDRequired | RuleTenantIDRequired | RuleEgressNodeIDRequired
  | RuleNoMatchCondition string | RuleInvalidCIDR string
  | PolicyTenantIDRequired | EgressForClassRequired string
  | ClassificationRuleIDRequired | ClassificationRuleClassRequired
  | ClassificationRuleNoMatchCondition string | ClassificationRuleInvalidCIDR string

record Rule =
  Rule_ID :: string
  Rule_TenantID :: string
  Rule_Priority :: int
  Rule_DomainSuffix :: string
  Rule_IPCIDR :: string
  Rule_ASN :: int
  Rule_Class :: string
  Rule_EgressNodeID :: string

definition Rule_Validate :: "Rule \<Rightarrow> policy_error + unit" where
  "Rule_Validate r =
     check (is_blank (Rule_ID r)) RuleIDRequired (
     check (is_blank (Rule_TenantID r)) RuleTenantIDRequired (
     check (is_blank (Rule_EgressNodeID r)) RuleEgressNodeIDRequired (
     check (Rule_DomainSuffix r = [] \<and> Rule_IPCIDR r = [] \<and> Rule_ASN r = 0 \<and> Rule_Class r = [])
       (RuleNoMatchCondition (Rule_ID r)) (
     check (Rule_IPCIDR r \<noteq> [] \<and> ParseCIDR (Rule_IPCIDR r) = None) (RuleInvalidCIDR (Rule_ID r))
     (Inr ())))))"

record Request =
  Request_TenantID :: string
  Request_Domain :: string
  Request_IP :: string
  Request_ASN :: int
  Request_Class :: string

record Decision =
  Decision_Matched :: bool
  Decision_RuleID :: string
  Decision_EgressNodeID :: string
  Decision_Class :: string

definition no_decision :: Decision where
  \<comment> \<open>the zero value \<open>Decision{}\<close>\<close>
  "no_decision = \<lparr>Decision_Matched = False, Decision_RuleID = [], Decision_EgressNodeID = [], Decision_Class = []\<rparr>"

section \<open>Matching\<close>

definition normalize_domain :: "(string \<Rightarrow> string) \<Rightarrow> string \<Rightarrow> string" where
  "normalize_domain uc d = TrimSuffix (ToLower uc (TrimSpace d)) ''.''"

definition domainMatches :: "(string \<Rightarrow> string) \<Rightarrow> string \<Rightarrow> string \<Rightarrow> bool" where
  "domainMatches uc domain sfx =
     (let d = normalize_domain uc domain; s = normalize_domain uc sfx in
      if d = [] \<or> s = [] then False else d = s \<or> HasSuffix d (''.'' @ s))"

definition ipMatches :: "string \<Rightarrow> string \<Rightarrow> bool" where
  "ipMatches ipValue cidr =
     (case ParseIP ipValue of
        None \<Rightarrow> False
      | Some ip \<Rightarrow> (case ParseCIDR cidr of
            None \<Rightarrow> False
          | Some (_, network) \<Rightarrow> IPNet_Contains network ip))"

definition ruleMatches :: "(string \<Rightarrow> string) \<Rightarrow> Rule \<Rightarrow> Request \<Rightarrow> bool" where
  "ruleMatches uc rule request =
     (let matched = False in
      if Rule_DomainSuffix rule \<noteq> [] \<and> \<not> domainMatches uc (Request_Domain request) (Rule_DomainSuffix rule) then False
      else let matched = (if Rule_DomainSuffix rule \<noteq> [] then True else matched) in
      if Rule_IPCIDR rule \<noteq> [] \<and> \<not> ipMatches (Request_IP request) (Rule_IPCIDR rule) then False
      else let matched = (if Rule_IPCIDR rule \<noteq> [] then True else matched) in
      if Rule_ASN rule \<noteq> 0 \<and> Request_ASN request \<noteq> Rule_ASN rule then False
      else let matched = (if Rule_ASN rule \<noteq> 0 then True else matched) in
      if Rule_Class rule \<noteq> [] \<and> Request_Class request \<noteq> Rule_Class rule then False
      else let matched = (if Rule_Class rule \<noteq> [] then True else matched) in
      matched)"

section \<open>The engine\<close>

record Engine =
  Engine_rules :: "Rule list"

definition rule_less :: "Rule \<Rightarrow> Rule \<Rightarrow> bool" where
  \<comment> \<open>the comparison of NewEngine, MergeRules and PolicyRules\<close>
  "rule_less a b = (if Rule_Priority a = Rule_Priority b then Rule_ID a < Rule_ID b
                    else Rule_Priority a > Rule_Priority b)"

definition NewEngine :: "Rule list \<Rightarrow> policy_error + Engine" where
  "NewEngine rules =
     bind (traverse Rule_Validate rules) (\<lambda>_. Inr \<lparr>Engine_rules = SliceStable rule_less rules\<rparr>)"

fun evaluate_rules :: "(string \<Rightarrow> string) \<Rightarrow> Rule list \<Rightarrow> Request \<Rightarrow> Decision" where
  "evaluate_rules uc [] request = no_decision"
| "evaluate_rules uc (rule # rules) request =
     (if Rule_TenantID rule \<noteq> Request_TenantID request then evaluate_rules uc rules request
      else if ruleMatches uc rule request then
        \<lparr>Decision_Matched = True, Decision_RuleID = Rule_ID rule, Decision_EgressNodeID = Rule_EgressNodeID rule,
         Decision_Class = (if Request_Class request = [] then Rule_Class rule else Request_Class request)\<rparr>
      else evaluate_rules uc rules request)"

definition Evaluate :: "(string \<Rightarrow> string) \<Rightarrow> Engine \<Rightarrow> Request \<Rightarrow> Decision" where
  "Evaluate uc e request = evaluate_rules uc (Engine_rules e) request"

section \<open>Built-in rules and merging\<close>

definition defaultClassPriorities :: "(string, int) gomap" where
  "defaultClassPriorities =
     [(ClassAI, 900), (ClassEnterprise, 800), (ClassVideo, 700), (ClassDomestic, 600), (ClassDefault, 100)]"

definition required_classes :: "string list" where
  "required_classes = [ClassAI, ClassEnterprise, ClassVideo, ClassDomestic, ClassDefault]"

definition default_class_rule :: "string \<Rightarrow> (string, string) gomap \<Rightarrow> string \<Rightarrow> policy_error + Rule" where
  \<comment> \<open>the body of the loop of DefaultClassRules\<close>
  "default_class_rule tenantID egressByClass class =
     (let egress = TrimSpace (gm_default [] egressByClass class) in
      check (egress = []) (EgressForClassRequired class) (
      let rule = \<lparr>Rule_ID = ''builtin-'' @ class, Rule_TenantID = tenantID,
                  Rule_Priority = gm_default 0 defaultClassPriorities class,
                  Rule_DomainSuffix = [], Rule_IPCIDR = [], Rule_ASN = 0,
                  Rule_Class = class, Rule_EgressNodeID = egress\<rparr>
      in bind (Rule_Validate rule) (\<lambda>_. Inr rule)))"

definition DefaultClassRules :: "string \<Rightarrow> (string, string) gomap \<Rightarrow> policy_error + Rule list" where
  "DefaultClassRules tenantID egressByClass =
     check (is_blank tenantID) PolicyTenantIDRequired
       (traverse (default_class_rule tenantID egressByClass) required_classes)"

fun merge_into :: "(string, Rule) gomap \<Rightarrow> Rule list \<Rightarrow> policy_error + (string, Rule) gomap" where
  \<comment> \<open>each of the two loops of MergeRules\<close>
  "merge_into merged [] = Inr merged"
| "merge_into merged (rule # rules) =
     bind (Rule_Validate rule) (\<lambda>_. merge_into (gm_set (Rule_ID rule) rule merged) rules)"

definition MergeRules :: "Rule list \<Rightarrow> Rule list \<Rightarrow> policy_error + Rule list" where
  "MergeRules base updates =
     bind (merge_into [] base) (\<lambda>merged.
     bind (merge_into merged updates) (\<lambda>merged'.
     Inr (SliceStable rule_less (gm_values merged'))))"

section \<open>The classifier\<close>

record ClassificationRule =
  ClassificationRule_ID :: string
  ClassificationRule_Priority :: int
  ClassificationRule_DomainSuffix :: string
  ClassificationRule_IPCIDR :: string
  ClassificationRule_ASN :: int
  ClassificationRule_Class :: string

definition ClassificationRule_Validate :: "ClassificationRule \<Rightarrow> policy_error + unit" where
  "ClassificationRule_Validate r =
     check (is_blank (ClassificationRule_ID r)) ClassificationRuleIDRequired (
     check (ClassificationRule_Class r = []) ClassificationRuleClassRequired (
     check (ClassificationRule_DomainSuffix r = [] \<and> ClassificationRule_IPCIDR r = [] \<and> ClassificationRule_ASN r = 0)
       (ClassificationRuleNoMatchCondition (ClassificationRule_ID r)) (
     check (ClassificationRule_IPCIDR r \<noteq> [] \<and> ParseCIDR (ClassificationRule_IPCIDR r) = None)
       (ClassificationRuleInvalidCIDR (ClassificationRule_ID r)) (Inr ()))))"

record Classifier =
  Classifier_rules :: "ClassificationRule list"

definition classification_less :: "ClassificationRule \<Rightarrow> ClassificationRule \<Rightarrow> bool" where
  "classification_less a b =
     (if ClassificationRule_Priority a = ClassificationRule_Priority b
      then ClassificationRule_ID a < ClassificationRule_ID b
      else ClassificationRule_Priority a > ClassificationRule_Priority b)"

definition NewClassifier :: "ClassificationRule list \<Rightarrow> policy_error + Classifier" where
  "NewClassifier rules =
     bind (traverse ClassificationRule_Validate rules)
       (\<lambda>_. Inr \<lparr>Classifier_rules = SliceStable classification_less rules\<rparr>)"

definition classificationRuleMatches :: "(string \<Rightarrow> string) \<Rightarrow> ClassificationRule \<Rightarrow> Request \<Rightarrow> bool" where
  "classificationRuleMatches uc rule request =
     (let matched = False in
      if ClassificationRule_DomainSuffix rule \<noteq> [] \<and>
         \<not> domainMatches uc (Request_Domain request) (ClassificationRule_DomainSuffix rule) then False
      else let matched = (if ClassificationRule_DomainSuffix rule \<noteq> [] then True else matched) in
      if ClassificationRule_IPCIDR rule \<noteq> [] \<and> \<not> ipMatches (Request_IP request) (ClassificationRule_IPCIDR rule) then False
      else let matched = (if ClassificationRule_IPCIDR rule \<noteq> [] then True else matched) in
      if ClassificationRule_ASN rule \<noteq> 0 \<and> Request_ASN request \<noteq> ClassificationRule_ASN rule then False
      else let matched = (if ClassificationRule_ASN rule \<noteq> 0 then True else matched) in
      matched)"

fun classify_rules :: "(string \<Rightarrow> string) \<Rightarrow> ClassificationRule list \<Rightarrow> Request \<Rightarrow> string" where
  "classify_rules uc [] request = ClassDefault"
| "classify_rules uc (rule # rules) request =
     (if classificationRuleMatches uc rule request then ClassificationRule_Class rule
      else classify_rules uc rules request)"

definition Classify :: "(string \<Rightarrow> string) \<Rightarrow> Classifier \<Rightarrow> Request \<Rightarrow> string" where
  "Classify uc c request =
     (if Request_Class request \<noteq> [] then Request_Class request
      else classify_rules uc (Classifier_rules c) request)"

section \<open>The sort order\<close>

definition rule_key :: "Rule \<Rightarrow> int \<times> string" where
  "rule_key r = (- Rule_Priority r, Rule_ID r)"

lemma rule_less_key: "rule_less = key_less rule_key"
  by (auto simp: fun_eq_iff rule_less_def key_less_def rule_key_def less_prod_def)

lemma classification_less_key:
  "classification_less = key_less (\<lambda>r. (- ClassificationRule_Priority r, ClassificationRule_ID r))"
  by (auto simp: fun_eq_iff classification_less_def key_less_def less_prod_def)

interpretation ro: strict_weak_order rule_less
  unfolding rule_less_key by (rule keyed.strict_weak_order_axioms)

interpretation co: strict_weak_order classification_less
  unfolding classification_less_key by (rule keyed.strict_weak_order_axioms)

section \<open>The engine picks the best applicable rule\<close>

definition applicable :: "(string \<Rightarrow> string) \<Rightarrow> Request \<Rightarrow> Rule \<Rightarrow> bool" where
  "applicable uc req r \<longleftrightarrow> Rule_TenantID r = Request_TenantID req \<and> ruleMatches uc r req"

definition decide :: "Request \<Rightarrow> Rule \<Rightarrow> Decision" where
  "decide req r =
     \<lparr>Decision_Matched = True, Decision_RuleID = Rule_ID r, Decision_EgressNodeID = Rule_EgressNodeID r,
      Decision_Class = (if Request_Class req = [] then Rule_Class r else Request_Class req)\<rparr>"

lemma evaluate_rules_find:
  "evaluate_rules uc rs req = (case find (applicable uc req) rs of None \<Rightarrow> no_decision | Some r \<Rightarrow> decide req r)"
  by (induction rs) (auto simp: applicable_def decide_def)

lemma NewEngine_ok:
  "NewEngine rules = Inr e \<longleftrightarrow>
     (\<forall>r\<in>set rules. Rule_Validate r = Inr ()) \<and> e = \<lparr>Engine_rules = SliceStable rule_less rules\<rparr>"
  using traverse_Inr_iff [of Rule_Validate rules] by (auto simp: NewEngine_def)

lemma decision_matched [simp]: "Decision_Matched no_decision = False" "Decision_Matched (decide req r)"
  by (simp_all add: no_decision_def decide_def)

lemma not_rule_less:
  "\<not> rule_less a b \<longleftrightarrow> Rule_Priority a < Rule_Priority b \<or> Rule_Priority a = Rule_Priority b \<and> Rule_ID b \<le> Rule_ID a"
  by (auto simp: rule_less_def not_less)

lemma evaluate_best:
  assumes "NewEngine rules = Inr e"
  shows "(Decision_Matched (Evaluate uc e req) \<longleftrightarrow> (\<exists>r\<in>set rules. applicable uc req r)) \<and>
    (Decision_Matched (Evaluate uc e req) \<longrightarrow>
      (\<exists>r\<in>set rules. applicable uc req r \<and> Evaluate uc e req = decide req r \<and>
        (\<forall>r'\<in>set rules. applicable uc req r' \<longrightarrow>
           Rule_Priority r' < Rule_Priority r \<or> Rule_Priority r' = Rule_Priority r \<and> Rule_ID r \<le> Rule_ID r')))"
proof -
  have e: "Engine_rules e = SliceStable rule_less rules" using assms by (simp add: NewEngine_ok)
  show ?thesis
  proof (cases "find (applicable uc req) (SliceStable rule_less rules)")
    case None
    then have "\<forall>r\<in>set rules. \<not> applicable uc req r" by (simp add: find_None_iff)
    with None show ?thesis by (simp add: Evaluate_def e evaluate_rules_find)
  next
    case (Some r)
    note best = ro.find_SliceStable_least [OF Some, unfolded not_rule_less]
    have "Evaluate uc e req = decide req r"
      using Some by (simp add: Evaluate_def e evaluate_rules_find)
    with best show ?thesis by auto
  qed
qed

text \<open>
  C1: the engine is the abstract policy "the best applicable rule of the tenant". For any accepted
  rule list, \<open>Evaluate\<close> matches exactly when some rule of the request's tenant matches the request,
  and then it reports a rule that no other applicable rule precedes: none has a higher priority, and
  none of the same priority has a smaller id.
\<close>

theorem Evaluate_best_rule:
  assumes "NewEngine rules = Inr e"
  shows "(Decision_Matched (Evaluate uc e req) \<longleftrightarrow> (\<exists>r\<in>set rules. applicable uc req r)) \<and>
    (Decision_Matched (Evaluate uc e req) \<longrightarrow>
      (\<exists>r\<in>set rules. applicable uc req r \<and> Evaluate uc e req = decide req r \<and>
        (\<forall>r'\<in>set rules. applicable uc req r' \<longrightarrow>
           Rule_Priority r' < Rule_Priority r \<or> Rule_Priority r' = Rule_Priority r \<and> Rule_ID r \<le> Rule_ID r')))"
  using assms by (rule evaluate_best)

definition sample_rule :: "string \<Rightarrow> int \<Rightarrow> string \<Rightarrow> Rule" where
  "sample_rule rid prio domain = \<lparr>Rule_ID = rid, Rule_TenantID = ''t1'', Rule_Priority = prio,
     Rule_DomainSuffix = domain, Rule_IPCIDR = [], Rule_ASN = 0, Rule_Class = [], Rule_EgressNodeID = ''egress-'' @ rid\<rparr>"

definition sample_request :: "string \<Rightarrow> Request" where
  "sample_request domain = \<lparr>Request_TenantID = ''t1'', Request_Domain = domain, Request_IP = [],
     Request_ASN = 0, Request_Class = []\<rparr>"

definition sample_engine :: Engine where
  "sample_engine = \<lparr>Engine_rules =
     [sample_rule ''b'' 20 ''example.com'', sample_rule ''c'' 20 ''example.com'', sample_rule ''a'' 10 ''com'']\<rparr>"

lemma sample_engine_ok:
  "NewEngine [sample_rule ''a'' 10 ''com'', sample_rule ''c'' 20 ''example.com'', sample_rule ''b'' 20 ''example.com''] =
     Inr sample_engine"
  by code_simp

theorem Evaluate_best_rule_witness:
  "Decision_RuleID (Evaluate id sample_engine (sample_request ''WWW.Example.com.'')) = ''b'' \<and>
   (\<exists>r\<in>set [sample_rule ''a'' 10 ''com'', sample_rule ''c'' 20 ''example.com'', sample_rule ''b'' 20 ''example.com''].
     applicable id (sample_request ''WWW.Example.com.'') r)"
proof -
  have m: "Decision_Matched (Evaluate id sample_engine (sample_request ''WWW.Example.com.''))" by code_simp
  have "Decision_RuleID (Evaluate id sample_engine (sample_request ''WWW.Example.com.'')) = ''b''" by code_simp
  with Evaluate_best_rule [OF sample_engine_ok, of id "sample_request ''WWW.Example.com.''"] m
  show ?thesis by blast
qed

text \<open>Tenant isolation rests on sorting commuting with filtering.\<close>

lemma filter_SliceStable: "filter P (SliceStable rule_less rs) = SliceStable rule_less (filter P rs)"
  unfolding rule_less_key SliceStable_sort_key by (rule filter_sort)

lemma evaluate_rules_tenant:
  "evaluate_rules uc (filter (\<lambda>r. Rule_TenantID r = Request_TenantID req) rs) req = evaluate_rules uc rs req"
  by (induction rs) auto

text \<open>
  C2: tenant isolation. The decision for a request depends only on the rules of the request's
  tenant: dropping every other tenant's rules before building the engine changes nothing.
\<close>

theorem Evaluate_tenant_isolation:
  assumes "NewEngine rules = Inr e" and "Request_TenantID req = t"
  shows "\<exists>e'. NewEngine (filter (\<lambda>r. Rule_TenantID r = t) rules) = Inr e' \<and>
    Evaluate uc e' req = Evaluate uc e req"
  using assms evaluate_rules_tenant [of uc req "SliceStable rule_less rules"]
  by (auto simp: NewEngine_ok Evaluate_def filter_SliceStable)

theorem Evaluate_tenant_isolation_witness:
  "\<exists>e'. NewEngine (filter (\<lambda>r. Rule_TenantID r = ''t1'')
       [sample_rule ''a'' 10 ''com'', sample_rule ''c'' 20 ''example.com'', sample_rule ''b'' 20 ''example.com'']) = Inr e' \<and>
     Evaluate id e' (sample_request ''example.com'') = Evaluate id sample_engine (sample_request ''example.com'')"
  by (rule Evaluate_tenant_isolation [OF sample_engine_ok]) (simp add: sample_request_def)

text \<open>The outcome of a sort with distinct ids does not depend on the order of the input.\<close>

lemma rule_key_inj: "distinct (map Rule_ID rs) \<Longrightarrow> inj_on rule_key (set rs)"
  by (auto simp: inj_on_def rule_key_def distinct_map)

lemma rule_sort_perm:
  "mset rs = mset rs' \<Longrightarrow> distinct (map Rule_ID rs) \<Longrightarrow>
     SliceStable rule_less rs = SliceStable rule_less rs'"
  unfolding rule_less_key by (rule SliceStable_key_cong) (auto intro: rule_key_inj)

section \<open>What a rule matches\<close>

text \<open>
  A rule matches a request exactly when it sets at least one condition and every condition it
  sets holds; an unset condition (empty suffix, empty CIDR, ASN 0, empty class) is ignored.
\<close>

lemma ruleMatches_iff:
  "ruleMatches uc rule req \<longleftrightarrow>
     (Rule_DomainSuffix rule \<noteq> [] \<or> Rule_IPCIDR rule \<noteq> [] \<or> Rule_ASN rule \<noteq> 0 \<or> Rule_Class rule \<noteq> []) \<and>
     (Rule_DomainSuffix rule = [] \<or> domainMatches uc (Request_Domain req) (Rule_DomainSuffix rule)) \<and>
     (Rule_IPCIDR rule = [] \<or> ipMatches (Request_IP req) (Rule_IPCIDR rule)) \<and>
     (Rule_ASN rule = 0 \<or> Request_ASN req = Rule_ASN rule) \<and>
     (Rule_Class rule = [] \<or> Request_Class req = Rule_Class rule)"
  by (simp add: ruleMatches_def Let_def)

text \<open>
  an IPv4 condition is a prefix test. For a request address and an IPv4 network of the rule,
  \<open>ipMatches\<close> holds exactly when the address is an IPv4 address whose first \<open>n\<close> bits are those of
  the network, \<open>n\<close> being the prefix length that was parsed.
\<close>

lemma ipMatches_v4_prefix:
  assumes "index_char (CHR ''/'') cidr = Some i" and "parseIPv4 (take i cidr) = Some net"
    and "dtoi (drop (Suc i) cidr) = Some (n, length cidr - Suc i)" and "n \<le> 32"
    and "ParseIP addr = Some ip"
  shows "ipMatches addr cidr \<longleftrightarrow>
    take 12 ip = v4InV6Prefix \<and> same_prefix (nat n) (drop 12 net) (drop 12 ip)"
proof -
  let ?net = "\<lparr>net_ip = IP_Mask net (CIDRMask (nat n) 4), net_mask = CIDRMask (nat n) 4\<rparr>"
  have p: "length net = 16" "take 12 net = v4InV6Prefix"
    using parseIPv4_shape [OF assms(2)] by auto
  have "ParseCIDR cidr = Some (net, ?net)"
    using assms(1-4) by (simp add: ParseCIDR_def cidr_addr_def Let_def)
  with assms(5) have "ipMatches addr cidr \<longleftrightarrow> IPNet_Contains ?net ip"
    by (simp add: ipMatches_def del: ParseIP.simps)
  also have "\<dots> \<longleftrightarrow> take 12 ip = v4InV6Prefix \<and> same_prefix (nat n) (drop 12 net) (drop 12 ip)"
    by (rule Contains_v4_net [OF p]) (rule ParseIP_length [OF assms(5)])
  finally show ?thesis .
qed

text \<open>
  a domain condition respects label boundaries. After trimming, lower-casing and dropping one
  trailing dot, a domain matches a suffix exactly when both are non-empty and the domain is the
  suffix itself or ends in a dot followed by the suffix; so \<open>notexample.com\<close> does not match
  \<open>example.com\<close>.
\<close>

lemma domainMatches_iff:
  "domainMatches uc d s \<longleftrightarrow>
     normalize_domain uc s \<noteq> [] \<and>
     (normalize_domain uc d = normalize_domain uc s \<or>
      (\<exists>label. normalize_domain uc d = label @ ''.'' @ normalize_domain uc s))"
  by (auto simp: domainMatches_def Let_def HasSuffix_iff)

section \<open>Merging\<close>

lemma merge_into_ok:
  "merge_into m rs = Inr m' \<longleftrightarrow> (\<forall>r\<in>set rs. Rule_Validate r = Inr ()) \<and> m' = fold (\<lambda>r. gm_set (Rule_ID r) r) rs m"
  by (induction rs arbitrary: m) auto

definition ids_match :: "(string, Rule) gomap \<Rightarrow> bool" where
  \<comment> \<open>every entry is stored under its own id\<close>
  "ids_match m \<longleftrightarrow> gm_ok m \<and> (\<forall>k r. gm_get m k = Some r \<longrightarrow> Rule_ID r = k)"

lemma ids_match_set: "ids_match m \<Longrightarrow> ids_match (gm_set (Rule_ID r) r m)"
  by (auto simp: ids_match_def)

lemma ids_match_fold: "ids_match m \<Longrightarrow> ids_match (fold (\<lambda>r. gm_set (Rule_ID r) r) rs m)"
  by (induction rs arbitrary: m) (auto intro: ids_match_set)

lemma ids_match_Nil [simp]: "ids_match []"
  by (simp add: ids_match_def)

lemma ids_match_values:
  assumes "ids_match m"
  shows "map Rule_ID (gm_values m) = map fst m" and "distinct (map Rule_ID (gm_values m))"
proof -
  have "Rule_ID (snd kr) = fst kr" if "kr \<in> set m" for kr
  proof -
    have "gm_get m (fst kr) = Some (snd kr)"
      using assms that by (simp add: ids_match_def gm_ok_def)
    then show ?thesis using assms by (simp add: ids_match_def)
  qed
  then show ids: "map Rule_ID (gm_values m) = map fst m"
    by (simp add: gm_values_def)
  then show "distinct (map Rule_ID (gm_values m))"
    using assms by (simp add: ids_match_def gm_ok_def)
qed

text \<open>
  merging keeps the last definition of every rule id. When \<open>MergeRules\<close> accepts, the result
  is sorted by the engine's order, its ids are distinct, and a rule is in it exactly when it is
  the last one with its id in the base rules followed by the updates, so an update replaces the
  base rule of the same id.
\<close>

lemma MergeRules_last_wins:
  assumes "MergeRules base updates = Inr rules"
  shows "ro.sorted_by rules \<and> distinct (map Rule_ID rules) \<and>
    (\<forall>r. r \<in> set rules \<longleftrightarrow> find (\<lambda>x. Rule_ID x = Rule_ID r) (rev (base @ updates)) = Some r)"
proof -
  let ?m = "fold (\<lambda>r. gm_set (Rule_ID r) r) (base @ updates) []"
  have rules: "rules = SliceStable rule_less (gm_values ?m)"
    using assms by (simp add: MergeRules_def merge_into_ok)
  have ok: "ids_match ?m" by (rule ids_match_fold) simp
  then have gm: "gm_ok ?m" by (simp only: ids_match_def)
  have "mset (map Rule_ID rules) = mset (map Rule_ID (gm_values ?m))"
    by (simp only: rules mset_map mset_SliceStable)
  from mset_eq_imp_distinct_iff [OF this] ids_match_values(2) [OF ok]
  have "distinct (map Rule_ID rules)" by simp
  moreover have "r \<in> set rules \<longleftrightarrow> find (\<lambda>x. Rule_ID x = Rule_ID r) (rev (base @ updates)) = Some r" for r
  proof -
    have "r \<in> set rules \<longleftrightarrow> (\<exists>k. gm_get ?m k = Some r)"
      by (simp only: rules set_SliceStable in_gm_values [OF gm])
    also have "\<dots> \<longleftrightarrow> gm_get ?m (Rule_ID r) = Some r"
      using ok unfolding ids_match_def by blast
    also have "\<dots> \<longleftrightarrow> find (\<lambda>x. Rule_ID x = Rule_ID r) (rev (base @ updates)) = Some r"
      by (simp only: gm.get_fold_set) (simp split: option.split)
    finally show ?thesis .
  qed
  moreover have "ro.sorted_by rules" by (simp only: rules ro.sorted_SliceStable)
  ultimately show ?thesis by blast
qed

section \<open>The built-in class rules\<close>

definition builtin_rule :: "string \<Rightarrow> (string, string) gomap \<Rightarrow> string \<Rightarrow> Rule" where
  "builtin_rule t eg c =
     \<lparr>Rule_ID = ''builtin-'' @ c, Rule_TenantID = t, Rule_Priority = gm_default 0 defaultClassPriorities c,
      Rule_DomainSuffix = [], Rule_IPCIDR = [], Rule_ASN = 0, Rule_Class = c,
      Rule_EgressNodeID = TrimSpace (gm_default [] eg c)\<rparr>"

lemma default_class_rule_ok:
  "default_class_rule t eg c = Inr r \<longleftrightarrow>
     TrimSpace (gm_default [] eg c) \<noteq> [] \<and> Rule_Validate (builtin_rule t eg c) = Inr () \<and> r = builtin_rule t eg c"
  by (auto simp: default_class_rule_def builtin_rule_def Let_def)

lemma traverse_default_class_rule:
  "traverse (default_class_rule t eg) cs = Inr rs \<Longrightarrow>
     rs = map (builtin_rule t eg) cs \<and> (\<forall>r\<in>set rs. Rule_Validate r = Inr ())"
  by (induction cs arbitrary: rs) (auto simp: default_class_rule_ok)

lemma SliceStable_builtin:
  "SliceStable rule_less (map (builtin_rule t eg) required_classes) = map (builtin_rule t eg) required_classes"
  by (rule ro.SliceStable_id)
    (simp add: required_classes_def builtin_rule_def rule_less_def defaultClassPriorities_def class_defs gm_default_def)

lemma builtin_applicable:
  "applicable uc req (builtin_rule t eg c) \<longleftrightarrow> t = Request_TenantID req \<and> c \<noteq> [] \<and> Request_Class req = c"
  by (auto simp: applicable_def ruleMatches_iff builtin_rule_def)

lemma find_builtin:
  "Request_TenantID req = t \<Longrightarrow> c \<in> set cs \<Longrightarrow> c \<noteq> [] \<Longrightarrow> Request_Class req = c \<Longrightarrow>
     find (applicable uc req) (map (builtin_rule t eg) cs) = Some (builtin_rule t eg c)"
  by (induction cs) (auto simp: builtin_applicable)

text \<open>
  the built-in rules route every class to its egress. When \<open>DefaultClassRules\<close> accepts, the
  engine accepts its rules, and a request of the tenant that carries one of the five classes is
  sent to the (trimmed) egress node configured for that class.
\<close>

lemma DefaultClassRules_route:
  assumes "DefaultClassRules t eg = Inr rules" and "c \<in> set required_classes"
    and "Request_TenantID req = t" and "Request_Class req = c"
  shows "\<exists>e. NewEngine rules = Inr e \<and>
    Evaluate uc e req = \<lparr>Decision_Matched = True, Decision_RuleID = ''builtin-'' @ c,
      Decision_EgressNodeID = TrimSpace (gm_default [] eg c), Decision_Class = c\<rparr>"
proof -
  have rules: "rules = map (builtin_rule t eg) required_classes" "\<forall>r\<in>set rules. Rule_Validate r = Inr ()"
    using assms(1) traverse_default_class_rule by (auto simp: DefaultClassRules_def)
  have c: "c \<noteq> []"
    using assms(2) by (auto simp: required_classes_def class_defs)
  have "Evaluate uc \<lparr>Engine_rules = SliceStable rule_less rules\<rparr> req = decide req (builtin_rule t eg c)"
    using find_builtin [OF assms(3,2) c assms(4), of uc eg]
    by (simp add: Evaluate_def rules(1) SliceStable_builtin evaluate_rules_find)
  moreover have "NewEngine rules = Inr \<lparr>Engine_rules = SliceStable rule_less rules\<rparr>"
    using rules(2) by (simp add: NewEngine_ok)
  ultimately show ?thesis
    using assms(4) c by (simp add: decide_def builtin_rule_def)
qed

section \<open>The classifier\<close>

lemma classify_rules_find:
  "classify_rules uc rs req = (case find (\<lambda>r. classificationRuleMatches uc r req) rs of
     None \<Rightarrow> ClassDefault | Some r \<Rightarrow> ClassificationRule_Class r)"
  by (induction rs) auto

lemma NewClassifier_ok:
  "NewClassifier rules = Inr c \<longleftrightarrow>
     (\<forall>r\<in>set rules. ClassificationRule_Validate r = Inr ()) \<and>
     c = \<lparr>Classifier_rules = SliceStable classification_less rules\<rparr>"
  using traverse_Inr_iff [of ClassificationRule_Validate rules] by (auto simp: NewClassifier_def)

lemma classification_class_nonempty:
  "ClassificationRule_Validate r = Inr u \<Longrightarrow> ClassificationRule_Class r \<noteq> []"
  by (simp add: ClassificationRule_Validate_def)

text \<open>
  classification is total and deterministic. A classifier never returns an empty class; a class
  in the request wins; otherwise the class is that of a matching rule that no other matching rule
  precedes by priority and id, or the default class when no rule matches.
\<close>

lemma Classify_best:
  assumes "NewClassifier rules = Inr c"
  shows "Classify uc c req \<noteq> [] \<and>
    (Classify uc c req = Request_Class req \<or>
     Request_Class req = [] \<and> Classify uc c req = ClassDefault \<and>
       \<not> (\<exists>r\<in>set rules. classificationRuleMatches uc r req) \<or>
     Request_Class req = [] \<and> (\<exists>r\<in>set rules. classificationRuleMatches uc r req \<and>
       Classify uc c req = ClassificationRule_Class r \<and>
       \<not> (\<exists>r'\<in>set rules. classificationRuleMatches uc r' req \<and> classification_less r' r)))"
proof (cases "Request_Class req = []")
  case False
  then show ?thesis by (simp add: Classify_def)
next
  case True
  have c: "Classifier_rules c = SliceStable classification_less rules"
    and valid: "\<forall>r\<in>set rules. ClassificationRule_Validate r = Inr ()"
    using assms by (simp_all add: NewClassifier_ok)
  show ?thesis
  proof (cases "find (\<lambda>r. classificationRuleMatches uc r req) (SliceStable classification_less rules)")
    case None
    then have "\<not> (\<exists>r\<in>set rules. classificationRuleMatches uc r req)"
      by (simp add: find_None_iff)
    with None True show ?thesis
      by (simp add: Classify_def c classify_rules_find ClassDefault_def)
  next
    case (Some r)
    note best = co.find_SliceStable_least [OF Some]
    have "Classify uc c req = ClassificationRule_Class r"
      using Some True by (simp add: Classify_def c classify_rules_find)
    with best valid True show ?thesis
      by (auto dest: classification_class_nonempty)
  qed
qed

end
