(* ===== verification/Store.thy ===== *)
theory Store
  imports Domain Telemetry Policy
begin

text \<open>
  The control plane's in-memory repository (internal/store/memory.go and snapshot.go). The state is
  the record \<open>Memory\<close>; a mutating method takes the context error, the readings of \<open>m.now()\<close> in the
  order of the calls and its argument, and returns an error or the result with the new state. No
  method changes the state before it fails, so an error carries no state.

  The invariant \<open>store_ok\<close> ties every stored object to its key and to a registered tenant, and every
  stored policy rule to a successful validation; every step of the repository keeps it. The audit log
  grows by exactly one event per successful step.
\<close>

datatype store_error =
    CtxErr ctx_error
  | EDomain domain_error
  | EPolicy policy_error
  | ETelemetry telemetry_error
  | TenantExists string
  | TenantNotFound string
  | NodeNotFound string
  | RetireTenantIDRequired
  | RetireNodeIDRequired

definition lift_err :: "('e \<Rightarrow> 'd) \<Rightarrow> 'e + 'a \<Rightarrow> 'd + 'a" where
  "lift_err f r = (case r of Inl e \<Rightarrow> Inl (f e) | Inr x \<Rightarrow> Inr x)"

lemma lift_err_eq_Inr [simp]: "lift_err f r = Inr x \<longleftrightarrow> r = Inr x"
  by (cases r) (simp_all add: lift_err_def)

definition with_ctx :: "ctx_error option \<Rightarrow> store_error + 'a \<Rightarrow> store_error + 'a" where
  \<comment> \<open>\<open>if err := ctx.Err(); err != nil { return err }\<close>\<close>
  "with_ctx ctx rest = (case ctx of Some e \<Rightarrow> Inl (CtxErr e) | None \<Rightarrow> rest)"

lemma with_ctx_eq_Inr [simp]: "with_ctx ctx rest = Inr x \<longleftrightarrow> ctx = None \<and> rest = Inr x"
  by (simp add: with_ctx_def split: option.split)

section \<open>State\<close>

record Memory =
  mem_tenants :: "(string, Tenant) gomap"
  mem_devices :: "(string, (string, Device) gomap) gomap"
  mem_nodes :: "(string, (string, Node) gomap) gomap"
  mem_policies :: "(string, (string, Rule) gomap) gomap"
  mem_configs :: "(string, (string, ConfigBundle) gomap) gomap"
  mem_telemetry :: "(string, Report list) gomap"
  mem_audit :: "(string, AuditEvent list) gomap"

definition NewMemory :: Memory where
  "NewMemory = \<lparr>mem_tenants = [], mem_devices = [], mem_nodes = [], mem_policies = [], mem_configs = [],
     mem_telemetry = [], mem_audit = []\<rparr>"

text \<open>\<open>inner m t\<close> is the index expression \<open>m[t]\<close> of a map of maps, \<open>put_in\<close> the nested assignment.\<close>

definition inner :: "(string, (string, 'v) gomap) gomap \<Rightarrow> string \<Rightarrow> (string, 'v) gomap" where
  "inner m t = gm_default [] m t"

definition put_in :: "string \<Rightarrow> string \<Rightarrow> 'v \<Rightarrow> (string, (string, 'v) gomap) gomap \<Rightarrow> (string, (string, 'v) gomap) gomap" where
  "put_in t k v m = gm_set t (gm_set k v (inner m t)) m"

definition log_of :: "(string, 'e list) gomap \<Rightarrow> string \<Rightarrow> 'e list" where
  "log_of m t = gm_default [] m t"

definition append_log :: "string \<Rightarrow> 'e \<Rightarrow> (string, 'e list) gomap \<Rightarrow> (string, 'e list) gomap" where
  "append_log t e m = gm_set t (log_of m t @ [e]) m"

definition audit_id :: "string \<Rightarrow> nat \<Rightarrow> string" where
  \<comment> \<open>\<open>fmt.Sprintf("%s-%06d", tenantID, n)\<close>\<close>
  "audit_id t n = t @ ''-'' @ show_06d n"

definition auditLocked :: "time \<Rightarrow> string \<Rightarrow> string \<Rightarrow> string \<Rightarrow> string \<Rightarrow> string \<Rightarrow> string \<Rightarrow> Memory \<Rightarrow> Memory" where
  "auditLocked now tenantID actor action objectType objectID message m =
     (let event = \<lparr>AuditEvent_ID = audit_id tenantID (length (log_of (mem_audit m) tenantID) + 1),
                   AuditEvent_TenantID = tenantID, AuditEvent_Actor = actor, AuditEvent_Action = action,
                   AuditEvent_ObjectType = objectType, AuditEvent_ObjectID = objectID,
                   AuditEvent_Message = message, AuditEvent_CreatedAt = now\<rparr>
      in m\<lparr>mem_audit := append_log tenantID event (mem_audit m)\<rparr>)"

section \<open>Mutating operations\<close>

definition CreateTenant :: "ctx_error option \<Rightarrow> time \<Rightarrow> time \<Rightarrow> Tenant \<Rightarrow> Memory \<Rightarrow> store_error + Tenant \<times> Memory" where
  "CreateTenant ctx now now' tenant m =
     with_ctx ctx (
     bind (lift_err EDomain (Tenant_Validate tenant)) (\<lambda>_.
     check (gm_has (mem_tenants m) (Tenant_ID tenant)) (TenantExists (Tenant_ID tenant)) (
     let tenant = tenant\<lparr>Tenant_CreatedAt := now\<rparr>;
         m = m\<lparr>mem_tenants := gm_set (Tenant_ID tenant) tenant (mem_tenants m)\<rparr>;
         m = auditLocked now' (Tenant_ID tenant) ''system'' ''tenant.create'' ''tenant'' (Tenant_ID tenant) '''' m
     in Inr (tenant, m))))"

definition RegisterDevice :: "ctx_error option \<Rightarrow> time \<Rightarrow> time \<Rightarrow> Device \<Rightarrow> Memory \<Rightarrow> store_error + Device \<times> Memory" where
  "RegisterDevice ctx now now' device m =
     with_ctx ctx (
     bind (lift_err EDomain (Device_Validate device)) (\<lambda>_.
     check (\<not> gm_has (mem_tenants m) (Device_TenantID device)) (TenantNotFound (Device_TenantID device)) (
     let device = device\<lparr>Device_CreatedAt := now, Device_UpdatedAt := now,
            Device_Status := (if Device_Status device = [] then ''registered'' else Device_Status device),
            Device_ConfigVersion := (if Device_ConfigVersion device = [] then ''initial'' else Device_ConfigVersion device)\<rparr>;
         m = m\<lparr>mem_devices := put_in (Device_TenantID device) (Device_ID device) device (mem_devices m)\<rparr>;
         m = auditLocked now' (Device_TenantID device) (Device_ID device) ''device.register'' ''device'' (Device_ID device) '''' m
     in Inr (device, m))))"

definition RegisterNode :: "ctx_error option \<Rightarrow> time \<Rightarrow> time \<Rightarrow> Node \<Rightarrow> Memory \<Rightarrow> store_error + Node \<times> Memory" where
  "RegisterNode ctx now now' node m =
     with_ctx ctx (
     bind (lift_err EDomain (Node_Validate node)) (\<lambda>_.
     check (\<not> gm_has (mem_tenants m) (Node_TenantID node)) (TenantNotFound (Node_TenantID node)) (
     let node = node\<lparr>Node_CreatedAt := now, Node_UpdatedAt := now\<rparr>;
         m = m\<lparr>mem_nodes := put_in (Node_TenantID node) (Node_ID node) node (mem_nodes m)\<rparr>;
         m = auditLocked now' (Node_TenantID node) (Node_ID node) ''node.register'' ''node'' (Node_ID node) '''' m
     in Inr (node, m))))"

definition RecordNodeHeartbeat :: "ctx_error option \<Rightarrow> time \<Rightarrow> time \<Rightarrow> NodeHeartbeat \<Rightarrow> Memory \<Rightarrow> store_error + Node \<times> Memory" where
  "RecordNodeHeartbeat ctx now now' hb m =
     with_ctx ctx (
     bind (lift_err EDomain (NodeHeartbeat_Validate hb)) (\<lambda>_.
     check (\<not> gm_has (mem_tenants m) (NodeHeartbeat_TenantID hb)) (TenantNotFound (NodeHeartbeat_TenantID hb)) (
     case gm_get (inner (mem_nodes m) (NodeHeartbeat_TenantID hb)) (NodeHeartbeat_NodeID hb) of
       None \<Rightarrow> Inl (NodeNotFound (NodeHeartbeat_NodeID hb))
     | Some node \<Rightarrow>
         let node = node\<lparr>Node_Healthy := NodeHeartbeat_Healthy hb,
               Node_Endpoint := (if NodeHeartbeat_Endpoint hb \<noteq> [] then NodeHeartbeat_Endpoint hb else Node_Endpoint node),
               Node_UpdatedAt := now\<rparr>;
             m = m\<lparr>mem_nodes := put_in (NodeHeartbeat_TenantID hb) (NodeHeartbeat_NodeID hb) node (mem_nodes m)\<rparr>;
             m = auditLocked now' (NodeHeartbeat_TenantID hb) (NodeHeartbeat_NodeID hb) ''node.heartbeat'' ''node'' (NodeHeartbeat_NodeID hb) '''' m
         in Inr (node, m))))"

definition RetireNode :: "ctx_error option \<Rightarrow> time \<Rightarrow> time \<Rightarrow> string \<Rightarrow> string \<Rightarrow> Memory \<Rightarrow> store_error + Node \<times> Memory" where
  "RetireNode ctx now now' tenantID nodeID m =
     with_ctx ctx (
     check (tenantID = []) RetireTenantIDRequired (
     check (nodeID = []) RetireNodeIDRequired (
     check (\<not> gm_has (mem_tenants m) tenantID) (TenantNotFound tenantID) (
     case gm_get (inner (mem_nodes m) tenantID) nodeID of
       None \<Rightarrow> Inl (NodeNotFound nodeID)
     | Some node \<Rightarrow>
         let m = m\<lparr>mem_nodes := gm_set tenantID (gm_del nodeID (inner (mem_nodes m) tenantID)) (mem_nodes m)\<rparr>;
             node = node\<lparr>Node_Healthy := False, Node_UpdatedAt := now\<rparr>;
             m = auditLocked now' tenantID nodeID ''node.retire'' ''node'' nodeID '''' m
         in Inr (node, m)))))"

definition RecordTelemetry :: "(string \<Rightarrow> string) \<Rightarrow> ctx_error option \<Rightarrow> time \<Rightarrow> time \<Rightarrow> Report \<Rightarrow> Memory \<Rightarrow> store_error + Report \<times> Memory" where
  "RecordTelemetry uc ctx clock now report m =
     with_ctx ctx (
     bind (lift_err ETelemetry (Report_Validate report)) (\<lambda>_.
     check (\<not> gm_has (mem_tenants m) (Report_TenantID report)) (TenantNotFound (Report_TenantID report)) (
     let clean = Report_Sanitized uc clock report;
         m = m\<lparr>mem_telemetry := append_log (Report_TenantID clean) clean (mem_telemetry m)\<rparr>;
         m = auditLocked now (Report_TenantID clean) (Report_SubjectID clean) ''telemetry.record''
               (Report_SubjectKind clean) (Report_SubjectID clean) '''' m
     in Inr (clean, m))))"

definition UpsertPolicyRule :: "ctx_error option \<Rightarrow> time \<Rightarrow> Rule \<Rightarrow> Memory \<Rightarrow> store_error + Rule \<times> Memory" where
  "UpsertPolicyRule ctx now rule m =
     with_ctx ctx (
     bind (lift_err EPolicy (Rule_Validate rule)) (\<lambda>_.
     check (\<not> gm_has (mem_tenants m) (Rule_TenantID rule)) (TenantNotFound (Rule_TenantID rule)) (
     let m = m\<lparr>mem_policies := put_in (Rule_TenantID rule) (Rule_ID rule) rule (mem_policies m)\<rparr>;
         m = auditLocked now (Rule_TenantID rule) ''system'' ''policy.upsert'' ''policy_rule'' (Rule_ID rule) '''' m
     in Inr (rule, m))))"

definition UpsertConfig :: "ctx_error option \<Rightarrow> time \<Rightarrow> time \<Rightarrow> ConfigBundle \<Rightarrow> Memory \<Rightarrow> store_error + ConfigBundle \<times> Memory" where
  "UpsertConfig ctx now now' bundle m =
     with_ctx ctx (
     bind (lift_err EDomain (ConfigBundle_Validate bundle)) (\<lambda>_.
     check (\<not> gm_has (mem_tenants m) (ConfigBundle_TenantID bundle)) (TenantNotFound (ConfigBundle_TenantID bundle)) (
     let bundle = bundle\<lparr>ConfigBundle_CreatedAt := now,
           ConfigBundle_Values := (if ConfigBundle_Values bundle = None then Some [] else ConfigBundle_Values bundle)\<rparr>;
         m = m\<lparr>mem_configs := put_in (ConfigBundle_TenantID bundle) (ConfigBundle_ID bundle) bundle (mem_configs m)\<rparr>;
         m = auditLocked now' (ConfigBundle_TenantID bundle) ''system'' ''config.upsert'' ''config_bundle'' (ConfigBundle_ID bundle) '''' m
     in Inr (bundle, m))))"

definition RecordAuditEvent :: "ctx_error option \<Rightarrow> time \<Rightarrow> AuditEvent \<Rightarrow> Memory \<Rightarrow> store_error + AuditEvent \<times> Memory" where
  "RecordAuditEvent ctx now event m =
     with_ctx ctx (
     let event = (if AuditEvent_ID event = [] \<and> AuditEvent_TenantID event \<noteq> []
                  then event\<lparr>AuditEvent_ID := audit_id (AuditEvent_TenantID event)
                              (length (log_of (mem_audit m) (AuditEvent_TenantID event)) + 1)\<rparr>
                  else event);
         event = (if IsZero (AuditEvent_CreatedAt event) then event\<lparr>AuditEvent_CreatedAt := now\<rparr> else event)
     in bind (lift_err EDomain (AuditEvent_Validate event)) (\<lambda>_.
        Inr (event, m\<lparr>mem_audit := append_log (AuditEvent_TenantID event) event (mem_audit m)\<rparr>)))"

section \<open>Queries\<close>

definition require_tenant :: "ctx_error option \<Rightarrow> string \<Rightarrow> Memory \<Rightarrow> store_error + 'a \<Rightarrow> store_error + 'a" where
  "require_tenant ctx t m rest =
     with_ctx ctx (check (\<not> gm_has (mem_tenants m) t) (TenantNotFound t) rest)"

definition Memory_Inventory :: "ctx_error option \<Rightarrow> string \<Rightarrow> Memory \<Rightarrow> store_error + Inventory" where
  "Memory_Inventory ctx tenantID m =
     with_ctx ctx (
     case gm_get (mem_tenants m) tenantID of
       None \<Rightarrow> Inl (TenantNotFound tenantID)
     | Some tenant \<Rightarrow> Inr \<lparr>Inventory_Tenant = tenant,
         Inventory_Devices = SliceStable (key_less Device_ID) (gm_values (inner (mem_devices m) tenantID)),
         Inventory_Nodes = SliceStable (key_less Node_ID) (gm_values (inner (mem_nodes m) tenantID))\<rparr>)"

definition PolicyRules :: "ctx_error option \<Rightarrow> string \<Rightarrow> Memory \<Rightarrow> store_error + Rule list" where
  "PolicyRules ctx tenantID m = require_tenant ctx tenantID m
     (Inr (SliceStable rule_less (gm_values (inner (mem_policies m) tenantID))))"

definition EvaluatePolicy :: "(string \<Rightarrow> string) \<Rightarrow> ctx_error option \<Rightarrow> Request \<Rightarrow> Memory \<Rightarrow> store_error + Decision" where
  "EvaluatePolicy uc ctx request m =
     bind (PolicyRules ctx (Request_TenantID request) m) (\<lambda>rules.
     bind (lift_err EPolicy (NewEngine rules)) (\<lambda>engine.
     Inr (Evaluate uc engine request)))"

definition Memory_Configs :: "ctx_error option \<Rightarrow> string \<Rightarrow> Memory \<Rightarrow> store_error + ConfigBundle list" where
  "Memory_Configs ctx tenantID m = require_tenant ctx tenantID m
     (Inr (SliceStable (key_less ConfigBundle_ID) (gm_values (inner (mem_configs m) tenantID))))"

definition Memory_Telemetry :: "ctx_error option \<Rightarrow> string \<Rightarrow> Memory \<Rightarrow> store_error + Report list" where
  "Memory_Telemetry ctx tenantID m = require_tenant ctx tenantID m (Inr (log_of (mem_telemetry m) tenantID))"

definition AuditEvents :: "ctx_error option \<Rightarrow> string \<Rightarrow> Memory \<Rightarrow> store_error + AuditEvent list" where
  "AuditEvents ctx tenantID m = require_tenant ctx tenantID m (Inr (log_of (mem_audit m) tenantID))"

section \<open>Nested maps and logs\<close>

lemma inner_put_in [simp]:
  "inner (put_in t k v m) t' = (if t' = t then gm_set k v (inner m t) else inner m t')"
  by (simp add: inner_def put_in_def)

lemma inner_gm_set [simp]: "inner (gm_set t im m) t' = (if t' = t then im else inner m t')"
  by (simp add: inner_def)

lemma log_of_append_log [simp]:
  "log_of (append_log t e m) t' = (if t' = t then log_of m t @ [e] else log_of m t')"
  by (simp add: log_of_def append_log_def)

lemma inner_Nil [simp]: "inner [] t = []" and log_of_Nil [simp]: "log_of [] t = []"
  by (simp_all add: inner_def log_of_def)

lemma auditLocked_frame [simp]:
  "mem_tenants (auditLocked n t a ac ot oi ms m) = mem_tenants m"
  "mem_devices (auditLocked n t a ac ot oi ms m) = mem_devices m"
  "mem_nodes (auditLocked n t a ac ot oi ms m) = mem_nodes m"
  "mem_policies (auditLocked n t a ac ot oi ms m) = mem_policies m"
  "mem_configs (auditLocked n t a ac ot oi ms m) = mem_configs m"
  "mem_telemetry (auditLocked n t a ac ot oi ms m) = mem_telemetry m"
  by (simp_all add: auditLocked_def Let_def)

lemma auditLocked_audit:
  "mem_audit (auditLocked n t a ac ot oi ms m) = append_log t
     \<lparr>AuditEvent_ID = audit_id t (length (log_of (mem_audit m) t) + 1), AuditEvent_TenantID = t,
      AuditEvent_Actor = a, AuditEvent_Action = ac, AuditEvent_ObjectType = ot, AuditEvent_ObjectID = oi,
      AuditEvent_Message = ms, AuditEvent_CreatedAt = n\<rparr> (mem_audit m)"
  by (simp add: auditLocked_def Let_def)

lemma audit_id_inject [simp]: "audit_id t m = audit_id t n \<longleftrightarrow> m = n"
  by (simp add: audit_id_def)

lemmas store_op_defs = CreateTenant_def RegisterDevice_def RegisterNode_def RecordNodeHeartbeat_def
  RetireNode_def RecordTelemetry_def UpsertPolicyRule_def UpsertConfig_def RecordAuditEvent_def

section \<open>The invariant\<close>

definition table_ok ::
  "(string \<Rightarrow> bool) \<Rightarrow> (string \<Rightarrow> string \<Rightarrow> 'v \<Rightarrow> bool) \<Rightarrow> (string, (string, 'v) gomap) gomap \<Rightarrow> bool" where
  "table_ok ten E m \<longleftrightarrow> gm_ok m \<and> (\<forall>t. gm_ok (inner m t)) \<and>
     (\<forall>t k v. gm_get (inner m t) k = Some v \<longrightarrow> ten t \<and> E t k v)"

lemma table_ok_Nil [simp]: "table_ok ten E []"
  by (simp add: table_ok_def)

lemma table_ok_put_in: "table_ok ten E m \<Longrightarrow> ten t \<Longrightarrow> E t k v \<Longrightarrow> table_ok ten E (put_in t k v m)"
  by (auto simp: table_ok_def) (simp add: put_in_def)

lemma table_ok_del: "table_ok ten E m \<Longrightarrow> table_ok ten E (gm_set t (gm_del k (inner m t)) m)"
  by (auto simp: table_ok_def split: if_splits)

lemma table_ok_mono: "table_ok ten E m \<Longrightarrow> (\<And>t. ten t \<Longrightarrow> ten' t) \<Longrightarrow> table_ok ten' E m"
  by (auto simp: table_ok_def)

lemma table_okD: "table_ok ten E m \<Longrightarrow> gm_get (inner m t) k = Some v \<Longrightarrow> ten t \<and> E t k v"
  by (auto simp: table_ok_def)

abbreviation device_at :: "string \<Rightarrow> string \<Rightarrow> Device \<Rightarrow> bool" where
  "device_at t k d \<equiv> Device_TenantID d = t \<and> Device_ID d = k \<and> Device_Validate d = Inr ()"

abbreviation node_at :: "string \<Rightarrow> string \<Rightarrow> Node \<Rightarrow> bool" where
  "node_at t k n \<equiv> Node_TenantID n = t \<and> Node_ID n = k \<and> Node_Validate n = Inr ()"

abbreviation rule_at :: "string \<Rightarrow> string \<Rightarrow> Rule \<Rightarrow> bool" where
  "rule_at t k r \<equiv> Rule_TenantID r = t \<and> Rule_ID r = k \<and> Rule_Validate r = Inr ()"

abbreviation config_at :: "string \<Rightarrow> string \<Rightarrow> ConfigBundle \<Rightarrow> bool" where
  "config_at t k c \<equiv> ConfigBundle_TenantID c = t \<and> ConfigBundle_ID c = k \<and> ConfigBundle_Validate c = Inr () \<and>
     ConfigBundle_Values c \<noteq> None"

definition tenant_in :: "Memory \<Rightarrow> string \<Rightarrow> bool" where
  "tenant_in m t \<longleftrightarrow> gm_has (mem_tenants m) t"

definition store_ok :: "Memory \<Rightarrow> bool" where
  "store_ok m \<longleftrightarrow>
     gm_ok (mem_tenants m) \<and>
     (\<forall>k t. gm_get (mem_tenants m) k = Some t \<longrightarrow> Tenant_ID t = k \<and> Tenant_Validate t = Inr ()) \<and>
     table_ok (tenant_in m) device_at (mem_devices m) \<and>
     table_ok (tenant_in m) node_at (mem_nodes m) \<and>
     table_ok (tenant_in m) rule_at (mem_policies m) \<and>
     table_ok (tenant_in m) config_at (mem_configs m) \<and>
     gm_ok (mem_telemetry m) \<and> (\<forall>t. \<forall>r\<in>set (log_of (mem_telemetry m) t). tenant_in m t \<and> Report_TenantID r = t) \<and>
     gm_ok (mem_audit m) \<and> (\<forall>t. \<forall>e\<in>set (log_of (mem_audit m) t). AuditEvent_TenantID e = t)"

lemma store_ok_NewMemory: "store_ok NewMemory"
  by (simp add: store_ok_def NewMemory_def)

text \<open>The part of the state that belongs to one tenant.\<close>

definition view :: "string \<Rightarrow> Memory \<Rightarrow> _" where
  "view t m = (gm_get (mem_tenants m) t, inner (mem_devices m) t, inner (mem_nodes m) t, inner (mem_policies m) t,
     inner (mem_configs m) t, log_of (mem_telemetry m) t, log_of (mem_audit m) t)"

section \<open>The contract of a mutating operation\<close>

text \<open>
  Every mutating method of the repository promises the same: it keeps the invariant, it appends one
  audit event with its own action to the log of the tenant it is about, and it leaves every other
  tenant's data alone.
\<close>

locale repository_op =
  fixes op :: "'a \<Rightarrow> Memory \<Rightarrow> store_error + 'r \<times> Memory"
    and tenant :: "'a \<Rightarrow> string"
    and action :: "'a \<Rightarrow> string"
  assumes keeps: "op x m = Inr (r, m') \<Longrightarrow> store_ok m \<Longrightarrow> store_ok m'"
    and audits: "op x m = Inr (r, m') \<Longrightarrow> \<exists>e. AuditEvent_TenantID e = tenant x \<and> AuditEvent_Action e = action x \<and>
      log_of (mem_audit m') (tenant x) = log_of (mem_audit m) (tenant x) @ [e]"
    and isolates: "op x m = Inr (r, m') \<Longrightarrow> t \<noteq> tenant x \<Longrightarrow> view t m' = view t m"
begin

lemma audit_prefix:
  assumes "op x m = Inr (r, m')"
  shows "\<exists>es. log_of (mem_audit m') t = log_of (mem_audit m) t @ es \<and> length es = (if t = tenant x then 1 else 0)"
proof (cases "t = tenant x")
  case True
  with audits [OF assms] show ?thesis by force
next
  case False
  with isolates [OF assms False] show ?thesis by (simp add: view_def)
qed

end

section \<open>Every operation keeps the contract\<close>

lemma tenant_in_update [simp]:
  "tenant_in (m\<lparr>mem_devices := d\<rparr>) = tenant_in m" "tenant_in (m\<lparr>mem_nodes := n\<rparr>) = tenant_in m"
  "tenant_in (m\<lparr>mem_policies := p\<rparr>) = tenant_in m" "tenant_in (m\<lparr>mem_configs := c\<rparr>) = tenant_in m"
  "tenant_in (m\<lparr>mem_telemetry := l\<rparr>) = tenant_in m" "tenant_in (m\<lparr>mem_audit := a\<rparr>) = tenant_in m"
  by (simp_all add: fun_eq_iff tenant_in_def)

lemma store_ok_audit:
  "store_ok m \<Longrightarrow> AuditEvent_TenantID e = t \<Longrightarrow> store_ok (m\<lparr>mem_audit := append_log t e (mem_audit m)\<rparr>)"
  by (auto simp: store_ok_def) (simp add: append_log_def)

lemma store_ok_auditLocked: "store_ok m \<Longrightarrow> store_ok (auditLocked n t a ac ot oi ms m)"
  by (simp add: auditLocked_def Let_def store_ok_audit)

lemma store_ok_tenants:
  assumes "store_ok m" and "Tenant_Validate x = Inr ()"
  shows "store_ok (m\<lparr>mem_tenants := gm_set (Tenant_ID x) x (mem_tenants m)\<rparr>)"
proof -
  let ?m = "m\<lparr>mem_tenants := gm_set (Tenant_ID x) x (mem_tenants m)\<rparr>"
  have "\<And>t. tenant_in m t \<Longrightarrow> tenant_in ?m t"
    by (simp add: tenant_in_def)
  with assms show ?thesis
    by (auto simp: store_ok_def intro: table_ok_mono [where ten = "tenant_in m"])
qed

lemma store_ok_tables:
  assumes "store_ok m"
  shows "tenant_in m t \<Longrightarrow> device_at t k d \<Longrightarrow> store_ok (m\<lparr>mem_devices := put_in t k d (mem_devices m)\<rparr>)"
    and "tenant_in m t \<Longrightarrow> node_at t k n \<Longrightarrow> store_ok (m\<lparr>mem_nodes := put_in t k n (mem_nodes m)\<rparr>)"
    and "tenant_in m t \<Longrightarrow> rule_at t k r \<Longrightarrow> store_ok (m\<lparr>mem_policies := put_in t k r (mem_policies m)\<rparr>)"
    and "tenant_in m t \<Longrightarrow> config_at t k c \<Longrightarrow> store_ok (m\<lparr>mem_configs := put_in t k c (mem_configs m)\<rparr>)"
    and "store_ok (m\<lparr>mem_nodes := gm_set t (gm_del k (inner (mem_nodes m) t)) (mem_nodes m)\<rparr>)"
    and "tenant_in m t \<Longrightarrow> Report_TenantID rep = t \<Longrightarrow>
           store_ok (m\<lparr>mem_telemetry := append_log t rep (mem_telemetry m)\<rparr>)"
  using assms unfolding store_ok_def
  by (simp_all add: table_ok_put_in table_ok_del) (auto simp: append_log_def log_of_def)

lemma validate_stamped [simp]:
  "Tenant_Validate (x\<lparr>Tenant_CreatedAt := c\<rparr>) = Tenant_Validate x"
  "Device_Validate (d\<lparr>Device_CreatedAt := c\<rparr>) = Device_Validate d"
  "Device_Validate (d\<lparr>Device_UpdatedAt := c\<rparr>) = Device_Validate d"
  "Device_Validate (d\<lparr>Device_Status := st\<rparr>) = Device_Validate d"
  "Device_Validate (d\<lparr>Device_ConfigVersion := st\<rparr>) = Device_Validate d"
  "Node_Validate (n\<lparr>Node_CreatedAt := c\<rparr>) = Node_Validate n"
  "Node_Validate (n\<lparr>Node_UpdatedAt := c\<rparr>) = Node_Validate n"
  "Node_Validate (n\<lparr>Node_Healthy := h\<rparr>) = Node_Validate n"
  "Node_Validate (n\<lparr>Node_Endpoint := ep\<rparr>) = Node_Validate n"
  "ConfigBundle_Validate (cb\<lparr>ConfigBundle_CreatedAt := c\<rparr>) = ConfigBundle_Validate cb"
  "ConfigBundle_Validate (cb\<lparr>ConfigBundle_Values := vs\<rparr>) = ConfigBundle_Validate cb"
  by (simp_all add: valid_defs)

interpretation create_tenant: repository_op "\<lambda>(ctx, now, now', x). CreateTenant ctx now now' x"
  "\<lambda>(ctx, now, now', x). Tenant_ID x" "\<lambda>_. ''tenant.create''"
  by unfold_locales
    (auto simp: CreateTenant_def Let_def auditLocked_audit view_def
      intro!: store_ok_auditLocked store_ok_tenants [where x = "x\<lparr>Tenant_CreatedAt := c\<rparr>" for x c, simplified])

interpretation register_device: repository_op "\<lambda>(ctx, now, now', x). RegisterDevice ctx now now' x"
  "\<lambda>(ctx, now, now', x). Device_TenantID x" "\<lambda>_. ''device.register''"
  by unfold_locales
    (auto simp: RegisterDevice_def Let_def auditLocked_audit view_def tenant_in_def
      intro!: store_ok_auditLocked store_ok_tables)

interpretation register_node: repository_op "\<lambda>(ctx, now, now', x). RegisterNode ctx now now' x"
  "\<lambda>(ctx, now, now', x). Node_TenantID x" "\<lambda>_. ''node.register''"
  by unfold_locales
    (auto simp: RegisterNode_def Let_def auditLocked_audit view_def tenant_in_def
      intro!: store_ok_auditLocked store_ok_tables)

lemma store_okD:
  assumes "store_ok m"
  shows "table_ok (tenant_in m) device_at (mem_devices m)" and "table_ok (tenant_in m) node_at (mem_nodes m)"
    and "table_ok (tenant_in m) rule_at (mem_policies m)" and "table_ok (tenant_in m) config_at (mem_configs m)"
  using assms unfolding store_ok_def by blast+

lemma node_at_stored:
  "store_ok m \<Longrightarrow> gm_get (inner (mem_nodes m) t) k = Some n \<Longrightarrow> tenant_in m t \<and> node_at t k n"
  by (rule table_okD [OF store_okD(2)])

definition beat :: "time \<Rightarrow> NodeHeartbeat \<Rightarrow> Node \<Rightarrow> Node" where
  \<comment> \<open>the node after a heartbeat\<close>
  "beat now hb n = n\<lparr>Node_Healthy := NodeHeartbeat_Healthy hb,
      Node_Endpoint := (if NodeHeartbeat_Endpoint hb \<noteq> [] then NodeHeartbeat_Endpoint hb else Node_Endpoint n),
      Node_UpdatedAt := now\<rparr>"

lemma RecordNodeHeartbeat_InrD:
  assumes "RecordNodeHeartbeat ctx now now' hb m = Inr (r, m')"
  obtains n where "gm_get (inner (mem_nodes m) (NodeHeartbeat_TenantID hb)) (NodeHeartbeat_NodeID hb) = Some n"
    and "r = beat now hb n"
    and "m' = auditLocked now' (NodeHeartbeat_TenantID hb) (NodeHeartbeat_NodeID hb) ''node.heartbeat'' ''node''
      (NodeHeartbeat_NodeID hb) ''''
      (m\<lparr>mem_nodes := put_in (NodeHeartbeat_TenantID hb) (NodeHeartbeat_NodeID hb) (beat now hb n) (mem_nodes m)\<rparr>)"
  using assms
  by (cases "gm_get (inner (mem_nodes m) (NodeHeartbeat_TenantID hb)) (NodeHeartbeat_NodeID hb)")
    (auto simp: RecordNodeHeartbeat_def Let_def simp flip: beat_def)

lemma RecordNodeHeartbeat_store_ok:
  assumes "RecordNodeHeartbeat ctx now now' hb m = Inr (r, m')" and ok: "store_ok m"
  shows "store_ok m'"
  using assms(1)
proof (rule RecordNodeHeartbeat_InrD)
  let ?t = "NodeHeartbeat_TenantID hb" and ?k = "NodeHeartbeat_NodeID hb"
  fix n
  assume n: "gm_get (inner (mem_nodes m) ?t) ?k = Some n"
    and m': "m' = auditLocked now' ?t ?k ''node.heartbeat'' ''node'' ?k ''''
      (m\<lparr>mem_nodes := put_in ?t ?k (beat now hb n) (mem_nodes m)\<rparr>)"
  from node_at_stored [OF ok n] have "tenant_in m ?t" "node_at ?t ?k (beat now hb n)"
    by (simp_all add: beat_def)
  then show ?thesis
    unfolding m' by (intro store_ok_auditLocked store_ok_tables(2) [OF ok])
qed

interpretation node_heartbeat: repository_op "\<lambda>(ctx, now, now', x). RecordNodeHeartbeat ctx now now' x"
  "\<lambda>(ctx, now, now', x). NodeHeartbeat_TenantID x" "\<lambda>_. ''node.heartbeat''"
proof (unfold_locales, goal_cases)
  case (1 x m r m')
  then show ?case by (cases x) (simp, rule RecordNodeHeartbeat_store_ok)
next
  case (2 x m r m')
  then show ?case
    by (cases x) (auto simp: auditLocked_audit elim!: RecordNodeHeartbeat_InrD)
next
  case (3 x m r m' t)
  then show ?case
    by (cases x) (auto simp: auditLocked_audit view_def elim!: RecordNodeHeartbeat_InrD)
qed

interpretation retire_node: repository_op "\<lambda>(ctx, now, now', t, n). RetireNode ctx now now' t n"
  "\<lambda>(ctx, now, now', t, n). t" "\<lambda>_. ''node.retire''"
  by unfold_locales
    (auto simp: RetireNode_def Let_def auditLocked_audit view_def
      split: option.splits intro!: store_ok_auditLocked store_ok_tables)

interpretation record_telemetry: repository_op "\<lambda>(uc, ctx, clock, now, x). RecordTelemetry uc ctx clock now x"
  "\<lambda>(uc, ctx, clock, now, x). Report_TenantID x" "\<lambda>_. ''telemetry.record''"
  by unfold_locales
    (auto simp: RecordTelemetry_def Let_def auditLocked_audit view_def tenant_in_def
      intro!: store_ok_auditLocked store_ok_tables)

interpretation upsert_policy: repository_op "\<lambda>(ctx, now, x). UpsertPolicyRule ctx now x"
  "\<lambda>(ctx, now, x). Rule_TenantID x" "\<lambda>_. ''policy.upsert''"
  by unfold_locales
    (auto simp: UpsertPolicyRule_def Let_def auditLocked_audit view_def tenant_in_def
      intro!: store_ok_auditLocked store_ok_tables)

interpretation upsert_config: repository_op "\<lambda>(ctx, now, now', x). UpsertConfig ctx now now' x"
  "\<lambda>(ctx, now, now', x). ConfigBundle_TenantID x" "\<lambda>_. ''config.upsert''"
  by unfold_locales
    (auto simp: UpsertConfig_def Let_def auditLocked_audit view_def tenant_in_def
      intro!: store_ok_auditLocked store_ok_tables)

interpretation record_audit: repository_op "\<lambda>(ctx, now, x). RecordAuditEvent ctx now x"
  "\<lambda>(ctx, now, x). AuditEvent_TenantID x" "\<lambda>(ctx, now, x). AuditEvent_Action x"
  by unfold_locales
    (auto simp: RecordAuditEvent_def Let_def view_def intro!: store_ok_audit split: if_splits)

section \<open>Runs of the repository\<close>

text \<open>
  A step is one successful call; a failed call changes nothing. Its label is the tenant it is about,
  the action it audits and whether the caller chose the audit id itself, which only
  \<open>RecordAuditEvent\<close> allows.
\<close>

type_synonym store_label = "string \<times> string \<times> bool"

inductive store_step :: "Memory \<Rightarrow> store_label \<Rightarrow> Memory \<Rightarrow> bool" where
  step_tenant: "CreateTenant ctx n n' x m = Inr (r, m') \<Longrightarrow> store_step m (Tenant_ID x, ''tenant.create'', False) m'"
| step_device: "RegisterDevice ctx n n' d m = Inr (r, m') \<Longrightarrow> store_step m (Device_TenantID d, ''device.register'', False) m'"
| step_node: "RegisterNode ctx n n' nd m = Inr (r, m') \<Longrightarrow> store_step m (Node_TenantID nd, ''node.register'', False) m'"
| step_heartbeat: "RecordNodeHeartbeat ctx n n' hb m = Inr (r, m') \<Longrightarrow>
    store_step m (NodeHeartbeat_TenantID hb, ''node.heartbeat'', False) m'"
| step_retire: "RetireNode ctx n n' t k m = Inr (r, m') \<Longrightarrow> store_step m (t, ''node.retire'', False) m'"
| step_telemetry: "RecordTelemetry uc ctx n n' rp m = Inr (r, m') \<Longrightarrow>
    store_step m (Report_TenantID rp, ''telemetry.record'', False) m'"
| step_policy: "UpsertPolicyRule ctx n ru m = Inr (r, m') \<Longrightarrow> store_step m (Rule_TenantID ru, ''policy.upsert'', False) m'"
| step_config: "UpsertConfig ctx n n' cb m = Inr (r, m') \<Longrightarrow> store_step m (ConfigBundle_TenantID cb, ''config.upsert'', False) m'"
| step_audit: "RecordAuditEvent ctx n e m = Inr (r, m') \<Longrightarrow>
    store_step m (AuditEvent_TenantID e, AuditEvent_Action e, AuditEvent_ID e \<noteq> []) m'"

inductive store_run :: "Memory \<Rightarrow> store_label list \<Rightarrow> Memory \<Rightarrow> bool" where
  run_nil: "store_run m [] m"
| run_snoc: "store_run m ls m' \<Longrightarrow> store_step m' l m'' \<Longrightarrow> store_run m (ls @ [l]) m''"

inductive_cases store_run_snocE: "store_run m (ls @ [l]) m''"

lemmas op_keeps =
  create_tenant.keeps [where x = "(ctx, n, n', x)" for ctx n n' x, unfolded prod.case]
  register_device.keeps [where x = "(ctx, n, n', x)" for ctx n n' x, unfolded prod.case]
  register_node.keeps [where x = "(ctx, n, n', x)" for ctx n n' x, unfolded prod.case]
  node_heartbeat.keeps [where x = "(ctx, n, n', x)" for ctx n n' x, unfolded prod.case]
  retire_node.keeps [where x = "(ctx, n, n', t, k)" for ctx n n' t k, unfolded prod.case]
  record_telemetry.keeps [where x = "(uc, ctx, n, n', x)" for uc ctx n n' x, unfolded prod.case]
  upsert_policy.keeps [where x = "(ctx, n, x)" for ctx n x, unfolded prod.case]
  upsert_config.keeps [where x = "(ctx, n, n', x)" for ctx n n' x, unfolded prod.case]
  record_audit.keeps [where x = "(ctx, n, x)" for ctx n x, unfolded prod.case]

lemmas op_isolates =
  create_tenant.isolates [where x = "(ctx, n, n', x)" for ctx n n' x, unfolded prod.case]
  register_device.isolates [where x = "(ctx, n, n', x)" for ctx n n' x, unfolded prod.case]
  register_node.isolates [where x = "(ctx, n, n', x)" for ctx n n' x, unfolded prod.case]
  node_heartbeat.isolates [where x = "(ctx, n, n', x)" for ctx n n' x, unfolded prod.case]
  retire_node.isolates [where x = "(ctx, n, n', t, k)" for ctx n n' t k, unfolded prod.case]
  record_telemetry.isolates [where x = "(uc, ctx, n, n', x)" for uc ctx n n' x, unfolded prod.case]
  upsert_policy.isolates [where x = "(ctx, n, x)" for ctx n x, unfolded prod.case]
  upsert_config.isolates [where x = "(ctx, n, n', x)" for ctx n n' x, unfolded prod.case]
  record_audit.isolates [where x = "(ctx, n, x)" for ctx n x, unfolded prod.case]

lemmas op_audits =
  create_tenant.audits [where x = "(ctx, n, n', x)" for ctx n n' x, unfolded prod.case]
  register_device.audits [where x = "(ctx, n, n', x)" for ctx n n' x, unfolded prod.case]
  register_node.audits [where x = "(ctx, n, n', x)" for ctx n n' x, unfolded prod.case]
  node_heartbeat.audits [where x = "(ctx, n, n', x)" for ctx n n' x, unfolded prod.case]
  retire_node.audits [where x = "(ctx, n, n', t, k)" for ctx n n' t k, unfolded prod.case]
  record_telemetry.audits [where x = "(uc, ctx, n, n', x)" for uc ctx n n' x, unfolded prod.case]
  upsert_policy.audits [where x = "(ctx, n, x)" for ctx n x, unfolded prod.case]
  upsert_config.audits [where x = "(ctx, n, n', x)" for ctx n n' x, unfolded prod.case]
  record_audit.audits [where x = "(ctx, n, x)" for ctx n x, unfolded prod.case]

lemma store_step_keeps: "store_step m l m' \<Longrightarrow> store_ok m \<Longrightarrow> store_ok m'"
  by (erule store_step.cases; hypsubst; erule (1) op_keeps)

lemma store_step_isolates: "store_step m l m' \<Longrightarrow> t \<noteq> fst l \<Longrightarrow> view t m' = view t m"
  by (erule store_step.cases; hypsubst; unfold fst_conv; erule (1) op_isolates)

lemma store_step_audits:
  "store_step m l m' \<Longrightarrow> \<exists>e. AuditEvent_TenantID e = fst l \<and> AuditEvent_Action e = fst (snd l) \<and>
     log_of (mem_audit m') (fst l) = log_of (mem_audit m) (fst l) @ [e]"
  by (erule store_step.cases; hypsubst; unfold fst_conv snd_conv; erule op_audits)

text \<open>
  C8: in every state the repository can reach from an empty one the invariant holds: every stored
  object sits under its own id in the table of its own tenant, that tenant exists, and the object
  passed its validation; every telemetry and audit entry is in the log of its own tenant.
\<close>

theorem store_reachable_ok: "store_run NewMemory ls m \<Longrightarrow> store_ok m"
proof (induction NewMemory ls m rule: store_run.induct)
  case run_nil
  show ?case by (rule store_ok_NewMemory)
next
  case (run_snoc ls m' l m'')
  then show ?case by (blast intro: store_step_keeps)
qed

text \<open>
  tenant isolation of the repository. A run none of whose calls is about tenant \<open>t\<close> leaves
  everything that belongs to \<open>t\<close> unchanged: its record, devices, nodes, rules, configurations,
  telemetry and audit log.
\<close>

lemma store_run_isolation: "store_run m ls m' \<Longrightarrow> t \<notin> fst ` set ls \<Longrightarrow> view t m' = view t m"
proof (induction rule: store_run.induct)
  case (run_nil m)
  show ?case by simp
next
  case (run_snoc m ls m' l m'')
  then have "view t m'' = view t m'" by (intro store_step_isolates) auto
  with run_snoc show ?case by simp
qed

text \<open>
  C9: the audit log is the history. Over any run, the audited actions of a tenant grow by exactly
  the actions of the calls about that tenant, in their order; nothing is dropped, reordered or added.
\<close>

theorem audit_log_is_history:
  "store_run m ls m' \<Longrightarrow>
     map AuditEvent_Action (log_of (mem_audit m') t) =
     map AuditEvent_Action (log_of (mem_audit m) t) @ map (fst \<circ> snd) (filter (\<lambda>l. fst l = t) ls)"
proof (induction rule: store_run.induct)
  case (run_nil m)
  show ?case by simp
next
  case (run_snoc m ls m' l m'')
  show ?case
  proof (cases "fst l = t")
    case True
    with store_step_audits [OF run_snoc.hyps(2)] run_snoc.IH show ?thesis by auto
  next
    case False
    then have "view t m'' = view t m'" using store_step_isolates [OF run_snoc.hyps(2)] by auto
    with False run_snoc.IH show ?thesis by (simp add: view_def)
  qed
qed

section \<open>Audit ids\<close>

definition seq_ids :: "string \<Rightarrow> Memory \<Rightarrow> bool" where
  \<comment> \<open>the events of a tenant are numbered 1, 2, 3, ...\<close>
  "seq_ids t m \<longleftrightarrow> map AuditEvent_ID (log_of (mem_audit m) t) =
     map (audit_id t) [1..<Suc (length (log_of (mem_audit m) t))]"

lemma seq_ids_distinct: "seq_ids t m \<Longrightarrow> distinct (map AuditEvent_ID (log_of (mem_audit m) t))"
  by (auto simp: seq_ids_def distinct_map inj_on_def simp del: upt_Suc)

lemma seq_ids_append:
  "seq_ids t m \<Longrightarrow> log_of (mem_audit m') t = log_of (mem_audit m) t @ [e] \<Longrightarrow>
     AuditEvent_ID e = audit_id t (length (log_of (mem_audit m) t) + 1) \<Longrightarrow> seq_ids t m'"
  by (simp add: seq_ids_def)

lemma seq_ids_auditLocked:
  "mem_audit m = mem_audit m0 \<Longrightarrow> seq_ids t m0 \<Longrightarrow> seq_ids t (auditLocked n u a ac ot oi ms m)"
  by (cases "t = u") (auto simp: seq_ids_def auditLocked_audit)

lemma RecordAuditEvent_InrD:
  assumes "RecordAuditEvent ctx n e m = Inr (r, m')"
  shows "m' = m\<lparr>mem_audit := append_log (AuditEvent_TenantID e) r (mem_audit m)\<rparr>"
    and "AuditEvent_TenantID r = AuditEvent_TenantID e"
    and "AuditEvent_ID e = [] \<Longrightarrow> AuditEvent_ID r =
      audit_id (AuditEvent_TenantID e) (length (log_of (mem_audit m) (AuditEvent_TenantID e)) + 1)"
  using assms
  by (auto simp: RecordAuditEvent_def Let_def AuditEvent_Validate_iff split: if_splits)

lemma store_step_seq_ids:
  assumes "store_step m l m'" and "\<not> snd (snd l)" and "seq_ids t m"
  shows "seq_ids t m'"
  using assms
proof (cases rule: store_step.cases)
  case (step_audit ctx n e r)
  then show ?thesis
    using assms(2,3) RecordAuditEvent_InrD [OF step_audit(2)]
    by (cases "t = AuditEvent_TenantID e") (auto simp: seq_ids_def)
next
  case (step_heartbeat ctx n n' hb r)
  from step_heartbeat(2) show ?thesis
    by (rule RecordNodeHeartbeat_InrD) (use assms(3) in \<open>auto intro: seq_ids_auditLocked\<close>)
qed (auto simp: store_op_defs Let_def intro: seq_ids_auditLocked split: option.splits)

text \<open>
  audit ids are unique within a tenant as long as no caller of \<open>RecordAuditEvent\<close> brings an id
  of its own: the events are then numbered consecutively from 1, and the zero-padded numbering is
  injective.
\<close>

lemma audit_ids_unique:
  assumes "store_run NewMemory ls m" and "\<forall>l\<in>set ls. \<not> snd (snd l)"
  shows "map AuditEvent_ID (log_of (mem_audit m) t) =
      map (audit_id t) [1..<Suc (length (log_of (mem_audit m) t))] \<and>
    distinct (map AuditEvent_ID (log_of (mem_audit m) t))"
proof -
  have "seq_ids t m"
    using assms
  proof (induction NewMemory ls m rule: store_run.induct)
    case run_nil
    show ?case by (simp add: seq_ids_def NewMemory_def)
  next
    case (run_snoc ls m' l m'')
    then show ?case by (intro store_step_seq_ids [of m' l m'']) auto
  qed
  then show ?thesis using seq_ids_distinct by (simp only: seq_ids_def)
qed

section \<open>Queries over reachable states\<close>

lemma table_ok_values:
  assumes "table_ok ten E m"
  shows "v \<in> set (gm_values (inner m t)) \<longleftrightarrow> (\<exists>k. gm_get (inner m t) k = Some v)"
  using assms by (simp add: table_ok_def in_gm_values)

lemma table_ok_ids:
  assumes "table_ok ten E m" and "\<And>k v. E t k v \<Longrightarrow> ident v = k"
  shows "map ident (gm_values (inner m t)) = map fst (inner m t)"
proof -
  have "ident (snd kv) = fst kv" if "kv \<in> set (inner m t)" for kv
  proof -
    have "gm_get (inner m t) (fst kv) = Some (snd kv)"
      using assms(1) that by (simp add: table_ok_def gm_ok_def)
    with assms show ?thesis by (auto dest: table_okD)
  qed
  then show ?thesis by (simp add: gm_values_def)
qed

lemma table_ok_distinct:
  assumes "table_ok ten E m" and "\<And>k v. E t k v \<Longrightarrow> ident v = k"
  shows "distinct (map ident (gm_values (inner m t)))"
  using table_ok_ids [OF assms] assms(1) by (simp add: table_ok_def gm_ok_def)

lemma distinct_map_SliceStable:
  "distinct (map f (SliceStable lt xs)) \<longleftrightarrow> distinct (map f xs)"
  by (rule mset_eq_imp_distinct_iff) (simp only: mset_map mset_SliceStable)

lemma sorted_key_distinct:
  assumes "distinct (map f xs)"
  shows "sorted_wrt (\<lambda>x y. f x < f y) (SliceStable (key_less f) xs)"
proof -
  have "distinct (map f (SliceStable (key_less f) xs))" using assms by (simp only: distinct_map_SliceStable)
  moreover have "sorted (map f (SliceStable (key_less f) xs))" by (simp add: SliceStable_sort_key)
  ultimately have "sorted_wrt (<) (map f (SliceStable (key_less f) xs))"
    by (simp only: strict_sorted_iff)
  then show ?thesis by (simp only: sorted_wrt_map)
qed

text \<open>
  the inventory of a tenant lists exactly the stored devices and nodes of that tenant, each
  once and in strictly increasing order of their ids, whatever the iteration order of the maps.
\<close>

lemma Inventory_exact:
  assumes "store_ok m" and "Memory_Inventory ctx t m = Inr iv"
  shows "sorted_wrt (\<lambda>a b. Device_ID a < Device_ID b) (Inventory_Devices iv) \<and>
    (\<forall>d. d \<in> set (Inventory_Devices iv) \<longleftrightarrow> gm_get (inner (mem_devices m) t) (Device_ID d) = Some d) \<and>
    sorted_wrt (\<lambda>a b. Node_ID a < Node_ID b) (Inventory_Nodes iv) \<and>
    (\<forall>n. n \<in> set (Inventory_Nodes iv) \<longleftrightarrow> gm_get (inner (mem_nodes m) t) (Node_ID n) = Some n)"
proof -
  have D: "table_ok (tenant_in m) device_at (mem_devices m)" and N: "table_ok (tenant_in m) node_at (mem_nodes m)"
    using assms(1) by (rule store_okD)+
  have iv: "Inventory_Devices iv = SliceStable (key_less Device_ID) (gm_values (inner (mem_devices m) t))"
    "Inventory_Nodes iv = SliceStable (key_less Node_ID) (gm_values (inner (mem_nodes m) t))"
    using assms(2) by (auto simp: Memory_Inventory_def split: option.splits)
  have "d \<in> set (Inventory_Devices iv) \<longleftrightarrow> gm_get (inner (mem_devices m) t) (Device_ID d) = Some d" for d
    using table_okD [OF D] by (auto simp: iv table_ok_values [OF D])
  moreover have "n \<in> set (Inventory_Nodes iv) \<longleftrightarrow> gm_get (inner (mem_nodes m) t) (Node_ID n) = Some n" for n
    using table_okD [OF N] by (auto simp: iv table_ok_values [OF N])
  moreover have "sorted_wrt (\<lambda>a b. Device_ID a < Device_ID b) (Inventory_Devices iv)"
    unfolding iv by (rule sorted_key_distinct) (rule table_ok_distinct [OF D], simp)
  moreover have "sorted_wrt (\<lambda>a b. Node_ID a < Node_ID b) (Inventory_Nodes iv)"
    unfolding iv by (rule sorted_key_distinct) (rule table_ok_distinct [OF N], simp)
  ultimately show ?thesis by blast
qed

lemma PolicyRules_Inr:
  "PolicyRules ctx t m = Inr rules \<longleftrightarrow> ctx = None \<and> tenant_in m t \<and>
     rules = SliceStable rule_less (gm_values (inner (mem_policies m) t))"
  by (auto simp: PolicyRules_def require_tenant_def tenant_in_def)

definition stored_rules :: "Memory \<Rightarrow> string \<Rightarrow> Rule set" where
  "stored_rules m t = {r. \<exists>k. gm_get (inner (mem_policies m) t) k = Some r}"

text \<open>
  policy evaluation over the store. In a state that satisfies the invariant, evaluating a
  request of an existing tenant never fails, and its outcome is decided by the stored rules of that
  tenant: it matches exactly when one of them applies, and then it is the decision of an applicable
  stored rule that no other applicable stored rule precedes in priority and id.
\<close>

lemma EvaluatePolicy_best_stored:
  assumes ok: "store_ok m" and t: "tenant_in m (Request_TenantID req)"
  shows "\<exists>d. EvaluatePolicy uc None req m = Inr d \<and>
    (Decision_Matched d \<longleftrightarrow> (\<exists>r\<in>stored_rules m (Request_TenantID req). ruleMatches uc r req)) \<and>
    (Decision_Matched d \<longrightarrow> (\<exists>r\<in>stored_rules m (Request_TenantID req). ruleMatches uc r req \<and> d = decide req r \<and>
       (\<forall>r'\<in>stored_rules m (Request_TenantID req). ruleMatches uc r' req \<longrightarrow>
          Rule_Priority r' < Rule_Priority r \<or> Rule_Priority r' = Rule_Priority r \<and> Rule_ID r \<le> Rule_ID r')))"
proof -
  let ?t = "Request_TenantID req"
  let ?vs = "SliceStable rule_less (gm_values (inner (mem_policies m) ?t))"
  have P: "table_ok (tenant_in m) rule_at (mem_policies m)" using ok by (rule store_okD)
  have stored: "set ?vs = stored_rules m ?t"
    using table_ok_values [OF P] by (auto simp: stored_rules_def)
  have at: "Rule_TenantID r = ?t \<and> Rule_Validate r = Inr ()" if "r \<in> stored_rules m ?t" for r
    using that table_okD [OF P] by (auto simp: stored_rules_def)
  then have app: "applicable uc req r \<longleftrightarrow> ruleMatches uc r req" if "r \<in> stored_rules m ?t" for r
    using that by (simp add: applicable_def)
  obtain e where eng: "NewEngine ?vs = Inr e"
    using at by (auto simp: NewEngine_ok simp flip: stored)
  have "EvaluatePolicy uc None req m = Inr (Evaluate uc e req)"
    using t eng by (auto simp: EvaluatePolicy_def PolicyRules_Inr)
  with evaluate_best [OF eng, of uc req, unfolded stored] app show ?thesis
    by (simp cong: bex_cong ball_cong)
qed

section \<open>Node lifecycle\<close>

text \<open>
  the life of a node. After a node is registered a heartbeat for it succeeds and sets exactly
  its health, its endpoint when one is given, and its update time; retiring it reports it as
  unhealthy and removes it, and from then on a heartbeat for it fails with "node not found".
\<close>

lemma node_lifecycle:
  assumes reg: "RegisterNode None n1 n2 nd m = Inr (nd', m1)"
    and hb: "NodeHeartbeat_TenantID hb = Node_TenantID nd" "NodeHeartbeat_NodeID hb = Node_ID nd"
  shows "\<exists>r m2 r' m3.
    RecordNodeHeartbeat None n3 n4 hb m1 = Inr (r, m2) \<and> r = beat n3 hb nd' \<and>
    RetireNode None n5 n6 (Node_TenantID nd) (Node_ID nd) m2 = Inr (r', m3) \<and>
    \<not> Node_Healthy r' \<and>
    RecordNodeHeartbeat None n7 n8 hb m3 = Inl (NodeNotFound (Node_ID nd))"
proof -
  have v: "Node_Validate nd = Inr ()" and "gm_has (mem_tenants m) (Node_TenantID nd)"
    and nd': "nd' = nd\<lparr>Node_CreatedAt := n1, Node_UpdatedAt := n1\<rparr>"
    and m1: "mem_tenants m1 = mem_tenants m" "mem_nodes m1 = put_in (Node_TenantID nd) (Node_ID nd) nd' (mem_nodes m)"
    using reg by (auto simp: RegisterNode_def Let_def)
  have ids: "Node_TenantID nd \<noteq> []" "Node_ID nd \<noteq> []"
    using validated_ids(3) [OF v] by auto
  from \<open>gm_has (mem_tenants m) (Node_TenantID nd)\<close> obtain tn
    where t: "gm_get (mem_tenants m) (Node_TenantID nd) = Some tn" by auto
  have hv: "NodeHeartbeat_Validate hb = Inr ()"
    using v hb by (auto simp: valid_defs)
  show ?thesis
    using t ids hv hb m1
    by (simp add: RecordNodeHeartbeat_def RetireNode_def with_ctx_def lift_err_def Let_def beat_def)
qed

section \<open>Snapshots\<close>

record Snapshot =
  Snapshot_Tenants :: "(string, Tenant) gomap"
  Snapshot_Devices :: "(string, (string, Device) gomap) gomap"
  Snapshot_Nodes :: "(string, (string, Node) gomap) gomap"
  Snapshot_Policies :: "(string, (string, Rule) gomap) gomap"
  Snapshot_Configs :: "(string, (string, ConfigBundle) gomap) gomap"
  Snapshot_Telemetry :: "(string, Report list) gomap"
  Snapshot_Audit :: "(string, AuditEvent list) gomap"

definition copy_map :: "('k, 'v) gomap \<Rightarrow> ('k, 'v) gomap" where
  \<comment> \<open>the loop \<open>for k, v := range in { out[k] = v }\<close>\<close>
  "copy_map ms = fold (\<lambda>(k, v). gm_set k v) ms []"

definition copyTenantMap :: "(string, Tenant) gomap \<Rightarrow> (string, Tenant) gomap" where
  "copyTenantMap = copy_map"

definition copy_nested :: "(string, (string, 'v) gomap) gomap \<Rightarrow> (string, (string, 'v) gomap) gomap" where
  "copy_nested ms = fold (\<lambda>(t, inm). gm_set t (copy_map inm)) ms []"

definition copyDeviceMap :: "(string, (string, Device) gomap) gomap \<Rightarrow> _" where "copyDeviceMap = copy_nested"
definition copyNodeMap :: "(string, (string, Node) gomap) gomap \<Rightarrow> _" where "copyNodeMap = copy_nested"
definition copyPolicyMap :: "(string, (string, Rule) gomap) gomap \<Rightarrow> _" where "copyPolicyMap = copy_nested"
definition copyConfigMap :: "(string, (string, ConfigBundle) gomap) gomap \<Rightarrow> _" where "copyConfigMap = copy_nested"
definition copyTelemetryMap :: "(string, Report list) gomap \<Rightarrow> _" where
  "copyTelemetryMap ms = fold (\<lambda>(t, rs). gm_set t ([] @ rs)) ms []"
definition copyAuditMap :: "(string, AuditEvent list) gomap \<Rightarrow> _" where
  "copyAuditMap ms = fold (\<lambda>(t, es). gm_set t ([] @ es)) ms []"

definition Memory_Snapshot :: "Memory \<Rightarrow> Snapshot" where
  "Memory_Snapshot m =
     \<lparr>Snapshot_Tenants = copyTenantMap (mem_tenants m), Snapshot_Devices = copyDeviceMap (mem_devices m),
      Snapshot_Nodes = copyNodeMap (mem_nodes m), Snapshot_Policies = copyPolicyMap (mem_policies m),
      Snapshot_Configs = copyConfigMap (mem_configs m), Snapshot_Telemetry = copyTelemetryMap (mem_telemetry m),
      Snapshot_Audit = copyAuditMap (mem_audit m)\<rparr>"

definition NewMemoryFromSnapshot :: "Snapshot \<Rightarrow> Memory" where
  "NewMemoryFromSnapshot s = NewMemory
     \<lparr>mem_tenants := copyTenantMap (Snapshot_Tenants s), mem_devices := copyDeviceMap (Snapshot_Devices s),
      mem_nodes := copyNodeMap (Snapshot_Nodes s), mem_policies := copyPolicyMap (Snapshot_Policies s),
      mem_configs := copyConfigMap (Snapshot_Configs s), mem_telemetry := copyTelemetryMap (Snapshot_Telemetry s),
      mem_audit := copyAuditMap (Snapshot_Audit s)\<rparr>"

lemma copy_map_id: "gm_ok ms \<Longrightarrow> copy_map ms = ms"
  using fold_gm_set_fresh [of ms "[]" id] by (simp add: copy_map_def gm_ok_def)

lemma copy_nested_id:
  assumes "table_ok ten E ms"
  shows "copy_nested ms = ms"
proof -
  have "gm_ok inm" if "(t, inm) \<in> set ms" for t inm
  proof -
    have "inner ms t = inm" using assms that by (simp add: table_ok_def gm_ok_def inner_def)
    with assms show ?thesis by (auto simp: table_ok_def)
  qed
  then have "map (\<lambda>(t, inm). (t, copy_map inm)) ms = ms"
    by (intro map_idI) (auto simp: copy_map_id)
  moreover have "copy_nested ms = map (\<lambda>(t, inm). (t, copy_map inm)) ms"
    using assms fold_gm_set_fresh [of ms "[]" copy_map] by (simp add: copy_nested_def table_ok_def gm_ok_def)
  ultimately show ?thesis by simp
qed

lemma copy_log_id: "gm_ok ms \<Longrightarrow> fold (\<lambda>(t, rs). gm_set t ([] @ rs)) ms [] = ms"
  using copy_map_id by (simp add: copy_map_def)

lemma snapshot_inverse: "store_ok m \<Longrightarrow> NewMemoryFromSnapshot (Memory_Snapshot m) = m"
proof -
  assume ok: "store_ok m"
  note tables = store_okD [OF ok, THEN copy_nested_id]
  have logs: "gm_ok (mem_tenants m)" "gm_ok (mem_telemetry m)" "gm_ok (mem_audit m)"
    using ok unfolding store_ok_def by blast+
  show ?thesis
    by (simp add: NewMemoryFromSnapshot_def Memory_Snapshot_def NewMemory_def copyTenantMap_def copyDeviceMap_def
        copyNodeMap_def copyPolicyMap_def copyConfigMap_def copyTelemetryMap_def copyAuditMap_def
        tables copy_map_id logs copy_log_id [simplified])
qed

text \<open>
  C10: snapshots lose nothing. Restoring the snapshot of a state that satisfies the invariant gives
  back that state, every table and log included.
\<close>

theorem snapshot_roundtrip: "store_ok m \<Longrightarrow> NewMemoryFromSnapshot (Memory_Snapshot m) = m"
  by (rule snapshot_inverse)

section \<open>Witnesses\<close>

text \<open>A small history: a tenant, a node and two policy rules.\<close>

definition sample_tenant :: Tenant where
  "sample_tenant = \<lparr>Tenant_ID = ''t1'', Tenant_Name = ''Tenant one'', Tenant_CreatedAt = 0\<rparr>"

definition sample_node :: Node where
  "sample_node = \<lparr>Node_ID = ''n1'', Node_TenantID = ''t1'', Node_Role = ''egress'', Node_Region = ''hk'',
     Node_Endpoint = [], Node_Healthy = True, Node_CreatedAt = 0, Node_UpdatedAt = 0\<rparr>"

definition result_state :: "store_error + 'r \<times> Memory \<Rightarrow> Memory" where
  "result_state r = (case r of Inl _ \<Rightarrow> NewMemory | Inr (_, m) \<Rightarrow> m)"

definition sample_m1 :: Memory where "sample_m1 = result_state (CreateTenant None 5 6 sample_tenant NewMemory)"
definition sample_m2 :: Memory where "sample_m2 = result_state (RegisterNode None 7 8 sample_node sample_m1)"
definition sample_m3 :: Memory where
  "sample_m3 = result_state (UpsertPolicyRule None 9 (sample_rule ''a'' 10 ''com'') sample_m2)"

lemma sample_calls:
  "CreateTenant None 5 6 sample_tenant NewMemory = Inr (sample_tenant\<lparr>Tenant_CreatedAt := 5\<rparr>, sample_m1)"
  "RegisterNode None 7 8 sample_node sample_m1 =
     Inr (sample_node\<lparr>Node_CreatedAt := 7, Node_UpdatedAt := 7\<rparr>, sample_m2)"
  "UpsertPolicyRule None 9 (sample_rule ''a'' 10 ''com'') sample_m2 = Inr (sample_rule ''a'' 10 ''com'', sample_m3)"
  by code_simp+

definition sample_labels :: "store_label list" where
  "sample_labels = [(''t1'', ''tenant.create'', False), (''t1'', ''node.register'', False), (''t1'', ''policy.upsert'', False)]"

lemma sample_run: "store_run NewMemory sample_labels sample_m3"
proof -
  have "store_run NewMemory ([] @ [(''t1'', ''tenant.create'', False)]) sample_m1"
    using store_run.run_snoc [OF store_run.run_nil step_tenant [OF sample_calls(1)]] by (simp add: sample_tenant_def)
  from store_run.run_snoc [OF this step_node [OF sample_calls(2)]]
  have "store_run NewMemory (([] @ [(''t1'', ''tenant.create'', False)]) @ [(''t1'', ''node.register'', False)]) sample_m2"
    by (simp add: sample_node_def)
  from store_run.run_snoc [OF this step_policy [OF sample_calls(3)]]
  show ?thesis by (simp add: sample_labels_def sample_rule_def)
qed

lemma sample_ok: "store_ok sample_m3"
proof -
  have "store_ok sample_m1" using sample_calls(1) store_ok_NewMemory by (rule op_keeps(1))
  with sample_calls(2) have "store_ok sample_m2" by (rule op_keeps(3))
  with sample_calls(3) show ?thesis by (rule op_keeps(7))
qed

theorem store_reachable_ok_witness:
  "store_ok sample_m3 \<and> gm_get (inner (mem_nodes sample_m3) ''t1'') ''n1'' \<noteq> None"
proof -
  have "gm_get (inner (mem_nodes sample_m3) ''t1'') ''n1'' \<noteq> None" by code_simp
  with store_reachable_ok [OF sample_run] show ?thesis by simp
qed

theorem audit_log_is_history_witness:
  "map AuditEvent_Action (log_of (mem_audit sample_m3) ''t1'') = [''tenant.create'', ''node.register'', ''policy.upsert'']"
  using audit_log_is_history [OF sample_run, of "''t1''"] by (simp add: sample_labels_def NewMemory_def)

theorem snapshot_roundtrip_witness:
  "NewMemoryFromSnapshot (Memory_Snapshot sample_m3) = sample_m3 \<and> Snapshot_Nodes (Memory_Snapshot sample_m3) \<noteq> []"
proof -
  have "Snapshot_Nodes (Memory_Snapshot sample_m3) \<noteq> []" by code_simp
  with snapshot_roundtrip [OF sample_ok] show ?thesis by simp
qed

end
