(* ===== verification/Go_Text.thy ===== *)
theory Go_Text
  imports Go_Net
begin

text \<open>
  The parts of Go's text packages that several components use: path.Clean and path.Join (on Linux
  filepath.Join is the same function), net.SplitHostPort, strconv.Atoi, strconv.Itoa and
  strconv.Quote. Quoting of a string with non-ASCII bytes depends on Unicode tables and is the
  parameter \<open>uq\<close>.
\<close>

section \<open>Paths\<close>

fun clean_elems :: "bool \<Rightarrow> string list \<Rightarrow> string list \<Rightarrow> string list" where
  \<comment> \<open>the kept elements, last one first\<close>
  "clean_elems rooted acc [] = acc"
| "clean_elems rooted acc (e # es) =
     (if e = [] \<or> e = ''.'' then clean_elems rooted acc es
      else if e = ''..'' then
        (case acc of
           a # as \<Rightarrow> if a = ''..'' then clean_elems rooted (''..'' # acc) es else clean_elems rooted as es
         | [] \<Rightarrow> if rooted then clean_elems rooted [] es else clean_elems rooted [''..''] es)
      else clean_elems rooted (e # acc) es)"

definition path_Clean :: "string \<Rightarrow> string" where
  "path_Clean p =
     (let rooted = (p \<noteq> [] \<and> hd p = CHR ''/'');
          body = join_char (CHR ''/'') (rev (clean_elems rooted [] (split_char (CHR ''/'') p)))
      in if rooted then ''/'' @ body else if body = [] then ''.'' else body)"

definition path_Join :: "string list \<Rightarrow> string" where
  "path_Join es =
     (let nonempty = filter (\<lambda>e. e \<noteq> []) es
      in if nonempty = [] then [] else path_Clean (join_char (CHR ''/'') nonempty))"

definition path_Dir :: "string \<Rightarrow> string" where
  \<comment> \<open>everything up to the last slash, cleaned\<close>
  "path_Dir p = path_Clean (rev (dropWhile (\<lambda>c. c \<noteq> CHR ''/'') (rev p)))"

definition path_Base :: "string \<Rightarrow> string" where
  \<comment> \<open>path.Base and filepath.Base: the last element, without trailing slashes\<close>
  "path_Base p =
     (if p = [] then ''.''
      else let q = rev (dropWhile (\<lambda>c. c = CHR ''/'') (rev p))
           in if q = [] then ''/'' else rev (takeWhile (\<lambda>c. c \<noteq> CHR ''/'') (rev q)))"

section \<open>Numbers\<close>

fun is_digit :: "char \<Rightarrow> bool" where
  "is_digit c = (CHR ''0'' \<le> c \<and> c \<le> CHR ''9'')"

fun digits_value :: "string \<Rightarrow> int \<Rightarrow> int" where
  "digits_value [] n = n"
| "digits_value (c # s) n = digits_value s (n * 10 + (int (of_char c) - 48))"

definition Atoi :: "string \<Rightarrow> int option" where
  \<comment> \<open>an optional sign and at least one digit, in the range of a 64-bit int\<close>
  "Atoi s =
     (let (neg, ds) = (case s of c # r \<Rightarrow> if c = CHR ''-'' then (True, r) else if c = CHR ''+'' then (False, r) else (False, s)
                       | [] \<Rightarrow> (False, []))
      in if ds = [] \<or> \<not> list_all is_digit ds then None
         else let n = (if neg then - digits_value ds 0 else digits_value ds 0)
              in if int64 n then Some n else None)"

definition Itoa :: "int \<Rightarrow> string" where
  "Itoa n = (if n < 0 then CHR ''-'' # show_nat (nat (- n)) else show_nat (nat n))"

definition Unix :: "time \<Rightarrow> int" where
  \<comment> \<open>seconds since 1970, from nanoseconds since year 1\<close>
  "Unix t = t div nsecond - 62135596800"

section \<open>Addresses\<close>

datatype addr_error =
    MissingPort
  | TooManyColons
  | MissingBracket
  | UnexpectedOpen
  | UnexpectedClose

definition last_index :: "char \<Rightarrow> string \<Rightarrow> nat option" where
  "last_index c s = map_option (\<lambda>i. length s - Suc i) (index_char c (rev s))"

definition split_bracketed :: "nat \<Rightarrow> string \<Rightarrow> addr_error + string \<times> nat \<times> nat" where
  \<comment> \<open>the host of \<open>[host]:port\<close>, with the positions from which no further bracket may follow\<close>
  "split_bracketed i hostport =
     (case index_char (CHR '']'') hostport of
        None \<Rightarrow> Inl MissingBracket
      | Some e \<Rightarrow>
          if e + 1 = length hostport then Inl MissingPort
          else if e + 1 = i then Inr (take (e - 1) (drop 1 hostport), 1, e + 1)
          else if hostport ! (e + 1) = CHR '':'' then Inl TooManyColons
          else Inl MissingPort)"

definition SplitHostPort :: "string \<Rightarrow> addr_error + string \<times> string" where
  "SplitHostPort hostport =
     (case last_index (CHR '':'') hostport of
        None \<Rightarrow> Inl MissingPort
      | Some i \<Rightarrow>
          bind (if hd hostport = CHR ''['' then split_bracketed i hostport
                else if CHR '':'' \<in> set (take i hostport) then Inl TooManyColons
                else Inr (take i hostport, 0, 0)) (\<lambda>(host, j, k).
          check (CHR ''['' \<in> set (drop j hostport)) UnexpectedOpen (
          check (CHR '']'' \<in> set (drop k hostport)) UnexpectedClose (
          Inr (host, drop (i + 1) hostport)))))"

section \<open>Quoting\<close>

definition hex_digit :: "nat \<Rightarrow> char" where
  "hex_digit n = (if n < 10 then char_of (48 + n) else char_of (87 + n))"

definition quote_char :: "char \<Rightarrow> string" where
  "quote_char c =
     (let n = (of_char c :: nat) in
      if n = 34 \<or> n = 92 then [char_of (92 :: nat), c]
      else if 32 \<le> n \<and> n < 127 then [c]
      else if n = 7 then [char_of (92 :: nat), CHR ''a'']
      else if n = 8 then [char_of (92 :: nat), CHR ''b'']
      else if n = 12 then [char_of (92 :: nat), CHR ''f'']
      else if n = 10 then [char_of (92 :: nat), CHR ''n'']
      else if n = 13 then [char_of (92 :: nat), CHR ''r'']
      else if n = 9 then [char_of (92 :: nat), CHR ''t'']
      else if n = 11 then [char_of (92 :: nat), CHR ''v'']
      else [char_of (92 :: nat), CHR ''x'', hex_digit (n div 16), hex_digit (n mod 16)])"

definition Quote :: "(string \<Rightarrow> string) \<Rightarrow> string \<Rightarrow> string" where
  "Quote uq s = (if list_all is_ascii s then char_of (34 :: nat) # concat (map quote_char s) @ [char_of (34 :: nat)] else uq s)"

section \<open>Bytes and their hexadecimal encoding\<close>

definition bytes_of :: "string \<Rightarrow> byte list" where
  \<comment> \<open>the conversion \<open>[]byte(s)\<close>\<close>
  "bytes_of s = map (\<lambda>c. word_of_nat (of_char c)) s"

definition be32 :: "nat \<Rightarrow> byte list" where
  \<comment> \<open>binary.BigEndian.PutUint32\<close>
  "be32 n = map (\<lambda>m. word_of_int (int n div m)) [16777216, 65536, 256, 1]"

definition hex_Encode :: "byte list \<Rightarrow> string" where
  \<comment> \<open>hex.EncodeToString\<close>
  "hex_Encode bs = concat (map (\<lambda>b. [hex_digit (unat b div 16), hex_digit (unat b mod 16)]) bs)"

fun hex_Decode :: "string \<Rightarrow> byte list option" where
  \<comment> \<open>hex.DecodeString, which accepts both cases\<close>
  "hex_Decode [] = Some []"
| "hex_Decode [c] = None"
| "hex_Decode (c # d # s) =
     (case (hex_value c, hex_value d, hex_Decode s) of
        (Some h, Some l, Some bs) \<Rightarrow> Some (word_of_int (16 * h + l) # bs)
      | _ \<Rightarrow> None)"

lemma length_hex_Encode [simp]: "length (hex_Encode bs) = 2 * length bs"
  by (induction bs) (simp_all add: hex_Encode_def)

lemma hex_value_nat:
  "hex_value c = (let n = (of_char c :: nat) in
     if 48 \<le> n \<and> n \<le> 57 then Some (int n - 48)
     else if 97 \<le> n \<and> n \<le> 102 then Some (int n - 87)
     else if 65 \<le> n \<and> n \<le> 70 then Some (int n - 55) else None)"
proof -
  have "(of_char c :: int) = int (of_char c)" by (cases c) (simp add: of_char_def)
  then show ?thesis by (simp only: hex_value_def Let_def) auto
qed

lemma hex_value_digit: "n < 16 \<Longrightarrow> hex_value (hex_digit n) = Some (int n)"
  by (auto simp: hex_value_nat hex_digit_def Let_def)

lemma hex_Decode_Encode [simp]: "hex_Decode (hex_Encode bs) = Some bs"
proof (induction bs)
  case Nil
  show ?case by (simp add: hex_Encode_def)
next
  case (Cons b bs)
  have "unat b < 256" using unsigned_less [of b] by simp
  then have "hex_value (hex_digit (unat b div 16)) = Some (int (unat b div 16))"
    "hex_value (hex_digit (unat b mod 16)) = Some (int (unat b mod 16))" by (auto intro!: hex_value_digit)
  moreover have "word_of_int (16 * int (unat b div 16) + int (unat b mod 16)) = b"
  proof -
    have "16 * int (unat b div 16) + int (unat b mod 16) = int (unat b)"
      by (metis mult_div_mod_eq of_nat_add of_nat_mult of_nat_numeral)
    then show ?thesis by simp
  qed
  ultimately show ?case using Cons by (simp add: hex_Encode_def)
qed

section \<open>Text without white space\<close>

lemma strip_one_plain:
  assumes "\<forall>c\<in>set s. c \<notin> set (concat encs)"
  shows "strip_one encs s = None"
proof -
  have "\<not> (p \<noteq> [] \<and> prefix p s)" if "p \<in> set encs" for p
  proof (cases p)
    case (Cons c q)
    then have "c \<in> set (concat encs)" using that by (metis UN_I list.set_intros(1) set_concat)
    with Cons assms show ?thesis by (auto simp: prefix_def simp del: set_concat)
  qed simp
  then show ?thesis by (auto simp: strip_one_def find_None_iff)
qed

lemma TrimSpace_plain:
  assumes "\<forall>c\<in>set s. c \<notin> set (concat space_encodings)"
  shows "TrimSpace s = s"
proof -
  have "\<forall>c\<in>set (rev s). c \<notin> set (concat (map rev space_encodings))" using assms by auto
  with assms show ?thesis
    by (simp add: TrimSpace_def strip_all_id strip_one_plain)
qed

lemma hex_digit_range: "n < 16 \<Longrightarrow> hex_digit n \<in> set ''0123456789abcdef''"
proof -
  assume "n < 16"
  then have "n \<in> set [0..<16]" by simp
  moreover have "\<forall>n\<in>set [0..<16]. hex_digit n \<in> set ''0123456789abcdef''" by code_simp
  ultimately show ?thesis by blast
qed

lemma hex_Encode_chars: "set (hex_Encode bs) \<subseteq> set ''0123456789abcdef''"
proof (induction bs)
  case Nil
  show ?case by (simp add: hex_Encode_def)
next
  case (Cons b bs)
  have "unat b div 16 < 16" "unat b mod 16 < 16"
    using unsigned_less [where 'a = nat, of b] by (simp_all add: less_mult_imp_div_less)
  note digits = this [THEN hex_digit_range]
  have "hex_Encode (b # bs) = hex_digit (unat b div 16) # hex_digit (unat b mod 16) # hex_Encode bs"
    by (simp add: hex_Encode_def)
  then show ?case
    using digits Cons.IH by (simp only: list.set insert_subset simp_thms)
qed

lemma plain_hex_chars:
  "\<forall>c\<in>set ''0123456789abcdef''. c \<notin> set (concat space_encodings) \<and> is_ascii c \<and> ascii_lower c = c \<and> c \<noteq> CHR ''s''"
  by code_simp

lemma hex_Encode_normal:
  "TrimSpace (hex_Encode bs) = hex_Encode bs" "ToLower uc (hex_Encode bs) = hex_Encode bs"
  "bs \<noteq> [] \<Longrightarrow> \<not> HasPrefix (hex_Encode bs) (CHR ''s'' # p)" "hex_Encode bs = [] \<longleftrightarrow> bs = []"
proof -
  have plain: "\<forall>c\<in>set (hex_Encode bs). c \<notin> set (concat space_encodings) \<and> is_ascii c \<and> ascii_lower c = c \<and> c \<noteq> CHR ''s''"
    using hex_Encode_chars [of bs] plain_hex_chars by blast
  show "TrimSpace (hex_Encode bs) = hex_Encode bs"
    by (rule TrimSpace_plain) (use plain in blast)
  have "list_all is_ascii (hex_Encode bs)" using plain by (simp add: list_all_iff)
  moreover have "map ascii_lower (hex_Encode bs) = hex_Encode bs" using plain by (simp add: map_idI)
  ultimately show "ToLower uc (hex_Encode bs) = hex_Encode bs" by (simp add: ToLower_def)
  show "\<not> HasPrefix (hex_Encode bs) (CHR ''s'' # p)"
  proof
    assume "HasPrefix (hex_Encode bs) (CHR ''s'' # p)"
    then obtain r where "hex_Encode bs = CHR ''s'' # p @ r" by (auto simp: HasPrefix_iff)
    with plain show False by simp
  qed
  show "hex_Encode bs = [] \<longleftrightarrow> bs = []" by (cases bs) (simp_all add: hex_Encode_def)
qed

section \<open>Decimal numbers\<close>

lemma digit_char_digit: "is_digit (digit_char n)"
proof -
  have "n mod 10 \<in> set [0..<10]" by simp
  moreover have "\<forall>k\<in>set [0..<10]. is_digit (char_of (48 + k))" by code_simp
  ultimately show ?thesis by simp
qed

lemma show_nat_digits: "list_all is_digit (show_nat n)"
proof (induction n rule: show_nat.induct)
  case (1 n)
  then show ?case
    by (simp add: show_nat.simps [of n] digit_char_digit del: digit_char.simps is_digit.simps)
qed

lemma show_nat_nonempty [simp]: "show_nat n \<noteq> []"
  by (simp add: show_nat.simps [of n])

lemma digits_value_snoc: "digits_value (s @ [digit_char n]) k = digits_value s k * 10 + int (n mod 10)"
  by (induction s arbitrary: k) (simp_all add: of_char_digit del: digit_char.simps)

lemma digits_value_show_nat [simp]: "digits_value (show_nat n) 0 = int n"
proof (induction n rule: show_nat.induct)
  case (1 n)
  show ?case
  proof (cases "n < 10")
    case True
    then show ?thesis
      using digits_value_snoc [of "[]" n 0] by (simp add: show_nat.simps [of n] del: digit_char.simps)
  next
    case False
    moreover have "int (n div 10) * 10 + int (n mod 10) = int n"
      by (metis div_mult_mod_eq of_nat_add of_nat_mult of_nat_numeral)
    ultimately show ?thesis
      using 1 by (simp add: show_nat.simps [of n] digits_value_snoc del: digit_char.simps)
  qed
qed

lemma Itoa_parts:
  assumes "0 \<le> n"
  obtains c s where "Itoa n = c # s" "c \<noteq> CHR ''-''" "c \<noteq> CHR ''+''" "list_all is_digit (c # s)" "digits_value (c # s) 0 = n"
proof -
  have eq: "Itoa n = show_nat (nat n)" using assms by (simp add: Itoa_def)
  obtain c s where cs: "show_nat (nat n) = c # s" by (cases "show_nat (nat n)") auto
  have "list_all is_digit (c # s)" using show_nat_digits [of "nat n"] cs by simp
  moreover have "\<not> is_digit (CHR ''-'')" "\<not> is_digit (CHR ''+'')" by code_simp+
  ultimately have "c \<noteq> CHR ''-''" "c \<noteq> CHR ''+''" by auto
  moreover have "digits_value (c # s) 0 = n" using cs assms digits_value_show_nat [of "nat n"] by simp
  ultimately show ?thesis using that eq cs \<open>list_all is_digit (c # s)\<close> by simp
qed

section \<open>Joining a file name to a directory\<close>

lemma split_char_nosep: "c \<notin> set s \<Longrightarrow> split_char c s = [s]"
  by (induction c s rule: split_char.induct) auto

lemma split_char_snoc: "c \<notin> set s \<Longrightarrow> split_char c (d @ c # s) = split_char c d @ [s]"
proof (induction d)
  case Nil
  then show ?case by (simp add: split_char_nosep)
next
  case (Cons x d)
  then show ?case by (cases "split_char c d") auto
qed

lemma clean_elems_snoc:
  "e \<noteq> [] \<Longrightarrow> e \<noteq> ''.'' \<Longrightarrow> e \<noteq> ''..'' \<Longrightarrow> clean_elems r acc (es @ [e]) = e # clean_elems r acc es"
  by (induction r acc es rule: clean_elems.induct) (auto split: list.splits)

lemma join_char_snoc: "\<exists>p. join_char c (xs @ [x]) = p @ x"
proof (induction xs rule: join_char.induct [of _ c])
  case (3 c x1 x2 xs)
  then show ?case by (metis append_Cons append_assoc join_char.simps(3))
qed auto

lemma path_Join_file:
  assumes "name \<noteq> []" "name \<noteq> ''.''" "name \<noteq> ''..''" "CHR ''/'' \<notin> set name"
  shows "\<exists>p. path_Join [dir, name] = p @ name"
proof -
  have tail: "\<exists>p. path_Clean q = p @ name" if "split_char (CHR ''/'') q = es @ [name]" for q es
  proof -
    let ?r = "q \<noteq> [] \<and> hd q = CHR ''/''"
    obtain p where p: "join_char (CHR ''/'') (rev (clean_elems ?r [] es) @ [name]) = p @ name" using join_char_snoc by blast
    have "clean_elems ?r [] (es @ [name]) = name # clean_elems ?r [] es" using assms by (intro clean_elems_snoc) auto
    with p that have "path_Clean q = p @ name \<or> path_Clean q = (CHR ''/'' # p) @ name"
      using assms(1) by (auto simp: path_Clean_def Let_def)
    then show ?thesis by blast
  qed
  show ?thesis
  proof (cases "dir = []")
    case True
    then show ?thesis using tail [of name "[]"] assms by (simp add: path_Join_def split_char_nosep)
  next
    case False
    then show ?thesis using tail [of "dir @ CHR ''/'' # name" "split_char (CHR ''/'') dir"] assms
      by (simp add: path_Join_def split_char_snoc)
  qed
qed

end
