(* ===== verification/Private_File.thy ===== *)
theory Private_File
  imports Go_Text
begin

text \<open>
  Atomic replacement of a private file, as internal/store/file.go does for the store and its backups
  and internal/auth/session.go for the sessions: create a temporary file beside the target, write,
  close, restrict its permissions and rename it over the target.

  The file system maps a path to a content and its permission bits. Contents are values of a type
  variable; an encoder from values to contents stands for the JSON encoder, which may fail. What the
  operating system answers to each call of a write is the record \<open>write_os\<close>. A write returns, besides
  its error, every state of the file system it goes through, so that a crash between two calls is one
  of them.
\<close>

section \<open>Writing a private file\<close>

type_synonym 'd fs = "(string, 'd \<times> nat) gomap"

record 'd write_os =
  os_mkdir :: "string option"
  os_chmod_dir :: "string option"
  os_temp :: "string + string" \<comment> \<open>the error or the name of the new file\<close>
  os_empty :: 'd
  os_partial :: "(string \<times> 'd) option" \<comment> \<open>the error of a failing write and what it leaves in the file\<close>
  os_close :: "string option"
  os_chmod :: "string option"
  os_rename :: "string option"

datatype write_error =
    CreateDirectory string
  | ChmodDirectory string
  | CreateTempFile string
  | EncodeJSON string
  | CloseTemp string
  | ChmodTemp string
  | ReplaceSnapshot string

definition private_perm :: nat where "private_perm = 384" \<comment> \<open>0600\<close>

definition writePrivateJSON ::
  "('v \<Rightarrow> string + 'd) \<Rightarrow> 'd write_os \<Rightarrow> string \<Rightarrow> 'v \<Rightarrow> 'd fs \<Rightarrow> write_error option \<times> 'd fs list" where
  "writePrivateJSON enc os path v fs =
     (case os_mkdir os of Some e \<Rightarrow> (Some (CreateDirectory e), [fs]) | None \<Rightarrow>
     (case (if path_Dir path \<noteq> ''.'' then os_chmod_dir os else None) of Some e \<Rightarrow> (Some (ChmodDirectory e), [fs]) | None \<Rightarrow>
     (case os_temp os of Inl e \<Rightarrow> (Some (CreateTempFile e), [fs]) | Inr tmp \<Rightarrow>
     (let fs1 = gm_set tmp (os_empty os, private_perm) fs in
     (case enc v of Inl e \<Rightarrow> (Some (EncodeJSON e), [fs, fs1, gm_del tmp fs1]) | Inr d \<Rightarrow>
     (case os_partial os of
        Some (e, p) \<Rightarrow> (let fs2 = gm_set tmp (p, private_perm) fs1 in (Some (EncodeJSON e), [fs, fs1, fs2, gm_del tmp fs2]))
      | None \<Rightarrow>
     (let fs2 = gm_set tmp (d, private_perm) fs1 in
     (case os_close os of Some e \<Rightarrow> (Some (CloseTemp e), [fs, fs1, fs2, gm_del tmp fs2]) | None \<Rightarrow>
     (case os_chmod os of Some e \<Rightarrow> (Some (ChmodTemp e), [fs, fs1, fs2, gm_del tmp fs2]) | None \<Rightarrow>
     (case os_rename os of Some e \<Rightarrow> (Some (ReplaceSnapshot e), [fs, fs1, fs2, gm_del tmp fs2]) | None \<Rightarrow>
       (None, [fs, fs1, fs2, gm_set path (d, private_perm) (gm_del tmp fs2)])))))))))))"

text \<open>os.CreateTemp makes a new file, in the directory of the target and never the target itself.\<close>

definition temp_fresh :: "'d write_os \<Rightarrow> string \<Rightarrow> 'd fs \<Rightarrow> bool" where
  "temp_fresh os path fs \<longleftrightarrow> (case os_temp os of Inl _ \<Rightarrow> True | Inr tmp \<Rightarrow> tmp \<noteq> path \<and> gm_get fs tmp = None)"

section \<open>Writing a file in place\<close>

datatype write_answer = WriteDone | WriteNotOpened string | WritePartial string "byte list"

definition WriteFile :: "write_answer \<Rightarrow> string \<Rightarrow> byte list \<Rightarrow> byte list fs \<Rightarrow> string option \<times> byte list fs" where
  \<comment> \<open>os.WriteFile with permission 0644: the file is truncated and written in place\<close>
  "WriteFile answer path data fs =
     (let perm = (case gm_get fs path of Some (_, p) \<Rightarrow> p | None \<Rightarrow> 420) in
      case answer of
        WriteDone \<Rightarrow> (None, gm_set path (data, perm) fs)
      | WriteNotOpened e \<Rightarrow> (Some e, fs)
      | WritePartial e p \<Rightarrow> (Some e, gm_set path (p, perm) fs))"

definition read_fs :: "byte list fs \<Rightarrow> string \<Rightarrow> string + byte list" where
  "read_fs fs path = (case gm_get fs path of None \<Rightarrow> Inl ''file does not exist'' | Some (d, _) \<Rightarrow> Inr d)"

section \<open>Atomic replacement\<close>

lemma write_success:
  assumes "writePrivateJSON enc os path v fs = (None, fss)"
  obtains d where "enc v = Inr d" and "gm_get (last fss) path = Some (d, private_perm)"
  using assms by (auto simp: writePrivateJSON_def Let_def split: option.splits sum.splits)

lemma write_other:
  assumes "writePrivateJSON enc os path v fs = (err, fss)" "temp_fresh os path fs" "q \<noteq> path"
  shows "gm_get (last fss) q = gm_get fs q"
  using assms
  by (auto simp: writePrivateJSON_def temp_fresh_def Let_def split: option.splits sum.splits if_splits)

lemma write_atomic:
  assumes "writePrivateJSON enc os path v fs = (err, fss)" and "temp_fresh os path fs"
  shows "(\<forall>fs'\<in>set fss. gm_get fs' path = gm_get fs path \<or>
      (\<exists>d. enc v = Inr d \<and> gm_get fs' path = Some (d, private_perm))) \<and>
    (err = None \<longrightarrow> (\<exists>d. enc v = Inr d \<and> gm_get (last fss) path = Some (d, private_perm))) \<and>
    (err \<noteq> None \<longrightarrow> gm_get (last fss) path = gm_get fs path) \<and>
    (\<forall>q. q \<noteq> path \<longrightarrow> gm_get (last fss) q = gm_get fs q)"
proof (intro conjI)
  show "\<forall>q. q \<noteq> path \<longrightarrow> gm_get (last fss) q = gm_get fs q" using write_other [OF assms] by blast
  show "err = None \<longrightarrow> (\<exists>d. enc v = Inr d \<and> gm_get (last fss) path = Some (d, private_perm))"
    using assms(1) write_success by metis
  show "err \<noteq> None \<longrightarrow> gm_get (last fss) path = gm_get fs path"
    using assms by (auto simp: writePrivateJSON_def temp_fresh_def Let_def split: option.splits sum.splits if_splits)
  show "\<forall>fs'\<in>set fss. gm_get fs' path = gm_get fs path \<or> (\<exists>d. enc v = Inr d \<and> gm_get fs' path = Some (d, private_perm))"
    using assms by (auto simp: writePrivateJSON_def temp_fresh_def Let_def split: option.splits sum.splits if_splits)
qed

text \<open>
  replacing a file is atomic. Wherever a write is interrupted, the target path holds either its
  previous content, or nothing if it did not exist, or the complete new content with permission 0600,
  never a partial one; if the write fails, the previous content is still there and no temporary file
  is left behind.
\<close>

lemma writePrivateJSON_atomic:
  assumes "writePrivateJSON enc os path v fs = (err, fss)" and "temp_fresh os path fs"
  shows "(\<forall>fs'\<in>set fss. gm_get fs' path = gm_get fs path \<or>
      (\<exists>d. enc v = Inr d \<and> gm_get fs' path = Some (d, private_perm))) \<and>
    (err = None \<longrightarrow> (\<exists>d. enc v = Inr d \<and> gm_get (last fss) path = Some (d, private_perm))) \<and>
    (err \<noteq> None \<longrightarrow> gm_get (last fss) path = gm_get fs path) \<and>
    (\<forall>q. q \<noteq> path \<longrightarrow> gm_get (last fss) q = gm_get fs q)"
  using assms by (rule write_atomic)

definition os_ok :: "'d write_os \<Rightarrow> string \<Rightarrow> 'd fs \<Rightarrow> bool" where
  \<comment> \<open>every call succeeds and the temporary file is new\<close>
  "os_ok os path fs \<longleftrightarrow> os_mkdir os = None \<and> os_chmod_dir os = None \<and> (\<exists>tmp. os_temp os = Inr tmp) \<and> os_partial os = None \<and>
     os_close os = None \<and> os_chmod os = None \<and> os_rename os = None \<and> temp_fresh os path fs"

lemma write_ok:
  assumes "os_ok os path fs" "enc v = Inr d"
  shows "\<exists>fss. writePrivateJSON enc os path v fs = (None, fss) \<and> gm_get (last fss) path = Some (d, private_perm)"
proof -
  obtain tmp where "os_temp os = Inr tmp" using assms(1) by (auto simp: os_ok_def)
  moreover have "(if path_Dir path \<noteq> ''.'' then os_chmod_dir os else None) = None" using assms(1) by (simp add: os_ok_def)
  ultimately show ?thesis using assms by (simp add: os_ok_def writePrivateJSON_def Let_def)
qed

section \<open>Witness\<close>

definition sample_os :: "'d \<Rightarrow> 'd write_os" where
  "sample_os d = \<lparr>os_mkdir = None, os_chmod_dir = None, os_temp = Inr ''/d/.store-1.tmp'', os_empty = d, os_partial = None,
     os_close = None, os_chmod = None, os_rename = None\<rparr>"

lemma sample_os_ok: "path \<noteq> ''/d/.store-1.tmp'' \<Longrightarrow> gm_get fs ''/d/.store-1.tmp'' = None \<Longrightarrow> os_ok (sample_os d) path fs"
  by (simp add: os_ok_def sample_os_def temp_fresh_def)

end
