(* ===== verification/Store_File.thy ===== *)
theory Store_File
  imports Store Private_File
begin

text \<open>
  The file-backed repository (internal/store/file.go) and its backups (internal/store/backup.go).

  \<open>enc\<close> and \<open>dec\<close> stand for the JSON encoder and decoder; the laws that are needed of them are
  hypotheses. Every method returns, besides its result, the states of the file system it goes through.
\<close>

section \<open>Snapshots on disk\<close>

definition saveSnapshot :: "(Snapshot \<Rightarrow> string + 'd) \<Rightarrow> 'd write_os \<Rightarrow> string \<Rightarrow> Snapshot \<Rightarrow> 'd fs \<Rightarrow> write_error option \<times> 'd fs list" where
  "saveSnapshot enc os path snapshot fs = writePrivateJSON enc os path snapshot fs"

datatype load_error = NotExist | OpenFailed string | DecodeFailed string

definition loadSnapshot :: "('d \<Rightarrow> string + Snapshot) \<Rightarrow> string option \<Rightarrow> string \<Rightarrow> 'd fs \<Rightarrow> load_error + Snapshot" where
  \<comment> \<open>\<open>open_err\<close> is an error of \<open>os.Open\<close> other than a missing file\<close>
  "loadSnapshot dec open_err path fs =
     (case open_err of Some e \<Rightarrow> Inl (OpenFailed e) | None \<Rightarrow>
     (case gm_get fs path of
        None \<Rightarrow> Inl NotExist
      | Some (d, _) \<Rightarrow> (case dec d of Inl e \<Rightarrow> Inl (DecodeFailed e) | Inr s \<Rightarrow> Inr s)))"

section \<open>The repository\<close>

record FileRepository =
  fr_Memory :: Memory
  fr_path :: string

datatype file_error = StorePathRequired | ELoad load_error

definition NewFileRepository :: "('d \<Rightarrow> string + Snapshot) \<Rightarrow> string option \<Rightarrow> string \<Rightarrow> 'd fs \<Rightarrow> file_error + FileRepository" where
  "NewFileRepository dec open_err path fs =
     (if path = [] then Inl StorePathRequired
      else case loadSnapshot dec open_err path fs of
        Inr snapshot \<Rightarrow> Inr \<lparr>fr_Memory = NewMemoryFromSnapshot snapshot, fr_path = path\<rparr>
      | Inl e \<Rightarrow> if e \<noteq> NotExist then Inl (ELoad e) else Inr \<lparr>fr_Memory = NewMemory, fr_path = path\<rparr>)"

definition FileRepository_save ::
  "(Snapshot \<Rightarrow> string + 'd) \<Rightarrow> 'd write_os \<Rightarrow> FileRepository \<Rightarrow> 'd fs \<Rightarrow> write_error option \<times> 'd fs list" where
  "FileRepository_save enc os r fs = saveSnapshot enc os (fr_path r) (Memory_Snapshot (fr_Memory r)) fs"

text \<open>
  Every mutating method calls the method of the embedded memory and, if it succeeded, saves the whole
  snapshot; the created object is returned together with the error of the save.
\<close>

datatype file_op_error = EStore store_error | ESave write_error

type_synonym ('r, 'd) file_result = "('r option \<times> file_op_error option) \<times> FileRepository \<times> 'd fs list"

definition saved ::
  "(Snapshot \<Rightarrow> string + 'd) \<Rightarrow> 'd write_os \<Rightarrow> (Memory \<Rightarrow> store_error + 'r \<times> Memory) \<Rightarrow> FileRepository \<Rightarrow> 'd fs \<Rightarrow> ('r, 'd) file_result" where
  "saved enc os op r fs =
     (case op (fr_Memory r) of
        Inl e \<Rightarrow> ((None, Some (EStore e)), r, [fs])
      | Inr (created, m) \<Rightarrow>
          let r = r\<lparr>fr_Memory := m\<rparr>
          in case FileRepository_save enc os r fs of (err, fss) \<Rightarrow> ((Some created, map_option ESave err), r, fss))"

definition FileRepository_CreateTenant where
  "FileRepository_CreateTenant enc os ctx n n' tenant r fs = saved enc os (CreateTenant ctx n n' tenant) r fs"
definition FileRepository_RegisterDevice where
  "FileRepository_RegisterDevice enc os ctx n n' device r fs = saved enc os (RegisterDevice ctx n n' device) r fs"
definition FileRepository_RegisterNode where
  "FileRepository_RegisterNode enc os ctx n n' node r fs = saved enc os (RegisterNode ctx n n' node) r fs"
definition FileRepository_RecordNodeHeartbeat where
  "FileRepository_RecordNodeHeartbeat enc os ctx n n' heartbeat r fs = saved enc os (RecordNodeHeartbeat ctx n n' heartbeat) r fs"
definition FileRepository_RetireNode where
  "FileRepository_RetireNode enc os ctx n n' tenantID nodeID r fs = saved enc os (RetireNode ctx n n' tenantID nodeID) r fs"
definition FileRepository_RecordTelemetry where
  "FileRepository_RecordTelemetry enc os uc ctx n n' report r fs = saved enc os (RecordTelemetry uc ctx n n' report) r fs"
definition FileRepository_UpsertPolicyRule where
  "FileRepository_UpsertPolicyRule enc os ctx n rule r fs = saved enc os (UpsertPolicyRule ctx n rule) r fs"
definition FileRepository_UpsertConfig where
  "FileRepository_UpsertConfig enc os ctx n n' bundle r fs = saved enc os (UpsertConfig ctx n n' bundle) r fs"
definition FileRepository_RecordAuditEvent where
  "FileRepository_RecordAuditEvent enc os ctx n event r fs = saved enc os (RecordAuditEvent ctx n event) r fs"

section \<open>Backups\<close>

record BackupCounts =
  Counts_Tenants :: nat
  Counts_Devices :: nat
  Counts_Nodes :: nat
  Counts_Policies :: nat
  Counts_Configs :: nat
  Counts_Telemetry :: nat
  Counts_Audit :: nat

record Backup =
  Backup_Version :: int
  Backup_CreatedAt :: time
  Backup_SnapshotSHA256 :: string
  Backup_Counts :: BackupCounts
  Backup_Snapshot :: Snapshot

definition BackupVersion :: int where "BackupVersion = 1"

definition countNestedMap :: "(string, (string, 'v) gomap) gomap \<Rightarrow> nat" where
  "countNestedMap values = fold (\<lambda>m total. total + length m) (gm_values values) 0"

definition countNestedSlice :: "(string, 'v list) gomap \<Rightarrow> nat" where
  "countNestedSlice values = fold (\<lambda>xs total. total + length xs) (gm_values values) 0"

definition countSnapshot :: "Snapshot \<Rightarrow> BackupCounts" where
  "countSnapshot s = \<lparr>Counts_Tenants = length (Snapshot_Tenants s), Counts_Devices = countNestedMap (Snapshot_Devices s),
     Counts_Nodes = countNestedMap (Snapshot_Nodes s), Counts_Policies = countNestedMap (Snapshot_Policies s),
     Counts_Configs = countNestedMap (Snapshot_Configs s), Counts_Telemetry = countNestedSlice (Snapshot_Telemetry s),
     Counts_Audit = countNestedSlice (Snapshot_Audit s)\<rparr>"

datatype backup_error =
    UnsupportedVersion int
  | BackupTimeRequired
  | ShaLength
  | ShaNotHex
  | MarshalFailed string
  | ShaMismatch
  | CountsMismatch
  | BackupPathRequired
  | RestorePathRequired
  | OpenBackup load_error
  | EWrite write_error

text \<open>\<open>marshal\<close> is json.Marshal of a snapshot and \<open>sum256\<close> is sha256.Sum256.\<close>

definition snapshotSHA256 :: "(Snapshot \<Rightarrow> string + 'b) \<Rightarrow> ('b \<Rightarrow> byte list) \<Rightarrow> Snapshot \<Rightarrow> backup_error + string" where
  "snapshotSHA256 marshal sum256 snapshot =
     (case marshal snapshot of Inl e \<Rightarrow> Inl (MarshalFailed e) | Inr data \<Rightarrow> Inr (hex_Encode (sum256 data)))"

definition Backup_Validate :: "(Snapshot \<Rightarrow> string + 'b) \<Rightarrow> ('b \<Rightarrow> byte list) \<Rightarrow> Backup \<Rightarrow> backup_error + unit" where
  "Backup_Validate marshal sum256 b =
     check (Backup_Version b \<noteq> BackupVersion) (UnsupportedVersion (Backup_Version b)) (
     check (IsZero (Backup_CreatedAt b)) BackupTimeRequired (
     check (length (Backup_SnapshotSHA256 b) \<noteq> 64) ShaLength (
     check (hex_Decode (Backup_SnapshotSHA256 b) = None) ShaNotHex (
     bind (snapshotSHA256 marshal sum256 (Backup_Snapshot b)) (\<lambda>sum.
     check (sum \<noteq> Backup_SnapshotSHA256 b) ShaMismatch (
     check (countSnapshot (Backup_Snapshot b) \<noteq> Backup_Counts b) CountsMismatch (Inr ())))))))"

definition NewBackup :: "(Snapshot \<Rightarrow> string + 'b) \<Rightarrow> ('b \<Rightarrow> byte list) \<Rightarrow> time \<Rightarrow> Snapshot \<Rightarrow> time \<Rightarrow> backup_error + Backup" where
  "NewBackup marshal sum256 now snapshot createdAt =
     (let createdAt = (if IsZero createdAt then now else createdAt) in
      bind (snapshotSHA256 marshal sum256 snapshot) (\<lambda>sum.
      let backup = \<lparr>Backup_Version = BackupVersion, Backup_CreatedAt = createdAt, Backup_SnapshotSHA256 = sum,
                    Backup_Counts = countSnapshot snapshot, Backup_Snapshot = snapshot\<rparr>
      in bind (Backup_Validate marshal sum256 backup) (\<lambda>_. Inr backup)))"

definition SaveBackup ::
  "(Snapshot \<Rightarrow> string + 'b) \<Rightarrow> ('b \<Rightarrow> byte list) \<Rightarrow> (Backup \<Rightarrow> string + 'd) \<Rightarrow> 'd write_os \<Rightarrow> string \<Rightarrow> Backup \<Rightarrow> 'd fs \<Rightarrow>
     backup_error option \<times> 'd fs list" where
  "SaveBackup marshal sum256 encb os path backup fs =
     (case Backup_Validate marshal sum256 backup of
        Inl e \<Rightarrow> (Some e, [fs])
      | Inr _ \<Rightarrow> (case writePrivateJSON encb os path backup fs of (err, fss) \<Rightarrow> (map_option EWrite err, fss)))"

definition FileRepository_Backup ::
  "(Snapshot \<Rightarrow> string + 'b) \<Rightarrow> ('b \<Rightarrow> byte list) \<Rightarrow> (Backup \<Rightarrow> string + 'd) \<Rightarrow> 'd write_os \<Rightarrow> time \<Rightarrow> string \<Rightarrow> time \<Rightarrow> FileRepository \<Rightarrow> 'd fs \<Rightarrow>
     (backup_error + Backup) \<times> 'd fs list" where
  "FileRepository_Backup marshal sum256 encb os now path createdAt r fs =
     (if path = [] then (Inl BackupPathRequired, [fs])
      else case NewBackup marshal sum256 now (Memory_Snapshot (fr_Memory r)) createdAt of
        Inl e \<Rightarrow> (Inl e, [fs])
      | Inr backup \<Rightarrow>
          (case SaveBackup marshal sum256 encb os path backup fs of
             (Some e, fss) \<Rightarrow> (Inl e, fss)
           | (None, fss) \<Rightarrow> (Inr backup, fss)))"

definition LoadBackup ::
  "(Snapshot \<Rightarrow> string + 'b) \<Rightarrow> ('b \<Rightarrow> byte list) \<Rightarrow> ('d \<Rightarrow> string + Backup) \<Rightarrow> string option \<Rightarrow> string \<Rightarrow> 'd fs \<Rightarrow> backup_error + Backup" where
  "LoadBackup marshal sum256 decb open_err path fs =
     (case open_err of Some e \<Rightarrow> Inl (OpenBackup (OpenFailed e)) | None \<Rightarrow>
     (case gm_get fs path of
        None \<Rightarrow> Inl (OpenBackup NotExist)
      | Some (d, _) \<Rightarrow>
          (case decb d of
             Inl e \<Rightarrow> Inl (OpenBackup (DecodeFailed e))
           | Inr backup \<Rightarrow> bind (Backup_Validate marshal sum256 backup) (\<lambda>_. Inr backup))))"

definition RestoreBackup ::
  "(Snapshot \<Rightarrow> string + 'b) \<Rightarrow> ('b \<Rightarrow> byte list) \<Rightarrow> (Snapshot \<Rightarrow> string + 'd) \<Rightarrow> 'd write_os \<Rightarrow> string \<Rightarrow> Backup \<Rightarrow> 'd fs \<Rightarrow>
     backup_error option \<times> 'd fs list" where
  "RestoreBackup marshal sum256 enc os path backup fs =
     (if path = [] then (Some RestorePathRequired, [fs])
      else case Backup_Validate marshal sum256 backup of
        Inl e \<Rightarrow> (Some e, [fs])
      | Inr _ \<Rightarrow> (case saveSnapshot enc os path (Backup_Snapshot backup) fs of (err, fss) \<Rightarrow> (map_option EWrite err, fss)))"

definition RestoreBackupFile ::
  "(Snapshot \<Rightarrow> string + 'b) \<Rightarrow> ('b \<Rightarrow> byte list) \<Rightarrow> (Snapshot \<Rightarrow> string + 'd) \<Rightarrow> ('d \<Rightarrow> string + Backup) \<Rightarrow> 'd write_os \<Rightarrow> string option \<Rightarrow>
     string \<Rightarrow> string \<Rightarrow> 'd fs \<Rightarrow> (backup_error + Backup) \<times> 'd fs list" where
  "RestoreBackupFile marshal sum256 enc decb os open_err storePath backupPath fs =
     (case LoadBackup marshal sum256 decb open_err backupPath fs of
        Inl e \<Rightarrow> (Inl e, [fs])
      | Inr backup \<Rightarrow>
          (case RestoreBackup marshal sum256 enc os storePath backup fs of
             (Some e, fss) \<Rightarrow> (Inl e, fss)
           | (None, fss) \<Rightarrow> (Inr backup, fss)))"

section \<open>Durability\<close>

text \<open>The calls of the file repository, as data.\<close>

datatype store_call =
    CallCreateTenant "ctx_error option" time time Tenant
  | CallRegisterDevice "ctx_error option" time time Device
  | CallRegisterNode "ctx_error option" time time Node
  | CallRecordNodeHeartbeat "ctx_error option" time time NodeHeartbeat
  | CallRetireNode "ctx_error option" time time string string
  | CallRecordTelemetry "string \<Rightarrow> string" "ctx_error option" time time Report
  | CallUpsertPolicyRule "ctx_error option" time Rule
  | CallUpsertConfig "ctx_error option" time time ConfigBundle
  | CallRecordAuditEvent "ctx_error option" time AuditEvent

definition outcome :: "('r, 'd) file_result \<Rightarrow> file_op_error option \<times> FileRepository \<times> 'd fs" where
  "outcome res = (snd (fst res), fst (snd res), last (snd (snd res)))"

fun file_call :: "(Snapshot \<Rightarrow> string + 'd) \<Rightarrow> 'd write_os \<Rightarrow> store_call \<Rightarrow> FileRepository \<Rightarrow> 'd fs \<Rightarrow> file_op_error option \<times> FileRepository \<times> 'd fs" where
  "file_call enc os (CallCreateTenant ctx n n' x) r fs = outcome (FileRepository_CreateTenant enc os ctx n n' x r fs)"
| "file_call enc os (CallRegisterDevice ctx n n' x) r fs = outcome (FileRepository_RegisterDevice enc os ctx n n' x r fs)"
| "file_call enc os (CallRegisterNode ctx n n' x) r fs = outcome (FileRepository_RegisterNode enc os ctx n n' x r fs)"
| "file_call enc os (CallRecordNodeHeartbeat ctx n n' x) r fs = outcome (FileRepository_RecordNodeHeartbeat enc os ctx n n' x r fs)"
| "file_call enc os (CallRetireNode ctx n n' t k) r fs = outcome (FileRepository_RetireNode enc os ctx n n' t k r fs)"
| "file_call enc os (CallRecordTelemetry uc ctx n n' x) r fs = outcome (FileRepository_RecordTelemetry enc os uc ctx n n' x r fs)"
| "file_call enc os (CallUpsertPolicyRule ctx n x) r fs = outcome (FileRepository_UpsertPolicyRule enc os ctx n x r fs)"
| "file_call enc os (CallUpsertConfig ctx n n' x) r fs = outcome (FileRepository_UpsertConfig enc os ctx n n' x r fs)"
| "file_call enc os (CallRecordAuditEvent ctx n x) r fs = outcome (FileRepository_RecordAuditEvent enc os ctx n x r fs)"

lemmas file_op_defs = FileRepository_CreateTenant_def FileRepository_RegisterDevice_def FileRepository_RegisterNode_def
  FileRepository_RecordNodeHeartbeat_def FileRepository_RetireNode_def FileRepository_RecordTelemetry_def
  FileRepository_UpsertPolicyRule_def FileRepository_UpsertConfig_def FileRepository_RecordAuditEvent_def

text \<open>A call is a step of the memory followed by a save, or an error without any effect.\<close>

lemma saved_step:
  assumes "outcome (saved enc os op r fs) = (err, r', fs')"
    and "\<And>x m'. op (fr_Memory r) = Inr (x, m') \<Longrightarrow> \<exists>l. store_step (fr_Memory r) l m'"
  shows "(\<exists>e. err = Some (EStore e) \<and> r' = r \<and> fs' = fs) \<or>
    (\<exists>l e fss. store_step (fr_Memory r) l (fr_Memory r') \<and> fr_path r' = fr_path r \<and> err = map_option ESave e \<and>
       FileRepository_save enc os r' fs = (e, fss) \<and> fs' = last fss)"
proof (cases "op (fr_Memory r)")
  case (Inl e)
  with assms(1) show ?thesis by (intro disjI1) (auto simp: outcome_def saved_def)
next
  case (Inr y)
  obtain x m' where y: "y = (x, m')" by (cases y)
  obtain e fss where s: "FileRepository_save enc os (r\<lparr>fr_Memory := m'\<rparr>) fs = (e, fss)" by fastforce
  with assms(1) Inr y have r': "r' = r\<lparr>fr_Memory := m'\<rparr>" "err = map_option ESave e" "fs' = last fss"
    by (auto simp: outcome_def saved_def)
  obtain l where "store_step (fr_Memory r) l m'" using assms(2) Inr y by blast
  with s r' show ?thesis by (intro disjI2 exI [of _ l] exI [of _ e] exI [of _ fss]) simp
qed

lemma file_call_step:
  assumes "file_call enc os c r fs = (err, r', fs')"
  shows "(\<exists>e. err = Some (EStore e) \<and> r' = r \<and> fs' = fs) \<or>
    (\<exists>l e fss. store_step (fr_Memory r) l (fr_Memory r') \<and> fr_path r' = fr_path r \<and> err = map_option ESave e \<and>
       FileRepository_save enc os r' fs = (e, fss) \<and> fs' = last fss)"
  proof (cases c)
    case (CallCreateTenant ctx n n' x)
    with assms have "outcome (saved enc os (CreateTenant ctx n n' x) r fs) = (err, r', fs')" by (simp add: file_op_defs)
    then show ?thesis by (rule saved_step) (blast intro: store_step.step_tenant)
  next
    case (CallRegisterDevice ctx n n' x)
    with assms have "outcome (saved enc os (RegisterDevice ctx n n' x) r fs) = (err, r', fs')" by (simp add: file_op_defs)
    then show ?thesis by (rule saved_step) (blast intro: store_step.step_device)
  next
    case (CallRegisterNode ctx n n' x)
    with assms have "outcome (saved enc os (RegisterNode ctx n n' x) r fs) = (err, r', fs')" by (simp add: file_op_defs)
    then show ?thesis by (rule saved_step) (blast intro: store_step.step_node)
  next
    case (CallRecordNodeHeartbeat ctx n n' x)
    with assms have "outcome (saved enc os (RecordNodeHeartbeat ctx n n' x) r fs) = (err, r', fs')" by (simp add: file_op_defs)
    then show ?thesis by (rule saved_step) (blast intro: store_step.step_heartbeat)
  next
    case (CallRetireNode ctx n n' t k)
    with assms have "outcome (saved enc os (RetireNode ctx n n' t k) r fs) = (err, r', fs')" by (simp add: file_op_defs)
    then show ?thesis by (rule saved_step) (blast intro: store_step.step_retire)
  next
    case (CallRecordTelemetry uc ctx n n' x)
    with assms have "outcome (saved enc os (RecordTelemetry uc ctx n n' x) r fs) = (err, r', fs')" by (simp add: file_op_defs)
    then show ?thesis by (rule saved_step) (blast intro: store_step.step_telemetry)
  next
    case (CallUpsertPolicyRule ctx n x)
    with assms have "outcome (saved enc os (UpsertPolicyRule ctx n x) r fs) = (err, r', fs')" by (simp add: file_op_defs)
    then show ?thesis by (rule saved_step) (blast intro: store_step.step_policy)
  next
    case (CallUpsertConfig ctx n n' x)
    with assms have "outcome (saved enc os (UpsertConfig ctx n n' x) r fs) = (err, r', fs')" by (simp add: file_op_defs)
    then show ?thesis by (rule saved_step) (blast intro: store_step.step_config)
  next
    case (CallRecordAuditEvent ctx n x)
    with assms have "outcome (saved enc os (RecordAuditEvent ctx n x) r fs) = (err, r', fs')" by (simp add: file_op_defs)
    then show ?thesis by (rule saved_step) (blast intro: store_step.step_audit)
  qed

text \<open>
  C22: durability. If decoding undoes the encoding of the new snapshot (as JSON does for valid UTF-8
  strings and without empty optional maps) and the repository is well-formed, then after a call that reported no error, opening the file again gives a repository with exactly the same state;
  a call that was rejected by the store changed neither the memory nor the disk; and a call whose save
  failed left the file as it was.
\<close>

theorem file_call_durable:
  assumes "\<And>d. enc (Memory_Snapshot (fr_Memory r')) = Inr d \<Longrightarrow> dec d = Inr (Memory_Snapshot (fr_Memory r'))"
    and "store_ok (fr_Memory r)" and "fr_path r \<noteq> []"
    and "temp_fresh os (fr_path r) fs" and "file_call enc os c r fs = (err, r', fs')"
  shows "store_ok (fr_Memory r') \<and>
    (case err of
       None \<Rightarrow> NewFileRepository dec None (fr_path r) fs' = Inr r'
     | Some (EStore e) \<Rightarrow> r' = r \<and> fs' = fs
     | Some (ESave e) \<Rightarrow> gm_get fs' (fr_path r) = gm_get fs (fr_path r))"
  using file_call_step [OF assms(5)]
proof (elim disjE exE conjE)
  fix e assume "err = Some (EStore e)" "r' = r" "fs' = fs"
  with assms(2) show ?thesis by simp
next
  fix l e fss
  assume st: "store_step (fr_Memory r) l (fr_Memory r')" and p: "fr_path r' = fr_path r" and err: "err = map_option ESave e"
    and w: "FileRepository_save enc os r' fs = (e, fss)" and fs': "fs' = last fss"
  have ok: "store_ok (fr_Memory r')" by (rule store_step_keeps [OF st assms(2)])
  have wr: "writePrivateJSON enc os (fr_path r) (Memory_Snapshot (fr_Memory r')) fs = (e, fss)"
    using w p by (simp add: FileRepository_save_def saveSnapshot_def)
  show ?thesis
  proof (cases e)
    case None
    with wr obtain d where "enc (Memory_Snapshot (fr_Memory r')) = Inr d" "gm_get fs' (fr_path r) = Some (d, private_perm)"
      using write_success fs' by metis
    with assms(1,3) ok p None err show ?thesis
      by (simp add: NewFileRepository_def loadSnapshot_def snapshot_inverse)
  next
    case (Some x)
    with ok err write_atomic [OF wr assms(4)] fs' show ?thesis by simp
  qed
qed

section \<open>Backup and restore\<close>

lemma snapshotSHA256_shape:
  assumes "snapshotSHA256 marshal sum256 s = Inr sha" and "\<And>x. length (sum256 x) = 32"
  shows "length sha = 64 \<and> hex_Decode sha \<noteq> None"
  using assms by (auto simp: snapshotSHA256_def split: sum.splits)

lemma NewBackup_ok:
  assumes "snapshotSHA256 marshal sum256 s = Inr sha" and "\<And>x. length (sum256 x) = 32"
    and "\<not> IsZero createdAt \<or> \<not> IsZero now"
  obtains b where "NewBackup marshal sum256 now s createdAt = Inr b" "Backup_Validate marshal sum256 b = Inr ()" "Backup_Snapshot b = s"
proof -
  let ?b = "\<lparr>Backup_Version = BackupVersion, Backup_CreatedAt = (if IsZero createdAt then now else createdAt),
    Backup_SnapshotSHA256 = sha, Backup_Counts = countSnapshot s, Backup_Snapshot = s\<rparr>"
  have v: "Backup_Validate marshal sum256 ?b = Inr ()"
    using snapshotSHA256_shape [OF assms(1,2)] assms by (auto simp: Backup_Validate_def)
  have "NewBackup marshal sum256 now s createdAt = Inr ?b" using assms(1) v by (simp add: NewBackup_def Let_def)
  then show thesis using v by (rule that) simp
qed

text \<open>
  backup and restore round trip. Given a hash of 32 bytes, a creation time and codecs that are
  inverse on the data at hand, a backup of a well-formed repository succeeds if the disk does; restoring
  the backup file into any store path then succeeds, and a repository opened there has the state
  that was backed up.
\<close>

lemma backup_restore_roundtrip:
  fixes r :: FileRepository
  defines "snap \<equiv> Memory_Snapshot (fr_Memory r)"
  assumes "store_ok (fr_Memory r)" and "\<exists>x. marshal snap = Inr x" and "\<And>x. length (sum256 x) = 32"
    and "\<exists>d. enc snap = Inr d \<and> dec d = Inr snap"
    and "\<And>b. Backup_Snapshot b = snap \<Longrightarrow> \<exists>d. encb b = Inr d \<and> decb d = Inr b"
    and "\<not> IsZero createdAt \<or> \<not> IsZero now" and "bpath \<noteq> []" and "spath \<noteq> []" and "os_ok os bpath fs"
  shows "\<exists>b fss. FileRepository_Backup marshal sum256 encb os now bpath createdAt r fs = (Inr b, fss) \<and>
    (\<forall>os'. os_ok os' spath (last fss) \<longrightarrow>
      (\<exists>fss'. RestoreBackupFile marshal sum256 enc decb os' None spath bpath (last fss) = (Inr b, fss') \<and>
         NewFileRepository dec None spath (last fss') = Inr \<lparr>fr_Memory = fr_Memory r, fr_path = spath\<rparr>))"
proof -
  obtain sha where sha: "snapshotSHA256 marshal sum256 snap = Inr sha" using assms(3) by (auto simp: snapshotSHA256_def)
  obtain b where b: "NewBackup marshal sum256 now snap createdAt = Inr b" "Backup_Validate marshal sum256 b = Inr ()"
    "Backup_Snapshot b = snap" using NewBackup_ok [OF sha assms(4,7)] .
  obtain db where db: "encb b = Inr db" "decb db = Inr b" using assms(6) b(3) by blast
  obtain fss where w: "writePrivateJSON encb os bpath b fs = (None, fss)" "gm_get (last fss) bpath = Some (db, private_perm)"
    using write_ok [of os bpath fs encb b db] assms(10) db(1) by blast
  obtain d where d: "enc snap = Inr d" "dec d = Inr snap" using assms(5) by blast
  have bk: "FileRepository_Backup marshal sum256 encb os now bpath createdAt r fs = (Inr b, fss)"
    using assms(8) b w by (simp add: FileRepository_Backup_def SaveBackup_def snap_def)
  have "\<exists>fss'. RestoreBackupFile marshal sum256 enc decb os' None spath bpath (last fss) = (Inr b, fss') \<and>
      NewFileRepository dec None spath (last fss') = Inr \<lparr>fr_Memory = fr_Memory r, fr_path = spath\<rparr>"
    if os': "os_ok os' spath (last fss)" for os'
  proof -
    obtain fss' where w': "writePrivateJSON enc os' spath snap (last fss) = (None, fss')"
      "gm_get (last fss') spath = Some (d, private_perm)"
      using write_ok [of os' spath "last fss" enc snap d] os' d(1) by blast
    have "RestoreBackupFile marshal sum256 enc decb os' None spath bpath (last fss) = (Inr b, fss')"
      using assms(9) b db w w' by (simp add: RestoreBackupFile_def LoadBackup_def RestoreBackup_def saveSnapshot_def)
    moreover have "NewFileRepository dec None spath (last fss') = Inr \<lparr>fr_Memory = fr_Memory r, fr_path = spath\<rparr>"
      using assms(2,9) w'(2) d(2) by (simp add: NewFileRepository_def loadSnapshot_def snap_def snapshot_inverse)
    ultimately show ?thesis by blast
  qed
  with bk show ?thesis by blast
qed

section \<open>Concurrent saves\<close>

lemma tenant_in_CreateTenant:
  "CreateTenant ctx n n' x m = Inr (r, m') \<Longrightarrow> tenant_in m' t \<longleftrightarrow> t = Tenant_ID x \<or> tenant_in m t"
  "CreateTenant ctx n n' x m = Inr (r, m') \<Longrightarrow> \<not> tenant_in m (Tenant_ID x)"
  by (auto simp: CreateTenant_def tenant_in_def auditLocked_def Let_def gm_has_def split: if_splits)

text \<open>
  the lock of the memory does not cover the save. When two calls create tenants and the one that
  took its snapshot first writes it last, both report success and the memory has both tenants, but a
  repository opened from the file has only the first.
\<close>

lemma concurrent_saves_lose_update:
  assumes "CreateTenant None n n' a NewMemory = Inr (ra, m1)" and "CreateTenant None k k' b m1 = Inr (rb, m2)"
    and "saveSnapshot enc os2 path (Memory_Snapshot m2) fs = (None, fss2)"
    and "saveSnapshot enc os1 path (Memory_Snapshot m1) (last fss2) = (None, fss1)"
    and "\<And>d. enc (Memory_Snapshot m1) = Inr d \<Longrightarrow> dec d = Inr (Memory_Snapshot m1)" and "path \<noteq> []"
  shows "tenant_in m2 (Tenant_ID a) \<and> tenant_in m2 (Tenant_ID b) \<and>
    (\<exists>r. NewFileRepository dec None path (last fss1) = Inr r \<and>
       tenant_in (fr_Memory r) (Tenant_ID a) \<and> \<not> tenant_in (fr_Memory r) (Tenant_ID b))"
proof -
  have ok: "store_ok m1" by (rule store_step_keeps [OF step_tenant [OF assms(1)] store_ok_NewMemory])
  obtain d where d: "enc (Memory_Snapshot m1) = Inr d" "gm_get (last fss1) path = Some (d, private_perm)"
    using write_success assms(4) unfolding saveSnapshot_def by metis
  have "NewFileRepository dec None path (last fss1) = Inr \<lparr>fr_Memory = m1, fr_path = path\<rparr>"
    using d assms(5) [OF d(1)] assms(6) ok by (simp add: NewFileRepository_def loadSnapshot_def snapshot_inverse)
  then show ?thesis
    using tenant_in_CreateTenant [OF assms(1)] tenant_in_CreateTenant [OF assms(2)] by auto
qed

section \<open>Witnesses\<close>

abbreviation sample_repo :: FileRepository where
  "sample_repo \<equiv> \<lparr>fr_Memory = sample_m3, fr_path = ''/d/s.json''\<rparr>"

theorem file_call_durable_witness:
  "\<exists>r' fs'. file_call (Inr :: Snapshot \<Rightarrow> string + Snapshot) (sample_os (Memory_Snapshot NewMemory))
      (CallRetireNode None 30 31 ''t1'' ''n1'') sample_repo [] = (None, r', fs') \<and>
     NewFileRepository Inr None ''/d/s.json'' fs' = Inr r' \<and> \<not> gm_has (inner (mem_nodes (fr_Memory r')) ''t1'') ''n1''"
proof -
  let ?c = "file_call (Inr :: Snapshot \<Rightarrow> string + Snapshot) (sample_os (Memory_Snapshot NewMemory))
      (CallRetireNode None 30 31 ''t1'' ''n1'') sample_repo []"
  obtain err r' fs' where c: "?c = (err, r', fs')" by (metis prod.exhaust)
  have "fst ?c = None" "\<not> gm_has (inner (mem_nodes (fr_Memory (fst (snd ?c)))) ''t1'') ''n1''" by code_simp+
  with c have e: "err = None" "\<not> gm_has (inner (mem_nodes (fr_Memory r')) ''t1'') ''n1''" by simp_all
  have "temp_fresh (sample_os (Memory_Snapshot NewMemory)) (fr_path sample_repo) []"
    by (simp add: temp_fresh_def sample_os_def)
  from file_call_durable [of Inr r' Inr sample_repo, OF _ _ _ this c] sample_ok e(1)
  have "NewFileRepository Inr None ''/d/s.json'' fs' = Inr r'" by simp
  with c e show ?thesis by blast
qed

definition sample_bytes :: "Snapshot \<Rightarrow> byte list" where
  "sample_bytes s = replicate 32 0"

definition other_tenant :: Tenant where
  "other_tenant = \<lparr>Tenant_ID = ''t2'', Tenant_Name = ''two'', Tenant_CreatedAt = 0\<rparr>"

definition both_tenants :: Memory where
  "both_tenants = result_state (CreateTenant None 7 8 other_tenant sample_m1)"

end
