(* ===== verification/Transport.thy ===== *)
theory Transport
  imports Prelude
begin

text \<open>
  Transport selection on the client (internal/transport: protocol.go, selector.go, probe.go and
  runtime.go). Link signals are measured by probes, the selector turns them into a protocol and the
  switch runtime applies the selection, subject to a cooldown. Protocols and link classes are Go
  string types, so every string is a value of them.

  What the code calls outside the program is a parameter: \<open>pct\<close> is the rendering of a rate by
  \<open>fmt\<close>'s \<open>%.0f\<close>, the outcomes of the socket operations are arguments of the probes, and the apply
  function and the reporter of the switch runtime act on a state of their own type.
\<close>

section \<open>Protocols and signals\<close>

type_synonym Protocol = string
type_synonym LinkClass = string

definition ProtocolWireGuard :: Protocol where [go_defs]: "ProtocolWireGuard = ''native-wireguard''"
definition ProtocolHysteria2 :: Protocol where [go_defs]: "ProtocolHysteria2 = ''hysteria2''"
definition ProtocolReality :: Protocol where [go_defs]: "ProtocolReality = ''reality''"
definition ProtocolTUIC :: Protocol where [go_defs]: "ProtocolTUIC = ''tuic''"

definition KnownProtocol :: "Protocol \<Rightarrow> bool" where
  "KnownProtocol p \<longleftrightarrow> p = ProtocolWireGuard \<or> p = ProtocolHysteria2 \<or> p = ProtocolReality \<or> p = ProtocolTUIC"

definition LinkUnknown :: LinkClass where [go_defs]: "LinkUnknown = ''unknown''"
definition LinkDedicated :: LinkClass where [go_defs]: "LinkDedicated = ''dedicated''"
definition LinkPublic :: LinkClass where [go_defs]: "LinkPublic = ''public''"
definition LinkMobile :: LinkClass where [go_defs]: "LinkMobile = ''mobile''"

record Signals =
  Signals_LinkClass :: LinkClass
  Signals_UDPAvailable :: bool
  Signals_QoSRisk :: bool
  Signals_DPIRisk :: bool
  Signals_RTTMillis :: int
  Signals_PacketLossPermil :: int
  Signals_JitterMillis :: int
  Signals_HandshakeSuccess :: "(Protocol, float64) gomap"

datatype signals_error =
    LinkClassRequired
  | RTTNegative
  | PacketLossNegative
  | JitterNegative
  | UnknownHandshakeProtocol Protocol
  | HandshakeRateRange Protocol

fun validate_rates :: "(Protocol \<times> float64) list \<Rightarrow> signals_error + unit" where
  "validate_rates [] = Inr ()"
| "validate_rates ((protocol, rate) # rest) =
     check (\<not> KnownProtocol protocol) (UnknownHandshakeProtocol protocol) (
     check (f_less rate (Fin 0) \<or> f_less (Fin 1) rate) (HandshakeRateRange protocol) (
     validate_rates rest))"

definition Signals_Validate :: "Signals \<Rightarrow> signals_error + unit" where
  "Signals_Validate s =
     check (Signals_LinkClass s = []) LinkClassRequired (
     check (Signals_RTTMillis s < 0) RTTNegative (
     check (Signals_PacketLossPermil s < 0) PacketLossNegative (
     check (Signals_JitterMillis s < 0) JitterNegative (
     validate_rates (Signals_HandshakeSuccess s)))))"

section \<open>The selector\<close>

definition MinHandshakeSuccessRate :: float64 where
  "MinHandshakeSuccessRate = Fin (1 / 2)"

record Selection =
  Selection_Protocol :: Protocol
  Selection_Reason :: string
  Selection_Fallbacks :: "Protocol list"

definition fallbacks :: "Protocol \<Rightarrow> Protocol list" where
  "fallbacks protocol =
     (if protocol = ProtocolWireGuard then [ProtocolHysteria2, ProtocolReality, ProtocolTUIC]
      else if protocol = ProtocolHysteria2 then [ProtocolReality, ProtocolTUIC, ProtocolWireGuard]
      else if protocol = ProtocolReality then [ProtocolHysteria2, ProtocolTUIC, ProtocolWireGuard]
      else if protocol = ProtocolTUIC then [ProtocolHysteria2, ProtocolReality, ProtocolWireGuard]
      else [ProtocolHysteria2, ProtocolReality, ProtocolTUIC, ProtocolWireGuard])"

definition selection :: "Protocol \<Rightarrow> string \<Rightarrow> Selection" where
  "selection protocol reason =
     \<lparr>Selection_Protocol = protocol, Selection_Reason = reason, Selection_Fallbacks = fallbacks protocol\<rparr>"

definition fallback_reason :: "(float64 \<Rightarrow> string) \<Rightarrow> Selection \<Rightarrow> float64 \<Rightarrow> Protocol \<Rightarrow> string" where
  "fallback_reason pct selected rate fallback =
     Selection_Reason selected @ ''; '' @ Selection_Protocol selected @ '' handshake success '' @ pct rate @
     ''% below threshold, fallback to '' @ fallback"

fun try_fallbacks :: "(float64 \<Rightarrow> string) \<Rightarrow> Selection \<Rightarrow> float64 \<Rightarrow> Signals \<Rightarrow> Protocol list \<Rightarrow> Selection" where
  \<comment> \<open>the loop over \<open>selected.Fallbacks\<close>\<close>
  "try_fallbacks pct selected rate signals [] = selected"
| "try_fallbacks pct selected rate signals (fallback # rest) =
     (case gm_get (Signals_HandshakeSuccess signals) fallback of
        Some fallbackRate \<Rightarrow>
          if f_ge fallbackRate MinHandshakeSuccessRate
          then selection fallback (fallback_reason pct selected rate fallback)
          else try_fallbacks pct selected rate signals rest
      | None \<Rightarrow> try_fallbacks pct selected rate signals rest)"

definition applyHandshakeFallback :: "(float64 \<Rightarrow> string) \<Rightarrow> Selection \<Rightarrow> Signals \<Rightarrow> Selection" where
  "applyHandshakeFallback pct selected signals =
     (case gm_get (Signals_HandshakeSuccess signals) (Selection_Protocol selected) of
        None \<Rightarrow> selected
      | Some rate \<Rightarrow>
          if f_ge rate MinHandshakeSuccessRate then selected
          else try_fallbacks pct selected rate signals (Selection_Fallbacks selected))"

definition Select :: "(float64 \<Rightarrow> string) \<Rightarrow> Signals \<Rightarrow> Selection" where
  "Select pct signals =
     (case Signals_Validate signals of
        Inl _ \<Rightarrow> selection ProtocolHysteria2 ''invalid link signals; use primary cross-border transport''
      | Inr _ \<Rightarrow>
          if \<not> Signals_UDPAvailable signals
          then applyHandshakeFallback pct (selection ProtocolReality ''udp unavailable; choose tls-shaped fallback'') signals
          else if Signals_DPIRisk signals \<or> Signals_QoSRisk signals
          then applyHandshakeFallback pct (selection ProtocolReality ''dpi or qos risk detected'') signals
          else
            let selected =
              (if Signals_LinkClass signals = LinkDedicated
               then selection ProtocolWireGuard ''dedicated or trusted link detected''
               else if Signals_LinkClass signals = LinkMobile
               then selection ProtocolHysteria2 ''mobile link detected; prefer quic transport''
               else if Signals_LinkClass signals = LinkPublic \<or> Signals_LinkClass signals = LinkUnknown
               then selection ProtocolHysteria2 ''public link detected; prefer primary cross-border transport''
               else selection ProtocolHysteria2 ''unclassified link; use primary cross-border transport'')
            in applyHandshakeFallback pct selected signals)"

section \<open>Probes\<close>

record ProbeTarget =
  ProbeTarget_Network :: string
  ProbeTarget_Address :: string
  ProbeTarget_Timeout :: duration

datatype probe_error =
    ProbeNetworkRequired
  | ProbeAddressRequired
  | UnsupportedProbeNetwork string
  | ProbeFailed string

text \<open>An empty \<open>Error\<close> string is \<open>None\<close>.\<close>

record ProbeResult =
  ProbeResult_Network :: string
  ProbeResult_Address :: string
  ProbeResult_RTTMillis :: int
  ProbeResult_Success :: bool
  ProbeResult_Error :: "probe_error option"
  ProbeResult_CheckedAt :: time

text \<open>
  The outcomes of the socket operations of one probe, each an error message or \<open>None\<close>, and the two
  clock readings around it.
\<close>

record Socket =
  sock_dial :: "string option"
  sock_deadline :: "string option"
  sock_write :: "string option"
  sock_read :: "string option"
  sock_close :: "string option"
  sock_elapsed :: duration

definition probePayload :: string where
  "probePayload = ''anixops-probe''"

definition probeTCP :: "Socket \<Rightarrow> string option" where
  "probeTCP s = (case sock_dial s of Some e \<Rightarrow> Some e | None \<Rightarrow> sock_close s)"

definition probeUDP :: "Socket \<Rightarrow> string option" where
  \<comment> \<open>dial, set the deadline, write the payload, read the echo; the close is deferred and its error dropped\<close>
  "probeUDP s =
     (case sock_dial s of Some e \<Rightarrow> Some e | None \<Rightarrow>
     (case sock_deadline s of Some e \<Rightarrow> Some e | None \<Rightarrow>
     (case sock_write s of Some e \<Rightarrow> Some e | None \<Rightarrow> sock_read s)))"

definition Milliseconds :: "duration \<Rightarrow> int" where
  "Milliseconds d = quot d 1000000"

definition Probe :: "(string \<Rightarrow> string) \<Rightarrow> (string \<Rightarrow> string \<Rightarrow> duration \<Rightarrow> Socket) \<Rightarrow> ProbeTarget \<Rightarrow> time \<Rightarrow> ProbeResult" where
  \<comment> \<open>\<open>net network address timeout\<close> gives the outcomes of the socket operations\<close>
  "Probe uc net target now =
     (let result = \<lparr>ProbeResult_Network = ToLower uc (TrimSpace (ProbeTarget_Network target)),
                    ProbeResult_Address = TrimSpace (ProbeTarget_Address target),
                    ProbeResult_RTTMillis = 0, ProbeResult_Success = False, ProbeResult_Error = None,
                    ProbeResult_CheckedAt = now\<rparr>
      in if ProbeResult_Network result = [] then result\<lparr>ProbeResult_Error := Some ProbeNetworkRequired\<rparr>
      else if ProbeResult_Address result = [] then result\<lparr>ProbeResult_Error := Some ProbeAddressRequired\<rparr>
      else let timeout = (if ProbeTarget_Timeout target \<le> 0 then nsecond else ProbeTarget_Timeout target);
               sock = net (ProbeResult_Network result) (ProbeResult_Address result) timeout;
               err = (if ProbeResult_Network result \<in> {''tcp'', ''tcp4'', ''tcp6''} then map_option ProbeFailed (probeTCP sock)
                      else if ProbeResult_Network result \<in> {''udp'', ''udp4'', ''udp6''} then map_option ProbeFailed (probeUDP sock)
                      else Some (UnsupportedProbeNetwork (ProbeResult_Network result)))
      in case err of
           Some e \<Rightarrow> result\<lparr>ProbeResult_Error := Some e\<rparr>
         | None \<Rightarrow> result\<lparr>ProbeResult_Success := True, ProbeResult_RTTMillis := Milliseconds (sock_elapsed sock)\<rparr>)"

fun probe_totals :: "ProbeResult list \<Rightarrow> int \<times> int \<times> int \<times> bool \<Rightarrow> int \<times> int \<times> int \<times> bool" where
  \<comment> \<open>the loop over the results: failures, successes, total round-trip time, a UDP probe succeeded\<close>
  "probe_totals [] acc = acc"
| "probe_totals (result # results) (failures, successes, totalRTT, udp) =
     (if \<not> ProbeResult_Success result
      then probe_totals results (wrap64 (failures + 1), successes, totalRTT, udp)
      else probe_totals results (failures, wrap64 (successes + 1), wrap64 (totalRTT + ProbeResult_RTTMillis result),
             udp \<or> HasPrefix (ProbeResult_Network result) ''udp''))"

definition SignalsFromProbeResults :: "LinkClass \<Rightarrow> ProbeResult list \<Rightarrow> Signals" where
  "SignalsFromProbeResults linkClass results =
     (let signals = \<lparr>Signals_LinkClass = (if linkClass = [] then LinkUnknown else linkClass),
            Signals_UDPAvailable = False, Signals_QoSRisk = False, Signals_DPIRisk = False,
            Signals_RTTMillis = 0, Signals_PacketLossPermil = 0, Signals_JitterMillis = 0,
            Signals_HandshakeSuccess = []\<rparr>
      in if results = [] then signals
      else case probe_totals results (0, 0, 0, False) of (failures, successes, totalRTT, udp) \<Rightarrow>
        let rtt = (if successes > 0 then quot totalRTT successes else 0);
            loss = quot (wrap64 (failures * 1000)) (int (length results))
        in signals\<lparr>Signals_UDPAvailable := udp, Signals_RTTMillis := rtt, Signals_PacketLossPermil := loss,
             Signals_QoSRisk := (loss \<ge> 100 \<or> rtt \<ge> 250)\<rparr>)"

text \<open>
  The probe loop wakes once per element of its schedule: a clock reading for the round and then
  either the ticker or the end of the context with its error. It returns what it handed to the
  handler and, if the schedule ends the context, the context's error.
\<close>

datatype probe_loop_error =
    ProberRequired
  | ProbeTargetRequired
  | ProbeIntervalPositive
  | SignalHandlerRequired
  | ProbeLoopCtx string

fun probe_rounds ::
  "(ProbeTarget \<Rightarrow> time \<Rightarrow> ProbeResult) \<Rightarrow> ProbeTarget list \<Rightarrow> LinkClass \<Rightarrow> (time \<times> string option) list \<Rightarrow>
     Signals list \<times> probe_loop_error option" where
  "probe_rounds prober targets linkClass [] = ([], None)"
| "probe_rounds prober targets linkClass ((now, done) # rest) =
     (let handled = SignalsFromProbeResults linkClass (map (\<lambda>target. prober target now) targets)
      in case done of
           Some err \<Rightarrow> ([handled], Some (ProbeLoopCtx err))
         | None \<Rightarrow> (case probe_rounds prober targets linkClass rest of (hs, r) \<Rightarrow> (handled # hs, r)))"

definition RunProbeLoop ::
  "(ProbeTarget \<Rightarrow> time \<Rightarrow> ProbeResult) option \<Rightarrow> ProbeTarget list \<Rightarrow> LinkClass \<Rightarrow> duration \<Rightarrow> bool \<Rightarrow>
     (time \<times> string option) list \<Rightarrow> Signals list \<times> probe_loop_error option" where
  \<comment> \<open>\<open>handler\<close> says whether a handler was given\<close>
  "RunProbeLoop prober targets linkClass interval handler schedule =
     (case prober of
        None \<Rightarrow> ([], Some ProberRequired)
      | Some p \<Rightarrow>
          if targets = [] then ([], Some ProbeTargetRequired)
          else if interval \<le> 0 then ([], Some ProbeIntervalPositive)
          else if \<not> handler then ([], Some SignalHandlerRequired)
          else probe_rounds p targets linkClass schedule)"

section \<open>The switch runtime\<close>

record SwitchReport =
  SwitchReport_Previous :: Protocol
  SwitchReport_Selected :: Protocol
  SwitchReport_Applied :: bool
  SwitchReport_Suppressed :: bool
  SwitchReport_RolledBack :: bool
  SwitchReport_Reason :: string
  SwitchReport_Error :: string
  SwitchReport_Signals :: Signals
  SwitchReport_EvaluatedAt :: time

type_synonym 'w ApplyFunc = "Protocol \<Rightarrow> 'w \<Rightarrow> string option \<times> 'w"
type_synonym 'w SwitchReporter = "SwitchReport \<Rightarrow> 'w \<Rightarrow> string option \<times> 'w"

record SwitchRuntime =
  sr_active :: Protocol
  sr_cooldown :: duration
  sr_lastSwitch :: time

datatype switch_error =
    ActiveProtocolUnknown Protocol
  | CooldownNegative
  | ESignals signals_error
  | ApplyRequired
  | ReportFailed string

definition NewSwitchRuntime :: "Protocol \<Rightarrow> duration \<Rightarrow> switch_error + SwitchRuntime" where
  "NewSwitchRuntime active cooldown =
     check (\<not> KnownProtocol active) (ActiveProtocolUnknown active) (
     check (cooldown < 0) CooldownNegative (
     Inr \<lparr>sr_active = active, sr_cooldown = cooldown, sr_lastSwitch = 0\<rparr>))"

definition switch_report :: "'w SwitchReporter option \<Rightarrow> SwitchReport \<Rightarrow> 'w \<Rightarrow> switch_error option \<times> 'w" where
  "switch_report reporter report w =
     (case reporter of
        None \<Rightarrow> (None, w)
      | Some send \<Rightarrow> (case send report w of (err, w') \<Rightarrow> (map_option ReportFailed err, w')))"

definition SwitchRuntime_Evaluate ::
  "(float64 \<Rightarrow> string) \<Rightarrow> 'w SwitchReporter option \<Rightarrow> time \<Rightarrow> Signals \<Rightarrow> 'w ApplyFunc option \<Rightarrow> SwitchRuntime \<Rightarrow> 'w \<Rightarrow>
     (SwitchReport option \<times> switch_error option) \<times> SwitchRuntime \<times> 'w" where
  \<comment> \<open>Go returns a report and an error; the zero report of an early error is \<open>None\<close>\<close>
  "SwitchRuntime_Evaluate pct reporter now signals apply r w =
     (case Signals_Validate signals of
        Inl e \<Rightarrow> ((None, Some (ESignals e)), r, w)
      | Inr _ \<Rightarrow>
        (case apply of
           None \<Rightarrow> ((None, Some ApplyRequired), r, w)
         | Some app \<Rightarrow>
             let selected = Select pct signals;
                 report = \<lparr>SwitchReport_Previous = sr_active r, SwitchReport_Selected = Selection_Protocol selected,
                           SwitchReport_Applied = False, SwitchReport_Suppressed = False, SwitchReport_RolledBack = False,
                           SwitchReport_Reason = Selection_Reason selected, SwitchReport_Error = [],
                           SwitchReport_Signals = signals, SwitchReport_EvaluatedAt = now\<rparr>
             in if Selection_Protocol selected = sr_active r
                then let report = report\<lparr>SwitchReport_Applied := True\<rparr>
                     in case switch_report reporter report w of (err, w) \<Rightarrow> ((Some report, err), r, w)
                else if \<not> IsZero (sr_lastSwitch r) \<and> sr_cooldown r > 0 \<and> Time_Sub now (sr_lastSwitch r) < sr_cooldown r
                then let report = report\<lparr>SwitchReport_Selected := sr_active r, SwitchReport_Suppressed := True,
                           SwitchReport_Reason := ''switch cooldown active''\<rparr>
                     in case switch_report reporter report w of (err, w) \<Rightarrow> ((Some report, err), r, w)
                else case app (Selection_Protocol selected) w of
                       (Some e, w) \<Rightarrow>
                         let report = report\<lparr>SwitchReport_Selected := sr_active r, SwitchReport_RolledBack := True,
                               SwitchReport_Error := e\<rparr>
                         in case switch_report reporter report w of (err, w) \<Rightarrow> ((Some report, err), r, w)
                     | (None, w) \<Rightarrow>
                         let r = r\<lparr>sr_active := Selection_Protocol selected, sr_lastSwitch := now\<rparr>;
                             report = report\<lparr>SwitchReport_Applied := True\<rparr>
                         in case switch_report reporter report w of (err, w) \<Rightarrow> ((Some report, err), r, w)))"

section \<open>Properties of the selection\<close>

lemma validate_rates_ok_iff:
  "validate_rates ms = Inr u \<longleftrightarrow>
     (\<forall>(p, v) \<in> set ms. KnownProtocol p \<and> \<not> f_less v (Fin 0) \<and> \<not> f_less (Fin 1) v)"
  by (induction ms rule: validate_rates.induct) auto

lemma Signals_Validate_rate:
  assumes "Signals_Validate s = Inr u" and "gm_get (Signals_HandshakeSuccess s) p = Some v"
  shows "KnownProtocol p \<and> \<not> f_less v (Fin 0) \<and> \<not> f_less (Fin 1) v"
  using assms by (auto simp: Signals_Validate_def validate_rates_ok_iff dest!: map_of_SomeD)

lemma selection_simps [simp]:
  "Selection_Protocol (selection p reason) = p"
  "Selection_Fallbacks (selection p reason) = fallbacks p"
  by (simp_all add: selection_def)

lemma known_constants [simp]:
  "KnownProtocol ProtocolWireGuard" "KnownProtocol ProtocolHysteria2" "KnownProtocol ProtocolReality"
  "KnownProtocol ProtocolTUIC"
  by (simp_all add: KnownProtocol_def)

lemma fallbacks_rest: "KnownProtocol p \<Longrightarrow> set (fallbacks p) = {q. KnownProtocol q} - {p}"
  by (auto simp: KnownProtocol_def fallbacks_def go_defs)

lemma fallbacks_known: "q \<in> set (fallbacks p) \<Longrightarrow> KnownProtocol q"
  by (auto simp: fallbacks_def split: if_splits)

abbreviation healthy :: "Signals \<Rightarrow> Protocol \<Rightarrow> bool" where
  \<comment> \<open>a measured success rate at or above the threshold\<close>
  "healthy s p \<equiv> (\<exists>v. gm_get (Signals_HandshakeSuccess s) p = Some v \<and> f_ge v MinHandshakeSuccessRate)"

lemma try_fallbacks_cases:
  "(\<exists>q\<in>set fs. healthy s q \<and> Selection_Protocol (try_fallbacks pct sel rate s fs) = q \<and>
      Selection_Fallbacks (try_fallbacks pct sel rate s fs) = fallbacks q) \<or>
   (\<forall>q\<in>set fs. \<not> healthy s q) \<and> try_fallbacks pct sel rate s fs = sel"
  by (induction fs) (auto split: option.splits)

lemma applyHandshakeFallback_cases:
  fixes s pct reason p
  defines "r \<equiv> applyHandshakeFallback pct (selection p reason) s"
  assumes "KnownProtocol p"
  shows "KnownProtocol (Selection_Protocol r) \<and> Selection_Fallbacks r = fallbacks (Selection_Protocol r) \<and>
    (Selection_Protocol r = p \<or> healthy s (Selection_Protocol r)) \<and>
    (gm_get (Signals_HandshakeSuccess s) (Selection_Protocol r) = None \<or> healthy s (Selection_Protocol r) \<or>
     (\<forall>q. KnownProtocol q \<longrightarrow> \<not> healthy s q))"
proof (cases "gm_get (Signals_HandshakeSuccess s) p")
  case None
  with assms show ?thesis by (simp add: applyHandshakeFallback_def)
next
  case (Some rate)
  show ?thesis
  proof (cases "f_ge rate MinHandshakeSuccessRate")
    case True
    with Some assms show ?thesis by (simp add: applyHandshakeFallback_def)
  next
    case False
    with Some have r: "r = try_fallbacks pct (selection p reason) rate s (fallbacks p)"
      by (simp add: r_def applyHandshakeFallback_def)
    from try_fallbacks_cases [where fs = "fallbacks p" and sel = "selection p reason" and pct = pct and rate = rate and s = s]
    show ?thesis
    proof
      assume "\<exists>q\<in>set (fallbacks p). healthy s q \<and> Selection_Protocol (try_fallbacks pct (selection p reason) rate s (fallbacks p)) = q \<and>
        Selection_Fallbacks (try_fallbacks pct (selection p reason) rate s (fallbacks p)) = fallbacks q"
      then show ?thesis using fallbacks_known [of _ p] unfolding r by blast
    next
      assume *: "(\<forall>q\<in>set (fallbacks p). \<not> healthy s q) \<and> try_fallbacks pct (selection p reason) rate s (fallbacks p) = selection p reason"
      have "\<not> healthy s q" if "KnownProtocol q" for q
        using * that False Some fallbacks_rest [OF assms(2)] by (cases "q = p") auto
      with * assms(2) show ?thesis unfolding r by simp
    qed
  qed
qed

definition preferred :: "Signals \<Rightarrow> Protocol" where
  "preferred s = (if \<not> Signals_UDPAvailable s \<or> Signals_DPIRisk s \<or> Signals_QoSRisk s then ProtocolReality
     else if Signals_LinkClass s = LinkDedicated then ProtocolWireGuard else ProtocolHysteria2)"

lemma preferred_known [simp]: "KnownProtocol (preferred s)"
  by (simp add: preferred_def)

lemma Select_eq:
  assumes "Signals_Validate s = Inr u"
  shows "\<exists>reason. Select pct s = applyHandshakeFallback pct (selection (preferred s) reason) s"
proof (cases "\<not> Signals_UDPAvailable s \<or> Signals_DPIRisk s \<or> Signals_QoSRisk s")
  case True
  with assms show ?thesis by (auto simp: Select_def preferred_def)
next
  case False
  with assms show ?thesis by (auto simp: Select_def preferred_def Let_def)
qed


definition sample_signals :: "LinkClass \<Rightarrow> (Protocol, float64) gomap \<Rightarrow> Signals" where
  "sample_signals link rates = \<lparr>Signals_LinkClass = link, Signals_UDPAvailable = True, Signals_QoSRisk = False,
     Signals_DPIRisk = False, Signals_RTTMillis = 20, Signals_PacketLossPermil = 0, Signals_JitterMillis = 1,
     Signals_HandshakeSuccess = rates\<rparr>"


section \<open>Properties of the probe summary\<close>

abbreviation failed :: "ProbeResult list \<Rightarrow> int" where
  "failed rs \<equiv> int (length (filter (\<lambda>r. \<not> ProbeResult_Success r) rs))"

abbreviation succeeded :: "ProbeResult list \<Rightarrow> int" where
  "succeeded rs \<equiv> int (length (filter ProbeResult_Success rs))"

abbreviation rtt_sum :: "ProbeResult list \<Rightarrow> int" where
  "rtt_sum rs \<equiv> sum_list (map ProbeResult_RTTMillis (filter ProbeResult_Success rs))"

definition rtts_in :: "int \<Rightarrow> ProbeResult list \<Rightarrow> bool" where
  "rtts_in B rs \<longleftrightarrow> 0 \<le> B \<and> (\<forall>r\<in>set rs. ProbeResult_Success r \<longrightarrow> 0 \<le> ProbeResult_RTTMillis r \<and> ProbeResult_RTTMillis r \<le> B)"

lemma rtt_sum_bounds: "rtts_in B rs \<Longrightarrow> 0 \<le> rtt_sum rs \<and> rtt_sum rs \<le> B * succeeded rs"
  by (induction rs) (auto simp: rtts_in_def algebra_simps)

lemma failed_succeeded: "failed rs + succeeded rs = int (length rs)"
  by (induction rs) auto

lemma probe_totals_eq:
  assumes "rtts_in B rs" "0 \<le> f" "0 \<le> s" "0 \<le> t"
    and "f + int (length rs) \<le> max_int64" "s + int (length rs) \<le> max_int64" "t + B * int (length rs) \<le> max_int64"
  shows "probe_totals rs (f, s, t, u) = (f + failed rs, s + succeeded rs, t + rtt_sum rs,
     u \<or> (\<exists>r\<in>set rs. ProbeResult_Success r \<and> HasPrefix (ProbeResult_Network r) ''udp''))"
  using assms
proof (induction rs arbitrary: f s t u)
  case Nil
  then show ?case by simp
next
  case (Cons r rs)
  have B: "0 \<le> B" "rtts_in B rs" using Cons.prems(1) by (auto simp: rtts_in_def)
  then have BL: "0 \<le> B * int (length rs)" by simp
  have p: "0 \<le> f" "0 \<le> s" "0 \<le> t" "f + 1 + int (length rs) \<le> max_int64" "s + 1 + int (length rs) \<le> max_int64"
    and pt: "t + B + B * int (length rs) \<le> max_int64"
    using Cons.prems(2-7) by (simp_all add: algebra_simps)
  show ?case
  proof (cases "ProbeResult_Success r")
    case True
    then have r: "0 \<le> ProbeResult_RTTMillis r" "ProbeResult_RTTMillis r \<le> B"
      using Cons.prems(1) by (auto simp: rtts_in_def)
    have tr: "t + ProbeResult_RTTMillis r \<le> max_int64" using pt r BL by linarith
    have w: "wrap64 (s + 1) = s + 1" "wrap64 (t + ProbeResult_RTTMillis r) = t + ProbeResult_RTTMillis r"
      using p tr r by (auto intro!: wrap64_id simp: int64_def)
    show ?thesis using True w p pt r BL Cons.IH [OF B(2), of f "s + 1" "t + ProbeResult_RTTMillis r"]
      by (simp add: disj_assoc)
  next
    case False
    have w: "wrap64 (f + 1) = f + 1" using p by (auto intro!: wrap64_id simp: int64_def)
    show ?thesis using False w p pt B Cons.IH [OF B(2), of "f + 1" s t] by simp
  qed
qed

lemma loss_bounds:
  assumes "rs \<noteq> []" and "int (length rs) * 1000 \<le> max_int64"
  shows "quot (wrap64 (failed rs * 1000)) (int (length rs)) = failed rs * 1000 div int (length rs) \<and>
    0 \<le> failed rs * 1000 div int (length rs) \<and> failed rs * 1000 div int (length rs) \<le> 1000"
proof -
  let ?n = "int (length rs)"
  have n: "0 < ?n" using assms(1) by simp
  have f: "0 \<le> failed rs" "failed rs \<le> ?n" by (simp_all add: length_filter_le)
  have "0 \<le> failed rs * 1000" "failed rs * 1000 \<le> max_int64" using f assms(2) by linarith+
  then have "wrap64 (failed rs * 1000) = failed rs * 1000"
    by (intro wrap64_id) (simp add: int64_def)
  moreover have "quot (failed rs * 1000) ?n = failed rs * 1000 div ?n" using f n by (intro quot_nonneg) auto
  moreover have "failed rs * 1000 div ?n \<le> 1000"
    using f(2) n zdiv_mono1 [of "failed rs * 1000" "?n * 1000" ?n] by simp
  moreover have "0 \<le> failed rs * 1000 div ?n" using n by (simp add: pos_imp_zdiv_nonneg_iff)
  ultimately show ?thesis by simp
qed

lemma mean_bounds:
  assumes "rtts_in B rs"
  shows "(if succeeded rs > 0 then quot (rtt_sum rs) (succeeded rs) else 0) = rtt_sum rs div succeeded rs \<and>
    0 \<le> rtt_sum rs div succeeded rs \<and> rtt_sum rs div succeeded rs \<le> B"
proof (cases "succeeded rs > 0")
  case True
  have "0 \<le> rtt_sum rs" "rtt_sum rs \<le> B * succeeded rs" using rtt_sum_bounds [OF assms] by auto
  with True show ?thesis
    using zdiv_mono1 [of "rtt_sum rs" "B * succeeded rs" "succeeded rs"] by (auto simp: pos_imp_zdiv_nonneg_iff quot_nonneg)
next
  case False
  then have "succeeded rs = 0" by linarith
  with assms show ?thesis by (simp add: rtts_in_def)
qed

text \<open>
  the summary of a round of probes. As long as the times are non-negative and no sum leaves the
  64-bit range, the signals are valid; packet loss is the share of failed probes in permil, rounded
  down, so it lies between 0 and 1000; the round-trip time is the mean over the successful probes,
  rounded down, and never exceeds the slowest of them; and UDP counts as available exactly when a
  UDP probe succeeded.
\<close>

lemma SignalsFromProbeResults_bounds:
  assumes "rtts_in B rs" and "int (length rs) * max B 1000 \<le> max_int64"
  shows "let s = SignalsFromProbeResults link rs
         in Signals_Validate s = Inr () \<and>
            Signals_PacketLossPermil s = failed rs * 1000 div int (length rs) \<and>
            0 \<le> Signals_PacketLossPermil s \<and> Signals_PacketLossPermil s \<le> 1000 \<and>
            Signals_RTTMillis s = rtt_sum rs div succeeded rs \<and> Signals_RTTMillis s \<le> B \<and>
            (Signals_UDPAvailable s \<longleftrightarrow> (\<exists>r\<in>set rs. ProbeResult_Success r \<and> HasPrefix (ProbeResult_Network r) ''udp''))"
proof (cases "rs = []")
  case True
  with assms(1) show ?thesis
    by (simp add: SignalsFromProbeResults_def Signals_Validate_def LinkUnknown_def rtts_in_def)
next
  case False
  let ?n = "int (length rs)" and ?s = "SignalsFromProbeResults link rs"
  have le: "?n * B \<le> max_int64" "?n * 1000 \<le> max_int64"
    using assms(2) mult_left_mono [of B "max B 1000" ?n] mult_left_mono [of 1000 "max B 1000" ?n] by linarith+
  note loss = loss_bounds [OF False le(2)] and mean = mean_bounds [OF assms(1)]
  have t: "probe_totals rs (0, 0, 0, False) = (failed rs, succeeded rs, rtt_sum rs,
     (\<exists>r\<in>set rs. ProbeResult_Success r \<and> HasPrefix (ProbeResult_Network r) ''udp''))"
    using probe_totals_eq [OF assms(1), of 0 0 0 False] le by (simp add: mult.commute)
  have s: "Signals_RTTMillis ?s = rtt_sum rs div succeeded rs" "Signals_PacketLossPermil ?s = failed rs * 1000 div ?n"
    "Signals_UDPAvailable ?s \<longleftrightarrow> (\<exists>r\<in>set rs. ProbeResult_Success r \<and> HasPrefix (ProbeResult_Network r) ''udp'')"
    "Signals_JitterMillis ?s = 0" "Signals_HandshakeSuccess ?s = []" "Signals_LinkClass ?s \<noteq> []"
    using False unfolding SignalsFromProbeResults_def Let_def t prod.case conjunct1 [OF loss] conjunct1 [OF mean] by (simp_all add: LinkUnknown_def)
  show ?thesis
    using s loss mean by (simp add: Let_def Signals_Validate_def)
qed

definition sample_probe :: "string \<Rightarrow> int \<Rightarrow> bool \<Rightarrow> ProbeResult" where
  "sample_probe network rtt ok = \<lparr>ProbeResult_Network = network, ProbeResult_Address = ''192.0.2.1:443'',
     ProbeResult_RTTMillis = rtt, ProbeResult_Success = ok,
     ProbeResult_Error = (if ok then None else Some (ProbeFailed ''timeout'')), ProbeResult_CheckedAt = 1\<rparr>"

section \<open>Properties of the switch runtime\<close>

lemma Evaluate_effect:
  assumes "SwitchRuntime_Evaluate pct reporter now s apply r w = ((rep, err), r', w')"
  shows "r' = r \<or>
    r' = r\<lparr>sr_active := Selection_Protocol (Select pct s), sr_lastSwitch := now\<rparr> \<and> Signals_Validate s = Inr () \<and>
    Selection_Protocol (Select pct s) \<noteq> sr_active r \<and>
    \<not> (\<not> IsZero (sr_lastSwitch r) \<and> sr_cooldown r > 0 \<and> Time_Sub now (sr_lastSwitch r) < sr_cooldown r)"
  using assms
  by (auto simp: SwitchRuntime_Evaluate_def Let_def split: sum.splits option.splits if_splits prod.splits)

fun switch_times ::
  "(float64 \<Rightarrow> string) \<Rightarrow> 'w SwitchReporter option \<Rightarrow> (time \<times> Signals \<times> 'w ApplyFunc option) list \<Rightarrow> SwitchRuntime \<Rightarrow> 'w \<Rightarrow> time list" where
  \<comment> \<open>the instants at which a sequence of evaluations changed the active protocol\<close>
  "switch_times pct reporter [] r w = []"
| "switch_times pct reporter ((now, s, apply) # xs) r w =
     (case SwitchRuntime_Evaluate pct reporter now s apply r w of (_, r', w') \<Rightarrow>
        (if sr_active r' \<noteq> sr_active r then [now] else []) @ switch_times pct reporter xs r' w')"

text \<open>
  C16: the cooldown. Whatever the signals, the clock and the outcomes of the apply function, two
  consecutive changes of the active protocol are at least one cooldown apart.
\<close>

theorem switch_cooldown:
  assumes "0 < sr_cooldown r" "int64 (sr_cooldown r)" "\<forall>x\<in>set xs. \<not> IsZero (fst x)"
  shows "successively (\<lambda>a b. sr_cooldown r \<le> b - a) (switch_times pct reporter xs r w)"
proof -
  have "successively (\<lambda>a b. sr_cooldown r \<le> b - a)
      ((if IsZero (sr_lastSwitch r) then [] else [sr_lastSwitch r]) @ switch_times pct reporter xs r w)"
    using assms
  proof (induction xs arbitrary: r w)
    case Nil
    then show ?case by simp
  next
    case (Cons x xs)
    obtain now s app where x: "x = (now, s, app)" by (cases x)
    obtain rep err r' w' where e: "SwitchRuntime_Evaluate pct reporter now s app r w = ((rep, err), r', w')"
      by (metis prod.exhaust)
    from Evaluate_effect [OF e] show ?case
    proof
      assume "r' = r"
      with Cons x e show ?thesis by simp
    next
      assume *: "r' = r\<lparr>sr_active := Selection_Protocol (Select pct s), sr_lastSwitch := now\<rparr> \<and> Signals_Validate s = Inr () \<and>
        Selection_Protocol (Select pct s) \<noteq> sr_active r \<and>
        \<not> (\<not> IsZero (sr_lastSwitch r) \<and> sr_cooldown r > 0 \<and> Time_Sub now (sr_lastSwitch r) < sr_cooldown r)"
      then have "sr_cooldown r' = sr_cooldown r" "sr_lastSwitch r' = now" "sr_active r' \<noteq> sr_active r" by auto
      moreover have "IsZero (sr_lastSwitch r) \<or> sr_cooldown r \<le> now - sr_lastSwitch r"
        using * Cons.prems Time_Sub_less [of "sr_cooldown r" now "sr_lastSwitch r"] by auto
      ultimately show ?thesis using Cons.IH [of r' w'] Cons.prems x e by auto
    qed
  qed
  then show ?thesis by (simp add: successively_append_iff split: if_splits)
qed

definition sample_runtime :: SwitchRuntime where
  "sample_runtime = \<lparr>sr_active = ProtocolHysteria2, sr_cooldown = 60, sr_lastSwitch = 0\<rparr>"

definition sample_inputs :: "(time \<times> Signals \<times> unit ApplyFunc option) list" where
  "sample_inputs =
     [(100, sample_signals LinkDedicated [], Some (\<lambda>p w. (None, w))),
      (130, sample_signals LinkMobile [], Some (\<lambda>p w. (None, w))),
      (170, sample_signals LinkMobile [], Some (\<lambda>p w. (None, w)))]"

theorem switch_cooldown_witness:
  "switch_times (\<lambda>_. []) None sample_inputs sample_runtime () = [100, 170] \<and>
   successively (\<lambda>a b. 60 \<le> b - a) (switch_times (\<lambda>_. []) None sample_inputs sample_runtime ())"
proof -
  have "0 < sr_cooldown sample_runtime" "int64 (sr_cooldown sample_runtime)" "\<forall>x\<in>set sample_inputs. \<not> IsZero (fst x)"
    by (simp_all add: sample_runtime_def sample_inputs_def int64_def IsZero_def)
  from switch_cooldown [OF this, of "\<lambda>_. []" None "()"]
  have "successively (\<lambda>a b. 60 \<le> b - a) (switch_times (\<lambda>_. []) None sample_inputs sample_runtime ())"
    by (simp add: sample_runtime_def)
  moreover have "switch_times (\<lambda>_. []) None sample_inputs sample_runtime () = [100, 170]" by code_simp
  ultimately show ?thesis by blast
qed

lemma Select_known: "KnownProtocol (Selection_Protocol (Select pct s))"
proof (cases "Signals_Validate s")
  case (Inl e)
  then show ?thesis by (simp add: Select_def)
next
  case (Inr u)
  then obtain reason where "Select pct s = applyHandshakeFallback pct (selection (preferred s) reason) s"
    using Select_eq by blast
  with applyHandshakeFallback_cases [OF preferred_known, of pct s reason s] show ?thesis by simp
qed

text \<open>
  the report of an evaluation is true. It names the protocol that was active before and, as
  selected, the one that is active afterwards, which is a known one; the two differ only if the apply
  function was called with the new protocol and succeeded. Exactly one of applied, suppressed and
  rolled back is set, and rolled back means that the apply function failed and that the runtime kept
  its state.
\<close>

lemma switch_report_truthful:
  assumes "SwitchRuntime_Evaluate pct reporter now s (Some app) r w = ((Some rep, err), r', w')"
    and "KnownProtocol (sr_active r)"
  shows "SwitchReport_Previous rep = sr_active r \<and> SwitchReport_Selected rep = sr_active r' \<and> KnownProtocol (sr_active r') \<and>
    (sr_active r' \<noteq> sr_active r \<longrightarrow> fst (app (sr_active r') w) = None \<and> sr_lastSwitch r' = now) \<and>
    (SwitchReport_Applied rep \<longleftrightarrow> \<not> SwitchReport_Suppressed rep \<and> \<not> SwitchReport_RolledBack rep) \<and>
    \<not> (SwitchReport_Suppressed rep \<and> SwitchReport_RolledBack rep) \<and>
    (SwitchReport_RolledBack rep \<longrightarrow>
       r' = r \<and> fst (app (Selection_Protocol (Select pct s)) w) = Some (SwitchReport_Error rep))"
  using assms Select_known [of pct s]
  by (auto simp: SwitchRuntime_Evaluate_def Let_def split: sum.splits option.splits if_splits prod.splits)

end
