(* ===== verification/Supervisor.thy ===== *)
theory Supervisor
  imports Transport Go_Text
begin

text \<open>
  The supervisor of the transport processes (internal/transport/supervisor.go). It owns at most one
  active protocol at a time, started either by a command (\<open>wg-quick up\<close>) or as a managed process.

  The operating system is the parameter \<open>h\<close>: given the calls made so far with their outcomes, it
  answers the next call with an error or success, so every adversary is an instance. A managed process
  is named by the position in the trace of the call that started it, as a fresh pointer would be.
  The mutex is held during every method, so a method is one step.
\<close>

section \<open>The host\<close>

type_synonym LifecycleMode = string

definition LifecycleCommand :: LifecycleMode where [go_defs]: "LifecycleCommand = ''command''"
definition LifecycleProcess :: LifecycleMode where [go_defs]: "LifecycleProcess = ''process''"

record ProcessCommand =
  ProcessCommand_Name :: string
  ProcessCommand_Args :: "string list"

datatype host_call =
    RunCmd ProcessCommand
  | SpawnCmd ProcessCommand
  | WaitProc nat

type_synonym trace = "(host_call \<times> string option) list"
type_synonym host = "trace \<Rightarrow> host_call \<Rightarrow> string option"

definition host_do :: "host \<Rightarrow> host_call \<Rightarrow> trace \<Rightarrow> string option \<times> trace" where
  "host_do h c tr = (h tr c, tr @ [(c, h tr c)])"

section \<open>Specifications\<close>

datatype command_error = CommandNameRequired

definition ProcessCommand_Validate :: "ProcessCommand \<Rightarrow> command_error + unit" where
  "ProcessCommand_Validate c = check (is_blank (ProcessCommand_Name c)) CommandNameRequired (Inr ())"

record ProtocolLifecycleSpec =
  Spec_Protocol :: Protocol
  Spec_Mode :: LifecycleMode
  Spec_Start :: ProcessCommand
  Spec_Stop :: ProcessCommand

datatype sup_error =
    UnknownSpecProtocol Protocol
  | UnsupportedMode LifecycleMode
  | StartCommandInvalid command_error
  | StopCommandInvalid command_error
  | DuplicateSpec Protocol
  | NoSpecs
  | NoSpecFor Protocol
  | HostFailed string
  | StopFailed Protocol sup_error
  | ActivateFailed Protocol sup_error
  | RestoreFailed Protocol sup_error Protocol sup_error

definition Spec_Validate :: "ProtocolLifecycleSpec \<Rightarrow> sup_error + unit" where
  "Spec_Validate s =
     check (\<not> KnownProtocol (Spec_Protocol s)) (UnknownSpecProtocol (Spec_Protocol s)) (
     check (Spec_Mode s \<noteq> LifecycleCommand \<and> Spec_Mode s \<noteq> LifecycleProcess) (UnsupportedMode (Spec_Mode s)) (
     bind (case ProcessCommand_Validate (Spec_Start s) of Inl e \<Rightarrow> Inl (StartCommandInvalid e) | Inr u \<Rightarrow> Inr u) (\<lambda>_.
     bind (if Spec_Mode s = LifecycleCommand
           then (case ProcessCommand_Validate (Spec_Stop s) of Inl e \<Rightarrow> Inl (StopCommandInvalid e) | Inr u \<Rightarrow> Inr u)
           else Inr ()) (\<lambda>_.
     if ProcessCommand_Name (Spec_Stop s) \<noteq> []
     then (case ProcessCommand_Validate (Spec_Stop s) of Inl e \<Rightarrow> Inl (StopCommandInvalid e) | Inr u \<Rightarrow> Inr u)
     else Inr ()))))"

section \<open>Starting and stopping\<close>

definition ExecCommandRunner_Run :: "host \<Rightarrow> ProcessCommand \<Rightarrow> trace \<Rightarrow> string option \<times> trace" where
  "ExecCommandRunner_Run h cmd tr = host_do h (RunCmd cmd) tr"

definition ExecProcessStarter_Start :: "host \<Rightarrow> ProcessCommand \<Rightarrow> trace \<Rightarrow> (sup_error + nat) \<times> trace" where
  "ExecProcessStarter_Start h cmd tr =
     (case ProcessCommand_Validate cmd of
        Inl e \<Rightarrow> (Inl (StartCommandInvalid e), tr)
      | Inr _ \<Rightarrow>
          (case host_do h (SpawnCmd cmd) tr of
             (Some e, tr') \<Rightarrow> (Inl (HostFailed e), tr')
           | (None, tr') \<Rightarrow> (Inr (length tr), tr')))"

definition execManagedProcess_Stop :: "host \<Rightarrow> nat \<Rightarrow> trace \<Rightarrow> string option \<times> trace" where
  \<comment> \<open>cancel the process and wait until it ended or the context did, which is the only error\<close>
  "execManagedProcess_Stop h p tr = host_do h (WaitProc p) tr"

record Supervisor =
  sup_specs :: "(Protocol, ProtocolLifecycleSpec) gomap"
  sup_active :: Protocol
  sup_activeSet :: bool
  sup_process :: "nat option"

fun index_specs :: "(Protocol, ProtocolLifecycleSpec) gomap \<Rightarrow> ProtocolLifecycleSpec list \<Rightarrow>
    sup_error + (Protocol, ProtocolLifecycleSpec) gomap" where
  \<comment> \<open>the loop that fills \<open>byProtocol\<close>\<close>
  "index_specs byProtocol [] = Inr byProtocol"
| "index_specs byProtocol (spec # specs) =
     bind (Spec_Validate spec) (\<lambda>_.
     check (gm_has byProtocol (Spec_Protocol spec)) (DuplicateSpec (Spec_Protocol spec)) (
     index_specs (gm_set (Spec_Protocol spec) spec byProtocol) specs))"

definition NewSupervisor :: "ProtocolLifecycleSpec list \<Rightarrow> sup_error + Supervisor" where
  "NewSupervisor specs =
     bind (index_specs [] specs) (\<lambda>byProtocol.
     check (byProtocol = []) NoSpecs (
     Inr \<lparr>sup_specs = byProtocol, sup_active = [], sup_activeSet = False, sup_process = None\<rparr>))"

definition Supervisor_Active :: "Supervisor \<Rightarrow> Protocol \<times> bool" where
  "Supervisor_Active s = (sup_active s, sup_activeSet s)"

definition startLocked :: "host \<Rightarrow> ProtocolLifecycleSpec \<Rightarrow> trace \<Rightarrow> (sup_error + nat option) \<times> trace" where
  "startLocked h spec tr =
     (if Spec_Mode spec = LifecycleCommand then
        (case ExecCommandRunner_Run h (Spec_Start spec) tr of
           (Some e, tr') \<Rightarrow> (Inl (HostFailed e), tr')
         | (None, tr') \<Rightarrow> (Inr None, tr'))
      else if Spec_Mode spec = LifecycleProcess then
        (case ExecProcessStarter_Start h (Spec_Start spec) tr of
           (Inl e, tr') \<Rightarrow> (Inl e, tr')
         | (Inr p, tr') \<Rightarrow> (Inr (Some p), tr'))
      else (Inl (UnsupportedMode (Spec_Mode spec)), tr))"

definition zero_spec :: ProtocolLifecycleSpec where
  "zero_spec = \<lparr>Spec_Protocol = [], Spec_Mode = [], Spec_Start = \<lparr>ProcessCommand_Name = [], ProcessCommand_Args = []\<rparr>,
     Spec_Stop = \<lparr>ProcessCommand_Name = [], ProcessCommand_Args = []\<rparr>\<rparr>"

definition stopLocked :: "host \<Rightarrow> Supervisor \<Rightarrow> trace \<Rightarrow> sup_error option \<times> Supervisor \<times> trace" where
  "stopLocked h s tr =
     (let spec = gm_default zero_spec (sup_specs s) (sup_active s);
          (stopErr, tr) = (case sup_process s of None \<Rightarrow> (None, tr) | Some p \<Rightarrow> execManagedProcess_Stop h p tr);
          (stopErr, tr) = (if ProcessCommand_Name (Spec_Stop spec) \<noteq> [] then
             (case ExecCommandRunner_Run h (Spec_Stop spec) tr of
                (err, tr') \<Rightarrow> (if err \<noteq> None \<and> stopErr = None then err else stopErr, tr'))
             else (stopErr, tr))
      in case stopErr of
           Some e \<Rightarrow> (Some (HostFailed e), s, tr)
         | None \<Rightarrow> (None, s\<lparr>sup_active := [], sup_activeSet := False, sup_process := None\<rparr>, tr))"

definition restoreLocked :: "host \<Rightarrow> Protocol \<Rightarrow> Supervisor \<Rightarrow> trace \<Rightarrow> sup_error option \<times> Supervisor \<times> trace" where
  "restoreLocked h protocol s tr =
     (case gm_get (sup_specs s) protocol of
        None \<Rightarrow> (Some (NoSpecFor protocol), s, tr)
      | Some spec \<Rightarrow>
          (case startLocked h spec tr of
             (Inl e, tr') \<Rightarrow> (Some e, s, tr')
           | (Inr process, tr') \<Rightarrow>
               (None, s\<lparr>sup_active := protocol, sup_activeSet := True, sup_process := process\<rparr>, tr')))"

definition start_or_restore ::
  "host \<Rightarrow> Protocol \<Rightarrow> ProtocolLifecycleSpec \<Rightarrow> Protocol \<Rightarrow> bool \<Rightarrow> Supervisor \<Rightarrow> trace \<Rightarrow> sup_error option \<times> Supervisor \<times> trace" where
  \<comment> \<open>the part of \<open>Activate\<close> after the previous protocol was stopped\<close>
  "start_or_restore h protocol spec previous hadPrevious s tr =
     (case startLocked h spec tr of
        (Inl err, tr) \<Rightarrow>
          if hadPrevious then
            (case restoreLocked h previous s tr of
               (Some restoreErr, s, tr) \<Rightarrow> (Some (RestoreFailed protocol err previous restoreErr), s, tr)
             | (None, s, tr) \<Rightarrow> (Some (ActivateFailed protocol err), s, tr))
          else (Some (ActivateFailed protocol err), s, tr)
      | (Inr process, tr) \<Rightarrow>
          (None, s\<lparr>sup_active := protocol, sup_activeSet := True, sup_process := process\<rparr>, tr))"

definition Activate :: "host \<Rightarrow> Protocol \<Rightarrow> Supervisor \<Rightarrow> trace \<Rightarrow> sup_error option \<times> Supervisor \<times> trace" where
  "Activate h protocol s tr =
     (if sup_activeSet s \<and> sup_active s = protocol then (None, s, tr)
      else case gm_get (sup_specs s) protocol of
        None \<Rightarrow> (Some (NoSpecFor protocol), s, tr)
      | Some spec \<Rightarrow>
          if sup_activeSet s then
            (case stopLocked h s tr of
               (Some err, s, tr) \<Rightarrow> (Some (StopFailed (sup_active s) err), s, tr)
             | (None, s', tr) \<Rightarrow> start_or_restore h protocol spec (sup_active s) True s' tr)
          else start_or_restore h protocol spec (sup_active s) False s tr)"

definition Supervisor_Stop :: "host \<Rightarrow> Supervisor \<Rightarrow> trace \<Rightarrow> sup_error option \<times> Supervisor \<times> trace" where
  "Supervisor_Stop h s tr = (if \<not> sup_activeSet s then (None, s, tr) else stopLocked h s tr)"

section \<open>Default specifications\<close>

definition normalizeConfigDir :: "string \<Rightarrow> string" where
  "normalizeConfigDir configDir = (let d = TrimSpace configDir in if d = [] then ''/etc/anixops'' else d)"

definition WireGuardConfigFile :: string where [go_defs]: "WireGuardConfigFile = ''wireguard.conf''"
definition Hysteria2ConfigFile :: string where [go_defs]: "Hysteria2ConfigFile = ''hysteria2.yaml''"
definition RealityConfigFile :: string where [go_defs]: "RealityConfigFile = ''reality.json''"
definition TUICConfigFile :: string where [go_defs]: "TUICConfigFile = ''tuic.json''"

definition process_spec :: "Protocol \<Rightarrow> string \<Rightarrow> string list \<Rightarrow> ProtocolLifecycleSpec" where
  \<comment> \<open>a specification in process mode with no stop command\<close>
  "process_spec protocol nm args = \<lparr>Spec_Protocol = protocol, Spec_Mode = LifecycleProcess,
     Spec_Start = \<lparr>ProcessCommand_Name = nm, ProcessCommand_Args = args\<rparr>,
     Spec_Stop = \<lparr>ProcessCommand_Name = [], ProcessCommand_Args = []\<rparr>\<rparr>"

definition DefaultLifecycleSpecs :: "string \<Rightarrow> ProtocolLifecycleSpec list" where
  "DefaultLifecycleSpecs configDir =
     (let dir = normalizeConfigDir configDir in
      [\<lparr>Spec_Protocol = ProtocolWireGuard, Spec_Mode = LifecycleCommand,
        Spec_Start = \<lparr>ProcessCommand_Name = ''wg-quick'', ProcessCommand_Args = [''up'', path_Join [dir, WireGuardConfigFile]]\<rparr>,
        Spec_Stop = \<lparr>ProcessCommand_Name = ''wg-quick'', ProcessCommand_Args = [''down'', path_Join [dir, WireGuardConfigFile]]\<rparr>\<rparr>,
       process_spec ProtocolHysteria2 ''hysteria'' [''client'', ''-c'', path_Join [dir, Hysteria2ConfigFile]],
       process_spec ProtocolReality ''xray'' [''run'', ''-config'', path_Join [dir, RealityConfigFile]],
       process_spec ProtocolTUIC ''tuic-client'' [''-c'', path_Join [dir, TUICConfigFile]]])"

definition DefaultServerLifecycleSpecs :: "string \<Rightarrow> ProtocolLifecycleSpec list" where
  "DefaultServerLifecycleSpecs configDir =
     (let dir = normalizeConfigDir configDir in
      [process_spec ProtocolHysteria2 ''hysteria'' [''server'', ''-c'', path_Join [dir, Hysteria2ConfigFile]],
       process_spec ProtocolReality ''xray'' [''run'', ''-config'', path_Join [dir, RealityConfigFile]],
       process_spec ProtocolTUIC ''tuic-server'' [''-c'', path_Join [dir, TUICConfigFile]]])"

section \<open>Processes that may be alive\<close>

fun is_spawn :: "host_call \<times> string option \<Rightarrow> bool" where
  "is_spawn (SpawnCmd c, None) = True"
| "is_spawn _ = False"

definition live :: "trace \<Rightarrow> nat list" where
  \<comment> \<open>the processes that were started and not yet waited for successfully\<close>
  "live tr = filter (\<lambda>p. is_spawn (tr ! p) \<and> (WaitProc p, None) \<notin> set (drop p tr)) [0..<length tr]"

lemma live_Nil [simp]: "live [] = []"
  by (simp add: live_def)

lemma live_snoc: "live (tr @ [e]) = filter (\<lambda>p. e \<noteq> (WaitProc p, None)) (live tr) @ (if is_spawn e then [length tr] else [])"
proof -
  have "filter (\<lambda>p. is_spawn ((tr @ [e]) ! p) \<and> (WaitProc p, None) \<notin> set (drop p (tr @ [e]))) [0..<length tr] =
      filter (\<lambda>p. e \<noteq> (WaitProc p, None)) (live tr)"
    unfolding live_def filter_filter by (rule filter_cong) (auto simp: nth_append)
  moreover have "is_spawn e \<Longrightarrow> e \<noteq> (WaitProc p, None)" for p by auto
  ultimately show ?thesis by (auto simp: live_def)
qed

lemma live_calls [simp]:
  "live (tr @ [(RunCmd c, out)]) = live tr"
  "live (tr @ [(SpawnCmd c, Some e)]) = live tr"
  "live (tr @ [(SpawnCmd c, None)]) = live tr @ [length tr]"
  "live (tr @ [(WaitProc p, Some e)]) = live tr"
  "live (tr @ [(WaitProc p, None)]) = filter (\<lambda>q. q \<noteq> p) (live tr)"
  by (auto simp: live_snoc intro!: filter_cong)

lemma startLocked_live:
  assumes "startLocked h spec tr = (r, tr')"
  shows "live tr' = live tr @ (case r of Inr (Some p) \<Rightarrow> [p] | _ \<Rightarrow> [])"
    and "\<And>process. r = Inr process \<Longrightarrow> process \<noteq> None \<longleftrightarrow> Spec_Mode spec = LifecycleProcess"
  using assms
  by (auto simp: startLocked_def ExecCommandRunner_Run_def ExecProcessStarter_Start_def host_do_def go_defs
      split: if_splits option.splits sum.splits prod.splits)

lemma run_live: "ExecCommandRunner_Run h cmd tr = (err, tr') \<Longrightarrow> live tr' = live tr"
  by (auto simp: ExecCommandRunner_Run_def host_do_def)

lemma wait_live:
  "execManagedProcess_Stop h p tr = (err, tr') \<Longrightarrow> live tr' = (if err = None then filter (\<lambda>q. q \<noteq> p) (live tr) else live tr)"
  by (auto simp: execManagedProcess_Stop_def host_do_def)

lemma stopLocked_effect:
  assumes "stopLocked h s tr = (err, s', tr')"
  shows "err \<noteq> None \<and> s' = s \<and> set (live tr') \<subseteq> set (live tr) \<or>
    err = None \<and> s' = s\<lparr>sup_active := [], sup_activeSet := False, sup_process := None\<rparr> \<and>
    set (live tr') = set (live tr) - set_option (sup_process s)"
  using assms
  by (auto simp: stopLocked_def Let_def split: if_splits option.splits prod.splits dest!: run_live wait_live)

section \<open>The invariant\<close>

definition specs_ok :: "(Protocol, ProtocolLifecycleSpec) gomap \<Rightarrow> bool" where
  "specs_ok m \<longleftrightarrow> (\<forall>p spec. gm_get m p = Some spec \<longrightarrow> Spec_Protocol spec = p \<and> Spec_Validate spec = Inr ())"

definition sup_ok :: "Supervisor \<Rightarrow> trace \<Rightarrow> bool" where
  "sup_ok s tr \<longleftrightarrow>
     specs_ok (sup_specs s) \<and>
     (if sup_activeSet s
      then \<exists>spec. gm_get (sup_specs s) (sup_active s) = Some spec \<and> (sup_process s \<noteq> None \<longleftrightarrow> Spec_Mode spec = LifecycleProcess)
      else sup_active s = [] \<and> sup_process s = None) \<and>
     set (live tr) \<subseteq> set_option (sup_process s)"

lemma sup_okD:
  assumes "sup_ok s tr"
  shows "gm_get (sup_specs s) p = Some spec \<Longrightarrow> Spec_Protocol spec = p \<and> Spec_Validate spec = Inr ()"
    and "set (live tr) \<subseteq> set_option (sup_process s)"
  using assms by (simp_all add: sup_ok_def specs_ok_def)

lemma sup_ok_stopped:
  assumes "sup_ok s tr" and "set (live tr') = {}"
  shows "sup_ok (s\<lparr>sup_active := [], sup_activeSet := False, sup_process := None\<rparr>) tr'"
  using assms by (auto simp: sup_ok_def)

lemma sup_ok_started:
  assumes "sup_ok s tr" "live tr = []" "gm_get (sup_specs s) p = Some spec" "startLocked h spec tr = (Inr process, tr')"
  shows "sup_ok (s\<lparr>sup_active := p, sup_activeSet := True, sup_process := process\<rparr>) tr'"
  using assms startLocked_live [OF assms(4)] by (auto simp: sup_ok_def split: option.splits)

lemma start_fails_live: "startLocked h spec tr = (Inl e, tr') \<Longrightarrow> live tr' = live tr"
  using startLocked_live(1) by fastforce

lemma sup_ok_trace: "sup_ok s tr \<Longrightarrow> set (live tr') \<subseteq> set (live tr) \<Longrightarrow> sup_ok s tr'"
  by (auto simp: sup_ok_def)

lemma stopLocked_ok:
  assumes "sup_ok s tr" "stopLocked h s tr = (err, s', tr')"
  shows "sup_ok s' tr' \<and> (err = None \<longrightarrow> live tr' = [])"
  using stopLocked_effect [OF assms(2)]
proof (elim disjE conjE)
  assume "err = None" and s': "s' = s\<lparr>sup_active := [], sup_activeSet := False, sup_process := None\<rparr>"
    and l: "set (live tr') = set (live tr) - set_option (sup_process s)"
  have "set (live tr') = {}" unfolding l Diff_eq_empty_iff by (rule sup_okD(2) [OF assms(1)])
  then show ?thesis unfolding s' using sup_ok_stopped [OF assms(1), of tr'] by simp
next
  assume "err \<noteq> None" "s' = s" "set (live tr') \<subseteq> set (live tr)"
  then show ?thesis using sup_ok_trace [OF assms(1), of tr'] by blast
qed

lemma restoreLocked_ok:
  assumes "sup_ok s tr" "live tr = []" "restoreLocked h p s tr = (err, s', tr')"
  shows "sup_ok s' tr' \<and> (if err = None then sup_activeSet s' \<and> sup_active s' = p else s' = s)"
proof (cases "gm_get (sup_specs s) p")
  case None
  with assms show ?thesis by (auto simp: restoreLocked_def)
next
  case (Some spec)
  obtain r t where st: "startLocked h spec tr = (r, t)" by fastforce
  show ?thesis
  proof (cases r)
    case (Inl e)
    with st have "live t = live tr" by (auto dest: start_fails_live)
    with Inl st Some assms show ?thesis by (auto simp: restoreLocked_def intro: sup_ok_trace)
  next
    case (Inr process)
    with st Some assms show ?thesis by (auto simp: restoreLocked_def intro: sup_ok_started)
  qed
qed

lemma start_or_restore_ok:
  assumes "sup_ok s tr" "live tr = []" "gm_get (sup_specs s) p = Some spec" "\<not> sup_activeSet s"
    "start_or_restore h p spec previous had s tr = (err, s', tr')"
  shows "sup_ok s' tr' \<and>
    (case err of
       None \<Rightarrow> sup_activeSet s' \<and> sup_active s' = p
     | Some (ActivateFailed q e) \<Rightarrow> q = p \<and> (if had then sup_activeSet s' \<and> sup_active s' = previous else s' = s)
     | Some (RestoreFailed q e q' e') \<Rightarrow> q = p \<and> q' = previous \<and> had \<and> s' = s
     | Some _ \<Rightarrow> False)"
proof -
  obtain r t where st: "startLocked h spec tr = (r, t)" by fastforce
  show ?thesis
  proof (cases r)
    case (Inr process)
    with st assms show ?thesis by (auto simp: start_or_restore_def intro: sup_ok_started)
  next
    case (Inl e)
    with st have l: "live t = live tr" by (auto dest: start_fails_live)
    then have ok: "sup_ok s t" using assms(1) by (auto intro: sup_ok_trace)
    obtain err' s1 t1 where rs: "restoreLocked h previous s t = (err', s1, t1)" by (metis prod.exhaust)
    have "live t = []" using l assms(2) by simp
    from restoreLocked_ok [OF ok this rs] st Inl rs assms(5) ok show ?thesis
      by (auto simp: start_or_restore_def split: if_splits option.splits)
  qed
qed

lemma Activate_cases:
  assumes "sup_ok s tr" and "Activate h p s tr = (err, s', tr')"
  shows "sup_ok s' tr' \<and>
    (case err of
       None \<Rightarrow> sup_activeSet s' \<and> sup_active s' = p
     | Some (NoSpecFor q) \<Rightarrow> q = p \<and> gm_get (sup_specs s) p = None \<and> s' = s
     | Some (StopFailed q e) \<Rightarrow> q = sup_active s \<and> s' = s
     | Some (ActivateFailed q e) \<Rightarrow> q = p \<and> sup_activeSet s' = sup_activeSet s \<and> sup_active s' = sup_active s
     | Some (RestoreFailed q e q' e') \<Rightarrow> q = p \<and> q' = sup_active s \<and> sup_activeSet s \<and> \<not> sup_activeSet s' \<and> live tr' = []
     | Some _ \<Rightarrow> False)"
proof (cases "(sup_activeSet s \<and> sup_active s = p) \<or> gm_get (sup_specs s) p = None")
  case True
  with assms show ?thesis by (auto simp: Activate_def split: if_splits)
next
  case False
  then obtain spec where spec: "gm_get (sup_specs s) p = Some spec" by auto
  show ?thesis
  proof (cases "sup_activeSet s")
    case inactive: False
    then have "live tr = []" using assms(1) by (auto simp: sup_ok_def)
    moreover have "start_or_restore h p spec (sup_active s) False s tr = (err, s', tr')"
      using assms(2) False inactive spec by (simp add: Activate_def)
    ultimately show ?thesis
      using start_or_restore_ok [OF assms(1) _ spec inactive, of h "sup_active s" False err s' tr'] inactive
      by (auto split: option.splits sup_error.splits)
  next
    case active: True
    obtain e1 s1 t1 where st: "stopLocked h s tr = (e1, s1, t1)" by (metis prod.exhaust)
    note ok1 = stopLocked_ok [OF assms(1) st] and eff = stopLocked_effect [OF st]
    show ?thesis
    proof (cases e1)
      case (Some e)
      with st active False spec assms(2) eff ok1 show ?thesis by (auto simp: Activate_def)
    next
      case None
      with eff have s1: "s1 = s\<lparr>sup_active := [], sup_activeSet := False, sup_process := None\<rparr>" by simp
      have r: "start_or_restore h p spec (sup_active s) True s1 t1 = (err, s', tr')"
        using assms(2) False active spec st None by (simp add: Activate_def)
      have ok: "sup_ok s1 t1" and l: "live t1 = []" using ok1 None by auto
      have sp1: "gm_get (sup_specs s1) p = Some spec" and in1: "\<not> sup_activeSet s1" using s1 spec by auto
      have "live tr' = []" if "s' = s1" "sup_ok s1 tr'" using that s1 by (auto simp: sup_ok_def)
      with start_or_restore_ok [OF ok l sp1 in1 r] s1 active show ?thesis
        by (auto split: option.splits sup_error.splits)
    qed
  qed
qed

text \<open>
  C18: what \<open>Activate\<close> leaves behind. In a well-formed state, success means that the requested
  protocol is the active one. A protocol without a specification and a failed stop of the active
  protocol leave the state as it was; a failed start restores the previous protocol, if there was one;
  only if the restart fails too is nothing active afterwards. No other error is possible, and the state
  stays well-formed.
\<close>

theorem Activate_outcomes:
  assumes "sup_ok s tr" and "Activate h p s tr = (err, s', tr')"
  shows "sup_ok s' tr' \<and>
    (case err of
       None \<Rightarrow> sup_activeSet s' \<and> sup_active s' = p
     | Some (NoSpecFor q) \<Rightarrow> q = p \<and> gm_get (sup_specs s) p = None \<and> s' = s
     | Some (StopFailed q e) \<Rightarrow> q = sup_active s \<and> s' = s
     | Some (ActivateFailed q e) \<Rightarrow> q = p \<and> sup_activeSet s' = sup_activeSet s \<and> sup_active s' = sup_active s
     | Some (RestoreFailed q e q' e') \<Rightarrow> q = p \<and> q' = sup_active s \<and> sup_activeSet s \<and> \<not> sup_activeSet s' \<and> live tr' = []
     | Some _ \<Rightarrow> False)"
  using assms by (rule Activate_cases)

datatype sup_request = ReqActivate Protocol | ReqStop

fun serve :: "host \<Rightarrow> sup_request list \<Rightarrow> Supervisor \<times> trace \<Rightarrow> Supervisor \<times> trace" where
  \<comment> \<open>a sequence of calls of the supervisor, whatever their results\<close>
  "serve h [] st = st"
| "serve h (ReqActivate p # rs) (s, tr) = serve h rs (snd (Activate h p s tr))"
| "serve h (ReqStop # rs) (s, tr) = serve h rs (snd (Supervisor_Stop h s tr))"

lemma serve_ok: "sup_ok s tr \<Longrightarrow> serve h reqs (s, tr) = (s', tr') \<Longrightarrow> sup_ok s' tr'"
proof (induction reqs arbitrary: s tr)
  case Nil
  then show ?case by simp
next
  case (Cons r reqs)
  show ?case
  proof (cases r)
    case (ReqActivate p)
    obtain e s1 t1 where a: "Activate h p s tr = (e, s1, t1)" by (metis prod.exhaust)
    then have "sup_ok s1 t1" using Activate_cases [OF Cons.prems(1)] by blast
    with Cons a ReqActivate show ?thesis by simp
  next
    case ReqStop
    obtain e s1 t1 where a: "Supervisor_Stop h s tr = (e, s1, t1)" by (metis prod.exhaust)
    then have "sup_ok s1 t1"
      using Cons.prems(1) stopLocked_ok by (auto simp: Supervisor_Stop_def split: if_splits)
    with Cons a ReqStop show ?thesis by simp
  qed
qed

lemma index_specs_ok: "index_specs m specs = Inr m' \<Longrightarrow> specs_ok m \<Longrightarrow> specs_ok m'"
proof (induction specs arbitrary: m)
  case Nil
  then show ?case by simp
next
  case (Cons spec specs)
  then have v: "Spec_Validate spec = Inr ()" and "index_specs (gm_set (Spec_Protocol spec) spec m) specs = Inr m'"
    by (auto split: if_splits)
  moreover have "specs_ok (gm_set (Spec_Protocol spec) spec m)"
    using v Cons.prems(2) by (simp add: specs_ok_def)
  ultimately show ?case by (intro Cons.IH)
qed

lemma NewSupervisor_ok:
  assumes "NewSupervisor specs = Inr s"
  shows "sup_ok s []"
proof -
  obtain m where m: "index_specs [] specs = Inr m" and "s = \<lparr>sup_specs = m, sup_active = [], sup_activeSet = False, sup_process = None\<rparr>"
    using assms by (auto simp: NewSupervisor_def)
  moreover have "specs_ok m" using m by (rule index_specs_ok) (simp add: specs_ok_def)
  ultimately show ?thesis by (simp add: sup_ok_def)
qed

lemma distinct_live: "distinct (live tr)"
  by (simp add: live_def)

text \<open>
  C19: at most one transport process. After any sequence of calls of a fresh supervisor, and whatever
  the operating system answers, at most one managed process may be alive, it is the one the supervisor
  holds, and while no protocol is active none is. A process is held exactly when the active protocol
  runs in process mode.
\<close>

theorem supervisor_single_process:
  assumes "NewSupervisor specs = Inr s0" and "serve h reqs (s0, []) = (s, tr)"
  shows "length (live tr) \<le> 1 \<and> set (live tr) \<subseteq> set_option (sup_process s) \<and>
    (if sup_activeSet s
     then \<exists>spec. gm_get (sup_specs s) (sup_active s) = Some spec \<and> (sup_process s \<noteq> None \<longleftrightarrow> Spec_Mode spec = LifecycleProcess)
     else live tr = [])"
proof -
  have ok: "sup_ok s tr" using serve_ok [OF NewSupervisor_ok [OF assms(1)] assms(2)] .
  have sub: "set (live tr) \<subseteq> set_option (sup_process s)" using sup_okD(2) [OF ok] .
  moreover have "length (live tr) \<le> 1"
  proof -
    have "length (live tr) = card (set (live tr))" using distinct_live by (simp add: distinct_card)
    also have "\<dots> \<le> card (set_option (sup_process s))" by (rule card_mono [OF _ sub]) simp
    also have "\<dots> \<le> 1" by (cases "sup_process s") auto
    finally show ?thesis .
  qed
  ultimately show ?thesis using ok by (auto simp: sup_ok_def)
qed

lemma NewSupervisor_defaults:
  "\<exists>s. NewSupervisor (DefaultLifecycleSpecs dir) = Inr s"
  "\<exists>s. NewSupervisor (DefaultServerLifecycleSpecs dir) = Inr s"
proof -
  have b: "\<not> is_blank ''wg-quick''" "\<not> is_blank ''hysteria''" "\<not> is_blank ''xray''" "\<not> is_blank ''tuic-client''"
    "\<not> is_blank ''tuic-server''" by code_simp+
  show "\<exists>s. NewSupervisor (DefaultLifecycleSpecs dir) = Inr s"
    "\<exists>s. NewSupervisor (DefaultServerLifecycleSpecs dir) = Inr s"
    by (simp_all add: NewSupervisor_def DefaultLifecycleSpecs_def DefaultServerLifecycleSpecs_def Let_def process_spec_def
        Spec_Validate_def ProcessCommand_Validate_def KnownProtocol_def b gm_has_def go_defs)
qed

section \<open>Witnesses\<close>

definition sample_host :: host where
  \<comment> \<open>every call succeeds but starting xray\<close>
  "sample_host tr c = (case c of
     SpawnCmd cmd \<Rightarrow> if ProcessCommand_Name cmd = ''xray'' then Some ''executable file not found'' else None
   | _ \<Rightarrow> None)"

definition sample_supervisor :: Supervisor where
  "sample_supervisor = (case NewSupervisor (DefaultLifecycleSpecs []) of Inr s \<Rightarrow> s)"

lemma sample_supervisor_new: "NewSupervisor (DefaultLifecycleSpecs []) = Inr sample_supervisor"
  using NewSupervisor_defaults(1) [of "[]"] by (auto simp: sample_supervisor_def)

theorem supervisor_single_process_witness:
  "\<exists>s tr. serve sample_host [ReqActivate ProtocolWireGuard, ReqActivate ProtocolHysteria2, ReqActivate ProtocolTUIC, ReqStop,
       ReqActivate ProtocolHysteria2] (sample_supervisor, []) = (s, tr) \<and>
     length tr = 7 \<and> sup_active s = ProtocolHysteria2 \<and> length (live tr) \<le> 1"
proof -
  let ?r = "serve sample_host [ReqActivate ProtocolWireGuard, ReqActivate ProtocolHysteria2, ReqActivate ProtocolTUIC, ReqStop,
       ReqActivate ProtocolHysteria2] (sample_supervisor, [])"
  obtain s tr where r: "?r = (s, tr)" by fastforce
  have "length (snd ?r) = 7 \<and> sup_active (fst ?r) = ProtocolHysteria2" by code_simp
  with r supervisor_single_process [OF sample_supervisor_new r] show ?thesis by auto
qed

definition sample_active :: "Supervisor \<times> trace" where
  "sample_active = serve sample_host [ReqActivate ProtocolHysteria2] (sample_supervisor, [])"

theorem Activate_outcomes_witness:
  "\<exists>e s tr. Activate sample_host ProtocolReality (fst sample_active) (snd sample_active) =
       (Some (ActivateFailed ProtocolReality e), s, tr) \<and> sup_active s = ProtocolHysteria2 \<and> sup_activeSet s"
proof -
  have ok: "sup_ok (fst sample_active) (snd sample_active)"
    by (rule serve_ok [OF NewSupervisor_ok [OF sample_supervisor_new]]) (simp only: sample_active_def prod.collapse)
  let ?a = "Activate sample_host ProtocolReality (fst sample_active) (snd sample_active)"
  obtain err s tr where a: "?a = (err, s, tr)" by (metis prod.exhaust)
  have "fst ?a = Some (ActivateFailed ProtocolReality (HostFailed ''executable file not found''))" by code_simp
  moreover have "sup_active (fst sample_active) = ProtocolHysteria2" "sup_activeSet (fst sample_active)" by code_simp+
  ultimately show ?thesis using Activate_outcomes [OF ok a] a by auto
qed

end
