(* ===== verification/Edge.thy ===== *)
theory Edge
  imports Transport
begin

text \<open>
  The edge ingress (internal/edge): credentials, the fixed-window rate limiter, the health tracker and
  the scheduler (edge.go), the HTTP handler that assigns an egress node (handler.go), the runtime that
  forwards connections (runtime.go, forwarder.go) and the token extraction of the adapters
  (adapter.go).

  Connections are values of a type variable; what the network does with them (dialling, copying,
  reading) is a parameter of the definitions. The limiter is the only state that requests change; its
  mutex makes each \<open>Allow\<close> one step, so a sequence of requests is a sequence of steps in the order of
  their calls of \<open>Allow\<close>.
\<close>

section \<open>Credentials\<close>

record Credential =
  Credential_Token :: string
  Credential_TenantID :: string
  Credential_DeviceID :: string

datatype edge_error =
    CredentialTokenRequired
  | CredentialTenantRequired
  | CredentialDeviceRequired
  | LimitPositive
  | WindowPositive
  | HealthTTLPositive
  | HeartbeatIDRequired
  | HeartbeatRegionRequired
  | HeartbeatLoadNegative
  | HeartbeatTimeRequired
  | CandidateIDRequired
  | NoHealthyCandidate
  | EdgeCredentialInvalid
  | EdgeRateLimited
  | TargetNodeRequired
  | TargetRegionRequired
  | TargetAddressRequired
  | DuplicateTarget string
  | NoTargets
  | NoTargetFor string
  | ClientRequired
  | EgressRequired
  | NoReachableEgress "(string \<times> edge_error) list"
  | DialFailed string
  | NilConnection
  | IngressProtocolUnknown Protocol
  | ListenerRequired
  | ListenAddressRequired
  | ExtractorRequired
  | ListenFailed string
  | ConnectionRequired
  | DeadlineFailed string
  | ExtractCtx ctx_error
  | ReadFailed string
  | TokenLineTooLong int
  | TokenPrefixMismatch
  | TokenRequired

record Authenticator =
  auth_credentials :: "(string, Credential) gomap"

fun index_credentials :: "(string, Credential) gomap \<Rightarrow> Credential list \<Rightarrow> edge_error + (string, Credential) gomap" where
  "index_credentials m [] = Inr m"
| "index_credentials m (credential # rest) =
     check (Credential_Token credential = []) CredentialTokenRequired (
     check (Credential_TenantID credential = []) CredentialTenantRequired (
     check (Credential_DeviceID credential = []) CredentialDeviceRequired (
     index_credentials (gm_set (Credential_Token credential) credential m) rest)))"

definition NewAuthenticator :: "Credential list \<Rightarrow> edge_error + Authenticator" where
  "NewAuthenticator credentials =
     bind (index_credentials [] credentials) (\<lambda>m. Inr \<lparr>auth_credentials = m\<rparr>)"

definition Authenticate :: "Authenticator \<Rightarrow> string \<Rightarrow> Credential option" where
  "Authenticate a token = gm_get (auth_credentials a) token"

section \<open>The rate limiter\<close>

record counter =
  counter_start :: time
  counter_used :: int

record WindowLimiter =
  limiter_limit :: int
  limiter_window :: duration
  limiter_counters :: "(string, counter) gomap"

definition NewWindowLimiter :: "int \<Rightarrow> duration \<Rightarrow> edge_error + WindowLimiter" where
  "NewWindowLimiter limit window =
     check (limit \<le> 0) LimitPositive (
     check (window \<le> 0) WindowPositive (
     Inr \<lparr>limiter_limit = limit, limiter_window = window, limiter_counters = []\<rparr>))"

definition zero_counter :: counter where
  "zero_counter = \<lparr>counter_start = 0, counter_used = 0\<rparr>"

definition Allow :: "string \<Rightarrow> time \<Rightarrow> WindowLimiter \<Rightarrow> bool \<times> WindowLimiter" where
  "Allow key now l =
     (let current = gm_default zero_counter (limiter_counters l) key;
          current = (if IsZero (counter_start current) \<or> Time_Sub now (counter_start current) \<ge> limiter_window l
                     then \<lparr>counter_start = now, counter_used = 0\<rparr> else current)
      in if counter_used current \<ge> limiter_limit l
         then (False, l\<lparr>limiter_counters := gm_set key current (limiter_counters l)\<rparr>)
         else let current = current\<lparr>counter_used := wrap64 (counter_used current + 1)\<rparr>
              in (True, l\<lparr>limiter_counters := gm_set key current (limiter_counters l)\<rparr>))"

section \<open>Health and scheduling\<close>

record Candidate =
  Candidate_ID :: string
  Candidate_Region :: string
  Candidate_Healthy :: bool
  Candidate_Load :: int

record Heartbeat =
  Heartbeat_ID :: string
  Heartbeat_Region :: string
  Heartbeat_Load :: int
  Heartbeat_Observed :: time

record HealthTracker =
  tracker_ttl :: duration
  tracker_nodes :: "(string, Heartbeat) gomap"

definition NewHealthTracker :: "duration \<Rightarrow> edge_error + HealthTracker" where
  "NewHealthTracker ttl = check (ttl \<le> 0) HealthTTLPositive (Inr \<lparr>tracker_ttl = ttl, tracker_nodes = []\<rparr>)"

definition Observe :: "Heartbeat \<Rightarrow> HealthTracker \<Rightarrow> edge_error + HealthTracker" where
  "Observe hb t =
     check (Heartbeat_ID hb = []) HeartbeatIDRequired (
     check (Heartbeat_Region hb = []) HeartbeatRegionRequired (
     check (Heartbeat_Load hb < 0) HeartbeatLoadNegative (
     check (IsZero (Heartbeat_Observed hb)) HeartbeatTimeRequired (
     Inr (t\<lparr>tracker_nodes := gm_set (Heartbeat_ID hb) hb (tracker_nodes t)\<rparr>)))))"

definition candidate_of :: "duration \<Rightarrow> time \<Rightarrow> Heartbeat \<Rightarrow> Candidate" where
  "candidate_of ttl now hb = \<lparr>Candidate_ID = Heartbeat_ID hb, Candidate_Region = Heartbeat_Region hb,
     Candidate_Healthy = (\<not> IsZero (Heartbeat_Observed hb) \<and> Time_Sub now (Heartbeat_Observed hb) \<le> ttl),
     Candidate_Load = Heartbeat_Load hb\<rparr>"

definition Candidates :: "time \<Rightarrow> HealthTracker \<Rightarrow> Candidate list" where
  "Candidates now t =
     SliceStable (key_less Candidate_ID) (map (candidate_of (tracker_ttl t) now) (gm_values (tracker_nodes t)))"

definition candidate_less :: "Candidate \<Rightarrow> Candidate \<Rightarrow> bool" where
  "candidate_less a b =
     (if Candidate_Load a = Candidate_Load b then Candidate_ID a < Candidate_ID b
      else Candidate_Load a < Candidate_Load b)"

fun healthy_only :: "Candidate list \<Rightarrow> edge_error + Candidate list" where
  \<comment> \<open>the loop of \<open>Rank\<close>\<close>
  "healthy_only [] = Inr []"
| "healthy_only (c # cs) =
     check (Candidate_ID c = []) CandidateIDRequired (
     bind (healthy_only cs) (\<lambda>hs. Inr (if Candidate_Healthy c then c # hs else hs)))"

definition Rank :: "Candidate list \<Rightarrow> edge_error + Candidate list" where
  "Rank candidates =
     bind (healthy_only candidates) (\<lambda>healthy.
     check (healthy = []) NoHealthyCandidate (
     Inr (SliceStable candidate_less healthy)))"

definition Pick :: "Candidate list \<Rightarrow> edge_error + Candidate" where
  "Pick candidates = bind (Rank candidates) (\<lambda>ranked. Inr (hd ranked))"

section \<open>The assignment handler\<close>

record IngressAssignment =
  Assignment_TenantID :: string
  Assignment_DeviceID :: string
  Assignment_EgressNodeID :: string
  Assignment_Region :: string
  Assignment_ExpiresAt :: time

record edge_request =
  edge_method :: string
  edge_token_header :: string
  edge_authorization :: string

datatype edge_response =
    MethodNotAllowed
  | EdgeErr nat edge_error
  | EdgeOK IngressAssignment

definition edgeToken :: "edge_request \<Rightarrow> string" where
  "edgeToken r =
     (let token = TrimSpace (edge_token_header r) in
      if token \<noteq> [] then token
      else if HasPrefix (edge_authorization r) ''Bearer ''
      then TrimSpace (TrimPrefix (edge_authorization r) ''Bearer '')
      else [])"

definition limit_key :: "Credential \<Rightarrow> string" where
  "limit_key c = Credential_TenantID c @ '':'' @ Credential_DeviceID c"

definition assignment_of :: "Credential \<Rightarrow> Candidate \<Rightarrow> time \<Rightarrow> IngressAssignment" where
  \<comment> \<open>the assignment both front ends build; their \<open>ttl\<close> is one minute\<close>
  "assignment_of credential selected now = \<lparr>Assignment_TenantID = Credential_TenantID credential,
     Assignment_DeviceID = Credential_DeviceID credential, Assignment_EgressNodeID = Candidate_ID selected,
     Assignment_Region = Candidate_Region selected, Assignment_ExpiresAt = now + nminute\<rparr>"

definition handleAssignment ::
  "Authenticator \<Rightarrow> HealthTracker \<Rightarrow> time \<Rightarrow> edge_request \<Rightarrow> WindowLimiter \<Rightarrow> edge_response \<times> WindowLimiter" where
  "handleAssignment auth tracker now r limiter =
     (if edge_method r \<noteq> ''POST'' then (MethodNotAllowed, limiter)
      else case Authenticate auth (edgeToken r) of
        None \<Rightarrow> (EdgeErr 401 EdgeCredentialInvalid, limiter)
      | Some credential \<Rightarrow>
          (case Allow (limit_key credential) now limiter of
             (False, limiter) \<Rightarrow> (EdgeErr 429 EdgeRateLimited, limiter)
           | (True, limiter) \<Rightarrow>
               (case Pick (Candidates now tracker) of
                  Inl err \<Rightarrow> (EdgeErr 503 err, limiter)
                | Inr selected \<Rightarrow> (EdgeOK (assignment_of credential selected now), limiter))))"

section \<open>Egress targets\<close>

record EgressTarget =
  Target_NodeID :: string
  Target_Region :: string
  Target_Address :: string

definition EgressTarget_Validate :: "EgressTarget \<Rightarrow> edge_error + unit" where
  "EgressTarget_Validate t =
     check (is_blank (Target_NodeID t)) TargetNodeRequired (
     check (is_blank (Target_Region t)) TargetRegionRequired (
     check (is_blank (Target_Address t)) TargetAddressRequired (Inr ())))"

type_synonym StaticEgressResolver = "(string, EgressTarget) gomap"

fun index_targets :: "StaticEgressResolver \<Rightarrow> EgressTarget list \<Rightarrow> edge_error + StaticEgressResolver" where
  "index_targets resolver [] = Inr resolver"
| "index_targets resolver (target # rest) =
     bind (EgressTarget_Validate target) (\<lambda>_.
     check (gm_has resolver (Target_NodeID target)) (DuplicateTarget (Target_NodeID target)) (
     index_targets (gm_set (Target_NodeID target) target resolver) rest))"

definition NewStaticEgressResolver :: "EgressTarget list \<Rightarrow> edge_error + StaticEgressResolver" where
  "NewStaticEgressResolver targets =
     bind (index_targets [] targets) (\<lambda>resolver.
     check (resolver = []) NoTargets (Inr resolver))"

definition ResolveEgress :: "StaticEgressResolver \<Rightarrow> Candidate \<Rightarrow> edge_error + EgressTarget" where
  "ResolveEgress r candidate =
     check (is_blank (Candidate_ID candidate)) CandidateIDRequired (
     case gm_get r (Candidate_ID candidate) of
       None \<Rightarrow> Inl (NoTargetFor (Candidate_ID candidate))
     | Some target \<Rightarrow> bind (EgressTarget_Validate target) (\<lambda>_. Inr target))"

definition NetDialer_DialEgress :: "(string \<Rightarrow> string \<Rightarrow> string + 'c option) \<Rightarrow> string \<Rightarrow> EgressTarget \<Rightarrow> edge_error + 'c option" where
  \<comment> \<open>\<open>dial network address\<close> is the outcome of net.Dialer\<close>
  "NetDialer_DialEgress dial net target =
     bind (EgressTarget_Validate target) (\<lambda>_.
     let network = (if TrimSpace net = [] then ''tcp'' else TrimSpace net) in
     case dial network (Target_Address target) of Inl e \<Rightarrow> Inl (DialFailed e) | Inr c \<Rightarrow> Inr c)"

section \<open>Forwarding\<close>

record ForwardStats =
  ClientToEgressBytes :: int
  EgressToClientBytes :: int

record conn_error =
  ce_is_net_closed :: bool
  ce_is_closed_pipe :: bool
  ce_text :: string

definition expectedCloseError :: "(string \<Rightarrow> string) \<Rightarrow> conn_error option \<Rightarrow> bool" where
  "expectedCloseError uc err =
     (case err of
        None \<Rightarrow> True
      | Some e \<Rightarrow> ce_is_net_closed e \<or> ce_is_closed_pipe e \<or> Contains_str (ToLower uc (ce_text e)) ''closed pipe'' \<or>
          Contains_str (ToLower uc (ce_text e)) ''use of closed network connection'')"

record copyResult =
  copy_direction :: string
  copy_bytes :: int
  copy_err :: "conn_error option"

datatype forward_error = CopyFailed conn_error | ForwardCtx ctx_error | ForwardArg edge_error

fun collect_copies :: "(string \<Rightarrow> string) \<Rightarrow> copyResult list \<Rightarrow> ForwardStats \<times> conn_error option \<Rightarrow> ForwardStats \<times> conn_error option" where
  \<comment> \<open>the loop over the results in the order they arrive\<close>
  "collect_copies uc [] acc = acc"
| "collect_copies uc (result # rest) (stats, firstErr) =
     (let stats = (if copy_direction result = ''client_to_egress'' then stats\<lparr>ClientToEgressBytes := copy_bytes result\<rparr>
                   else if copy_direction result = ''egress_to_client'' then stats\<lparr>EgressToClientBytes := copy_bytes result\<rparr>
                   else stats);
          firstErr = (if copy_err result \<noteq> None \<and> \<not> expectedCloseError uc (copy_err result) \<and> firstErr = None
                      then copy_err result else firstErr)
      in collect_copies uc rest (stats, firstErr))"

definition ForwardBidirectional ::
  "(string \<Rightarrow> string) \<Rightarrow> ('c \<Rightarrow> 'c \<Rightarrow> (copyResult \<times> copyResult) \<times> ctx_error option) \<Rightarrow> 'c option \<Rightarrow> 'c option \<Rightarrow> ForwardStats \<times> forward_error option" where
  \<comment> \<open>\<open>copies client egress\<close> gives the results of the two copies as they arrive and the context's error at the end\<close>
  "ForwardBidirectional uc copies client egress =
     (case client of
        None \<Rightarrow> (\<lparr>ClientToEgressBytes = 0, EgressToClientBytes = 0\<rparr>, Some (ForwardArg ClientRequired))
      | Some cl \<Rightarrow>
        (case egress of
           None \<Rightarrow> (\<lparr>ClientToEgressBytes = 0, EgressToClientBytes = 0\<rparr>, Some (ForwardArg EgressRequired))
         | Some eg \<Rightarrow>
             (case copies cl eg of ((first, second), ctxErr) \<Rightarrow>
                (case collect_copies uc [first, second] (\<lparr>ClientToEgressBytes = 0, EgressToClientBytes = 0\<rparr>, None) of
                   (stats, Some e) \<Rightarrow> (stats, Some (CopyFailed e))
                 | (stats, None) \<Rightarrow>
                     (case ctxErr of
                        Some DeadlineExceeded \<Rightarrow> (stats, Some (ForwardCtx DeadlineExceeded))
                      | _ \<Rightarrow> (stats, None))))))"

section \<open>The ingress runtime\<close>

record IngressForwardResult =
  Result_Credential :: Credential
  Result_Assignment :: IngressAssignment
  Result_Target :: EgressTarget
  Result_Stats :: ForwardStats

text \<open>Trying the ranked candidates: the first that resolves and can be dialled, or why each failed.\<close>

fun try_candidates ::
  "(Candidate \<Rightarrow> edge_error + EgressTarget) \<Rightarrow> (EgressTarget \<Rightarrow> edge_error + 'c option) \<Rightarrow> (string \<times> edge_error) list \<Rightarrow> Candidate list \<Rightarrow>
     (string \<times> edge_error) list + Candidate \<times> EgressTarget \<times> 'c" where
  "try_candidates resolve dial errs [] = Inl errs"
| "try_candidates resolve dial errs (candidate # rest) =
     (case resolve candidate of
        Inl err \<Rightarrow> try_candidates resolve dial (errs @ [(Candidate_ID candidate, err)]) rest
      | Inr resolved \<Rightarrow>
          (case dial resolved of
             Inl err \<Rightarrow> try_candidates resolve dial (errs @ [(Target_NodeID resolved, err)]) rest
           | Inr None \<Rightarrow> try_candidates resolve dial (errs @ [(Target_NodeID resolved, NilConnection)]) rest
           | Inr (Some conn) \<Rightarrow> Inr (candidate, resolved, conn)))"

datatype 'c conn_outcome =
    Refused edge_error bool \<comment> \<open>the error and whether the client connection was closed\<close>
  | Forwarded IngressForwardResult "forward_error option"

record 'c IngressRuntime =
  rt_auth :: Authenticator
  rt_tracker :: HealthTracker
  rt_resolve :: "Candidate \<Rightarrow> edge_error + EgressTarget"
  rt_dial :: "EgressTarget \<Rightarrow> edge_error + 'c option"

definition HandleConnection ::
  "(string \<Rightarrow> string) \<Rightarrow> ('c \<Rightarrow> 'c \<Rightarrow> (copyResult \<times> copyResult) \<times> ctx_error option) \<Rightarrow> 'c IngressRuntime \<Rightarrow> time \<Rightarrow> string \<Rightarrow> 'c option \<Rightarrow>
     WindowLimiter \<Rightarrow> 'c conn_outcome \<times> WindowLimiter" where
  "HandleConnection uc copies r now token client limiter =
     (if client = None then (Refused ClientRequired False, limiter)
      else case Authenticate (rt_auth r) (TrimSpace token) of
        None \<Rightarrow> (Refused EdgeCredentialInvalid True, limiter)
      | Some credential \<Rightarrow>
          (case Allow (limit_key credential) now limiter of
             (False, limiter) \<Rightarrow> (Refused EdgeRateLimited True, limiter)
           | (True, limiter) \<Rightarrow>
               (case Rank (Candidates now (rt_tracker r)) of
                  Inl err \<Rightarrow> (Refused err True, limiter)
                | Inr candidates \<Rightarrow>
                    (case try_candidates (rt_resolve r) (rt_dial r) [] candidates of
                       Inl attemptErrors \<Rightarrow> (Refused (NoReachableEgress attemptErrors) True, limiter)
                     | Inr (selected, target, egress) \<Rightarrow>
                         (case ForwardBidirectional uc copies client (Some egress) of (stats, err) \<Rightarrow>
                            (Forwarded \<lparr>Result_Credential = credential,
                               Result_Assignment = assignment_of credential selected now,
                               Result_Target = target, Result_Stats = stats\<rparr> err, limiter))))))"

section \<open>Adapters and token extraction\<close>

definition extractLineToken :: "string \<Rightarrow> string \<Rightarrow> edge_error + string" where
  "extractLineToken line pre =
     (let raw = TrimSpace line in
      check (pre \<noteq> [] \<and> \<not> HasPrefix raw pre) TokenPrefixMismatch (
      let raw = (if pre \<noteq> [] then TrimSpace (TrimPrefix raw pre) else raw) in
      check (raw = []) TokenRequired (Inr raw)))"

datatype read_error = EOF | ReadErr string

text \<open>
  One turn of the read loop: the context's error if it is done, the byte that was read if any, and the
  error of the read. The loop waits for as long as turns are missing, which is \<open>None\<close>.
\<close>

type_synonym read_turn = "ctx_error option \<times> char option \<times> read_error option"

fun read_token :: "int \<Rightarrow> string \<Rightarrow> string \<Rightarrow> read_turn list \<Rightarrow> (edge_error + string) option" where
  "read_token maxBytes pre line turns =
     (if \<not> int (length line) < maxBytes then Some (Inl (TokenLineTooLong maxBytes))
      else case turns of
        [] \<Rightarrow> None
      | (Some err, _) # _ \<Rightarrow> Some (Inl (ExtractCtx err))
      | (None, byte, err) # rest \<Rightarrow>
          if byte = Some (CHR 0x0A) then Some (extractLineToken line pre)
          else let line = (case byte of None \<Rightarrow> line | Some b \<Rightarrow> line @ [b])
               in case err of
                    Some e \<Rightarrow> if e = EOF \<and> line \<noteq> [] then Some (extractLineToken line pre)
                              else Some (Inl (ReadFailed (case e of EOF \<Rightarrow> ''EOF'' | ReadErr m \<Rightarrow> m)))
                  | None \<Rightarrow> read_token maxBytes pre line rest)"

record LineTokenExtractor =
  lte_Prefix :: string
  lte_MaxBytes :: int
  lte_ReadTimeout :: duration

definition ExtractToken :: "LineTokenExtractor \<Rightarrow> string option \<Rightarrow> read_turn list option \<Rightarrow> (edge_error + string) option" where
  \<comment> \<open>\<open>deadline\<close> is the error of \<open>SetReadDeadline\<close>; no connection is \<open>None\<close>\<close>
  "ExtractToken e deadline conn =
     (case conn of
        None \<Rightarrow> Some (Inl ConnectionRequired)
      | Some turns \<Rightarrow>
          let maxBytes = (if lte_MaxBytes e \<le> 0 then 4096 else lte_MaxBytes e)
          in case (if lte_ReadTimeout e > 0 then deadline else None) of
               Some err \<Rightarrow> Some (Inl (DeadlineFailed err))
             | None \<Rightarrow> read_token maxBytes (lte_Prefix e) [] turns)"

definition validateIngressProtocol :: "Protocol \<Rightarrow> edge_error + unit" where
  "validateIngressProtocol protocol = check (\<not> KnownProtocol protocol) (IngressProtocolUnknown protocol) (Inr ())"

definition StaticIngressAdapter_Listen :: "Protocol \<Rightarrow> 'l option \<Rightarrow> 'x option \<Rightarrow> edge_error + 'l \<times> 'x" where
  "StaticIngressAdapter_Listen proto listener extractor =
     bind (validateIngressProtocol proto) (\<lambda>_.
     case listener of None \<Rightarrow> Inl ListenerRequired
     | Some l \<Rightarrow> (case extractor of None \<Rightarrow> Inl ExtractorRequired | Some x \<Rightarrow> Inr (l, x)))"

definition TCPIngressAdapter_Listen :: "(string \<Rightarrow> string \<Rightarrow> string + 'l) \<Rightarrow> Protocol \<Rightarrow> string \<Rightarrow> 'x option \<Rightarrow> edge_error + 'l \<times> 'x" where
  \<comment> \<open>\<open>listen network address\<close> is the outcome of net.ListenConfig\<close>
  "TCPIngressAdapter_Listen listen proto address extractor =
     bind (validateIngressProtocol proto) (\<lambda>_.
     let address = TrimSpace address in
     check (address = []) ListenAddressRequired (
     case extractor of None \<Rightarrow> Inl ExtractorRequired
     | Some x \<Rightarrow> (case listen ''tcp'' address of Inl e \<Rightarrow> Inl (ListenFailed e) | Inr l \<Rightarrow> Inr (l, x))))"

text \<open>
  The accept loop. Each accepted connection is handled in its own goroutine; an element of the
  schedule is one of them, in the order of their calls of \<open>Allow\<close>, with the outcome of its token
  extraction, or the error that ends the loop together with the context's error at that time.
\<close>

datatype 'c accept_event =
    Accepted "(edge_error + string) option" 'c time
  | AcceptErr conn_error "ctx_error option"

datatype serve_error = ServeArg edge_error | ServeCtx ctx_error | ServeAccept conn_error

fun accept_loop ::
  "(string \<Rightarrow> string) \<Rightarrow> ('c \<Rightarrow> 'c \<Rightarrow> (copyResult \<times> copyResult) \<times> ctx_error option) \<Rightarrow> 'c IngressRuntime \<Rightarrow> 'c accept_event list \<Rightarrow> WindowLimiter \<Rightarrow>
     ('c conn_outcome list \<times> serve_error option) \<times> WindowLimiter" where
  "accept_loop uc copies r [] limiter = (([], None), limiter)"
| "accept_loop uc copies r (AcceptErr err contextErr # _) limiter =
     (([], case contextErr of Some e \<Rightarrow> Some (ServeCtx e)
           | None \<Rightarrow> if expectedCloseError uc (Some err) then None else Some (ServeAccept err)), limiter)"
| "accept_loop uc copies r (Accepted token conn now # rest) limiter =
     (case token of
        Some (Inr t) \<Rightarrow>
          (case HandleConnection uc copies r now t (Some conn) limiter of (out, limiter) \<Rightarrow>
          (case accept_loop uc copies r rest limiter of ((outs, e), limiter) \<Rightarrow> ((out # outs, e), limiter)))
      | Some (Inl err) \<Rightarrow>
          (case accept_loop uc copies r rest limiter of ((outs, e), limiter) \<Rightarrow> ((Refused err True # outs, e), limiter))
      | None \<Rightarrow> accept_loop uc copies r rest limiter)"

definition Serve ::
  "(string \<Rightarrow> string) \<Rightarrow> ('c \<Rightarrow> 'c \<Rightarrow> (copyResult \<times> copyResult) \<times> ctx_error option) \<Rightarrow> 'c IngressRuntime \<Rightarrow> bool \<Rightarrow> bool \<Rightarrow> 'c accept_event list \<Rightarrow>
     WindowLimiter \<Rightarrow> ('c conn_outcome list \<times> serve_error option) \<times> WindowLimiter" where
  \<comment> \<open>the booleans say whether a listener and an extractor were given\<close>
  "Serve uc copies r listener extractor events limiter =
     (if \<not> listener then (([], Some (ServeArg ListenerRequired)), limiter)
      else if \<not> extractor then (([], Some (ServeArg ExtractorRequired)), limiter)
      else accept_loop uc copies r events limiter)"

declare read_token.simps [simp del]

section \<open>The limiter, one key at a time\<close>

definition tick :: "int \<Rightarrow> duration \<Rightarrow> time \<Rightarrow> counter \<Rightarrow> bool \<times> counter" where
  "tick limit window now c =
     (let c = (if IsZero (counter_start c) \<or> now - counter_start c \<ge> window then \<lparr>counter_start = now, counter_used = 0\<rparr> else c)
      in if counter_used c \<ge> limit then (False, c) else (True, c\<lparr>counter_used := counter_used c + 1\<rparr>))"

definition counter_at :: "WindowLimiter \<Rightarrow> string \<Rightarrow> counter" where
  "counter_at l k = gm_default zero_counter (limiter_counters l) k"

definition limits_ok :: "WindowLimiter \<Rightarrow> bool" where
  "limits_ok l \<longleftrightarrow> 0 < limiter_limit l \<and> int64 (limiter_limit l) \<and> 0 < limiter_window l \<and> int64 (limiter_window l)"

lemma Allow_tick:
  assumes "limits_ok l" and "Allow k now l = (b, l')" and "counter_used (counter_at l k) \<ge> 0"
  shows "tick (limiter_limit l) (limiter_window l) now (counter_at l k) = (b, counter_at l' k)"
    and "k' \<noteq> k \<Longrightarrow> counter_at l' k' = counter_at l k'"
    and "limiter_limit l' = limiter_limit l" and "limiter_window l' = limiter_window l"
proof -
  have t: "Time_Sub now s \<ge> limiter_window l \<longleftrightarrow> now - s \<ge> limiter_window l" for s
    using Time_Sub_less [of "limiter_window l" now s] assms(1) by (auto simp: limits_ok_def)
  have w: "wrap64 (u + 1) = u + 1" if "0 \<le> u" "u < limiter_limit l" for u
    using that assms(1) by (intro wrap64_id) (auto simp: limits_ok_def int64_def)
  show "tick (limiter_limit l) (limiter_window l) now (counter_at l k) = (b, counter_at l' k)"
    using assms(1,2,3) w [of 0] w [of "counter_used (counter_at l k)"]
    by (auto simp: Allow_def tick_def Let_def t counter_at_def gm_default_def limits_ok_def not_le split: if_splits)
  show "k' \<noteq> k \<Longrightarrow> counter_at l' k' = counter_at l k'" "limiter_limit l' = limiter_limit l" "limiter_window l' = limiter_window l"
    using assms(2) by (auto simp: Allow_def Let_def counter_at_def gm_default_def split: if_splits)
qed

fun ticks :: "int \<Rightarrow> duration \<Rightarrow> time list \<Rightarrow> counter \<Rightarrow> time list" where
  \<comment> \<open>the instants that are let through\<close>
  "ticks limit window [] c = []"
| "ticks limit window (t # ts) c =
     (case tick limit window t c of (b, c') \<Rightarrow> (if b then [t] else []) @ ticks limit window ts c')"

lemma set_ticks: "set (ticks limit window ts c) \<subseteq> set ts"
  by (induction ts arbitrary: c) (auto split: prod.splits if_splits)

lemma ticks_none: "\<forall>t\<in>set ts. \<not> P t \<Longrightarrow> filter P (ticks limit window ts c) = []"
  using set_ticks [of limit window ts c] by (auto simp: filter_empty_conv)

lemma ticks_one_window:
  assumes "sorted ts" "\<forall>t\<in>set ts. counter_start c \<le> t" "counter_start c \<noteq> 0" "counter_used c \<le> limit"
    and "e \<le> counter_start c + window"
  shows "length (filter (\<lambda>t. t < e) (ticks limit window ts c)) \<le> nat (limit - counter_used c)"
  using assms
proof (induction ts arbitrary: c)
  case Nil
  then show ?case by simp
next
  case (Cons t ts)
  show ?case
  proof (cases "t - counter_start c \<ge> window")
    case True
    with Cons.prems have "\<forall>t'\<in>set (t # ts). \<not> t' < e" by fastforce
    then show ?thesis by (simp only: ticks_none) simp
  next
    case False
    show ?thesis
    proof (cases "counter_used c \<ge> limit")
      case full: True
      with False Cons.prems(3) have "tick limit window t c = (False, c)" by (simp add: tick_def IsZero_def)
      with Cons show ?thesis by simp
    next
      case free: False
      let ?c = "c\<lparr>counter_used := counter_used c + 1\<rparr>"
      have tk: "tick limit window t c = (True, ?c)" using False free Cons.prems(3) by (simp add: tick_def IsZero_def)
      have "length (filter (\<lambda>t. t < e) (ticks limit window ts ?c)) \<le> nat (limit - counter_used ?c)"
        using Cons.prems free by (intro Cons.IH) auto
      moreover have "nat (limit - counter_used c) = Suc (nat (limit - counter_used ?c))" using free by simp
      ultimately show ?thesis using tk by simp
    qed
  qed
qed

lemma tick_new_window:
  assumes "0 < limit" "counter_start c = 0 \<or> window \<le> t - counter_start c"
  shows "tick limit window t c = (True, \<lparr>counter_start = t, counter_used = 1\<rparr>)"
  using assms by (simp add: tick_def IsZero_def)

lemma ticks_from_new_window:
  assumes "0 < limit" "sorted (t # ts)" "t \<noteq> 0" "e \<le> t + window" "counter_start c = 0 \<or> window \<le> t - counter_start c"
  shows "length (filter (\<lambda>t. t < e) (ticks limit window (t # ts) c)) \<le> nat limit"
proof -
  let ?c = "\<lparr>counter_start = t, counter_used = 1\<rparr>"
  have "length (filter (\<lambda>t. t < e) (ticks limit window ts ?c)) \<le> nat (limit - counter_used ?c)"
    using assms by (intro ticks_one_window) auto
  with assms(1) tick_new_window [OF assms(1,5)] show ?thesis by auto
qed

lemma ticks_two_windows:
  assumes "0 < limit" "sorted ts" "\<forall>t\<in>set ts. counter_start c \<le> t \<and> t \<noteq> 0" "counter_start c \<noteq> 0"
    and "0 \<le> counter_used c" "counter_used c \<le> limit" and "e \<le> counter_start c + window + window"
  shows "length (filter (\<lambda>t. t < e) (ticks limit window ts c)) \<le> nat (limit - counter_used c) + nat limit"
  using assms(2-)
proof (induction ts arbitrary: c)
  case Nil
  then show ?case by simp
next
  case (Cons t ts)
  show ?case
  proof (cases "window \<le> t - counter_start c")
    case True
    then have "length (filter (\<lambda>t. t < e) (ticks limit window (t # ts) c)) \<le> nat limit"
      using assms(1) Cons.prems by (intro ticks_from_new_window) auto
    then show ?thesis by linarith
  next
    case False
    show ?thesis
    proof (cases "counter_used c \<ge> limit")
      case full: True
      with False Cons.prems(3) have "tick limit window t c = (False, c)" by (simp add: tick_def IsZero_def)
      with Cons show ?thesis by simp
    next
      case free: False
      let ?c = "c\<lparr>counter_used := counter_used c + 1\<rparr>"
      have tk: "tick limit window t c = (True, ?c)" using False free Cons.prems(3) by (simp add: tick_def IsZero_def)
      have "length (filter (\<lambda>t. t < e) (ticks limit window ts ?c)) \<le> nat (limit - counter_used ?c) + nat limit"
        using Cons.prems free by (intro Cons.IH) auto
      moreover have "nat (limit - counter_used c) = Suc (nat (limit - counter_used ?c))" using free by simp
      ultimately show ?thesis using tk by simp
    qed
  qed
qed

definition counter_ok :: "int \<Rightarrow> time list \<Rightarrow> counter \<Rightarrow> bool" where
  "counter_ok limit ts c \<longleftrightarrow> 0 \<le> counter_used c \<and> counter_used c \<le> limit \<and> (\<forall>t\<in>set ts. counter_start c = 0 \<or> counter_start c \<le> t)"

lemma tick_ok:
  assumes "0 < limit" "counter_ok limit (t # ts) c" "sorted (t # ts)"
  shows "counter_ok limit ts (snd (tick limit window t c))"
  using assms by (auto simp: counter_ok_def tick_def Let_def)

lemma ticks_bound:
  assumes "0 < limit" "sorted ts" "0 \<notin> set ts" "counter_ok limit ts c"
  shows "length (filter (\<lambda>t. a \<le> t \<and> t < a + window) (ticks limit window ts c)) \<le> 2 * nat limit"
  using assms(2-)
proof (induction ts arbitrary: c)
  case Nil
  then show ?case by simp
next
  case (Cons t ts)
  show ?case
  proof (cases "t < a")
    case True
    obtain b c' where tk: "tick limit window t c = (b, c')" by fastforce
    then have "counter_ok limit ts c'" using tick_ok [OF assms(1) Cons.prems(3,1), of window] by simp
    with Cons tk True show ?thesis by auto
  next
    case False
    then have "\<forall>t'\<in>set (t # ts). a \<le> t'" using Cons.prems(1) by auto
    then have eq: "filter (\<lambda>t. a \<le> t \<and> t < a + window) (ticks limit window (t # ts) c) =
        filter (\<lambda>t. t < a + window) (ticks limit window (t # ts) c)"
      using set_ticks [of limit window "t # ts" c] by (intro filter_cong) auto
    show ?thesis
    proof (cases "counter_start c = 0 \<or> window \<le> t - counter_start c")
      case True
      then have "length (filter (\<lambda>t. t < a + window) (ticks limit window (t # ts) c)) \<le> nat limit"
        using assms(1) Cons.prems False by (intro ticks_from_new_window) auto
      with eq show ?thesis by simp
    next
      case old: False
      then have "length (filter (\<lambda>t. t < a + window) (ticks limit window (t # ts) c)) \<le> nat (limit - counter_used c) + nat limit"
        using assms(1) Cons.prems False by (intro ticks_two_windows) (auto simp: counter_ok_def)
      moreover have "nat (limit - counter_used c) \<le> nat limit" using Cons.prems(3) by (intro nat_mono) (simp add: counter_ok_def)
      ultimately show ?thesis unfolding eq by linarith
    qed
  qed
qed

section \<open>Front ends\<close>

text \<open>
  Both front ends, the assignment handler and the connection runtime, admit a request in the same way:
  no credential means no effect, and a request with a credential is charged once to its device's key
  and is granted only if the limiter let it pass.
\<close>

fun serve_seq :: "('q \<Rightarrow> WindowLimiter \<Rightarrow> 'r \<times> WindowLimiter) \<Rightarrow> 'q list \<Rightarrow> WindowLimiter \<Rightarrow> ('q \<times> 'r) list" where
  "serve_seq serve [] l = []"
| "serve_seq serve (q # qs) l = (case serve q l of (r, l') \<Rightarrow> (q, r) # serve_seq serve qs l')"

lemma serve_seq_in: "(q, r) \<in> set (serve_seq serve qs l) \<Longrightarrow> \<exists>l1 l2. serve q l1 = (r, l2)"
  by (induction qs arbitrary: l) (auto split: prod.splits, metis)

lemma tick_used: "0 \<le> counter_used c \<Longrightarrow> 0 \<le> counter_used (snd (tick limit window now c))"
  by (simp add: tick_def Let_def)

locale ingress_front =
  fixes serve :: "'q \<Rightarrow> WindowLimiter \<Rightarrow> 'r \<times> WindowLimiter"
    and key_of :: "'q \<Rightarrow> string option"
    and now_of :: "'q \<Rightarrow> time"
    and granted :: "'r \<Rightarrow> bool"
  assumes unauthenticated: "serve q l = (r, l') \<Longrightarrow> key_of q = None \<Longrightarrow> \<not> granted r \<and> l' = l"
    and charged: "serve q l = (r, l') \<Longrightarrow> key_of q = Some k \<Longrightarrow>
      l' = snd (Allow k (now_of q) l) \<and> (granted r \<longrightarrow> fst (Allow k (now_of q) l))"
begin

lemma grants_le_ticks:
  assumes "limits_ok l" and "\<forall>k. 0 \<le> counter_used (counter_at l k)"
  shows "length (filter (\<lambda>(q, r). granted r \<and> key_of q = Some k \<and> P (now_of q)) (serve_seq serve qs l)) \<le>
    length (filter P (ticks (limiter_limit l) (limiter_window l) (map now_of (filter (\<lambda>q. key_of q = Some k) qs)) (counter_at l k)))"
  using assms
proof (induction qs arbitrary: l)
  case Nil
  then show ?case by simp
next
  case (Cons q qs)
  obtain r l' where s: "serve q l = (r, l')" by fastforce
  show ?case
  proof (cases "key_of q")
    case None
    with unauthenticated [OF s] Cons s show ?thesis by simp
  next
    case (Some k')
    obtain b where a: "Allow k' (now_of q) l = (b, l')" and g: "granted r \<Longrightarrow> b"
      using charged [OF s Some] by (metis prod.collapse fst_conv)
    note tk = Allow_tick [OF Cons.prems(1) a Cons.prems(2)[rule_format]]
    have "counter_used (counter_at l' k'') \<ge> 0" for k''
      using tk(1) tk(2) [of k''] Cons.prems(2) tick_used [of "counter_at l k'" "limiter_limit l" "limiter_window l" "now_of q"]
      by (cases "k'' = k'") auto
    moreover have "limits_ok l'" using Cons.prems(1) tk(3,4) by (simp add: limits_ok_def)
    ultimately have IH: "length (filter (\<lambda>(q, r). granted r \<and> key_of q = Some k \<and> P (now_of q)) (serve_seq serve qs l')) \<le>
        length (filter P (ticks (limiter_limit l) (limiter_window l) (map now_of (filter (\<lambda>q. key_of q = Some k) qs)) (counter_at l' k)))"
      using Cons.IH [of l'] tk(3,4) by simp
    show ?thesis
    proof (cases "k' = k")
      case True
      with IH s Some g tk(1) show ?thesis by auto
    next
      case False
      with IH s Some tk(2) [of k] show ?thesis by simp
    qed
  qed
qed

lemma grants_bounded:
  assumes "NewWindowLimiter limit window = Inr l" "int64 limit" "int64 window"
    and "sorted (map now_of qs)" "0 \<notin> now_of ` set qs"
  shows "int (length (filter (\<lambda>(q, r). granted r \<and> key_of q = Some k \<and> a \<le> now_of q \<and> now_of q < a + window) (serve_seq serve qs l))) \<le> 2 * limit"
proof -
  have l: "limiter_limit l = limit" "limiter_window l = window" "counter_at l k' = zero_counter" "0 < limit" "0 < window" for k'
    using assms(1) by (auto simp: NewWindowLimiter_def counter_at_def gm_default_def split: if_splits)
  let ?ts = "map now_of (filter (\<lambda>q. key_of q = Some k) qs)"
  have "length (filter (\<lambda>(q, r). granted r \<and> key_of q = Some k \<and> a \<le> now_of q \<and> now_of q < a + window) (serve_seq serve qs l)) \<le>
      length (filter (\<lambda>t. a \<le> t \<and> t < a + window) (ticks limit window ?ts zero_counter))"
    using grants_le_ticks [of l k "\<lambda>t. a \<le> t \<and> t < a + window" qs] l assms(2,3) by (simp add: limits_ok_def zero_counter_def)
  also have "\<dots> \<le> 2 * nat limit"
    using l assms(4,5) by (intro ticks_bound) (auto simp: counter_ok_def zero_counter_def sorted_filter)
  finally show ?thesis using l(4) by simp
qed

end

type_synonym 'c conn_request = "time \<times> string \<times> 'c option"

interpretation assignment_front: ingress_front
  "\<lambda>(now, req). handleAssignment auth tracker now req"
  "\<lambda>(now, req). if edge_method req = ''POST'' then map_option limit_key (Authenticate auth (edgeToken req)) else None"
  "fst" "\<lambda>r. \<exists>x. r = EdgeOK x"
  by unfold_locales
    (auto simp: handleAssignment_def split: prod.splits if_splits option.splits bool.splits sum.splits)

interpretation connection_front: ingress_front
  "\<lambda>(now, token, client). HandleConnection uc copies rt now token client"
  "\<lambda>(now, token, client). if client = None then None else map_option limit_key (Authenticate (rt_auth rt) (TrimSpace token))"
  "fst" "\<lambda>r. \<exists>x e. r = Forwarded x e"
  by unfold_locales
    (auto simp: HandleConnection_def split: prod.splits if_splits option.splits bool.splits sum.splits)

text \<open>
  C20: the rate limit of the assignment handler. For a fresh limiter and requests whose clock readings
  do not decrease, the handler issues, to the devices of one limiter key, at most twice the limit of
  assignments within any half-open interval as long as the window.
\<close>

theorem assignments_rate_limited:
  assumes "NewWindowLimiter limit window = Inr l" "int64 limit" "int64 window"
    and "sorted (map fst reqs)" "0 \<notin> fst ` set reqs"
  shows "int (length (filter (\<lambda>((now, req), resp). (\<exists>x. resp = EdgeOK x) \<and>
      (\<exists>c. Authenticate auth (edgeToken req) = Some c \<and> limit_key c = k) \<and> a \<le> now \<and> now < a + window)
     (serve_seq (\<lambda>(now, req). handleAssignment auth tracker now req) reqs l))) \<le> 2 * limit"
proof -
  let ?run = "serve_seq (\<lambda>(now, req). handleAssignment auth tracker now req) reqs l"
  have "resp \<noteq> EdgeOK x" if "((now, req), resp) \<in> set ?run" "edge_method req \<noteq> ''POST''" for now req resp x
    using serve_seq_in [OF that(1)] that(2) by (auto simp: handleAssignment_def)
  then have "filter (\<lambda>((now, req), resp). (\<exists>x. resp = EdgeOK x) \<and>
      (\<exists>c. Authenticate auth (edgeToken req) = Some c \<and> limit_key c = k) \<and> a \<le> now \<and> now < a + window) ?run =
    filter (\<lambda>(q, r). (\<exists>x. r = EdgeOK x) \<and> (case q of (now, req) \<Rightarrow> if edge_method req = ''POST''
       then map_option limit_key (Authenticate auth (edgeToken req)) else None) = Some k \<and> a \<le> fst q \<and> fst q < a + window) ?run"
    by (intro filter_cong) fastforce+
  then show ?thesis using assignment_front.grants_bounded [OF assms, of auth k a tracker] by simp
qed

definition sample_auth :: Authenticator where
  "sample_auth = \<lparr>auth_credentials = [(''tok'', \<lparr>Credential_Token = ''tok'', Credential_TenantID = ''t1'', Credential_DeviceID = ''d1''\<rparr>)]\<rparr>"

definition sample_tracker :: HealthTracker where
  "sample_tracker = \<lparr>tracker_ttl = 1000, tracker_nodes =
     [(''n1'', \<lparr>Heartbeat_ID = ''n1'', Heartbeat_Region = ''eu'', Heartbeat_Load = 7, Heartbeat_Observed = 5\<rparr>),
      (''n2'', \<lparr>Heartbeat_ID = ''n2'', Heartbeat_Region = ''us'', Heartbeat_Load = 3, Heartbeat_Observed = 5\<rparr>)]\<rparr>"

definition sample_post :: edge_request where
  "sample_post = \<lparr>edge_method = ''POST'', edge_token_header = [], edge_authorization = ''Bearer tok''\<rparr>"

theorem assignments_rate_limited_witness:
  "let l = \<lparr>limiter_limit = 1, limiter_window = 10, limiter_counters = []\<rparr>;
       run = serve_seq (\<lambda>(now, req). handleAssignment sample_auth sample_tracker now req) [(9, sample_post), (12, sample_post), (19, sample_post)] l
   in map (\<lambda>(q, r). case r of EdgeOK x \<Rightarrow> True | _ \<Rightarrow> False) run = [True, False, True] \<and>
      int (length (filter (\<lambda>((now, req), resp). (\<exists>x. resp = EdgeOK x) \<and>
        (\<exists>c. Authenticate sample_auth (edgeToken req) = Some c \<and> limit_key c = ''t1:d1'') \<and> 10 \<le> now \<and> now < 10 + 10) run)) \<le> 2 * 1"
proof -
  let ?l = "\<lparr>limiter_limit = 1, limiter_window = 10, limiter_counters = []\<rparr>"
  let ?reqs = "[(9, sample_post), (12, sample_post), (19, sample_post)] :: (time \<times> edge_request) list"
  let ?run = "serve_seq (\<lambda>(now, req). handleAssignment sample_auth sample_tracker now req) ?reqs ?l"
  have "NewWindowLimiter 1 10 = Inr ?l" "int64 1" "int64 10" "sorted (map fst ?reqs)" "0 \<notin> fst ` set ?reqs"
    by (simp_all add: NewWindowLimiter_def int64_def)
  from assignments_rate_limited [OF this, where auth = sample_auth and tracker = sample_tracker and k = "''t1:d1''" and a = 10]
  have b: "int (length (filter (\<lambda>((now, req), resp). (\<exists>x. resp = EdgeOK x) \<and>
      (\<exists>c. Authenticate sample_auth (edgeToken req) = Some c \<and> limit_key c = ''t1:d1'') \<and> 10 \<le> now \<and> now < 10 + 10) ?run)) \<le> 2 * 1" .
  have m: "map (\<lambda>(q, r). case r of EdgeOK x \<Rightarrow> True | _ \<Rightarrow> False) ?run = [True, False, True]" by code_simp
  show ?thesis unfolding Let_def using b m by (rule conjI [rotated])
qed

text \<open>
  the rate limit of the connection runtime, in the same form: at most twice the limit of the
  connections of one key are forwarded within any interval as long as the window.
\<close>

lemma connections_rate_limited:
  assumes "NewWindowLimiter limit window = Inr l" "int64 limit" "int64 window"
    and "sorted (map fst reqs)" "0 \<notin> fst ` set reqs"
  shows "int (length (filter (\<lambda>((now, token, client), out). (\<exists>x e. out = Forwarded x e) \<and>
      (\<exists>c. Authenticate (rt_auth rt) (TrimSpace token) = Some c \<and> limit_key c = k) \<and> a \<le> now \<and> now < a + window)
     (serve_seq (\<lambda>(now, token, client). HandleConnection uc copies rt now token client) reqs l))) \<le> 2 * limit"
proof -
  let ?run = "serve_seq (\<lambda>(now, token, client). HandleConnection uc copies rt now token client) reqs l"
  have none: "out \<noteq> Forwarded x e" if "((now, token, None), out) \<in> set ?run" for now token out x e
    using serve_seq_in [OF that(1)] by (auto simp: HandleConnection_def)
  let ?P = "\<lambda>((now, token, client), out). (\<exists>x e. out = Forwarded x e) \<and>
      (\<exists>c. Authenticate (rt_auth rt) (TrimSpace token) = Some c \<and> limit_key c = k) \<and> a \<le> now \<and> now < a + window"
  let ?Q = "\<lambda>(q, r). (\<exists>x e. r = Forwarded x e) \<and> (case q of (now, token, client) \<Rightarrow> if client = None then None
       else map_option limit_key (Authenticate (rt_auth rt) (TrimSpace token))) = Some k \<and> a \<le> fst q \<and> fst q < a + window"
  have "filter ?P ?run = filter ?Q ?run"
  proof (rule filter_cong [OF refl])
    fix z assume z: "z \<in> set ?run"
    obtain now token client out where zz: "z = ((now, token, client), out)" by (metis prod.exhaust)
    show "?P z = ?Q z" using z none [of now token out] by (cases client) (auto simp: zz)
  qed
  then show ?thesis using connection_front.grants_bounded [OF assms, of rt k a uc copies] by simp
qed

section \<open>Scheduling\<close>

definition candidate_key :: "Candidate \<Rightarrow> int \<times> string" where
  "candidate_key c = (Candidate_Load c, Candidate_ID c)"

lemma candidate_less_key: "candidate_less = key_less candidate_key"
  by (auto simp: fun_eq_iff candidate_less_def key_less_def candidate_key_def less_prod_def)

interpretation cand: strict_weak_order candidate_less
  unfolding candidate_less_key by (rule keyed.strict_weak_order_axioms)

lemma healthy_only_ok:
  "healthy_only cs = Inr hs \<longleftrightarrow> (\<forall>c\<in>set cs. Candidate_ID c \<noteq> []) \<and> hs = filter Candidate_Healthy cs"
  by (induction cs arbitrary: hs) auto

lemma Rank_ok:
  "Rank cs = Inr ranked \<longleftrightarrow> (\<forall>c\<in>set cs. Candidate_ID c \<noteq> []) \<and> (\<exists>c\<in>set cs. Candidate_Healthy c) \<and>
     ranked = SliceStable candidate_less (filter Candidate_Healthy cs)"
  by (auto simp: Rank_def healthy_only_ok filter_empty_conv)

text \<open>
  the scheduler. \<open>Pick\<close> succeeds exactly when every candidate has an id and one is healthy, and it
  then returns a healthy candidate with the least load, and among those with the smallest id.
\<close>

lemma Pick_least_loaded:
  "((\<exists>c. Pick cs = Inr c) \<longleftrightarrow> (\<forall>c\<in>set cs. Candidate_ID c \<noteq> []) \<and> (\<exists>c\<in>set cs. Candidate_Healthy c)) \<and>
   (\<forall>c. Pick cs = Inr c \<longrightarrow> c \<in> set cs \<and> Candidate_Healthy c \<and>
     (\<forall>d\<in>set cs. Candidate_Healthy d \<longrightarrow> (Candidate_Load c, Candidate_ID c) \<le> (Candidate_Load d, Candidate_ID d)))"
proof (intro conjI allI ballI impI)
  show "(\<exists>c. Pick cs = Inr c) \<longleftrightarrow> (\<forall>c\<in>set cs. Candidate_ID c \<noteq> []) \<and> (\<exists>c\<in>set cs. Candidate_Healthy c)"
    by (simp add: Pick_def Rank_ok)
next
  fix c assume "Pick cs = Inr c"
  then obtain ranked where r: "Rank cs = Inr ranked" and c: "c = hd ranked" by (auto simp: Pick_def)
  let ?hs = "filter Candidate_Healthy cs"
  from r have ranked: "ranked = SliceStable candidate_less ?hs" and ne: "?hs \<noteq> []" by (auto simp: Rank_ok filter_empty_conv)
  then have "ranked \<noteq> []" by (metis set_SliceStable set_empty)
  then have "c \<in> set ?hs" using c ranked by (metis hd_in_set set_SliceStable)
  then show "c \<in> set cs" "Candidate_Healthy c" by simp_all
  show "(Candidate_Load c, Candidate_ID c) \<le> (Candidate_Load d, Candidate_ID d)"
    if "d \<in> set cs" "Candidate_Healthy d" for d
  proof -
    have "\<not> candidate_less d c" using cand.hd_SliceStable_least [of d ?hs] c ranked that by simp
    then show ?thesis by (auto simp: candidate_less_def split: if_splits)
  qed
qed

section \<open>Forwarding to the best reachable node\<close>

definition unreachable :: "'c IngressRuntime \<Rightarrow> Candidate \<Rightarrow> bool" where
  "unreachable rt c \<longleftrightarrow> (\<forall>target conn. rt_resolve rt c = Inr target \<longrightarrow> rt_dial rt target \<noteq> Inr (Some conn))"

lemma try_candidates_Inr:
  "try_candidates (rt_resolve rt) (rt_dial rt) errs cs = Inr (c, target, conn) \<Longrightarrow>
     \<exists>pre post. cs = pre @ c # post \<and> rt_resolve rt c = Inr target \<and> rt_dial rt target = Inr (Some conn) \<and>
       (\<forall>d\<in>set pre. unreachable rt d)"
proof (induction cs arbitrary: errs)
  case Nil
  then show ?case by simp
next
  case (Cons d cs)
  show ?case
  proof (cases "unreachable rt d")
    case True
    then obtain errs' where "try_candidates (rt_resolve rt) (rt_dial rt) errs' cs = Inr (c, target, conn)"
      using Cons.prems by (auto simp: unreachable_def split: sum.splits option.splits)
    from Cons.IH [OF this] obtain pre post where "cs = pre @ c # post" "rt_resolve rt c = Inr target"
      "rt_dial rt target = Inr (Some conn)" "\<forall>d\<in>set pre. unreachable rt d" by blast
    with True show ?thesis by (intro exI [of _ "d # pre"] exI [of _ post]) simp
  next
    case False
    with Cons.prems show ?thesis
      by (intro exI [of _ "[]"] exI [of _ cs]) (auto simp: unreachable_def split: sum.splits option.splits)
  qed
qed

lemma try_candidates_Inl:
  "try_candidates (rt_resolve rt) (rt_dial rt) errs cs = Inl errs' \<Longrightarrow> \<forall>d\<in>set cs. unreachable rt d"
  by (induction cs arbitrary: errs) (auto simp: unreachable_def split: sum.splits option.splits)

lemma healthy_only_Inl: "healthy_only cs = Inl e \<Longrightarrow> e = CandidateIDRequired"
  by (induction cs) (auto simp: check_def bind_def split: if_splits sum.splits)

lemma Rank_Inl: "Rank cs = Inl e \<Longrightarrow> e = CandidateIDRequired \<or> e = NoHealthyCandidate"
  by (auto simp: Rank_def check_def bind_def dest: healthy_only_Inl split: if_splits sum.splits)

lemma Rank_before:
  assumes "Rank cs = Inr (pre @ c # post)" "d \<in> set cs" "Candidate_Healthy d" "candidate_less d c"
  shows "d \<in> set pre"
proof -
  have s: "pre @ c # post = SliceStable candidate_less (filter Candidate_Healthy cs)" using assms(1) by (simp add: Rank_ok)
  have "cand.sorted_by (pre @ c # post)" unfolding s by (rule cand.sorted_SliceStable)
  then have "\<forall>x\<in>set post. \<not> candidate_less x c" by (simp add: sorted_wrt_append)
  moreover have "\<not> candidate_less c c" by (rule cand.irrefl)
  moreover have "d \<in> set (pre @ c # post)" unfolding s using assms(2,3) by simp
  ultimately show ?thesis using assms(4) by auto
qed

lemma HandleConnection_cases:
  assumes "HandleConnection uc copies rt now token client l = (out, l')"
  obtains (refused) e where "out = Refused e (client \<noteq> None)" "\<And>errs. e \<noteq> NoReachableEgress errs"
  | (ranked) cred ranked where "Authenticate (rt_auth rt) (TrimSpace token) = Some cred"
      "Rank (Candidates now (rt_tracker rt)) = Inr ranked"
      "case try_candidates (rt_resolve rt) (rt_dial rt) [] ranked of
         Inl errs \<Rightarrow> out = Refused (NoReachableEgress errs) True
       | Inr (c, target, conn) \<Rightarrow> (\<exists>stats err. out = Forwarded \<lparr>Result_Credential = cred,
           Result_Assignment = assignment_of cred c now, Result_Target = target, Result_Stats = stats\<rparr> err)"
proof (cases "client = None \<or> Authenticate (rt_auth rt) (TrimSpace token) = None \<or>
    (\<exists>e. Rank (Candidates now (rt_tracker rt)) = Inl e) \<or> out = Refused EdgeRateLimited True")
  case True
  with assms show thesis
    by (intro refused [of "case out of Refused e b \<Rightarrow> e"])
      (auto simp: HandleConnection_def dest!: Rank_Inl split: if_splits option.splits prod.splits bool.splits sum.splits)
next
  case False
  then obtain cred ranked where c: "Authenticate (rt_auth rt) (TrimSpace token) = Some cred"
    "Rank (Candidates now (rt_tracker rt)) = Inr ranked" "client \<noteq> None" by (metis not_None_eq sum.exhaust)
  obtain b l2 where al: "Allow (limit_key cred) now l = (b, l2)" by fastforce
  have b using assms c al False by (cases b) (auto simp: HandleConnection_def)
  with assms c al show thesis
    by (intro ranked [OF c(1,2)]) (auto simp: HandleConnection_def split: sum.splits prod.splits)
qed

text \<open>
  C21: a forwarded connection carries a valid credential, which the assignment names, and goes to a
  healthy candidate that resolves to the target and was dialled. Every healthy candidate with less
  load, or with equal load and a smaller id, could not be resolved or dialled. A connection refused for
  lack of a reachable egress means that no healthy candidate could be.
\<close>

theorem HandleConnection_best_reachable:
  assumes "HandleConnection uc copies rt now token client l = (out, l')"
  shows "case out of
      Forwarded res err \<Rightarrow>
        Authenticate (rt_auth rt) (TrimSpace token) = Some (Result_Credential res) \<and>
        (\<exists>c\<in>set (Candidates now (rt_tracker rt)). Candidate_Healthy c \<and>
           Result_Assignment res = assignment_of (Result_Credential res) c now \<and>
           rt_resolve rt c = Inr (Result_Target res) \<and> (\<exists>conn. rt_dial rt (Result_Target res) = Inr (Some conn)) \<and>
           (\<forall>d\<in>set (Candidates now (rt_tracker rt)). Candidate_Healthy d \<and> candidate_less d c \<longrightarrow> unreachable rt d))
    | Refused (NoReachableEgress errs) shut \<Rightarrow>
        shut \<and> (\<forall>d\<in>set (Candidates now (rt_tracker rt)). Candidate_Healthy d \<longrightarrow> unreachable rt d)
    | Refused e shut \<Rightarrow> shut \<or> client = None"
  using assms
proof (cases rule: HandleConnection_cases)
  case (refused e)
  then show ?thesis by (auto split: edge_error.splits)
next
  case (ranked cred cs)
  have hs: "d \<in> set cs \<longleftrightarrow> d \<in> set (Candidates now (rt_tracker rt)) \<and> Candidate_Healthy d" for d
    using ranked(2) by (simp add: Rank_ok)
  show ?thesis
  proof (cases "try_candidates (rt_resolve rt) (rt_dial rt) [] cs")
    case (Inl errs)
    with ranked(3) try_candidates_Inl [OF Inl] hs show ?thesis by auto
  next
    case (Inr x)
    obtain c target conn where x: "x = (c, target, conn)" by (metis prod.exhaust)
    with ranked(3) Inr obtain stats err where out: "out = Forwarded \<lparr>Result_Credential = cred,
        Result_Assignment = assignment_of cred c now, Result_Target = target, Result_Stats = stats\<rparr> err" by auto
    obtain pre post where p: "cs = pre @ c # post" "rt_resolve rt c = Inr target" "rt_dial rt target = Inr (Some conn)"
      "\<forall>d\<in>set pre. unreachable rt d"
      using try_candidates_Inr [OF Inr [unfolded x]] by blast
    have "c \<in> set (Candidates now (rt_tracker rt)) \<and> Candidate_Healthy c" using hs [of c] p(1) by simp
    moreover have "unreachable rt d"
      if "d \<in> set (Candidates now (rt_tracker rt))" "Candidate_Healthy d" "candidate_less d c" for d
      using Rank_before [OF ranked(2) [unfolded p(1)] that] p(4) by blast
    ultimately show ?thesis using out ranked(1) p(2,3) by auto
  qed
qed

section \<open>Witnesses of the runtime\<close>

definition sample_targets :: "EgressTarget list" where
  "sample_targets = [\<lparr>Target_NodeID = ''n1'', Target_Region = ''eu'', Target_Address = ''198.51.100.1:443''\<rparr>,
     \<lparr>Target_NodeID = ''n2'', Target_Region = ''us'', Target_Address = ''198.51.100.2:443''\<rparr>]"

definition sample_rt :: "nat IngressRuntime" where
  \<comment> \<open>only the first target accepts connections\<close>
  "sample_rt = \<lparr>rt_auth = sample_auth, rt_tracker = sample_tracker,
     rt_resolve = (case NewStaticEgressResolver sample_targets of Inr r \<Rightarrow> ResolveEgress r | Inl e \<Rightarrow> (\<lambda>_. Inl e)),
     rt_dial = NetDialer_DialEgress (\<lambda>network address. if address = ''198.51.100.1:443'' then Inr (Some 1) else Inl ''refused'') []\<rparr>"

definition sample_copies :: "nat \<Rightarrow> nat \<Rightarrow> (copyResult \<times> copyResult) \<times> ctx_error option" where
  "sample_copies cl eg = ((\<lparr>copy_direction = ''client_to_egress'', copy_bytes = 10, copy_err = None\<rparr>,
     \<lparr>copy_direction = ''egress_to_client'', copy_bytes = 20, copy_err = None\<rparr>), None)"

definition sample_limiter :: "int \<Rightarrow> WindowLimiter" where
  "sample_limiter n = \<lparr>limiter_limit = n, limiter_window = 10, limiter_counters = []\<rparr>"

theorem HandleConnection_best_reachable_witness:
  "\<exists>res err l'. HandleConnection id sample_copies sample_rt 10 '' tok '' (Some 7) (sample_limiter 5) = (Forwarded res err, l') \<and>
     Assignment_EgressNodeID (Result_Assignment res) = ''n1'' \<and>
     Authenticate sample_auth ''tok'' = Some (Result_Credential res)"
proof -
  let ?h = "HandleConnection id sample_copies sample_rt 10 '' tok '' (Some 7) (sample_limiter 5)"
  have "case fst ?h of Refused _ _ \<Rightarrow> False
      | Forwarded res err \<Rightarrow> Assignment_EgressNodeID (Result_Assignment res) = ''n1''" by code_simp
  then obtain res err l' where h: "?h = (Forwarded res err, l')" "Assignment_EgressNodeID (Result_Assignment res) = ''n1''"
    by (cases ?h) (auto split: conn_outcome.splits)
  have "TrimSpace '' tok '' = ''tok''" by code_simp
  moreover have "rt_auth sample_rt = sample_auth" by (simp add: sample_rt_def)
  ultimately have "Authenticate sample_auth ''tok'' = Some (Result_Credential res)"
    using HandleConnection_best_reachable [OF h(1)] by simp
  with h show ?thesis by blast
qed

end
