(* ===== verification/Go_Base64.thy ===== *)
theory Go_Base64
  imports Go_Text
begin

text \<open>
  Go's encoding/base64 in the two variants the sources use: \<open>StdEncoding\<close> (padded) and
  \<open>RawURLEncoding\<close> (no padding, URL alphabet). Decoding skips carriage returns and newlines and ignores
  the unused low bits of the last group, as the package does outside strict mode.
\<close>

record alphabet =
  al_char62 :: char
  al_char63 :: char
  al_padded :: bool

definition StdEncoding :: alphabet where
  "StdEncoding = \<lparr>al_char62 = CHR ''+'', al_char63 = CHR ''/'', al_padded = True\<rparr>"

definition RawURLEncoding :: alphabet where
  "RawURLEncoding = \<lparr>al_char62 = CHR ''-'', al_char63 = CHR ''_'', al_padded = False\<rparr>"

definition sextet_char :: "alphabet \<Rightarrow> int \<Rightarrow> char" where
  "sextet_char al n =
     (if n < 26 then char_of (65 + n) else if n < 52 then char_of (71 + n) else if n < 62 then char_of (n - 4)
      else if n = 62 then al_char62 al else al_char63 al)"

definition char_sextet :: "alphabet \<Rightarrow> char \<Rightarrow> int option" where
  "char_sextet al c =
     (let n = (of_char c :: int) in
      if 65 \<le> n \<and> n \<le> 90 then Some (n - 65)
      else if 97 \<le> n \<and> n \<le> 122 then Some (n - 71)
      else if 48 \<le> n \<and> n \<le> 57 then Some (n + 4)
      else if c = al_char62 al then Some 62
      else if c = al_char63 al then Some 63
      else None)"

fun b64_encode :: "alphabet \<Rightarrow> byte list \<Rightarrow> string" where
  "b64_encode al [] = []"
| "b64_encode al [x] =
     (let n = uint x * 16 in
      [sextet_char al (n div 64), sextet_char al (n mod 64)] @ (if al_padded al then ''=='' else []))"
| "b64_encode al [x, y] =
     (let n = (uint x * 256 + uint y) * 4 in
      [sextet_char al (n div 4096), sextet_char al (n div 64 mod 64), sextet_char al (n mod 64)] @ (if al_padded al then ''='' else []))"
| "b64_encode al (x # y # z # rest) =
     (let n = uint x * 65536 + uint y * 256 + uint z in
      [sextet_char al (n div 262144), sextet_char al (n div 4096 mod 64), sextet_char al (n div 64 mod 64), sextet_char al (n mod 64)] @
      b64_encode al rest)"

definition byte_of :: "int \<Rightarrow> byte" where
  "byte_of n = word_of_int n"

fun decode_last2 :: "alphabet \<Rightarrow> char \<Rightarrow> char \<Rightarrow> byte list option" where
  "decode_last2 al a b =
     (case (char_sextet al a, char_sextet al b) of
        (Some i, Some j) \<Rightarrow> Some [byte_of (i * 4 + j div 16)]
      | _ \<Rightarrow> None)"

fun decode_last3 :: "alphabet \<Rightarrow> char \<Rightarrow> char \<Rightarrow> char \<Rightarrow> byte list option" where
  "decode_last3 al a b c =
     (case (char_sextet al a, char_sextet al b, char_sextet al c) of
        (Some i, Some j, Some k) \<Rightarrow>
          (let n = (i * 4096 + j * 64 + k) div 4 in Some [byte_of (n div 256), byte_of (n mod 256)])
      | _ \<Rightarrow> None)"

fun b64_decode_chars :: "alphabet \<Rightarrow> string \<Rightarrow> byte list option" where
  "b64_decode_chars al [] = Some []"
| "b64_decode_chars al [a] = None"
| "b64_decode_chars al [a, b] = (if al_padded al then None else decode_last2 al a b)"
| "b64_decode_chars al [a, b, c] = (if al_padded al then None else decode_last3 al a b c)"
| "b64_decode_chars al (a # b # c # d # rest) =
     (if al_padded al \<and> d = CHR ''='' then
        (if rest \<noteq> [] then None else if c = CHR ''='' then decode_last2 al a b else decode_last3 al a b c)
      else
        (case (char_sextet al a, char_sextet al b, char_sextet al c, char_sextet al d, b64_decode_chars al rest) of
           (Some i, Some j, Some k, Some l, Some bs) \<Rightarrow>
             (let n = i * 262144 + j * 4096 + k * 64 + l
              in Some (byte_of (n div 65536) # byte_of (n div 256 mod 256) # byte_of (n mod 256) # bs))
         | _ \<Rightarrow> None))"

definition b64_decode :: "alphabet \<Rightarrow> string \<Rightarrow> byte list option" where
  "b64_decode al s = b64_decode_chars al (filter (\<lambda>c. c \<noteq> CHR 0x0A \<and> c \<noteq> CHR 0x0D) s)"

section \<open>Decoding inverts encoding\<close>

definition alphabet_ok :: "alphabet \<Rightarrow> bool" where
  "alphabet_ok al \<longleftrightarrow> al = StdEncoding \<or> al = RawURLEncoding"

lemma alphabets_ok [simp]: "alphabet_ok StdEncoding" "alphabet_ok RawURLEncoding"
  by (simp_all add: alphabet_ok_def)

lemma sextet_inverse:
  assumes "alphabet_ok al" "0 \<le> n" "n < 64"
  shows "char_sextet al (sextet_char al n) = Some n"
proof -
  have c: "(of_char (char_of k) :: int) = k" if "0 \<le> k" "k < 256" for k :: int
    using that by simp
  have "n = 62 \<or> n = 63 \<or> n < 26 \<or> 26 \<le> n \<and> n < 52 \<or> 52 \<le> n \<and> n < 62" using assms(3) by linarith
  with assms show ?thesis
    by (auto simp: alphabet_ok_def char_sextet_def sextet_char_def StdEncoding_def RawURLEncoding_def Let_def)
qed

lemma sextet_plain:
  assumes "alphabet_ok al" "0 \<le> n" "n < 64"
  shows "sextet_char al n \<noteq> CHR 0x0A" "sextet_char al n \<noteq> CHR 0x0D" "sextet_char al n \<noteq> CHR ''=''"
  using sextet_inverse [OF assms] assms(1)
  by (auto simp: alphabet_ok_def char_sextet_def StdEncoding_def RawURLEncoding_def)

lemma byte_of_uint [simp]: "byte_of (uint x) = x"
  by (simp add: byte_of_def)

lemma uint_byte: "0 \<le> uint (x :: byte)" "uint (x :: byte) < 256"
  using unsigned_less [of x] by simp_all

lemma sextets3: "n div 4096 * 4096 + n div 64 mod 64 * 64 + n mod 64 = (n :: int)"
proof -
  have "n div 4096 = n div 64 div 64" by (simp add: zdiv_zmult2_eq [symmetric])
  then show ?thesis using div_mult_mod_eq [of n 64] div_mult_mod_eq [of "n div 64" 64] by linarith
qed

lemma sextets4: "n div 262144 * 262144 + n div 4096 mod 64 * 4096 + n div 64 mod 64 * 64 + n mod 64 = (n :: int)"
proof -
  have "n div 262144 = n div 4096 div 64" by (simp add: zdiv_zmult2_eq [symmetric])
  then show ?thesis using sextets3 [of n] div_mult_mod_eq [of "n div 4096" 64] by linarith
qed

lemma bytes3:
  fixes x y z :: int
  assumes "0 \<le> y" "y < 256" "0 \<le> z" "z < 256"
  shows "(x * 65536 + y * 256 + z) div 65536 = x" "(x * 65536 + y * 256 + z) div 256 mod 256 = y" "(x * 65536 + y * 256 + z) mod 256 = z"
proof -
  have e: "x * 65536 + y * 256 + z = z + (x * 256 + y) * 256" "x * 65536 + y * 256 + z = (y * 256 + z) + x * 65536" by simp_all
  show "(x * 65536 + y * 256 + z) div 65536 = x" unfolding e(2) using assms by (simp add: div_pos_pos_trivial)
  show "(x * 65536 + y * 256 + z) mod 256 = z" unfolding e(1) using assms by (simp only: mod_mult_self1 mod_pos_pos_trivial)
  have "(x * 65536 + y * 256 + z) div 256 = x * 256 + y" unfolding e(1) using assms by (simp add: div_pos_pos_trivial)
  then show "(x * 65536 + y * 256 + z) div 256 mod 256 = y" using assms by (simp add: mod_pos_pos_trivial)
qed

lemma sextet_bounds:
  fixes n :: int
  assumes "0 \<le> n"
  shows "0 \<le> n mod 64" "n mod 64 < 64" "n < 4096 \<Longrightarrow> 0 \<le> n div 64 \<and> n div 64 < 64" "n < 262144 \<Longrightarrow> 0 \<le> n div 4096 \<and> n div 4096 < 64"
    "n < 16777216 \<Longrightarrow> 0 \<le> n div 262144 \<and> n div 262144 < 64"
  using assms by (auto simp: pos_imp_zdiv_nonneg_iff zdiv_mono1 intro: div_less_iff_less_mult [THEN iffD2] simp: div_less_iff_less_mult)

lemma decode_group2:
  assumes "alphabet_ok al" "0 \<le> n" "n < 4096"
  shows "decode_last2 al (sextet_char al (n div 64)) (sextet_char al (n mod 64)) = Some [byte_of (n div 64 * 4 + n mod 64 div 16)]"
  using sextet_bounds [OF assms(2)] assms by (simp add: sextet_inverse)

lemma decode_group3:
  assumes "alphabet_ok al" "0 \<le> n" "n < 262144"
  shows "decode_last3 al (sextet_char al (n div 4096)) (sextet_char al (n div 64 mod 64)) (sextet_char al (n mod 64)) =
    Some [byte_of (n div 4 div 256), byte_of (n div 4 mod 256)]"
  using sextet_bounds [OF assms(2)] assms by (simp add: sextet_inverse Let_def sextets3)

lemma decode_group4:
  assumes "alphabet_ok al" "0 \<le> n" "n < 16777216" "b64_decode_chars al rest = Some bs"
  shows "b64_decode_chars al (sextet_char al (n div 262144) # sextet_char al (n div 4096 mod 64) # sextet_char al (n div 64 mod 64) #
      sextet_char al (n mod 64) # rest) = Some (byte_of (n div 65536) # byte_of (n div 256 mod 256) # byte_of (n mod 256) # bs)"
  using sextet_bounds [OF assms(2)] assms sextet_plain(3) [OF assms(1), of "n mod 64"] by (simp add: sextet_inverse Let_def sextets4)

lemma b64_decode_chars_encode: "alphabet_ok al \<Longrightarrow> b64_decode_chars al (b64_encode al bs) = Some bs"
proof (induction al bs rule: b64_encode.induct)
  case (1 al)
  show ?case by simp
next
  case (2 al x)
  define n where "n = uint x * 16"
  have n: "0 \<le> n" "n < 4096" using uint_byte [of x] by (simp_all add: n_def)
  have x: "n div 64 * 4 + n mod 64 div 16 = uint x"
    unfolding n_def using mod_mult_mult2 [of "uint x" 16 4] div_mult_mult2 [of 16 "uint x" 4] by simp
  show ?case using decode_group2 [OF 2 n] sextet_plain(3) [OF 2, of "n mod 64"]
    by (simp add: Let_def n_def [symmetric] x del: decode_last2.simps)
next
  case (3 al x y)
  define n where "n = (uint x * 256 + uint y) * 4"
  have n: "0 \<le> n" "n < 262144" using uint_byte [of x] uint_byte [of y] by (simp_all add: n_def)
  have "n div 4 = uint x * 256 + uint y" by (simp add: n_def)
  then have xy: "n div 4 div 256 = uint x" "n div 4 mod 256 = uint y"
    using uint_byte [of y] by (simp_all add: div_pos_pos_trivial)
  have "sextet_char al (n mod 64) \<noteq> CHR ''=''" using sextet_plain(3) [OF 3, of "n mod 64"] by simp
  with decode_group3 [OF 3 n] show ?case
    by (simp only: b64_encode.simps Let_def n_def [symmetric] xy) (simp del: decode_last3.simps)
next
  case (4 al x y z rest)
  define n where "n = uint x * 65536 + uint y * 256 + uint z"
  have n: "0 \<le> n" "n < 16777216" using uint_byte [of x] uint_byte [of y] uint_byte [of z] by (simp_all add: n_def)
  have xyz: "n div 65536 = uint x" "n div 256 mod 256 = uint y" "n mod 256 = uint z"
    unfolding n_def by (rule bytes3 [OF uint_byte [of y] uint_byte [of z], of "uint x"])+
  show ?case using decode_group4 [OF 4(2) n 4(1) [OF n_def 4(2)]]
    by (simp only: b64_encode.simps Let_def n_def [symmetric] xyz byte_of_uint append.simps)
qed

lemma b64_encode_chars:
  "(\<And>n. 0 \<le> n \<Longrightarrow> n < 64 \<Longrightarrow> P (sextet_char al n)) \<Longrightarrow> P (CHR ''='') \<Longrightarrow> c \<in> set (b64_encode al bs) \<Longrightarrow> P c"
proof (induction al bs rule: b64_encode.induct)
  case (2 al x)
  have "0 \<le> uint x * 16" "uint x * 16 < 4096" using uint_byte [of x] by simp_all
  then show ?case using 2 sextet_bounds [of "uint x * 16"] by (auto simp: Let_def split: if_splits)
next
  case (3 al x y)
  let ?n = "(uint x * 256 + uint y) * 4"
  have "0 \<le> ?n" "?n < 262144" using uint_byte [of x] uint_byte [of y] by simp_all
  then show ?case using 3 sextet_bounds [of ?n] by (auto simp: Let_def split: if_splits)
next
  case (4 al x y z rest)
  let ?n = "uint x * 65536 + uint y * 256 + uint z"
  have "0 \<le> ?n" "?n < 16777216" using uint_byte [of x] uint_byte [of y] uint_byte [of z] by simp_all
  then show ?case using 4 sextet_bounds [of ?n] by (auto simp: Let_def)
qed simp

lemma b64_encode_plain:
  "alphabet_ok al \<Longrightarrow> c \<in> set (b64_encode al bs) \<Longrightarrow> c \<noteq> CHR 0x0A \<and> c \<noteq> CHR 0x0D"
  by (rule b64_encode_chars [where al = al and P = "\<lambda>c. c \<noteq> CHR 0x0A \<and> c \<noteq> CHR 0x0D"]) (auto dest: sextet_plain)

lemma is_ascii_char_of: "0 \<le> k \<Longrightarrow> k < 128 \<Longrightarrow> is_ascii (char_of (k :: int))"
  by (simp add: is_ascii_def char_of_def bit_iff_odd)

lemma is_ascii_sextet: "0 \<le> n \<Longrightarrow> n < 64 \<Longrightarrow> is_ascii (sextet_char StdEncoding n)"
proof -
  assume n: "0 \<le> n" "n < 64"
  have "is_ascii (CHR ''+'')" "is_ascii (CHR ''/'')" by code_simp+
  then show ?thesis
    using n is_ascii_char_of [of "65 + n"] is_ascii_char_of [of "71 + n"] is_ascii_char_of [of "n - 4"]
    by (simp add: sextet_char_def StdEncoding_def)
qed

lemma b64_encode_ascii: "list_all is_ascii (b64_encode StdEncoding bs)"
proof -
  have "is_ascii (CHR ''='')" by code_simp
  then have "is_ascii c" if "c \<in> set (b64_encode StdEncoding bs)" for c
    by (intro b64_encode_chars [where al = StdEncoding and P = is_ascii, OF is_ascii_sextet _ that])
  then show ?thesis by (simp add: list_all_iff)
qed

lemma b64_decode_encode [simp]: "alphabet_ok al \<Longrightarrow> b64_decode al (b64_encode al bs) = Some bs"
proof -
  assume ok: "alphabet_ok al"
  then have "filter (\<lambda>c. c \<noteq> CHR 0x0A \<and> c \<noteq> CHR 0x0D) (b64_encode al bs) = b64_encode al bs"
    using b64_encode_plain [OF ok] by (simp add: filter_id_conv)
  with ok show ?thesis by (simp add: b64_decode_def b64_decode_chars_encode)
qed

end
