(* ===== verification/Auth.thy ===== *)
theory Auth
  imports Private_File Go_Base64
begin

text \<open>
  Authentication and authorization of the control plane (internal/auth): the role table (rbac.go),
  session tokens in memory and on disk (session.go), password users with PBKDF2 (password.go) and
  OpenID Connect tokens (oidc.go).

  HMAC-SHA256 is the parameter \<open>hmac key message\<close>; random bytes, clock readings, decoded JSON values and
  file operations are arguments. Base64 is modelled in \<open>Go_Base64\<close>, the atomic file write in
  \<open>Private_File\<close>.
\<close>

section \<open>Roles\<close>

type_synonym Role = string
type_synonym Action = string

definition RoleAdmin :: Role where [go_defs]: "RoleAdmin = ''admin''"
definition RoleOperator :: Role where [go_defs]: "RoleOperator = ''operator''"
definition RoleViewer :: Role where [go_defs]: "RoleViewer = ''viewer''"
definition RoleAgent :: Role where [go_defs]: "RoleAgent = ''agent''"

definition ActionRead :: Action where [go_defs]: "ActionRead = ''read''"
definition ActionManage :: Action where [go_defs]: "ActionManage = ''manage''"
definition ActionAuditRead :: Action where [go_defs]: "ActionAuditRead = ''audit.read''"
definition ActionCertManage :: Action where [go_defs]: "ActionCertManage = ''cert.manage''"
definition ActionPolicyEdit :: Action where [go_defs]: "ActionPolicyEdit = ''policy.edit''"
definition ActionConfigRead :: Action where [go_defs]: "ActionConfigRead = ''config.read''"
definition ActionTelemetryWrite :: Action where [go_defs]: "ActionTelemetryWrite = ''telemetry.write''"

record Subject =
  Subject_ID :: string
  Subject_TenantID :: string
  Subject_Roles :: "Role list"

record AuthRequest =
  AuthRequest_TenantID :: string
  AuthRequest_Action :: Action

datatype auth_error =
    SubjectIDRequired
  | SubjectTenantRequired
  | RequestTenantRequired
  | RequestActionRequired
  | SubjectRolesRequired
  | SessionTTLPositive
  | RandomFailed string
  | SessionPathRequired
  | SessionLoad string
  | UserTenantRequired
  | UserSubjectRequired
  | PasswordRequired
  | UserRolesRequired
  | IterationsPositive
  | SaltNotBase64
  | HashNotBase64
  | HashLength
  | DuplicateUser string string
  | FileRequired
  | FileStat string
  | FileIsDirectory
  | FileMode nat
  | FileRead string
  | FileDecode string
  | OIDCIssuerRequired
  | OIDCAudienceRequired
  | OIDCSecretRequired
  | OIDCTokenRequired
  | OIDCSegments
  | OIDCDecode string
  | OIDCAlg string
  | OIDCAudience
  | OIDCSubjectRequired
  | OIDCTenantRequired
  | OIDCRolesRequired
  | NotConfigured

type_synonym Authorizer = "(Role, (Action, bool) gomap) gomap"

definition NewAuthorizer :: Authorizer where
  "NewAuthorizer =
     [(RoleAdmin, [(ActionRead, True), (ActionManage, True), (ActionAuditRead, True), (ActionCertManage, True),
         (ActionPolicyEdit, True), (ActionConfigRead, True), (ActionTelemetryWrite, True)]),
      (RoleOperator, [(ActionRead, True), (ActionManage, True), (ActionCertManage, True), (ActionPolicyEdit, True),
         (ActionConfigRead, True), (ActionTelemetryWrite, True)]),
      (RoleViewer, [(ActionRead, True), (ActionAuditRead, True)]),
      (RoleAgent, [(ActionConfigRead, True), (ActionTelemetryWrite, True)])]"

definition Allowed :: "Authorizer \<Rightarrow> Subject \<Rightarrow> AuthRequest \<Rightarrow> auth_error + bool" where
  "Allowed a subject request =
     check (Subject_ID subject = []) SubjectIDRequired (
     check (Subject_TenantID subject = []) SubjectTenantRequired (
     check (AuthRequest_TenantID request = []) RequestTenantRequired (
     check (AuthRequest_Action request = []) RequestActionRequired (
     if Subject_TenantID subject \<noteq> AuthRequest_TenantID request then Inr False
     else Inr (list_ex (\<lambda>role. gm_default False (gm_default [] a role) (AuthRequest_Action request)) (Subject_Roles subject))))))"

section \<open>Sessions\<close>

record Session =
  Session_Token :: string
  Session_Subject :: Subject
  Session_ExpiresAt :: time
  Session_Revoked :: bool

type_synonym SessionStore = "(string, Session) gomap"

definition NewSessionStore :: SessionStore where
  "NewSessionStore = []"

definition NewSessionStoreFromSessions :: "Session list \<Rightarrow> SessionStore" where
  "NewSessionStoreFromSessions sessions =
     fold (\<lambda>session store. if Session_Token session = [] then store else gm_set (Session_Token session) session store)
       sessions NewSessionStore"

definition Session_Issue :: "time \<Rightarrow> string + byte list \<Rightarrow> Subject \<Rightarrow> duration \<Rightarrow> time \<Rightarrow> SessionStore \<Rightarrow> auth_error + Session \<times> SessionStore" where
  \<comment> \<open>\<open>clock\<close> is time.Now, \<open>rnd\<close> the outcome of rand.Read\<close>
  "Session_Issue clock rnd subject ttl now s =
     check (Subject_ID subject = []) SubjectIDRequired (
     check (Subject_TenantID subject = []) SubjectTenantRequired (
     check (Subject_Roles subject = []) SubjectRolesRequired (
     check (ttl \<le> 0) SessionTTLPositive (
     let now = (if IsZero now then clock else now) in
     case rnd of
       Inl e \<Rightarrow> Inl (RandomFailed e)
     | Inr tokenBytes \<Rightarrow>
         let session = \<lparr>Session_Token = b64_encode RawURLEncoding tokenBytes, Session_Subject = subject,
                        Session_ExpiresAt = now + ttl, Session_Revoked = False\<rparr>
         in Inr (session, gm_set (Session_Token session) session s)))))"

definition Session_Authenticate :: "time \<Rightarrow> string \<Rightarrow> time \<Rightarrow> SessionStore \<Rightarrow> Subject option" where
  "Session_Authenticate clock token now s =
     (if token = [] then None
      else let now = (if IsZero now then clock else now)
           in case gm_get s token of
                None \<Rightarrow> None
              | Some session \<Rightarrow> if Session_Revoked session \<or> \<not> now < Session_ExpiresAt session then None
                                else Some (Session_Subject session))"

definition Session_Revoke :: "string \<Rightarrow> SessionStore \<Rightarrow> bool \<times> SessionStore" where
  "Session_Revoke token s =
     (case gm_get s token of
        None \<Rightarrow> (False, s)
      | Some session \<Rightarrow> (True, gm_set token (session\<lparr>Session_Revoked := True\<rparr>) s))"

definition SessionStore_Snapshot :: "SessionStore \<Rightarrow> Session list" where
  "SessionStore_Snapshot s = gm_values s"

record FileSessionStore =
  fss_SessionStore :: SessionStore
  fss_path :: string

definition loadSessions :: "('d \<Rightarrow> string + Session list) \<Rightarrow> string option \<Rightarrow> string \<Rightarrow> 'd fs \<Rightarrow> (bool \<times> string) + Session list" where
  \<comment> \<open>the flag of an error says whether it is a missing file\<close>
  "loadSessions dec open_err path fs =
     (case open_err of Some e \<Rightarrow> Inl (False, e) | None \<Rightarrow>
     (case gm_get fs path of
        None \<Rightarrow> Inl (True, [])
      | Some (d, _) \<Rightarrow> (case dec d of Inl e \<Rightarrow> Inl (False, e) | Inr sessions \<Rightarrow> Inr sessions)))"

definition NewFileSessionStore :: "('d \<Rightarrow> string + Session list) \<Rightarrow> string option \<Rightarrow> string \<Rightarrow> 'd fs \<Rightarrow> auth_error + FileSessionStore" where
  "NewFileSessionStore dec open_err path fs =
     (if path = [] then Inl SessionPathRequired
      else case loadSessions dec open_err path fs of
        Inl (notExist, e) \<Rightarrow> if \<not> notExist then Inl (SessionLoad e)
           else Inr \<lparr>fss_SessionStore = NewSessionStoreFromSessions [], fss_path = path\<rparr>
      | Inr sessions \<Rightarrow> Inr \<lparr>fss_SessionStore = NewSessionStoreFromSessions sessions, fss_path = path\<rparr>)"

definition FileSessionStore_save :: "(Session list \<Rightarrow> string + 'd) \<Rightarrow> 'd write_os \<Rightarrow> FileSessionStore \<Rightarrow> 'd fs \<Rightarrow> write_error option \<times> 'd fs list" where
  "FileSessionStore_save enc os s fs = writePrivateJSON enc os (fss_path s) (SessionStore_Snapshot (fss_SessionStore s)) fs"

definition FileSessionStore_Issue ::
  "(Session list \<Rightarrow> string + 'd) \<Rightarrow> 'd write_os \<Rightarrow> time \<Rightarrow> string + byte list \<Rightarrow> Subject \<Rightarrow> duration \<Rightarrow> time \<Rightarrow> FileSessionStore \<Rightarrow> 'd fs \<Rightarrow>
     (auth_error + Session \<times> write_error option) \<times> FileSessionStore \<times> 'd fs list" where
  "FileSessionStore_Issue enc os clock rnd subject ttl now s fs =
     (case Session_Issue clock rnd subject ttl now (fss_SessionStore s) of
        Inl e \<Rightarrow> (Inl e, s, [fs])
      | Inr (session, st) \<Rightarrow>
          let s = s\<lparr>fss_SessionStore := st\<rparr>
          in case FileSessionStore_save enc os s fs of (err, fss) \<Rightarrow> (Inr (session, err), s, fss))"

definition FileSessionStore_Revoke ::
  "(Session list \<Rightarrow> string + 'd) \<Rightarrow> 'd write_os \<Rightarrow> string \<Rightarrow> FileSessionStore \<Rightarrow> 'd fs \<Rightarrow> bool \<times> FileSessionStore \<times> 'd fs list" where
  \<comment> \<open>the error of the save is dropped\<close>
  "FileSessionStore_Revoke enc os token s fs =
     (case Session_Revoke token (fss_SessionStore s) of
        (revoked, st) \<Rightarrow>
          let s = s\<lparr>fss_SessionStore := st\<rparr>
          in if revoked then (case FileSessionStore_save enc os s fs of (_, fss) \<Rightarrow> (revoked, s, fss))
             else (revoked, s, [fs]))"

section \<open>Passwords\<close>

definition DefaultPasswordIterations :: int where "DefaultPasswordIterations = 100000"

record PasswordUser =
  User_TenantID :: string
  User_SubjectID :: string
  User_Roles :: "Role list"
  User_Salt :: string
  User_Hash :: string
  User_Iterations :: int

fun pbkdf2_rounds :: "(byte list \<Rightarrow> byte list \<Rightarrow> byte list) \<Rightarrow> byte list \<Rightarrow> nat \<Rightarrow> byte list \<Rightarrow> byte list \<Rightarrow> byte list" where
  \<comment> \<open>the loop of \<open>pbkdf2Block\<close>, with the number of rounds left\<close>
  "pbkdf2_rounds hmac password 0 u result = result"
| "pbkdf2_rounds hmac password (Suc k) u result =
     (let u = hmac password u in pbkdf2_rounds hmac password k u (map2 (XOR) result u))"

definition pbkdf2Block :: "(byte list \<Rightarrow> byte list \<Rightarrow> byte list) \<Rightarrow> byte list \<Rightarrow> byte list \<Rightarrow> int \<Rightarrow> nat \<Rightarrow> byte list" where
  "pbkdf2Block hmac password salt iterations block =
     (let u = hmac password (salt @ be32 block)
      in pbkdf2_rounds hmac password (nat (iterations - 1)) u u)"

definition derivePasswordKey :: "(byte list \<Rightarrow> byte list \<Rightarrow> byte list) \<Rightarrow> byte list \<Rightarrow> byte list \<Rightarrow> int \<Rightarrow> nat \<Rightarrow> byte list" where
  "derivePasswordKey hmac password salt iterations keyLen =
     (let hashLen = 32; blocks = (keyLen + hashLen - 1) div hashLen;
          out = fold (\<lambda>block out. out @ pbkdf2Block hmac password salt iterations block) [1..<Suc blocks] []
      in take keyLen out)"

definition NewPasswordUser ::
  "(byte list \<Rightarrow> byte list \<Rightarrow> byte list) \<Rightarrow> string + byte list \<Rightarrow> string \<Rightarrow> string \<Rightarrow> string \<Rightarrow> Role list \<Rightarrow> int \<Rightarrow> auth_error + PasswordUser" where
  "NewPasswordUser hmac rnd tenantID subjectID password roles iterations =
     check (tenantID = []) UserTenantRequired (
     check (subjectID = []) UserSubjectRequired (
     check (password = []) PasswordRequired (
     check (roles = []) UserRolesRequired (
     let iterations = (if iterations \<le> 0 then DefaultPasswordIterations else iterations) in
     case rnd of
       Inl e \<Rightarrow> Inl (RandomFailed e)
     | Inr salt \<Rightarrow>
         Inr \<lparr>User_TenantID = tenantID, User_SubjectID = subjectID, User_Roles = roles,
              User_Salt = b64_encode StdEncoding salt,
              User_Hash = b64_encode StdEncoding (derivePasswordKey hmac (bytes_of password) salt iterations 32),
              User_Iterations = iterations\<rparr>))))"

definition PasswordUser_Validate :: "PasswordUser \<Rightarrow> auth_error + unit" where
  "PasswordUser_Validate u =
     check (User_TenantID u = []) UserTenantRequired (
     check (User_SubjectID u = []) UserSubjectRequired (
     check (User_Roles u = []) UserRolesRequired (
     check (User_Iterations u \<le> 0) IterationsPositive (
     check (b64_decode StdEncoding (User_Salt u) = None) SaltNotBase64 (
     case b64_decode StdEncoding (User_Hash u) of
       None \<Rightarrow> Inl HashNotBase64
     | Some hash \<Rightarrow> check (length hash \<noteq> 32) HashLength (Inr ()))))))"

definition CheckPassword :: "(byte list \<Rightarrow> byte list \<Rightarrow> byte list) \<Rightarrow> PasswordUser \<Rightarrow> string \<Rightarrow> auth_error + bool" where
  "CheckPassword hmac u password =
     bind (PasswordUser_Validate u) (\<lambda>_.
     case b64_decode StdEncoding (User_Salt u) of
       None \<Rightarrow> Inl SaltNotBase64
     | Some salt \<Rightarrow>
         (case b64_decode StdEncoding (User_Hash u) of
            None \<Rightarrow> Inl HashNotBase64
          | Some want \<Rightarrow> Inr (derivePasswordKey hmac (bytes_of password) salt (User_Iterations u) (length want) = want)))"

definition passwordUserKey :: "string \<Rightarrow> string \<Rightarrow> string" where
  "passwordUserKey tenantID subjectID = tenantID @ [CHR 0x00] @ subjectID"

type_synonym PasswordAuthenticator = "(string, PasswordUser) gomap"

fun index_users :: "PasswordAuthenticator \<Rightarrow> PasswordUser list \<Rightarrow> auth_error + PasswordAuthenticator" where
  "index_users byKey [] = Inr byKey"
| "index_users byKey (user # users) =
     bind (PasswordUser_Validate user) (\<lambda>_.
     let key = passwordUserKey (User_TenantID user) (User_SubjectID user) in
     check (gm_has byKey key) (DuplicateUser (User_TenantID user) (User_SubjectID user)) (
     index_users (gm_set key user byKey) users))"

definition NewPasswordAuthenticator :: "PasswordUser list \<Rightarrow> auth_error + PasswordAuthenticator" where
  "NewPasswordAuthenticator users = index_users [] users"

definition Password_Authenticate ::
  "(byte list \<Rightarrow> byte list \<Rightarrow> byte list) \<Rightarrow> PasswordAuthenticator option \<Rightarrow> string \<Rightarrow> string \<Rightarrow> string \<Rightarrow> auth_error + Subject option" where
  "Password_Authenticate hmac a tenantID subjectID password =
     (case a of
        None \<Rightarrow> Inl NotConfigured
      | Some users \<Rightarrow>
          (case gm_get users (passwordUserKey tenantID subjectID) of
             None \<Rightarrow> Inr None
           | Some user \<Rightarrow>
               bind (CheckPassword hmac user password) (\<lambda>ok.
               Inr (if \<not> ok then None
                    else Some \<lparr>Subject_ID = User_SubjectID user, Subject_TenantID = User_TenantID user, Subject_Roles = User_Roles user\<rparr>))))"

section \<open>Private files\<close>

record stat_info =
  stat_IsDir :: bool
  stat_Perm :: nat

definition validatePrivateAuthFile :: "string \<Rightarrow> string + stat_info \<Rightarrow> auth_error + unit" where
  \<comment> \<open>the platform and the outcome of os.Stat; 63 is the mask 0o077\<close>
  "validatePrivateAuthFile goos stat =
     (if goos = ''windows'' then Inr ()
      else case stat of
        Inl e \<Rightarrow> Inl (FileStat e)
      | Inr info \<Rightarrow>
          check (stat_IsDir info) FileIsDirectory (
          check (stat_Perm info AND 63 \<noteq> 0) (FileMode (stat_Perm info)) (Inr ())))"

definition load_private :: "string \<Rightarrow> string \<Rightarrow> string + stat_info \<Rightarrow> string + 'd \<Rightarrow> ('d \<Rightarrow> string + 'v) \<Rightarrow> auth_error + 'v" where
  \<comment> \<open>the common part of the two loaders: check the path and the mode, read and decode\<close>
  "load_private path goos stat read unmarshal =
     check (path = []) FileRequired (
     bind (validatePrivateAuthFile goos stat) (\<lambda>_.
     case read of
       Inl e \<Rightarrow> Inl (FileRead e)
     | Inr data \<Rightarrow> (case unmarshal data of Inl e \<Rightarrow> Inl (FileDecode e) | Inr v \<Rightarrow> Inr v)))"

definition LoadPasswordAuthenticator ::
  "string \<Rightarrow> string \<Rightarrow> string + stat_info \<Rightarrow> string + 'd \<Rightarrow> ('d \<Rightarrow> string + PasswordUser list) \<Rightarrow> auth_error + PasswordAuthenticator" where
  "LoadPasswordAuthenticator path goos stat read unmarshal =
     bind (load_private path goos stat read unmarshal) NewPasswordAuthenticator"

section \<open>OpenID Connect\<close>

record OIDCConfig =
  OIDC_Issuer :: string
  OIDC_Audience :: string
  OIDC_HMACSecret :: string

record OIDCAuthenticator =
  oidc_issuer :: string
  oidc_audience :: string
  oidc_hmacSecret :: "byte list"

record oidcHeader =
  Header_Algorithm :: string
  Header_Type :: string

text \<open>
  The raw audience is \<open>'j\<close>; \<open>as_string\<close> and \<open>as_strings\<close> are json.Unmarshal of it into a string and a
  list of strings.
\<close>

record 'j oidcClaims =
  Claims_Issuer :: string
  Claims_Audience :: 'j
  Claims_Subject :: string
  Claims_TenantID :: string
  Claims_Roles :: "Role list"
  Claims_ExpiresAt :: int
  Claims_NotBefore :: int

record 'j json_codec =
  json_header :: "byte list \<Rightarrow> string + oidcHeader"
  json_claims :: "byte list \<Rightarrow> string + 'j oidcClaims"
  as_string :: "'j \<Rightarrow> string option"
  as_strings :: "'j \<Rightarrow> string list option"

definition NewOIDCAuthenticator :: "OIDCConfig \<Rightarrow> auth_error + OIDCAuthenticator" where
  "NewOIDCAuthenticator config =
     check (is_blank (OIDC_Issuer config)) OIDCIssuerRequired (
     check (is_blank (OIDC_Audience config)) OIDCAudienceRequired (
     check (OIDC_HMACSecret config = []) OIDCSecretRequired (
     Inr \<lparr>oidc_issuer = TrimSpace (OIDC_Issuer config), oidc_audience = TrimSpace (OIDC_Audience config),
          oidc_hmacSecret = bytes_of (OIDC_HMACSecret config)\<rparr>)))"

definition LoadOIDCAuthenticator ::
  "string \<Rightarrow> string \<Rightarrow> string + stat_info \<Rightarrow> string + 'd \<Rightarrow> ('d \<Rightarrow> string + OIDCConfig) \<Rightarrow> auth_error + OIDCAuthenticator" where
  "LoadOIDCAuthenticator path goos stat read unmarshal =
     bind (load_private path goos stat read unmarshal) NewOIDCAuthenticator"

definition decodeJWTPart :: "string \<Rightarrow> byte list option" where
  "decodeJWTPart raw = b64_decode RawURLEncoding raw"

definition signHS256 :: "(byte list \<Rightarrow> byte list \<Rightarrow> byte list) \<Rightarrow> string \<Rightarrow> byte list \<Rightarrow> byte list" where
  "signHS256 hmac input secret = hmac secret (bytes_of input)"

definition oidcAudienceContains :: "'j json_codec \<Rightarrow> 'j \<Rightarrow> string \<Rightarrow> auth_error + bool" where
  "oidcAudienceContains js raw want =
     (case as_string js raw of
        Some single \<Rightarrow> Inr (single = want)
      | None \<Rightarrow> (case as_strings js raw of None \<Rightarrow> Inl OIDCAudience | Some many \<Rightarrow> Inr (list_ex (\<lambda>a. a = want) many)))"

definition check_claims :: "'j json_codec \<Rightarrow> OIDCAuthenticator \<Rightarrow> time \<Rightarrow> 'j oidcClaims \<Rightarrow> auth_error + Subject option" where
  \<comment> \<open>the part of \<open>AuthenticateIDToken\<close> after the claims are decoded\<close>
  "check_claims js a now claims =
     (if Claims_Issuer claims \<noteq> oidc_issuer a then Inr None
      else bind (oidcAudienceContains js (Claims_Audience claims) (oidc_audience a)) (\<lambda>audienceOK.
        if \<not> audienceOK then Inr None
        else check (is_blank (Claims_Subject claims)) OIDCSubjectRequired (
             check (is_blank (Claims_TenantID claims)) OIDCTenantRequired (
             check (Claims_Roles claims = []) OIDCRolesRequired (
             let unixNow = Unix now in
             if Claims_ExpiresAt claims \<le> unixNow then Inr None
             else if Claims_NotBefore claims > 0 \<and> unixNow < Claims_NotBefore claims then Inr None
             else Inr (Some \<lparr>Subject_ID = Claims_Subject claims, Subject_TenantID = Claims_TenantID claims,
                             Subject_Roles = Claims_Roles claims\<rparr>))))))"

definition AuthenticateIDToken ::
  "(byte list \<Rightarrow> byte list \<Rightarrow> byte list) \<Rightarrow> 'j json_codec \<Rightarrow> time \<Rightarrow> OIDCAuthenticator option \<Rightarrow> string \<Rightarrow> time \<Rightarrow> auth_error + Subject option" where
  "AuthenticateIDToken hmac js clock authenticator raw now =
     (case authenticator of
        None \<Rightarrow> Inl NotConfigured
      | Some a \<Rightarrow>
          let raw = TrimSpace raw in
          check (raw = []) OIDCTokenRequired (
          let now = (if IsZero now then clock else now) in
          case split_char (CHR ''.'') raw of
            [p0, p1, p2] \<Rightarrow>
              (case decodeJWTPart p0 of
                 None \<Rightarrow> Inl (OIDCDecode ''header'')
               | Some headerBytes \<Rightarrow>
                   (case json_header js headerBytes of
                      Inl e \<Rightarrow> Inl (OIDCDecode e)
                    | Inr header \<Rightarrow>
                        check (Header_Algorithm header \<noteq> ''HS256'') (OIDCAlg (Header_Algorithm header)) (
                        case decodeJWTPart p2 of
                          None \<Rightarrow> Inl (OIDCDecode ''signature'')
                        | Some signature \<Rightarrow>
                            if signature \<noteq> signHS256 hmac (p0 @ ''.'' @ p1) (oidc_hmacSecret a) then Inr None
                            else (case decodeJWTPart p1 of
                                    None \<Rightarrow> Inl (OIDCDecode ''payload'')
                                  | Some payloadBytes \<Rightarrow>
                                      (case json_claims js payloadBytes of
                                         Inl e \<Rightarrow> Inl (OIDCDecode e)
                                       | Inr claims \<Rightarrow> check_claims js a now claims)))))
          | _ \<Rightarrow> Inl OIDCSegments))"

section \<open>The role table\<close>

definition granted_actions :: "Role \<Rightarrow> Action set" where
  "granted_actions role =
     (if role = RoleAdmin then {ActionRead, ActionManage, ActionAuditRead, ActionCertManage, ActionPolicyEdit, ActionConfigRead, ActionTelemetryWrite}
      else if role = RoleOperator then {ActionRead, ActionManage, ActionCertManage, ActionPolicyEdit, ActionConfigRead, ActionTelemetryWrite}
      else if role = RoleViewer then {ActionRead, ActionAuditRead}
      else if role = RoleAgent then {ActionConfigRead, ActionTelemetryWrite} else {})"

lemma grants_iff: "gm_default False (gm_default [] NewAuthorizer role) act \<longleftrightarrow> act \<in> granted_actions role"
  by (simp add: NewAuthorizer_def gm_default_def granted_actions_def go_defs)

text \<open>
  authorization. A subject may act only within its own tenant, and only with an action that the
  table grants to one of its roles; unknown roles and unknown actions grant nothing.
\<close>

lemma Allowed_iff:
  "Allowed NewAuthorizer subject request = Inr True \<longleftrightarrow>
     Subject_ID subject \<noteq> [] \<and> Subject_TenantID subject \<noteq> [] \<and> Subject_TenantID subject = AuthRequest_TenantID request \<and>
     (\<exists>role\<in>set (Subject_Roles subject). AuthRequest_Action request \<in> granted_actions role)"
proof -
  have "[] \<notin> granted_actions role" for role by (simp add: granted_actions_def go_defs)
  then show ?thesis by (auto simp: Allowed_def grants_iff list_ex_iff)
qed

section \<open>What a session token proves\<close>

datatype session_event =
    IssueEv time "string + byte list" Subject duration time
  | RevokeEv string

fun session_run :: "session_event list \<Rightarrow> SessionStore \<Rightarrow> SessionStore" where
  "session_run [] s = s"
| "session_run (IssueEv clock rnd subject ttl now # es) s =
     session_run es (case Session_Issue clock rnd subject ttl now s of Inl _ \<Rightarrow> s | Inr (_, s') \<Rightarrow> s')"
| "session_run (RevokeEv token # es) s = session_run es (snd (Session_Revoke token s))"

text \<open>
  The specification reads the history backwards: the latest issue or revocation of a token decides.
\<close>

fun standing :: "session_event list \<Rightarrow> string \<Rightarrow> (Subject \<times> time) option" where
  "standing [] token = None"
| "standing (IssueEv clock rnd subject ttl now # es) token =
     (case rnd of
        Inr bytes \<Rightarrow>
          if b64_encode RawURLEncoding bytes = token \<and> Subject_ID subject \<noteq> [] \<and> Subject_TenantID subject \<noteq> [] \<and>
             Subject_Roles subject \<noteq> [] \<and> 0 < ttl
          then Some (subject, (if IsZero now then clock else now) + ttl)
          else standing es token
      | Inl _ \<Rightarrow> standing es token)"
| "standing (RevokeEv t # es) token = (if t = token then None else standing es token)"

definition session_state :: "SessionStore \<Rightarrow> string \<Rightarrow> (Subject \<times> time) option" where
  "session_state s token = (case gm_get s token of
     None \<Rightarrow> None
   | Some session \<Rightarrow> if Session_Revoked session then None else Some (Session_Subject session, Session_ExpiresAt session))"

lemma session_run_append: "session_run (es @ es') s = session_run es' (session_run es s)"
  by (induction es s rule: session_run.induct) simp_all

lemma session_run_state: "session_state (session_run es NewSessionStore) token = standing (rev es) token"
proof (induction es rule: rev_induct)
  case Nil
  show ?case by (simp add: session_state_def NewSessionStore_def)
next
  case (snoc e es)
  then show ?case
    by (cases e) (auto simp: session_run_append session_state_def Session_Issue_def Session_Revoke_def check_def Let_def
        split: option.splits sum.splits if_splits)
qed

text \<open>
  C23: a session token authenticates a subject exactly if, in the history of the store, the latest
  event about the token is its issue to that subject, and the session has not expired. In particular
  a revoked token stays dead until it is issued again.
\<close>

theorem session_authenticate_iff:
  "Session_Authenticate clock token now (session_run es NewSessionStore) = Some subject \<longleftrightarrow>
     token \<noteq> [] \<and> (\<exists>expires. standing (rev es) token = Some (subject, expires) \<and> (if IsZero now then clock else now) < expires)"
proof -
  have "Session_Authenticate clock token now s = Some subject \<longleftrightarrow>
      token \<noteq> [] \<and> (\<exists>expires. session_state s token = Some (subject, expires) \<and> (if IsZero now then clock else now) < expires)" for s
    by (auto simp: Session_Authenticate_def session_state_def Let_def split: option.splits)
  then show ?thesis by (simp only: session_run_state)
qed

section \<open>Sessions on disk\<close>

definition sessions_ok :: "SessionStore \<Rightarrow> bool" where
  "sessions_ok s \<longleftrightarrow> gm_ok s \<and> (\<forall>k session. (k, session) \<in> set s \<longrightarrow> k = Session_Token session \<and> k \<noteq> [])"

lemma sessions_roundtrip:
  assumes "sessions_ok s"
  shows "NewSessionStoreFromSessions (SessionStore_Snapshot s) = s"
proof -
  have "NewSessionStoreFromSessions (SessionStore_Snapshot s) = fold (\<lambda>(k, v). gm_set k v) s NewSessionStore"
    unfolding NewSessionStoreFromSessions_def SessionStore_Snapshot_def gm_values_def fold_map
    using assms by (intro fold_cong) (auto simp: sessions_ok_def)
  also have "\<dots> = s"
    using assms fold_gm_set_fresh [of s "[]" id] by (simp add: sessions_ok_def gm_ok_def NewSessionStore_def)
  finally show ?thesis .
qed

lemma sessions_ok_set:
  assumes "sessions_ok s" "Session_Token session \<noteq> []"
  shows "sessions_ok (gm_set (Session_Token session) session s)"
proof -
  have "v = session \<and> k = Session_Token session \<or> (k, v) \<in> set s" if "(k, v) \<in> set (gm_set (Session_Token session) session s)" for k v
    using that by (induction s) (auto split: if_splits)
  with assms show ?thesis by (fastforce simp: sessions_ok_def)
qed

lemma sessions_ok_Revoke:
  assumes "sessions_ok s"
  shows "sessions_ok (snd (Session_Revoke token s))"
proof (cases "gm_get s token")
  case None
  with assms show ?thesis by (simp add: Session_Revoke_def)
next
  case (Some session)
  then have "(token, session) \<in> set s" by (rule map_of_SomeD)
  with assms have t: "token = Session_Token session" "token \<noteq> []" unfolding sessions_ok_def by blast+
  have "sessions_ok (gm_set (Session_Token (session\<lparr>Session_Revoked := True\<rparr>)) (session\<lparr>Session_Revoked := True\<rparr>) s)"
    using assms t by (intro sessions_ok_set) simp_all
  with Some t(1) show ?thesis by (simp add: Session_Revoke_def)
qed

text \<open>
  C24: revocation of a stored session. The running store refuses the token at once. If the save
  succeeds, a store opened from the file is the same and refuses it too; if the save fails the caller is
  still told that the token was revoked, and a store opened later is the one from before the call.
\<close>

theorem file_revoke:
  assumes "sessions_ok (fss_SessionStore s)" "fss_path s \<noteq> []" "temp_fresh os (fss_path s) fs"
    and "FileSessionStore_Revoke enc os token s fs = (True, s', fss)"
    and "\<And>d. enc (SessionStore_Snapshot (fss_SessionStore s')) = Inr d \<Longrightarrow> dec d = Inr (SessionStore_Snapshot (fss_SessionStore s'))"
  shows "Session_Authenticate clock token now (fss_SessionStore s') = None \<and>
    (if fst (FileSessionStore_save enc os s' fs) = None
     then NewFileSessionStore dec None (fss_path s) (last fss) = Inr s'
     else NewFileSessionStore dec None (fss_path s) (last fss) = NewFileSessionStore dec None (fss_path s) fs)"
proof -
  obtain err where w: "writePrivateJSON enc os (fss_path s) (SessionStore_Snapshot (fss_SessionStore s')) fs = (err, fss)"
    and s': "s' = s\<lparr>fss_SessionStore := snd (Session_Revoke token (fss_SessionStore s))\<rparr>"
    and r: "fst (Session_Revoke token (fss_SessionStore s))"
    using assms(4) by (auto simp: FileSessionStore_Revoke_def FileSessionStore_save_def Let_def split: prod.splits if_splits)
  have ok: "sessions_ok (fss_SessionStore s')" using sessions_ok_Revoke [OF assms(1)] s' by simp
  have "Session_Authenticate clock token now (fss_SessionStore s') = None"
    using r by (auto simp: s' Session_Authenticate_def Session_Revoke_def Let_def split: option.splits if_splits)
  moreover have "fst (FileSessionStore_save enc os s' fs) = err" using w s' by (simp add: FileSessionStore_save_def)
  moreover have "NewFileSessionStore dec None (fss_path s) (last fss) = Inr s'" if none: "err = None"
  proof -
    obtain d where d: "enc (SessionStore_Snapshot (fss_SessionStore s')) = Inr d" "gm_get (last fss) (fss_path s) = Some (d, private_perm)"
      using write_success [OF w [unfolded none]] by blast
    have "\<lparr>fss_SessionStore = fss_SessionStore s', fss_path = fss_path s\<rparr> = s'" by (simp add: s')
    with assms(2) assms(5) [OF d(1)] d(2) sessions_roundtrip [OF ok] show ?thesis
      by (simp add: NewFileSessionStore_def loadSessions_def)
  qed
  moreover have "NewFileSessionStore dec None (fss_path s) (last fss) = NewFileSessionStore dec None (fss_path s) fs" if "err \<noteq> None"
    using write_atomic [OF w assms(3)] that by (simp add: NewFileSessionStore_def loadSessions_def)
  ultimately show ?thesis by simp
qed

definition sample_subject :: Subject where
  "sample_subject = \<lparr>Subject_ID = ''u'', Subject_TenantID = ''t'', Subject_Roles = [RoleViewer]\<rparr>"

definition sample_session :: Session where
  "sample_session = \<lparr>Session_Token = ''AA'', Session_Subject = sample_subject, Session_ExpiresAt = 100, Session_Revoked = False\<rparr>"

theorem session_authenticate_iff_witness:
  "Session_Authenticate 0 ''AA'' 20 (session_run [IssueEv 0 (Inr [0]) sample_subject 50 10] NewSessionStore) = Some sample_subject"
proof -
  have "standing (rev [IssueEv 0 (Inr [0]) sample_subject 50 10]) ''AA'' = Some (sample_subject, 60)" by code_simp
  then show ?thesis using session_authenticate_iff [of 0 "''AA''" 20 "[IssueEv 0 (Inr [0]) sample_subject 50 10]" sample_subject]
    by (simp add: IsZero_def)
qed

theorem file_revoke_witness:
  "\<exists>s' fss. FileSessionStore_Revoke Inr ((sample_os [])\<lparr>os_rename := Some ''EIO''\<rparr>) ''AA''
       \<lparr>fss_SessionStore = [(''AA'', sample_session)], fss_path = ''/d/s''\<rparr> [(''/d/s'', ([sample_session], 384))] = (True, s', fss) \<and>
     Session_Authenticate 0 ''AA'' 20 (fss_SessionStore s') = None \<and>
     (\<exists>r. NewFileSessionStore Inr None ''/d/s'' (last fss) = Inr r \<and> Session_Authenticate 0 ''AA'' 20 (fss_SessionStore r) = Some sample_subject)"
proof -
  let ?s = "\<lparr>fss_SessionStore = [(''AA'', sample_session)], fss_path = ''/d/s''\<rparr>"
  let ?fs = "[(''/d/s'', ([sample_session], 384))] :: Session list fs"
  let ?os = "(sample_os [])\<lparr>os_rename := Some ''EIO''\<rparr> :: Session list write_os"
  let ?r = "FileSessionStore_Revoke Inr ?os ''AA'' ?s ?fs"
  have r: "?r = (True, fst (snd ?r), snd (snd ?r))" by code_simp
  have f: "fst (FileSessionStore_save Inr ?os (fst (snd ?r)) ?fs) \<noteq> None" by code_simp
  have ok: "sessions_ok (fss_SessionStore ?s)" by (simp add: sessions_ok_def gm_ok_def sample_session_def)
  have t: "temp_fresh ?os (fss_path ?s) ?fs" by (simp add: temp_fresh_def sample_os_def)
  have "NewFileSessionStore Inr None ''/d/s'' ?fs = Inr ?s" by code_simp
  moreover have "Session_Authenticate 0 ''AA'' 20 (fss_SessionStore ?s) = Some sample_subject" by code_simp
  ultimately show ?thesis
    using file_revoke [OF ok _ t r, of Inr 0 20] f r by (intro exI [of _ "fst (snd ?r)"] exI [of _ "snd (snd ?r)"]) simp
qed

section \<open>Password hashing is PBKDF2\<close>

text \<open>
  The reference is RFC 8018: \<open>U 1\<close> is the pseudorandom function of the salt and the block number,
  \<open>U (j + 1)\<close> that of \<open>U j\<close>, a block is the exclusive or of the first \<open>c\<close> of them, and the key is
  the prefix of the concatenated blocks.
\<close>

fun rfc_U :: "(byte list \<Rightarrow> byte list \<Rightarrow> byte list) \<Rightarrow> byte list \<Rightarrow> byte list \<Rightarrow> nat \<Rightarrow> nat \<Rightarrow> byte list" where
  "rfc_U prf P S i 0 = prf P (S @ be32 i)"
| "rfc_U prf P S i (Suc j) = prf P (rfc_U prf P S i j)"

fun rfc_F :: "(byte list \<Rightarrow> byte list \<Rightarrow> byte list) \<Rightarrow> byte list \<Rightarrow> byte list \<Rightarrow> nat \<Rightarrow> nat \<Rightarrow> byte list" where
  \<comment> \<open>the block for \<open>Suc c\<close> iterations\<close>
  "rfc_F prf P S i 0 = rfc_U prf P S i 0"
| "rfc_F prf P S i (Suc c) = map2 (XOR) (rfc_F prf P S i c) (rfc_U prf P S i (Suc c))"

definition rfc_PBKDF2 :: "(byte list \<Rightarrow> byte list \<Rightarrow> byte list) \<Rightarrow> byte list \<Rightarrow> byte list \<Rightarrow> nat \<Rightarrow> nat \<Rightarrow> byte list" where
  "rfc_PBKDF2 prf P S c dkLen =
     take dkLen (concat (map (\<lambda>i. rfc_F prf P S i (c - 1)) [1..<Suc ((dkLen + 31) div 32)]))"

lemma pbkdf2_rounds_rfc:
  "pbkdf2_rounds prf P k (rfc_U prf P S i j) (rfc_F prf P S i j) = rfc_F prf P S i (j + k)"
proof (induction k arbitrary: j)
  case 0
  show ?case by simp
next
  case (Suc k)
  show ?case using Suc.IH [of "Suc j"] by (simp add: Let_def)
qed

text \<open>
  C27: \<open>derivePasswordKey\<close> computes PBKDF2 with HMAC-SHA256 as the pseudorandom function, for every
  positive iteration count and every key length.
\<close>

theorem derivePasswordKey_rfc:
  assumes "0 < iterations"
  shows "derivePasswordKey hmac password salt iterations keyLen = rfc_PBKDF2 hmac password salt (nat iterations) keyLen"
proof -
  have b: "pbkdf2Block hmac password salt iterations i = rfc_F hmac password salt i (nat iterations - 1)" for i
  proof -
    have "nat iterations - 1 = nat (iterations - 1)" by simp
    then show ?thesis
      using pbkdf2_rounds_rfc [of hmac password "nat (iterations - 1)" salt i 0] by (simp only: pbkdf2Block_def Let_def) simp
  qed
  have "fold (\<lambda>block out. out @ f block) xs acc = acc @ concat (map f xs)" for f :: "nat \<Rightarrow> byte list" and xs acc
    by (induction xs arbitrary: acc) simp_all
  moreover have "keyLen + 32 - 1 = keyLen + 31" by simp
  ultimately show ?thesis by (simp only: derivePasswordKey_def rfc_PBKDF2_def b Let_def append_Nil)
qed

theorem derivePasswordKey_rfc_witness:
  "derivePasswordKey (\<lambda>k m. [word_of_nat (length m), 1]) [1] [2, 3] 3 2 = rfc_PBKDF2 (\<lambda>k m. [word_of_nat (length m), 1]) [1] [2, 3] 3 2 \<and>
   derivePasswordKey (\<lambda>k m. [word_of_nat (length m), 1]) [1] [2, 3] 3 2 = [6, 1]"
proof -
  have "derivePasswordKey (\<lambda>k m. [word_of_nat (length m), 1]) [1] [2, 3] 3 2 = [6, 1 :: byte]" by code_simp
  then show ?thesis using derivePasswordKey_rfc [of 3 "\<lambda>k m. [word_of_nat (length m), 1]" "[1]" "[2, 3]" 2] by simp
qed

lemma length_derive:
  assumes "\<And>k m. length (hmac k m) = 32" "keyLen \<le> 32" "0 < keyLen"
  shows "length (derivePasswordKey hmac password salt iterations keyLen) = keyLen"
proof -
  have "length (pbkdf2_rounds hmac password k u r) = 32" if "length r = 32" for k u r
    using that assms(1) by (induction k arbitrary: u r) (simp_all add: Let_def)
  then have "length (pbkdf2Block hmac password salt iterations 1) = 32"
    using assms(1) by (simp add: pbkdf2Block_def Let_def)
  moreover have "(keyLen + 32 - 1) div 32 = 1" using assms(2,3) by (intro div_nat_eqI) simp_all
  ultimately show ?thesis using assms(2) by (simp add: derivePasswordKey_def Let_def)
qed

lemma NewPasswordUser_valid:
  assumes "NewPasswordUser hmac rnd tenantID subjectID password roles iterations = Inr u" "\<And>k m. length (hmac k m) = 32"
  shows "PasswordUser_Validate u = Inr ()"
proof -
  let ?it = "if iterations \<le> 0 then DefaultPasswordIterations else iterations"
  have "0 < ?it" by (simp add: DefaultPasswordIterations_def)
  with assms(1) length_derive [of hmac 32, OF assms(2)] show ?thesis
    by (auto simp: NewPasswordUser_def PasswordUser_Validate_def Let_def split: sum.splits)
qed

lemma CheckPassword_new:
  assumes "NewPasswordUser hmac rnd tenantID subjectID password roles iterations = Inr u" "\<And>k m. length (hmac k m) = 32"
  shows "CheckPassword hmac u password' = Inr (User_Hash u = b64_encode StdEncoding
    (derivePasswordKey hmac (bytes_of password') (the (b64_decode StdEncoding (User_Salt u))) (User_Iterations u) 32))"
proof -
  obtain salt where s: "User_Salt u = b64_encode StdEncoding salt"
    and h: "User_Hash u = b64_encode StdEncoding (derivePasswordKey hmac (bytes_of password) salt (User_Iterations u) 32)"
    using assms(1) by (auto simp: NewPasswordUser_def Let_def split: sum.splits)
  have inj: "b64_encode StdEncoding x = b64_encode StdEncoding y \<longleftrightarrow> x = y" for x y
    by (metis alphabets_ok(1) b64_decode_encode option.inject)
  show ?thesis
    using NewPasswordUser_valid [OF assms] length_derive [of hmac 32, OF assms(2)]
    by (auto simp: CheckPassword_def s h inj)
qed

text \<open>
  a registered user can log in. With a hash function of 32 bytes, a user created with a password is
  valid, an authenticator built from it accepts that password and yields the subject with the tenant,
  the id and the roles the user was created with, and it refuses every password whose derived key
  differs.
\<close>

lemma password_login:
  assumes "NewPasswordUser hmac rnd tenantID subjectID password roles iterations = Inr u" "\<And>k m. length (hmac k m) = 32"
  shows "\<exists>a. NewPasswordAuthenticator [u] = Inr a \<and>
    Password_Authenticate hmac (Some a) tenantID subjectID password =
      Inr (Some \<lparr>Subject_ID = subjectID, Subject_TenantID = tenantID, Subject_Roles = roles\<rparr>) \<and>
    (\<forall>password' salt. User_Salt u = b64_encode StdEncoding salt \<longrightarrow>
       derivePasswordKey hmac (bytes_of password') salt (User_Iterations u) 32 \<noteq>
         derivePasswordKey hmac (bytes_of password) salt (User_Iterations u) 32 \<longrightarrow>
       Password_Authenticate hmac (Some a) tenantID subjectID password' = Inr None)"
proof -
  obtain salt where u: "User_Salt u = b64_encode StdEncoding salt" "User_TenantID u = tenantID" "User_SubjectID u = subjectID"
    "User_Roles u = roles" "User_Hash u = b64_encode StdEncoding (derivePasswordKey hmac (bytes_of password) salt (User_Iterations u) 32)"
    using assms(1) by (auto simp: NewPasswordUser_def Let_def split: sum.splits)
  have inj: "b64_encode StdEncoding x = b64_encode StdEncoding y \<longleftrightarrow> x = y" for x y
    by (metis alphabets_ok(1) b64_decode_encode option.inject)
  let ?a = "gm_set (passwordUserKey tenantID subjectID) u []"
  have a: "NewPasswordAuthenticator [u] = Inr ?a"
    using NewPasswordUser_valid [OF assms] u by (simp add: NewPasswordAuthenticator_def Let_def)
  show ?thesis
    using a CheckPassword_new [OF assms] u inj
    by (intro exI [of _ ?a]) (auto simp: Password_Authenticate_def)
qed

section \<open>What an accepted OIDC token proves\<close>

text \<open>
  C28: an ID token is accepted only if it has three parts, its header names HS256, its third part is the
  HMAC of the first two under the configured secret, its claims name the configured issuer and
  audience, it has not expired and is already valid; the subject is the one the signed claims name. So
  neither an unsigned token nor one for another audience is ever accepted.
\<close>

theorem oidc_sound:
  assumes "AuthenticateIDToken hmac js clock (Some a) raw now = Inr (Some subject)"
  shows "\<exists>p0 p1 p2 hb header sig pb claims. TrimSpace raw = p0 @ ''.'' @ p1 @ ''.'' @ p2 \<and>
    decodeJWTPart p0 = Some hb \<and> json_header js hb = Inr header \<and> Header_Algorithm header = ''HS256'' \<and>
    decodeJWTPart p2 = Some sig \<and> sig = hmac (oidc_hmacSecret a) (bytes_of (p0 @ ''.'' @ p1)) \<and>
    decodeJWTPart p1 = Some pb \<and> json_claims js pb = Inr claims \<and>
    Claims_Issuer claims = oidc_issuer a \<and>
    (as_string js (Claims_Audience claims) = Some (oidc_audience a) \<or>
     (\<exists>many. as_strings js (Claims_Audience claims) = Some many \<and> oidc_audience a \<in> set many)) \<and>
    Unix (if IsZero now then clock else now) < Claims_ExpiresAt claims \<and>
    (Claims_NotBefore claims \<le> 0 \<or> Claims_NotBefore claims \<le> Unix (if IsZero now then clock else now)) \<and>
    subject = \<lparr>Subject_ID = Claims_Subject claims, Subject_TenantID = Claims_TenantID claims, Subject_Roles = Claims_Roles claims\<rparr> \<and>
    Subject_Roles subject \<noteq> []"
proof -
  let ?now = "if IsZero now then clock else now"
  obtain p0 p1 p2 where p: "split_char (CHR ''.'') (TrimSpace raw) = [p0, p1, p2]"
    using assms by (auto simp: AuthenticateIDToken_def Let_def split: list.splits)
  have t: "TrimSpace raw = p0 @ ''.'' @ p1 @ ''.'' @ p2"
    using join_split_char [of "CHR ''.''" "TrimSpace raw"] p by simp
  obtain hb header pb claims where c: "decodeJWTPart p0 = Some hb" "json_header js hb = Inr header" "Header_Algorithm header = ''HS256''"
    "decodeJWTPart p2 = Some (signHS256 hmac (p0 @ ''.'' @ p1) (oidc_hmacSecret a))"
    "decodeJWTPart p1 = Some pb" "json_claims js pb = Inr claims" "check_claims js a ?now claims = Inr (Some subject)"
    using assms p by (auto simp: AuthenticateIDToken_def Let_def split: option.splits sum.splits if_splits)
  from c(7) have "Claims_Issuer claims = oidc_issuer a \<and>
    (as_string js (Claims_Audience claims) = Some (oidc_audience a) \<or>
     (\<exists>many. as_strings js (Claims_Audience claims) = Some many \<and> oidc_audience a \<in> set many)) \<and>
    Unix ?now < Claims_ExpiresAt claims \<and> (Claims_NotBefore claims \<le> 0 \<or> Claims_NotBefore claims \<le> Unix ?now) \<and>
    subject = \<lparr>Subject_ID = Claims_Subject claims, Subject_TenantID = Claims_TenantID claims, Subject_Roles = Claims_Roles claims\<rparr> \<and>
    Subject_Roles subject \<noteq> []"
    by (auto simp: check_claims_def oidcAudienceContains_def list_ex_iff Let_def split: if_splits option.splits)
  with t c show ?thesis unfolding signHS256_def by blast
qed

definition sample_codec :: "string json_codec" where
  "sample_codec = \<lparr>json_header = (\<lambda>_. Inr \<lparr>Header_Algorithm = ''HS256'', Header_Type = ''JWT''\<rparr>),
     json_claims = (\<lambda>_. Inr \<lparr>Claims_Issuer = ''iss'', Claims_Audience = ''aud'', Claims_Subject = ''u'', Claims_TenantID = ''t'',
       Claims_Roles = [RoleViewer], Claims_ExpiresAt = 100, Claims_NotBefore = 0\<rparr>),
     as_string = Some, as_strings = (\<lambda>_. None)\<rparr>"

theorem oidc_sound_witness:
  "AuthenticateIDToken (\<lambda>k m. [1, 2, 3]) sample_codec 0 (Some \<lparr>oidc_issuer = ''iss'', oidc_audience = ''aud'', oidc_hmacSecret = [9]\<rparr>)
     ''AA.AA.AQID'' 62135596850000000000 = Inr (Some \<lparr>Subject_ID = ''u'', Subject_TenantID = ''t'', Subject_Roles = [RoleViewer]\<rparr>) \<and>
   Unix 62135596850000000000 < 100"
proof -
  let ?a = "\<lparr>oidc_issuer = ''iss'', oidc_audience = ''aud'', oidc_hmacSecret = [9]\<rparr>"
  let ?s = "\<lparr>Subject_ID = ''u'', Subject_TenantID = ''t'', Subject_Roles = [RoleViewer]\<rparr>"
  have acc: "AuthenticateIDToken (\<lambda>k m. [1, 2, 3]) sample_codec 0 (Some ?a) ''AA.AA.AQID'' 62135596850000000000 = Inr (Some ?s)" by code_simp
  from oidc_sound [OF acc] have "Unix 62135596850000000000 < 100"
    by (auto simp: sample_codec_def IsZero_def)
  with acc show ?thesis by blast
qed

end
