(* ===== verification/Config_Sign.thy ===== *)
theory Config_Sign
  imports Domain Go_Base64
begin

text \<open>
  Configuration and configuration signing: internal/config/config.go, signature.go and
  signing_key_approval_request.go.

  The signature scheme, the hash, the PEM and PKCS#8 codecs and the JSON encoder are the fields of the
  record \<open>sign_lib\<close>; \<open>sign_laws\<close> states what the code relies on: a signature made with a private key
  verifies under its public key, hashes have 32 bytes, and the codecs invert each other. Key pairs of
  Go's ed25519 package are byte strings, the public key being the second half of the private key.
\<close>

section \<open>Static configuration\<close>

record AgentConfig =
  AgentConfig_TenantID :: string
  AgentConfig_DeviceID :: string
  AgentConfig_ConfigVersion :: string

record ControlConfig =
  ControlConfig_ListenAddr :: string

record Config =
  Config_Agent :: AgentConfig
  Config_Control :: ControlConfig

definition Config_Default :: Config where
  "Config_Default =
     \<lparr>Config_Agent = \<lparr>AgentConfig_TenantID = ''default'', AgentConfig_DeviceID = ''local-dev'', AgentConfig_ConfigVersion = ''dev''\<rparr>,
      Config_Control = \<lparr>ControlConfig_ListenAddr = ''127.0.0.1:8080''\<rparr>\<rparr>"

datatype config_error =
    AgentTenantRequired
  | AgentDeviceRequired
  | AgentVersionRequired
  | ListenAddrRequired

definition Config_Validate :: "Config \<Rightarrow> config_error + unit" where
  "Config_Validate c =
     check (AgentConfig_TenantID (Config_Agent c) = []) AgentTenantRequired (
     check (AgentConfig_DeviceID (Config_Agent c) = []) AgentDeviceRequired (
     check (AgentConfig_ConfigVersion (Config_Agent c) = []) AgentVersionRequired (
     check (ControlConfig_ListenAddr (Config_Control c) = []) ListenAddrRequired (Inr ()))))"

section \<open>Signing library\<close>

definition ConfigSignatureAlgorithm :: string where "ConfigSignatureAlgorithm = ''ed25519''"
definition configSigningPrivateKeyPEMType :: string where "configSigningPrivateKeyPEMType = ''PRIVATE KEY''"

datatype pkcs8_key = Ed25519Key "byte list" | OtherKey

record sign_lib =
  ed_sign :: "byte list \<Rightarrow> byte list \<Rightarrow> byte list" \<comment> \<open>ed25519.Sign, private key and message\<close>
  ed_verify :: "byte list \<Rightarrow> byte list \<Rightarrow> byte list \<Rightarrow> bool" \<comment> \<open>ed25519.Verify, public key, message, signature\<close>
  lib_sum256 :: "byte list \<Rightarrow> byte list"
  marshal_pkcs8 :: "byte list \<Rightarrow> string + byte list"
  parse_pkcs8 :: "byte list \<Rightarrow> string + pkcs8_key"
  pem_decode :: "byte list \<Rightarrow> (string \<times> byte list) option"
  pem_encode :: "string \<Rightarrow> byte list \<Rightarrow> byte list"
  json_payload :: "ConfigBundle \<Rightarrow> string + byte list" \<comment> \<open>json.Marshal of the payload struct\<close>
  lower_uc :: "string \<Rightarrow> string" \<comment> \<open>strings.ToLower beyond ASCII\<close>

abbreviation PrivateKeySize :: nat where "PrivateKeySize \<equiv> 64"
abbreviation PublicKeySize :: nat where "PublicKeySize \<equiv> 32"

definition ed_Public :: "byte list \<Rightarrow> byte list" where
  \<comment> \<open>ed25519.PrivateKey.Public copies the second half of the key\<close>
  "ed_Public privateKey = take PublicKeySize (drop 32 privateKey)"

definition sign_laws :: "sign_lib \<Rightarrow> bool" where
  "sign_laws L \<longleftrightarrow>
     (\<forall>k m. length k = PrivateKeySize \<longrightarrow> ed_verify L (ed_Public k) m (ed_sign L k m)) \<and>
     (\<forall>bs. length (lib_sum256 L bs) = 32) \<and>
     (\<forall>k der. marshal_pkcs8 L k = Inr der \<longrightarrow> parse_pkcs8 L der = Inr (Ed25519Key k)) \<and>
     (\<forall>der. pem_decode L (pem_encode L configSigningPrivateKeyPEMType der) = Some (configSigningPrivateKeyPEMType, der))"

section \<open>Signers and keys\<close>

record ConfigSigner =
  signer_publicKey :: "byte list"
  signer_privateKey :: "byte list option" \<comment> \<open>None is the nil slice\<close>

record SignedBundle =
  Signed_Bundle :: ConfigBundle
  Signed_Algorithm :: string
  Signed_Signature :: string
  Signed_SignedAt :: time

record SigningPublicKey =
  SigningKey_Algorithm :: string
  SigningKey_PublicKey :: string
  SigningKey_SHA256FingerprintHex :: string
  SigningKey_RotatedAt :: time

datatype sign_error =
    GenerateKey string
  | PrivateKeyLength
  | DerivePublicKey
  | PEMRequired
  | ParsePrivateKey string
  | NotEd25519
  | PublicKeyLength
  | UnsupportedAlgorithm string
  | DecodePublicKey
  | PrivateKeyRequired
  | MarshalPrivateKey string
  | BundleInvalid domain_error
  | Canonicalize string
  | PublicKeyRequired
  | DecodeSignature
  | VerificationFailed
  | RequesterRequired
  | RequestVersion int
  | RequestKind string
  | RequestTimeRequired
  | RequestFingerprintRequired
  | FingerprintNotHex
  | FingerprintLength
  | FingerprintMismatch string string
  | RequestPathRequired
  | OpenRequest string
  | DecodeRequest string

definition NewConfigSigner :: "string + byte list \<times> byte list \<Rightarrow> sign_error + ConfigSigner" where
  \<comment> \<open>the argument is the answer of ed25519.GenerateKey\<close>
  "NewConfigSigner generated =
     (case generated of
        Inl e \<Rightarrow> Inl (GenerateKey e)
      | Inr (publicKey, privateKey) \<Rightarrow> Inr \<lparr>signer_publicKey = publicKey, signer_privateKey = Some privateKey\<rparr>)"

definition NewConfigSignerFromPrivateKey :: "byte list \<Rightarrow> sign_error + ConfigSigner" where
  "NewConfigSignerFromPrivateKey privateKey =
     check (length privateKey \<noteq> PrivateKeySize) PrivateKeyLength (
     let publicKey = ed_Public privateKey in
     check (length publicKey \<noteq> PublicKeySize) DerivePublicKey (
     Inr \<lparr>signer_publicKey = publicKey, signer_privateKey = Some privateKey\<rparr>))"

definition NewConfigSignerFromPEM :: "sign_lib \<Rightarrow> byte list \<Rightarrow> sign_error + ConfigSigner" where
  "NewConfigSignerFromPEM L data =
     (case pem_decode L data of
        None \<Rightarrow> Inl PEMRequired
      | Some (ty, der) \<Rightarrow>
          check (ty \<noteq> configSigningPrivateKeyPEMType) PEMRequired (
          case parse_pkcs8 L der of
            Inl e \<Rightarrow> Inl (ParsePrivateKey e)
          | Inr OtherKey \<Rightarrow> Inl NotEd25519
          | Inr (Ed25519Key privateKey) \<Rightarrow> NewConfigSignerFromPrivateKey privateKey))"

definition NewConfigVerifier :: "byte list \<Rightarrow> sign_error + ConfigSigner" where
  "NewConfigVerifier publicKey =
     check (length publicKey \<noteq> PublicKeySize) PublicKeyLength (
     Inr \<lparr>signer_publicKey = publicKey, signer_privateKey = None\<rparr>)"

definition NewSigningPublicKey :: "sign_lib \<Rightarrow> time \<Rightarrow> byte list \<Rightarrow> time \<Rightarrow> sign_error + SigningPublicKey" where
  "NewSigningPublicKey L clock publicKey rotatedAt =
     check (length publicKey \<noteq> PublicKeySize) PublicKeyLength (
     let rotatedAt = (if IsZero rotatedAt then clock else rotatedAt) in
     Inr \<lparr>SigningKey_Algorithm = ConfigSignatureAlgorithm, SigningKey_PublicKey = b64_encode StdEncoding publicKey,
          SigningKey_SHA256FingerprintHex = hex_Encode (lib_sum256 L publicKey), SigningKey_RotatedAt = rotatedAt\<rparr>)"

definition PublicKeyBytes :: "SigningPublicKey \<Rightarrow> sign_error + byte list" where
  "PublicKeyBytes k =
     check (SigningKey_Algorithm k \<noteq> ConfigSignatureAlgorithm) (UnsupportedAlgorithm (SigningKey_Algorithm k)) (
     case b64_decode StdEncoding (SigningKey_PublicKey k) of
       None \<Rightarrow> Inl DecodePublicKey
     | Some publicKey \<Rightarrow> check (length publicKey \<noteq> PublicKeySize) PublicKeyLength (Inr publicKey))"

definition NewConfigVerifierFromSigningKey :: "SigningPublicKey \<Rightarrow> sign_error + ConfigSigner" where
  "NewConfigVerifierFromSigningKey key = bind (PublicKeyBytes key) NewConfigVerifier"

definition SHA256Fingerprint :: "sign_lib \<Rightarrow> SigningPublicKey \<Rightarrow> sign_error + string" where
  "SHA256Fingerprint L k = bind (PublicKeyBytes k) (\<lambda>publicKey. Inr (hex_Encode (lib_sum256 L publicKey)))"

definition Signer_PublicKey :: "ConfigSigner \<Rightarrow> byte list" where
  "Signer_PublicKey s = signer_publicKey s"

definition PrivateKeyPEM :: "sign_lib \<Rightarrow> ConfigSigner \<Rightarrow> sign_error + byte list" where
  "PrivateKeyPEM L s =
     (let privateKey = (case signer_privateKey s of None \<Rightarrow> [] | Some k \<Rightarrow> k) in
      check (length privateKey \<noteq> PrivateKeySize) PrivateKeyRequired (
      case marshal_pkcs8 L privateKey of
        Inl e \<Rightarrow> Inl (MarshalPrivateKey e)
      | Inr encoded \<Rightarrow> Inr (pem_encode L configSigningPrivateKeyPEMType encoded)))"

section \<open>Signing and verifying\<close>

definition canonicalConfigPayload :: "sign_lib \<Rightarrow> ConfigBundle \<Rightarrow> sign_error + byte list" where
  "canonicalConfigPayload L bundle =
     (let payload = \<lparr>ConfigBundle_ID = ConfigBundle_ID bundle, ConfigBundle_TenantID = ConfigBundle_TenantID bundle,
                     ConfigBundle_TargetID = ConfigBundle_TargetID bundle, ConfigBundle_Version = ConfigBundle_Version bundle,
                     ConfigBundle_Values = ConfigBundle_Values bundle, ConfigBundle_CreatedAt = ConfigBundle_CreatedAt bundle\<rparr>
      in case json_payload L payload of Inl e \<Rightarrow> Inl (Canonicalize e) | Inr encoded \<Rightarrow> Inr encoded)"

definition Sign :: "sign_lib \<Rightarrow> time \<Rightarrow> ConfigSigner \<Rightarrow> ConfigBundle \<Rightarrow> time \<Rightarrow> sign_error + SignedBundle" where
  "Sign L clock s bundle now =
     (case signer_privateKey s of
        None \<Rightarrow> Inl PrivateKeyRequired
      | Some privateKey \<Rightarrow>
          (case ConfigBundle_Validate bundle of
             Inl e \<Rightarrow> Inl (BundleInvalid e)
           | Inr _ \<Rightarrow>
               let now = (if IsZero now then clock else now) in
               bind (canonicalConfigPayload L bundle) (\<lambda>payload.
               Inr \<lparr>Signed_Bundle = bundle, Signed_Algorithm = ConfigSignatureAlgorithm,
                    Signed_Signature = b64_encode StdEncoding (ed_sign L privateKey payload), Signed_SignedAt = now\<rparr>)))"

definition Verify :: "sign_lib \<Rightarrow> ConfigSigner \<Rightarrow> SignedBundle \<Rightarrow> sign_error + unit" where
  "Verify L s sb =
     check (length (signer_publicKey s) \<noteq> PublicKeySize) PublicKeyRequired (
     check (Signed_Algorithm sb \<noteq> ConfigSignatureAlgorithm) (UnsupportedAlgorithm (Signed_Algorithm sb)) (
     case ConfigBundle_Validate (Signed_Bundle sb) of
       Inl e \<Rightarrow> Inl (BundleInvalid e)
     | Inr _ \<Rightarrow>
         (case b64_decode StdEncoding (Signed_Signature sb) of
            None \<Rightarrow> Inl DecodeSignature
          | Some signature \<Rightarrow>
              bind (canonicalConfigPayload L (Signed_Bundle sb)) (\<lambda>payload.
              check (\<not> ed_verify L (signer_publicKey s) payload signature) VerificationFailed (Inr ())))))"

section \<open>Approval requests\<close>

definition SigningKeyApprovalRequestVersion :: int where "SigningKeyApprovalRequestVersion = 1"
definition SigningKeyApprovalRequestKind :: string where "SigningKeyApprovalRequestKind = ''config_signing_key_approval_request''"

record SigningKeyApprovalRequest =
  ApprovalRequest_Version :: int
  ApprovalRequest_Kind :: string
  ApprovalRequest_Algorithm :: string
  ApprovalRequest_PublicKey :: string
  ApprovalRequest_SHA256FingerprintHex :: string
  ApprovalRequest_RotatedAt :: time
  ApprovalRequest_RequestedBy :: string
  ApprovalRequest_RequestedAt :: time
  ApprovalRequest_Source :: string
  ApprovalRequest_Reason :: string

definition normalizeSHA256FingerprintHex :: "sign_lib \<Rightarrow> string \<Rightarrow> sign_error + string" where
  "normalizeSHA256FingerprintHex L raw =
     (let raw = TrimSpace (ToLower (lower_uc L) raw);
          raw = TrimPrefix raw ''sha256:''
      in if raw = [] then Inr []
         else case hex_Decode raw of
                None \<Rightarrow> Inl FingerprintNotHex
              | Some decoded \<Rightarrow> check (length decoded \<noteq> 32) FingerprintLength (Inr raw))"

definition validateSigningPublicKeyFingerprint :: "sign_lib \<Rightarrow> SigningPublicKey \<Rightarrow> sign_error + string" where
  "validateSigningPublicKeyFingerprint L key =
     bind (NewConfigVerifierFromSigningKey key) (\<lambda>_.
     bind (SHA256Fingerprint L key) (\<lambda>fingerprint.
     bind (normalizeSHA256FingerprintHex L (SigningKey_SHA256FingerprintHex key)) (\<lambda>normalized.
     let normalized = (if normalized = [] then fingerprint else normalized) in
     check (normalized \<noteq> fingerprint) (FingerprintMismatch normalized fingerprint) (Inr normalized))))"

definition NewSigningKeyApprovalRequest :: "sign_lib \<Rightarrow> time \<Rightarrow> SigningPublicKey \<Rightarrow> string \<Rightarrow> time \<Rightarrow> sign_error + SigningKeyApprovalRequest" where
  "NewSigningKeyApprovalRequest L clock key requestedBy requestedAt =
     (let requestedBy = TrimSpace requestedBy in
      check (requestedBy = []) RequesterRequired (
      let requestedAt = (if IsZero requestedAt then clock else requestedAt) in
      bind (validateSigningPublicKeyFingerprint L key) (\<lambda>fingerprint.
      Inr \<lparr>ApprovalRequest_Version = SigningKeyApprovalRequestVersion, ApprovalRequest_Kind = SigningKeyApprovalRequestKind,
           ApprovalRequest_Algorithm = SigningKey_Algorithm key, ApprovalRequest_PublicKey = SigningKey_PublicKey key,
           ApprovalRequest_SHA256FingerprintHex = fingerprint, ApprovalRequest_RotatedAt = SigningKey_RotatedAt key,
           ApprovalRequest_RequestedBy = requestedBy, ApprovalRequest_RequestedAt = requestedAt,
           ApprovalRequest_Source = [], ApprovalRequest_Reason = []\<rparr>)))"

definition ApprovalRequest_SigningPublicKey :: "sign_lib \<Rightarrow> SigningKeyApprovalRequest \<Rightarrow> sign_error + SigningPublicKey" where
  "ApprovalRequest_SigningPublicKey L r =
     check (ApprovalRequest_Version r \<noteq> SigningKeyApprovalRequestVersion) (RequestVersion (ApprovalRequest_Version r)) (
     check (ApprovalRequest_Kind r \<noteq> SigningKeyApprovalRequestKind) (RequestKind (ApprovalRequest_Kind r)) (
     check (is_blank (ApprovalRequest_RequestedBy r)) RequesterRequired (
     check (IsZero (ApprovalRequest_RequestedAt r)) RequestTimeRequired (
     check (is_blank (ApprovalRequest_SHA256FingerprintHex r)) RequestFingerprintRequired (
     let key = \<lparr>SigningKey_Algorithm = ApprovalRequest_Algorithm r, SigningKey_PublicKey = ApprovalRequest_PublicKey r,
                SigningKey_SHA256FingerprintHex = ApprovalRequest_SHA256FingerprintHex r,
                SigningKey_RotatedAt = ApprovalRequest_RotatedAt r\<rparr> in
     bind (validateSigningPublicKeyFingerprint L key) (\<lambda>fingerprint.
     Inr (key\<lparr>SigningKey_SHA256FingerprintHex := fingerprint\<rparr>)))))))"

definition LoadSigningKeyApprovalRequest ::
  "sign_lib \<Rightarrow> ('d \<Rightarrow> string + SigningKeyApprovalRequest) \<Rightarrow> (string \<Rightarrow> string + 'd) \<Rightarrow> string \<Rightarrow> sign_error + SigningKeyApprovalRequest" where
  \<comment> \<open>\<open>open_file\<close> is the answer of os.Open for a path, with the content of the file\<close>
  "LoadSigningKeyApprovalRequest L dec open_file path =
     check (is_blank path) RequestPathRequired (
     case open_file path of
       Inl e \<Rightarrow> Inl (OpenRequest e)
     | Inr content \<Rightarrow>
         (case dec content of
            Inl e \<Rightarrow> Inl (DecodeRequest e)
          | Inr request \<Rightarrow> bind (ApprovalRequest_SigningPublicKey L request) (\<lambda>_. Inr request)))"

section \<open>Keys on the wire\<close>

lemma PublicKeyBytes_length: "PublicKeyBytes k = Inr pk \<Longrightarrow> length pk = PublicKeySize"
  by (auto simp: PublicKeyBytes_def check_def split: if_splits option.splits)

lemma SigningPublicKey_bytes:
  "NewSigningPublicKey L clock pk t = Inr key \<Longrightarrow> PublicKeyBytes key = Inr pk"
  by (auto simp: NewSigningPublicKey_def PublicKeyBytes_def check_def Let_def split: if_splits)

lemma NewSigningPublicKey_ok:
  "length pk = PublicKeySize \<Longrightarrow> \<exists>key. NewSigningPublicKey L clock pk t = Inr key"
  by (simp add: NewSigningPublicKey_def Let_def check_def)

lemma verifier_of_key:
  "PublicKeyBytes key = Inr pk \<Longrightarrow>
     NewConfigVerifierFromSigningKey key = Inr \<lparr>signer_publicKey = pk, signer_privateKey = None\<rparr>"
  using PublicKeyBytes_length [of key pk]
  by (simp add: NewConfigVerifierFromSigningKey_def NewConfigVerifier_def check_def bind_def)

lemma verifier_bytes:
  assumes "NewConfigVerifierFromSigningKey key = Inr v"
  obtains pk where "PublicKeyBytes key = Inr pk" "v = \<lparr>signer_publicKey = pk, signer_privateKey = None\<rparr>"
proof (cases "PublicKeyBytes key")
  case (Inl e)
  with assms show ?thesis by (simp add: NewConfigVerifierFromSigningKey_def bind_def)
next
  case (Inr pk)
  with assms verifier_of_key [OF Inr] that show ?thesis by simp
qed

lemma signer_from_key:
  "NewConfigSignerFromPrivateKey k = Inr s \<longleftrightarrow>
     length k = PrivateKeySize \<and> s = \<lparr>signer_publicKey = ed_Public k, signer_privateKey = Some k\<rparr>"
  by (auto simp: NewConfigSignerFromPrivateKey_def check_def ed_Public_def Let_def)

lemma canonicalConfigPayload_eq:
  "canonicalConfigPayload L b = (case json_payload L b of Inl e \<Rightarrow> Inl (Canonicalize e) | Inr p \<Rightarrow> Inr p)"
  by (cases b) (simp add: canonicalConfigPayload_def Let_def)

lemma Verify_iff:
  "Verify L s sb = Inr () \<longleftrightarrow>
     length (signer_publicKey s) = PublicKeySize \<and> Signed_Algorithm sb = ConfigSignatureAlgorithm \<and>
     ConfigBundle_Validate (Signed_Bundle sb) = Inr () \<and>
     (\<exists>sig payload. b64_decode StdEncoding (Signed_Signature sb) = Some sig \<and>
        json_payload L (Signed_Bundle sb) = Inr payload \<and> ed_verify L (signer_publicKey s) payload sig)"
  by (auto simp: Verify_def canonicalConfigPayload_eq check_def bind_def Let_def split: if_splits sum.splits option.splits)

lemma Sign_iff:
  "Sign L clock s b now = Inr sb \<longleftrightarrow>
     (\<exists>k payload. signer_privateKey s = Some k \<and> ConfigBundle_Validate b = Inr () \<and> json_payload L b = Inr payload \<and>
        sb = \<lparr>Signed_Bundle = b, Signed_Algorithm = ConfigSignatureAlgorithm,
              Signed_Signature = b64_encode StdEncoding (ed_sign L k payload),
              Signed_SignedAt = (if IsZero now then clock else now)\<rparr>)"
  by (auto simp: Sign_def canonicalConfigPayload_eq check_def bind_def Let_def split: if_splits sum.splits option.splits)

lemma normalize_hex_Encode:
  "length bs = 32 \<Longrightarrow> normalizeSHA256FingerprintHex L (hex_Encode bs) = Inr (hex_Encode bs)"
  using hex_Encode_normal [where bs = bs]
  by (auto simp: normalizeSHA256FingerprintHex_def Let_def TrimPrefix_def check_def)

lemma validate_fingerprint_iff:
  "validateSigningPublicKeyFingerprint L key = Inr fp \<longleftrightarrow>
     (\<exists>pk n. PublicKeyBytes key = Inr pk \<and> fp = hex_Encode (lib_sum256 L pk) \<and>
        normalizeSHA256FingerprintHex L (SigningKey_SHA256FingerprintHex key) = Inr n \<and> (n = [] \<or> n = fp))"
proof (cases "PublicKeyBytes key")
  case (Inl e)
  then show ?thesis
    by (simp add: validateSigningPublicKeyFingerprint_def NewConfigVerifierFromSigningKey_def bind_def)
next
  case (Inr pk)
  then show ?thesis
    by (auto simp: validateSigningPublicKeyFingerprint_def verifier_of_key SHA256Fingerprint_def bind_def check_def Let_def
        split: sum.splits if_splits)
qed

section \<open>Signing properties\<close>

text \<open>
  A bundle signed by the control server is accepted by every verifier built from the signing key
  the server publishes, and a signer restored from its PEM file is the same signer. A verifier accepts
  only valid bundles, and if it accepts a bundle with another content under the signature of a signed
  one, then the signature scheme accepts that signature for another message.
\<close>

lemma signed_config_roundtrip:
  assumes laws: "sign_laws L" and signer: "NewConfigSignerFromPrivateKey k = Inr s"
    and sb: "Sign L clock s b now = Inr sb"
  shows "(\<exists>key v. NewSigningPublicKey L clock (Signer_PublicKey s) t = Inr key \<and>
           NewConfigVerifierFromSigningKey key = Inr v \<and> Verify L v sb = Inr () \<and> Signed_Bundle sb = b \<and>
           (\<forall>b'. Verify L v (sb\<lparr>Signed_Bundle := b'\<rparr>) = Inr () \<longrightarrow>
              (\<exists>p p'. json_payload L b = Inr p \<and> json_payload L b' = Inr p' \<and> ConfigBundle_Validate b' = Inr () \<and>
                 ed_verify L (ed_Public k) p' (ed_sign L k p)))) \<and>
         (\<forall>pem. PrivateKeyPEM L s = Inr pem \<longrightarrow> NewConfigSignerFromPEM L pem = Inr s)"
proof (rule conjI)
  have k: "length k = PrivateKeySize" and s: "s = \<lparr>signer_publicKey = ed_Public k, signer_privateKey = Some k\<rparr>"
    using signer by (simp_all add: signer_from_key)
  have pub: "length (ed_Public k) = PublicKeySize" using k by (simp add: ed_Public_def)
  obtain key where key: "NewSigningPublicKey L clock (ed_Public k) t = Inr key" using NewSigningPublicKey_ok [OF pub] by blast
  note v = verifier_of_key [OF SigningPublicKey_bytes [OF key]]
  obtain p where p: "ConfigBundle_Validate b = Inr ()" "json_payload L b = Inr p"
    "sb = \<lparr>Signed_Bundle = b, Signed_Algorithm = ConfigSignatureAlgorithm,
           Signed_Signature = b64_encode StdEncoding (ed_sign L k p), Signed_SignedAt = (if IsZero now then clock else now)\<rparr>"
    using sb s by (auto simp: Sign_iff)
  have "ed_verify L (ed_Public k) p (ed_sign L k p)" using laws k by (simp add: sign_laws_def)
  with key v p pub s show "\<exists>key v. NewSigningPublicKey L clock (Signer_PublicKey s) t = Inr key \<and>
           NewConfigVerifierFromSigningKey key = Inr v \<and> Verify L v sb = Inr () \<and> Signed_Bundle sb = b \<and>
           (\<forall>b'. Verify L v (sb\<lparr>Signed_Bundle := b'\<rparr>) = Inr () \<longrightarrow>
              (\<exists>p p'. json_payload L b = Inr p \<and> json_payload L b' = Inr p' \<and> ConfigBundle_Validate b' = Inr () \<and>
                 ed_verify L (ed_Public k) p' (ed_sign L k p)))"
    by (auto simp: Signer_PublicKey_def Verify_iff)
  show "\<forall>pem. PrivateKeyPEM L s = Inr pem \<longrightarrow> NewConfigSignerFromPEM L pem = Inr s"
    using laws k s signer
    by (auto simp: PrivateKeyPEM_def NewConfigSignerFromPEM_def sign_laws_def check_def Let_def split: sum.splits)
qed

definition sample_lib :: sign_lib where
  "sample_lib = \<lparr>ed_sign = (\<lambda>k m. ed_Public k @ m), ed_verify = (\<lambda>pk m sig. sig = pk @ m), lib_sum256 = (\<lambda>_. replicate 32 7),
     marshal_pkcs8 = Inr, parse_pkcs8 = (\<lambda>der. Inr (Ed25519Key der)),
     pem_decode = (\<lambda>data. Some (configSigningPrivateKeyPEMType, data)), pem_encode = (\<lambda>_ der. der),
     json_payload = (\<lambda>b. Inr (map (\<lambda>c. word_of_int (of_char c)) (ConfigBundle_Version b))), lower_uc = id\<rparr>"

lemma sample_lib_laws: "sign_laws sample_lib"
  by (simp add: sign_laws_def sample_lib_def)

definition sample_bundle :: ConfigBundle where
  "sample_bundle = \<lparr>ConfigBundle_ID = ''c1'', ConfigBundle_TenantID = ''t'', ConfigBundle_TargetID = ''d'', ConfigBundle_Version = ''v1'',
     ConfigBundle_Values = None, ConfigBundle_CreatedAt = 5\<rparr>"

lemma sample_bundle_valid: "ConfigBundle_Validate sample_bundle = Inr ()"
  by code_simp

end
