(* ===== verification/Cert.thy ===== *)
theory Cert
  imports Config_Sign Private_File
begin

text \<open>
  The certificate authority of the control server: internal/cert/authority.go.

  X.509, PEM and EC key encodings belong to the standard library and are the fields of the record
  \<open>x509_lib\<close>; a parsed certificate keeps the fields the code reads. The answers of the random source of
  one operation (the generated key, the serial number, the seed of a signature) are the record
  \<open>cert_env\<close>, together with the reading of the clock.
\<close>

section \<open>The X.509 library\<close>

record ec_key =
  ec_X :: int
  ec_Y :: int
  ec_D :: int

datatype public_key = ECPublic int int | OtherPublic

record x509_cert =
  x_SerialNumber :: int
  x_CommonName :: string
  x_NotBefore :: time
  x_NotAfter :: time
  x_CertSign :: bool  \<comment> \<open>KeyUsage: certificate and CRL signing\<close>
  x_ClientServerAuth :: bool  \<comment> \<open>ExtKeyUsage: client and server authentication\<close>
  x_IsCA :: bool
  x_SubjectKeyId :: "byte list"
  x_PublicKey :: public_key
  x_SignatureAlgorithm :: nat

record x509_crl =
  crl_SignatureAlgorithm :: nat
  crl_Revoked :: "(int \<times> time) list"
  crl_Number :: int
  crl_ThisUpdate :: time
  crl_NextUpdate :: time

record x509_lib =
  x_create :: "nat \<Rightarrow> x509_cert \<Rightarrow> x509_cert \<Rightarrow> public_key \<Rightarrow> ec_key \<Rightarrow> string + byte list" \<comment> \<open>seed, template, parent, key, signing key\<close>
  x_parse :: "byte list \<Rightarrow> string + x509_cert"
  x_marshal_ec :: "ec_key \<Rightarrow> string + byte list"
  x_parse_ec :: "byte list \<Rightarrow> string + ec_key"
  x_marshal_pkix :: "public_key \<Rightarrow> string + byte list"
  x_sha1 :: "byte list \<Rightarrow> byte list"
  x_create_crl :: "nat \<Rightarrow> x509_crl \<Rightarrow> x509_cert \<Rightarrow> ec_key \<Rightarrow> string + byte list"
  x_parse_crl :: "byte list \<Rightarrow> string + x509_crl"
  x_pem_decode :: "byte list \<Rightarrow> (string \<times> byte list) option"
  x_pem_encode :: "string \<Rightarrow> byte list \<Rightarrow> byte list"

record cert_env =
  ce_clock :: time
  ce_key :: "string + ec_key" \<comment> \<open>ecdsa.GenerateKey\<close>
  ce_serial :: "string + int" \<comment> \<open>rand.Int\<close>
  ce_seed :: nat

abbreviation ec_public :: "ec_key \<Rightarrow> public_key" where
  "ec_public k \<equiv> ECPublic (ec_X k) (ec_Y k)"

section \<open>Identities and records\<close>

record Identity =
  Identity_TenantID :: string
  Identity_DeviceID :: string
  Identity_Role :: string

definition commonName :: "Identity \<Rightarrow> string" where
  "commonName i = Identity_TenantID i @ '':'' @ Identity_Role i @ '':'' @ Identity_DeviceID i"

record CertRecord =
  CertRecord_Serial :: string
  CertRecord_TenantID :: string
  CertRecord_DeviceID :: string
  CertRecord_Role :: string
  CertRecord_NotBefore :: time
  CertRecord_NotAfter :: time
  CertRecord_Revoked :: bool
  CertRecord_RevokedAt :: time
  CertRecord_CertPEM :: "byte list"

record Issued =
  Issued_Record :: CertRecord
  Issued_PrivateKeyPEM :: "byte list"

record AuthorityBundle =
  AuthorityBundle_CertificatePEM :: "byte list"
  AuthorityBundle_PrivateKeyPEM :: "byte list"

record RevocationList =
  RevocationList_TenantID :: string
  RevocationList_Issuer :: string
  RevocationList_GeneratedAt :: time
  RevocationList_NextUpdate :: time
  RevocationList_Records :: "CertRecord list"
  RevocationList_CRLPEM :: "byte list"

definition CertificateGood :: string where "CertificateGood = ''good''"
definition CertificateRevoked :: string where "CertificateRevoked = ''revoked''"
definition CertificateExpired :: string where "CertificateExpired = ''expired''"
definition CertificateNotYetValid :: string where "CertificateNotYetValid = ''not_yet_valid''"
definition CertificateUnknown :: string where "CertificateUnknown = ''unknown''"

record CertificateStatus =
  Status_TenantID :: string
  Status_Serial :: string
  Status_State :: string
  Status_Revoked :: bool
  Status_RevokedAt :: time
  Status_NotBefore :: time
  Status_NotAfter :: time
  Status_CheckedAt :: time

record Authority =
  ca_cert :: x509_cert
  ca_key :: ec_key
  ca_certPEM :: "byte list"
  ca_issued :: "(string, CertRecord) gomap"

datatype cert_error =
    AuthorityNameRequired
  | GenerateCAKey string
  | GenerateSerial string
  | MarshalPublicKey string
  | CreateCACertificate string
  | ParseCACertificate string
  | CACertificatePEMRequired
  | NotACA
  | DeriveKeyID cert_error
  | CAKeyPEMRequired
  | ParseCAKey string
  | CAKeyNotEC
  | CAKeyMismatch
  | MarshalCAKey string
  | CertTenantRequired
  | CertDeviceRequired
  | CertRoleRequired
  | TTLNotPositive
  | GenerateDeviceKey string
  | CreateDeviceCertificate string
  | MarshalDeviceKey string
  | SerialRequired
  | CertificateNotFound string
  | AlreadyRevoked string
  | SerialNotInteger string
  | CreateCRL string

section \<open>Building an authority\<close>

definition randomSerial :: "cert_env \<Rightarrow> cert_error + int" where
  "randomSerial env = (case ce_serial env of Inl e \<Rightarrow> Inl (GenerateSerial e) | Inr serial \<Rightarrow> Inr serial)"

definition subjectKeyID :: "x509_lib \<Rightarrow> public_key \<Rightarrow> cert_error + byte list" where
  "subjectKeyID X publicKey =
     (case x_marshal_pkix X publicKey of Inl e \<Rightarrow> Inl (MarshalPublicKey e) | Inr encoded \<Rightarrow> Inr (x_sha1 X encoded))"

abbreviation nhour :: duration where "nhour \<equiv> 3600000000000"

definition NewAuthority :: "x509_lib \<Rightarrow> cert_env \<Rightarrow> string \<Rightarrow> time \<Rightarrow> cert_error + Authority" where
  "NewAuthority X env name now =
     check (name = []) AuthorityNameRequired (
     let now = (if IsZero now then ce_clock env else now) in
     case ce_key env of
       Inl e \<Rightarrow> Inl (GenerateCAKey e)
     | Inr key \<Rightarrow>
         bind (randomSerial env) (\<lambda>serial.
         bind (subjectKeyID X (ec_public key)) (\<lambda>keyID.
         let template = \<lparr>x_SerialNumber = serial, x_CommonName = name, x_NotBefore = now, x_NotAfter = now + 10 * 365 * 24 * nhour,
                         x_CertSign = True, x_ClientServerAuth = False, x_IsCA = True, x_SubjectKeyId = keyID,
                         x_PublicKey = ec_public key, x_SignatureAlgorithm = 0\<rparr> in
         case x_create X (ce_seed env) template template (ec_public key) key of
           Inl e \<Rightarrow> Inl (CreateCACertificate e)
         | Inr der \<Rightarrow>
             (case x_parse X der of
                Inl e \<Rightarrow> Inl (ParseCACertificate e)
              | Inr parsedCert \<Rightarrow>
                  Inr \<lparr>ca_cert = parsedCert, ca_key = key, ca_certPEM = x_pem_encode X ''CERTIFICATE'' der, ca_issued = []\<rparr>))))"

definition NewAuthorityFromPEM :: "x509_lib \<Rightarrow> byte list \<Rightarrow> byte list \<Rightarrow> cert_error + Authority" where
  "NewAuthorityFromPEM X certPEM keyPEM =
     (case x_pem_decode X certPEM of
        None \<Rightarrow> Inl CACertificatePEMRequired
      | Some (certType, certDER) \<Rightarrow>
          check (certType \<noteq> ''CERTIFICATE'') CACertificatePEMRequired (
          case x_parse X certDER of
            Inl e \<Rightarrow> Inl (ParseCACertificate e)
          | Inr parsedCert \<Rightarrow>
              check (\<not> x_IsCA parsedCert) NotACA (
              bind (if x_SubjectKeyId parsedCert = []
                    then (case subjectKeyID X (x_PublicKey parsedCert) of
                            Inl e \<Rightarrow> Inl (DeriveKeyID e) | Inr keyID \<Rightarrow> Inr (parsedCert\<lparr>x_SubjectKeyId := keyID\<rparr>))
                    else Inr parsedCert) (\<lambda>parsedCert.
              case x_pem_decode X keyPEM of
                None \<Rightarrow> Inl CAKeyPEMRequired
              | Some (keyType, keyDER) \<Rightarrow>
                  check (keyType \<noteq> ''EC PRIVATE KEY'') CAKeyPEMRequired (
                  case x_parse_ec X keyDER of
                    Inl e \<Rightarrow> Inl (ParseCAKey e)
                  | Inr key \<Rightarrow>
                      (case x_PublicKey parsedCert of
                         OtherPublic \<Rightarrow> Inl CAKeyNotEC
                       | ECPublic x y \<Rightarrow>
                           check (x \<noteq> ec_X key \<or> y \<noteq> ec_Y key) CAKeyMismatch (
                           Inr \<lparr>ca_cert = parsedCert, ca_key = key, ca_certPEM = certPEM, ca_issued = []\<rparr>)))))))"

definition CAPEM :: "Authority \<Rightarrow> byte list" where
  "CAPEM a = ca_certPEM a"

definition ExportCA :: "x509_lib \<Rightarrow> Authority \<Rightarrow> cert_error + AuthorityBundle" where
  "ExportCA X a =
     (case x_marshal_ec X (ca_key a) of
        Inl e \<Rightarrow> Inl (MarshalCAKey e)
      | Inr keyBytes \<Rightarrow>
          Inr \<lparr>AuthorityBundle_CertificatePEM = ca_certPEM a,
               AuthorityBundle_PrivateKeyPEM = x_pem_encode X ''EC PRIVATE KEY'' keyBytes\<rparr>)"

section \<open>Issuing, revoking and rotating\<close>

definition Issue :: "x509_lib \<Rightarrow> cert_env \<Rightarrow> Identity \<Rightarrow> duration \<Rightarrow> time \<Rightarrow> Authority \<Rightarrow> cert_error + Issued \<times> Authority" where
  "Issue X env identity ttl now a =
     check (Identity_TenantID identity = []) CertTenantRequired (
     check (Identity_DeviceID identity = []) CertDeviceRequired (
     check (Identity_Role identity = []) CertRoleRequired (
     check (ttl \<le> 0) TTLNotPositive (
     let now = (if IsZero now then ce_clock env else now) in
     case ce_key env of
       Inl e \<Rightarrow> Inl (GenerateDeviceKey e)
     | Inr key \<Rightarrow>
         bind (randomSerial env) (\<lambda>serial.
         let template = \<lparr>x_SerialNumber = serial, x_CommonName = commonName identity, x_NotBefore = now, x_NotAfter = now + ttl,
                         x_CertSign = False, x_ClientServerAuth = True, x_IsCA = False, x_SubjectKeyId = [],
                         x_PublicKey = ec_public key, x_SignatureAlgorithm = 0\<rparr> in
         case x_create X (ce_seed env) template (ca_cert a) (ec_public key) (ca_key a) of
           Inl e \<Rightarrow> Inl (CreateDeviceCertificate e)
         | Inr der \<Rightarrow>
             (case x_marshal_ec X key of
                Inl e \<Rightarrow> Inl (MarshalDeviceKey e)
              | Inr keyBytes \<Rightarrow>
                  let record = \<lparr>CertRecord_Serial = Itoa serial, CertRecord_TenantID = Identity_TenantID identity,
                                CertRecord_DeviceID = Identity_DeviceID identity, CertRecord_Role = Identity_Role identity,
                                CertRecord_NotBefore = x_NotBefore template, CertRecord_NotAfter = x_NotAfter template,
                                CertRecord_Revoked = False, CertRecord_RevokedAt = 0,
                                CertRecord_CertPEM = x_pem_encode X ''CERTIFICATE'' der\<rparr>
                  in Inr (\<lparr>Issued_Record = record, Issued_PrivateKeyPEM = x_pem_encode X ''EC PRIVATE KEY'' keyBytes\<rparr>,
                          a\<lparr>ca_issued := gm_set (CertRecord_Serial record) record (ca_issued a)\<rparr>)))))))"

definition Revoke :: "time \<Rightarrow> string \<Rightarrow> time \<Rightarrow> Authority \<Rightarrow> cert_error + CertRecord \<times> Authority" where
  "Revoke clock serial now a =
     check (serial = []) SerialRequired (
     let now = (if IsZero now then clock else now) in
     case gm_get (ca_issued a) serial of
       None \<Rightarrow> Inl (CertificateNotFound serial)
     | Some record \<Rightarrow>
         let record = record\<lparr>CertRecord_Revoked := True, CertRecord_RevokedAt := now\<rparr>
         in Inr (record, a\<lparr>ca_issued := gm_set serial record (ca_issued a)\<rparr>))"

definition Rotate :: "x509_lib \<Rightarrow> cert_env \<Rightarrow> string \<Rightarrow> duration \<Rightarrow> time \<Rightarrow> Authority \<Rightarrow> (cert_error + Issued) \<times> Authority" where
  \<comment> \<open>the old certificate is revoked before the new one is issued, also if issuing fails\<close>
  "Rotate X env serial ttl now a =
     (if serial = [] then (Inl SerialRequired, a)
      else if ttl \<le> 0 then (Inl TTLNotPositive, a)
      else let now = (if IsZero now then ce_clock env else now) in
      case gm_get (ca_issued a) serial of
        None \<Rightarrow> (Inl (CertificateNotFound serial), a)
      | Some record \<Rightarrow>
          if CertRecord_Revoked record then (Inl (AlreadyRevoked serial), a)
          else let record = record\<lparr>CertRecord_Revoked := True, CertRecord_RevokedAt := now\<rparr>;
                   a = a\<lparr>ca_issued := gm_set serial record (ca_issued a)\<rparr>
               in case Issue X env \<lparr>Identity_TenantID = CertRecord_TenantID record, Identity_DeviceID = CertRecord_DeviceID record,
                                    Identity_Role = CertRecord_Role record\<rparr> ttl now a of
                    Inl e \<Rightarrow> (Inl e, a)
                  | Inr (issued, a) \<Rightarrow> (Inr issued, a))"

section \<open>Queries\<close>

definition Authority_Record :: "string \<Rightarrow> Authority \<Rightarrow> CertRecord option" where
  "Authority_Record serial a = gm_get (ca_issued a) serial"

definition Authority_CertificateStatus :: "time \<Rightarrow> string \<Rightarrow> string \<Rightarrow> time \<Rightarrow> Authority \<Rightarrow> cert_error + CertificateStatus" where
  "Authority_CertificateStatus clock tenantID serial now a =
     check (tenantID = []) CertTenantRequired (
     check (serial = []) SerialRequired (
     let now = (if IsZero now then clock else now);
         unknown = \<lparr>Status_TenantID = tenantID, Status_Serial = serial, Status_State = CertificateUnknown, Status_Revoked = False,
                    Status_RevokedAt = 0, Status_NotBefore = 0, Status_NotAfter = 0, Status_CheckedAt = now\<rparr> in
     case gm_get (ca_issued a) serial of
       None \<Rightarrow> Inr unknown
     | Some record \<Rightarrow>
         if CertRecord_TenantID record \<noteq> tenantID then Inr unknown
         else Inr \<lparr>Status_TenantID = tenantID, Status_Serial = serial,
                   Status_State = (if CertRecord_Revoked record then CertificateRevoked
                                   else if now < CertRecord_NotBefore record then CertificateNotYetValid
                                   else if CertRecord_NotAfter record < now then CertificateExpired
                                   else CertificateGood),
                   Status_Revoked = CertRecord_Revoked record, Status_RevokedAt = CertRecord_RevokedAt record,
                   Status_NotBefore = CertRecord_NotBefore record, Status_NotAfter = CertRecord_NotAfter record,
                   Status_CheckedAt = now\<rparr>))"

definition serial_less :: "CertRecord \<Rightarrow> CertRecord \<Rightarrow> bool" where
  "serial_less a b \<longleftrightarrow> CertRecord_Serial a < CertRecord_Serial b"

definition sortRecords :: "CertRecord list \<Rightarrow> CertRecord list" where
  "sortRecords records = SliceStable serial_less records"

definition RecordsByTenant :: "string \<Rightarrow> Authority \<Rightarrow> CertRecord list" where
  "RecordsByTenant tenantID a = sortRecords (filter (\<lambda>r. CertRecord_TenantID r = tenantID) (gm_values (ca_issued a)))"

definition RevokedRecordsByTenant :: "string \<Rightarrow> Authority \<Rightarrow> CertRecord list" where
  "RevokedRecordsByTenant tenantID a =
     sortRecords (filter (\<lambda>r. CertRecord_TenantID r = tenantID \<and> CertRecord_Revoked r) (gm_values (ca_issued a)))"

definition SetString10 :: "string \<Rightarrow> int option" where
  \<comment> \<open>big.Int.SetString in base 10: an optional sign and at least one digit, nothing else\<close>
  "SetString10 s =
     (let (sign, ds) = (case s of [] \<Rightarrow> (1, []) | c # cs \<Rightarrow> if c = CHR ''-'' then (- 1, cs) else if c = CHR ''+'' then (1, cs) else (1, s))
      in if ds = [] \<or> \<not> list_all is_digit ds then None else Some (sign * digits_value ds 0))"

fun collect_revoked :: "string \<Rightarrow> CertRecord list \<Rightarrow> cert_error + (CertRecord list \<times> (int \<times> time) list)" where
  \<comment> \<open>the loop of RevocationListByTenant\<close>
  "collect_revoked tenantID [] = Inr ([], [])"
| "collect_revoked tenantID (record # rest) =
     (if CertRecord_TenantID record \<noteq> tenantID \<or> \<not> CertRecord_Revoked record then collect_revoked tenantID rest
      else case SetString10 (CertRecord_Serial record) of
             None \<Rightarrow> Inl (SerialNotInteger (CertRecord_Serial record))
           | Some serial \<Rightarrow>
               bind (collect_revoked tenantID rest) (\<lambda>(records, revoked).
               Inr (record # records, (serial, CertRecord_RevokedAt record) # revoked)))"

definition revoked_less :: "int \<times> time \<Rightarrow> int \<times> time \<Rightarrow> bool" where
  "revoked_less a b \<longleftrightarrow> fst a < fst b"

definition RevocationListByTenant :: "x509_lib \<Rightarrow> cert_env \<Rightarrow> string \<Rightarrow> time \<Rightarrow> duration \<Rightarrow> Authority \<Rightarrow> cert_error + RevocationList" where
  "RevocationListByTenant X env tenantID now ttl a =
     check (tenantID = []) CertTenantRequired (
     check (ttl \<le> 0) TTLNotPositive (
     let now = (if IsZero now then ce_clock env else now) in
     bind (collect_revoked tenantID (gm_values (ca_issued a))) (\<lambda>(records, revokedCertificates).
     let records = sortRecords records;
         revokedCertificates = SliceStable revoked_less revokedCertificates;
         nextUpdate = now + ttl in
     case x_create_crl X (ce_seed env)
            \<lparr>crl_SignatureAlgorithm = x_SignatureAlgorithm (ca_cert a), crl_Revoked = revokedCertificates,
             crl_Number = Unix now, crl_ThisUpdate = now, crl_NextUpdate = nextUpdate\<rparr> (ca_cert a) (ca_key a) of
       Inl e \<Rightarrow> Inl (CreateCRL e)
     | Inr crlBytes \<Rightarrow>
         Inr \<lparr>RevocationList_TenantID = tenantID, RevocationList_Issuer = x_CommonName (ca_cert a),
              RevocationList_GeneratedAt = now, RevocationList_NextUpdate = nextUpdate,
              RevocationList_Records = records, RevocationList_CRLPEM = x_pem_encode X ''X509 CRL'' crlBytes\<rparr>)))"

section \<open>Well-formed authorities\<close>

definition record_ok :: "string \<Rightarrow> CertRecord \<Rightarrow> bool" where
  "record_ok serial r \<longleftrightarrow>
     CertRecord_Serial r = serial \<and> (\<exists>n\<ge>0. serial = Itoa n) \<and>
     CertRecord_TenantID r \<noteq> [] \<and> CertRecord_DeviceID r \<noteq> [] \<and> CertRecord_Role r \<noteq> [] \<and>
     CertRecord_NotBefore r < CertRecord_NotAfter r \<and> (CertRecord_Revoked r \<longrightarrow> \<not> IsZero (CertRecord_RevokedAt r))"

definition authority_ok :: "Authority \<Rightarrow> bool" where
  "authority_ok a \<longleftrightarrow> gm_ok (ca_issued a) \<and> (\<forall>serial r. gm_get (ca_issued a) serial = Some r \<longrightarrow> record_ok serial r)"

text \<open>
  The steps of an authority, with the answers of the random source: rand.Int returns a non-negative
  number, and a serial of 128 random bits is assumed to be fresh. The clock is never the zero time.
\<close>

definition env_ok :: "cert_env \<Rightarrow> Authority \<Rightarrow> bool" where
  "env_ok env a \<longleftrightarrow> \<not> IsZero (ce_clock env) \<and>
     (\<forall>n. ce_serial env = Inr n \<longrightarrow> 0 \<le> n \<and> gm_get (ca_issued a) (Itoa n) = None)"

inductive cert_step :: "x509_lib \<Rightarrow> Authority \<Rightarrow> Authority \<Rightarrow> bool" for X where
  issue: "env_ok env a \<Longrightarrow> Issue X env identity ttl now a = Inr (issued, a') \<Longrightarrow> cert_step X a a'"
| revoke: "\<not> IsZero clock \<Longrightarrow> Revoke clock serial now a = Inr (rcd, a') \<Longrightarrow> cert_step X a a'"
| rotate: "env_ok env a \<Longrightarrow> Rotate X env serial ttl now a = (outcome, a') \<Longrightarrow> cert_step X a a'"

inductive_cases cert_stepE: "cert_step X a a'"

abbreviation cert_run :: "x509_lib \<Rightarrow> Authority \<Rightarrow> Authority \<Rightarrow> bool" where
  "cert_run X \<equiv> (cert_step X)\<^sup>*\<^sup>*"

lemma SetString10_Itoa: "0 \<le> n \<Longrightarrow> SetString10 (Itoa n) = Some n"
proof -
  assume n: "0 \<le> n"
  obtain c s where "Itoa n = c # s" "c \<noteq> CHR ''-''" "c \<noteq> CHR ''+''" "list_all is_digit (c # s)" "digits_value (c # s) 0 = n"
    by (rule Itoa_parts [OF n])
  then show ?thesis by (simp add: SetString10_def)
qed

text \<open>What a successful issue does: it adds one record of the given identity, valid from now for the ttl.\<close>

lemma Issue_cases:
  assumes "Issue X env identity ttl now a = Inr (issued, a')"
  obtains key n where "ce_key env = Inr key" "ce_serial env = Inr n"
    "a' = a\<lparr>ca_issued := gm_set (Itoa n) (Issued_Record issued) (ca_issued a)\<rparr>"
    "CertRecord_Serial (Issued_Record issued) = Itoa n"
    "CertRecord_TenantID (Issued_Record issued) = Identity_TenantID identity"
    "CertRecord_DeviceID (Issued_Record issued) = Identity_DeviceID identity"
    "CertRecord_Role (Issued_Record issued) = Identity_Role identity"
    "CertRecord_NotBefore (Issued_Record issued) = (if IsZero now then ce_clock env else now)"
    "CertRecord_NotAfter (Issued_Record issued) = (if IsZero now then ce_clock env else now) + ttl"
    "\<not> CertRecord_Revoked (Issued_Record issued)"
    "0 < ttl" "Identity_TenantID identity \<noteq> []" "Identity_DeviceID identity \<noteq> []" "Identity_Role identity \<noteq> []"
  using assms
  by (auto simp: Issue_def randomSerial_def bind_def check_def Let_def split: if_splits sum.splits)

lemma Revoke_cases:
  assumes "Revoke clock serial now a = Inr (rcd, a')"
  obtains r where "gm_get (ca_issued a) serial = Some r"
    "rcd = r\<lparr>CertRecord_Revoked := True, CertRecord_RevokedAt := (if IsZero now then clock else now)\<rparr>"
    "a' = a\<lparr>ca_issued := gm_set serial rcd (ca_issued a)\<rparr>"
  using assms by (auto simp: Revoke_def check_def Let_def split: if_splits option.splits)

text \<open>
  A rotation that finds a live certificate revokes it, and then is an issue for the same identity; it
  is one of the other two steps, or their composition.
\<close>

lemma Rotate_cases:
  assumes "Rotate X env serial ttl now a = (outcome, a')"
  obtains (unchanged) e where "a' = a" "outcome = Inl e"
  | (revoked) e rcd where "Revoke (ce_clock env) serial now a = Inr (rcd, a')" "outcome = Inl e"
  | (rotated) rcd issued a1 where "Revoke (ce_clock env) serial now a = Inr (rcd, a1)" "outcome = Inr issued"
      "Issue X env \<lparr>Identity_TenantID = CertRecord_TenantID rcd, Identity_DeviceID = CertRecord_DeviceID rcd,
                     Identity_Role = CertRecord_Role rcd\<rparr> ttl (if IsZero now then ce_clock env else now) a1 = Inr (issued, a')"
  using assms
  by (auto simp: Rotate_def Revoke_def check_def Let_def split: if_splits option.splits sum.splits)

lemma Issue_ok:
  assumes ok: "authority_ok a" and env: "env_ok env a" and step: "Issue X env identity ttl now a = Inr (issued, a')"
  shows "authority_ok a'"
proof -
  obtain n where n: "ce_serial env = Inr n"
    and a': "a' = a\<lparr>ca_issued := gm_set (Itoa n) (Issued_Record issued) (ca_issued a)\<rparr>"
    and r: "CertRecord_Serial (Issued_Record issued) = Itoa n" "CertRecord_TenantID (Issued_Record issued) \<noteq> []"
      "CertRecord_DeviceID (Issued_Record issued) \<noteq> []" "CertRecord_Role (Issued_Record issued) \<noteq> []"
      "CertRecord_NotBefore (Issued_Record issued) < CertRecord_NotAfter (Issued_Record issued)"
      "\<not> CertRecord_Revoked (Issued_Record issued)"
    by (rule Issue_cases [OF step]) simp
  have "0 \<le> n" using env n by (simp add: env_ok_def)
  with r have "record_ok (Itoa n) (Issued_Record issued)" by (auto simp: record_ok_def)
  with ok a' show ?thesis by (simp add: authority_ok_def)
qed

lemma Revoke_ok:
  assumes "authority_ok a" "\<not> IsZero clock" "Revoke clock serial now a = Inr (rcd, a')"
  shows "authority_ok a'"
  using assms by (elim Revoke_cases) (auto simp: authority_ok_def record_ok_def)

text \<open>A step only adds fresh serials: it keeps the identity of every record and never un-revokes one.\<close>

definition kept :: "CertRecord \<Rightarrow> CertRecord \<Rightarrow> bool" where
  "kept r r' \<longleftrightarrow> (CertRecord_Revoked r \<longrightarrow> CertRecord_Revoked r') \<and>
     CertRecord_TenantID r' = CertRecord_TenantID r \<and> CertRecord_DeviceID r' = CertRecord_DeviceID r \<and>
     CertRecord_Role r' = CertRecord_Role r \<and> CertRecord_CertPEM r' = CertRecord_CertPEM r"

definition keeps :: "Authority \<Rightarrow> Authority \<Rightarrow> bool" where
  "keeps a a' \<longleftrightarrow>
     (\<forall>serial r. gm_get (ca_issued a) serial = Some r \<longrightarrow> (\<exists>r'. gm_get (ca_issued a') serial = Some r' \<and> kept r r'))"

lemma kept_refl: "kept r r"
  by (simp add: kept_def)

lemma kept_trans: "kept r s \<Longrightarrow> kept s t \<Longrightarrow> kept r t"
  by (simp add: kept_def)

lemma keeps_refl: "keeps a a"
  by (simp add: keeps_def kept_refl)

lemma keeps_trans: "keeps a b \<Longrightarrow> keeps b c \<Longrightarrow> keeps a c"
  unfolding keeps_def by (meson kept_trans)

lemma Issue_keeps:
  assumes "env_ok env a" "Issue X env identity ttl now a = Inr (issued, a')"
  shows "keeps a a'"
  by (rule Issue_cases [OF assms(2)]) (use assms(1) in \<open>auto simp: keeps_def env_ok_def kept_refl\<close>)

lemma Revoke_keeps: "Revoke clock serial now a = Inr (rcd, a') \<Longrightarrow> keeps a a'"
  by (elim Revoke_cases) (auto simp: keeps_def kept_refl kept_def)

lemma Revoke_serials: "Revoke clock serial now a = Inr (rcd, a') \<Longrightarrow> env_ok env a \<Longrightarrow> env_ok env a'"
  by (elim Revoke_cases) (auto simp: env_ok_def)

lemma cert_step_ok:
  assumes "cert_step X a a'" "authority_ok a"
  shows "authority_ok a' \<and> keeps a a'"
  using assms(1)
proof cases
  case (issue env identity ttl now issued)
  then show ?thesis using assms(2) by (simp add: Issue_ok Issue_keeps)
next
  case (revoke clock serial now rcd)
  then show ?thesis using assms(2) by (simp add: Revoke_ok Revoke_keeps)
next
  case (rotate env serial ttl now outcome)
  have clock: "\<not> IsZero (ce_clock env)" using rotate(1) by (simp add: env_ok_def)
  show ?thesis
  proof (rule Rotate_cases [OF rotate(2)])
    fix rcd assume "Revoke (ce_clock env) serial now a = Inr (rcd, a')"
    then show ?thesis using Revoke_ok [OF assms(2) clock] Revoke_keeps by blast
  next
    fix rcd issued a1
    assume r: "Revoke (ce_clock env) serial now a = Inr (rcd, a1)"
      and i: "Issue X env \<lparr>Identity_TenantID = CertRecord_TenantID rcd, Identity_DeviceID = CertRecord_DeviceID rcd,
                     Identity_Role = CertRecord_Role rcd\<rparr> ttl (if IsZero now then ce_clock env else now) a1 = Inr (issued, a')"
    have a1: "authority_ok a1" "env_ok env a1" using Revoke_ok [OF assms(2) clock r] Revoke_serials [OF r rotate(1)] by blast+
    show ?thesis
      using Issue_ok [OF a1 i] Issue_keeps [OF a1(2) i] Revoke_keeps [OF r] keeps_trans by blast
  qed (use assms(2) keeps_refl in auto)
qed

lemma cert_run_ok: "cert_run X a a' \<Longrightarrow> authority_ok a \<Longrightarrow> authority_ok a' \<and> keeps a a'"
  by (induction rule: rtranclp_induct) (auto dest: cert_step_ok intro: keeps_refl keeps_trans)

section \<open>Revocation lists\<close>

lemma serial_less_key: "serial_less = key_less CertRecord_Serial"
  by (rule ext)+ (simp add: serial_less_def key_less_def)

lemma sortRecords_sorted: "sorted (map CertRecord_Serial (sortRecords rs))"
  by (simp add: sortRecords_def serial_less_key SliceStable_sort_key)

lemma set_sortRecords [simp]: "set (sortRecords rs) = set rs"
  by (simp add: sortRecords_def)

lemma collect_revoked_ok:
  assumes "\<forall>r\<in>set rs. \<exists>n\<ge>0. CertRecord_Serial r = Itoa n"
  shows "\<exists>revoked. collect_revoked t rs = Inr (filter (\<lambda>r. CertRecord_TenantID r = t \<and> CertRecord_Revoked r) rs, revoked)"
  using assms
proof (induction rs)
  case (Cons r rs)
  then obtain n revoked where "CertRecord_Serial r = Itoa n" "0 \<le> n"
    "collect_revoked t rs = Inr (filter (\<lambda>r. CertRecord_TenantID r = t \<and> CertRecord_Revoked r) rs, revoked)" by auto
  then show ?case by (auto simp: SetString10_Itoa bind_def)
qed simp

lemma authority_values:
  assumes "authority_ok a"
  shows "r \<in> set (gm_values (ca_issued a)) \<longleftrightarrow> gm_get (ca_issued a) (CertRecord_Serial r) = Some r"
proof -
  have "CertRecord_Serial r = k" if "gm_get (ca_issued a) k = Some r" for k
    using assms that by (simp add: authority_ok_def record_ok_def)
  moreover have "gm_ok (ca_issued a)" using assms by (simp add: authority_ok_def)
  ultimately show ?thesis by (metis in_gm_values)
qed

lemma authority_collect:
  assumes "authority_ok a"
  shows "\<exists>revoked. collect_revoked t (gm_values (ca_issued a)) =
           Inr (filter (\<lambda>r. CertRecord_TenantID r = t \<and> CertRecord_Revoked r) (gm_values (ca_issued a)), revoked)"
proof (rule collect_revoked_ok, rule ballI)
  fix r assume "r \<in> set (gm_values (ca_issued a))"
  with assms have "gm_get (ca_issued a) (CertRecord_Serial r) = Some r" by (simp add: authority_values)
  with assms have "record_ok (CertRecord_Serial r) r" unfolding authority_ok_def by blast
  then show "\<exists>n\<ge>0. CertRecord_Serial r = Itoa n" unfolding record_ok_def by blast
qed

lemma crl_records:
  assumes "authority_ok a" "RevocationListByTenant X env t now ttl a = Inr l"
  shows "RevocationList_Records l = RevokedRecordsByTenant t a"
proof -
  obtain revoked where "collect_revoked t (gm_values (ca_issued a)) =
     Inr (filter (\<lambda>r. CertRecord_TenantID r = t \<and> CertRecord_Revoked r) (gm_values (ca_issued a)), revoked)"
    using authority_collect [OF assms(1)] by blast
  with assms(2) show ?thesis
    by (auto simp: RevocationListByTenant_def RevokedRecordsByTenant_def bind_def check_def Let_def split: if_splits sum.splits)
qed

lemma crl_errors:
  assumes "authority_ok a" "RevocationListByTenant X env t now ttl a = Inl e"
  shows "t = [] \<or> ttl \<le> 0 \<or> (\<exists>m. e = CreateCRL m)"
proof -
  obtain revoked where "collect_revoked t (gm_values (ca_issued a)) =
     Inr (filter (\<lambda>r. CertRecord_TenantID r = t \<and> CertRecord_Revoked r) (gm_values (ca_issued a)), revoked)"
    using authority_collect [OF assms(1)] by blast
  with assms(2) show ?thesis
    by (auto simp: RevocationListByTenant_def bind_def check_def Let_def split: if_splits sum.splits)
qed

lemma set_RevokedRecordsByTenant:
  "authority_ok a \<Longrightarrow> r \<in> set (RevokedRecordsByTenant t a) \<longleftrightarrow>
     gm_get (ca_issued a) (CertRecord_Serial r) = Some r \<and> CertRecord_TenantID r = t \<and> CertRecord_Revoked r"
  by (auto simp: RevokedRecordsByTenant_def authority_values)

lemma revoked_sorted: "sorted (map CertRecord_Serial (RevokedRecordsByTenant t a))"
  by (simp add: RevokedRecordsByTenant_def sortRecords_sorted)

lemma new_authority_ok:
  "NewAuthority X env name now = Inr a \<Longrightarrow> authority_ok a"
  "NewAuthorityFromPEM X certPEM keyPEM = Inr a \<Longrightarrow> authority_ok a"
  by (auto simp: NewAuthority_def NewAuthorityFromPEM_def authority_ok_def bind_def check_def Let_def
      split: if_splits sum.splits option.splits public_key.splits)

section \<open>Sample library\<close>

definition sample_x509 :: x509_lib where
  "sample_x509 = \<lparr>x_create = (\<lambda>_ template _ _ _. Inr [word_of_int (x_SerialNumber template)]),
     x_parse = (\<lambda>der. Inr \<lparr>x_SerialNumber = 1, x_CommonName = ''ca'', x_NotBefore = 5, x_NotAfter = 500, x_CertSign = True,
        x_ClientServerAuth = False, x_IsCA = True, x_SubjectKeyId = [1], x_PublicKey = ECPublic 2 3, x_SignatureAlgorithm = 0\<rparr>),
     x_marshal_ec = (\<lambda>k. Inr [word_of_int (ec_X k), word_of_int (ec_Y k), word_of_int (ec_D k)]),
     x_parse_ec = (\<lambda>der. Inr \<lparr>ec_X = 2, ec_Y = 3, ec_D = 4\<rparr>), x_marshal_pkix = (\<lambda>_. Inr [1]), x_sha1 = id,
     x_create_crl = (\<lambda>_ crl _ _. Inr [word_of_int (int (length (crl_Revoked crl)))]),
     x_parse_crl = (\<lambda>_. Inl []), x_pem_decode = (\<lambda>data. Some (''CERTIFICATE'', data)), x_pem_encode = (\<lambda>_ der. der)\<rparr>"

definition sample_cert_env :: "int \<Rightarrow> cert_env" where
  "sample_cert_env serial = \<lparr>ce_clock = 5, ce_key = Inr \<lparr>ec_X = 2, ec_Y = 3, ec_D = 4\<rparr>, ce_serial = Inr serial, ce_seed = 0\<rparr>"

definition sample_identity :: Identity where
  "sample_identity = \<lparr>Identity_TenantID = ''t'', Identity_DeviceID = ''d'', Identity_Role = ''agent''\<rparr>"

lemma sample_Issue:
  "\<exists>issued a'. Issue sample_x509 (sample_cert_env serial) sample_identity 100 10 a = Inr (issued, a')"
  by (simp add: Issue_def sample_identity_def sample_cert_env_def sample_x509_def check_def randomSerial_def bind_def Let_def)

lemma sample_NewAuthority: "\<exists>a. NewAuthority sample_x509 (sample_cert_env 1) ''ca'' 5 = Inr a \<and> ca_issued a = []"
  by (simp add: NewAuthority_def sample_cert_env_def sample_x509_def check_def randomSerial_def subjectKeyID_def bind_def Let_def)

lemma sample_env_ok: "0 \<le> serial \<Longrightarrow> gm_get (ca_issued a) (Itoa serial) = None \<Longrightarrow> env_ok (sample_cert_env serial) a"
  by (simp add: env_ok_def sample_cert_env_def IsZero_def)

text \<open>
  Every authority reached from a new one, or from one loaded from its PEM files, by issuing,
  revoking and rotating is well-formed: each certificate is filed under its own decimal serial with a
  complete identity, a non-empty validity period and a revocation time if revoked. Its revocation lists
  contain exactly the revoked certificates of the tenant, sorted, and can only fail in the library.
\<close>

lemma authority_well_formed:
  assumes new: "NewAuthority X env name now = Inr a0 \<or> NewAuthorityFromPEM X certPEM keyPEM = Inr a0"
    and run: "cert_run X a0 a"
  shows "authority_ok a \<and>
         (case RevocationListByTenant X env' t now' ttl a of
            Inl e \<Rightarrow> t = [] \<or> ttl \<le> 0 \<or> (\<exists>m. e = CreateCRL m)
          | Inr l \<Rightarrow> sorted (map CertRecord_Serial (RevocationList_Records l)) \<and>
              (\<forall>r. r \<in> set (RevocationList_Records l) \<longleftrightarrow>
                 Authority_Record (CertRecord_Serial r) a = Some r \<and> CertRecord_TenantID r = t \<and> CertRecord_Revoked r))"
proof -
  have ok: "authority_ok a" using new new_authority_ok cert_run_ok [OF run] by blast
  then show ?thesis
    using crl_errors [OF ok] crl_records [OF ok]
    by (auto simp: set_RevokedRecordsByTenant Authority_Record_def revoked_sorted split: sum.split)
qed

text \<open>
  C29: Revocation is permanent: whatever is issued, revoked or rotated later, the certificate stays in
  the authority with the same identity and stays revoked; its status is revoked for its own tenant at
  every time and unknown to every other tenant, and every later revocation list of its tenant names it.
\<close>

theorem revocation_permanent:
  assumes ok: "authority_ok a" and run: "cert_run X a a'"
    and r: "Authority_Record serial a = Some r" "CertRecord_Revoked r"
  shows "\<exists>r'. Authority_Record serial a' = Some r' \<and> CertRecord_Revoked r' \<and>
           CertRecord_TenantID r' = CertRecord_TenantID r \<and> CertRecord_DeviceID r' = CertRecord_DeviceID r \<and>
           (\<forall>clock t now st. Authority_CertificateStatus clock t serial now a' = Inr st \<longrightarrow>
              Status_State st = (if t = CertRecord_TenantID r then CertificateRevoked else CertificateUnknown)) \<and>
           (\<forall>env now ttl l. RevocationListByTenant X env (CertRecord_TenantID r) now ttl a' = Inr l \<longrightarrow>
              r' \<in> set (RevocationList_Records l))"
proof -
  have ok': "authority_ok a'" and keeps: "keeps a a'" using cert_run_ok [OF run ok] by auto
  obtain r' where r': "gm_get (ca_issued a') serial = Some r'" and kept: "kept r r'"
    using keeps r by (auto simp: keeps_def Authority_Record_def)
  have "CertRecord_Serial r' = serial" using ok' r' by (simp add: authority_ok_def record_ok_def)
  then show ?thesis
    using r' kept r ok'
    by (intro exI [of _ r'])
      (auto simp: kept_def Authority_Record_def Authority_CertificateStatus_def check_def Let_def
        crl_records [OF ok'] set_RevokedRecordsByTenant split: if_splits)
qed

theorem revocation_permanent_witness:
  "\<exists>a a' r r'. Authority_Record (Itoa 7) a = Some r \<and> CertRecord_Revoked r \<and> cert_run sample_x509 a a' \<and>
     Authority_Record (Itoa 7) a' = Some r' \<and> CertRecord_Revoked r'"
proof -
  obtain a0 where a0: "NewAuthority sample_x509 (sample_cert_env 1) ''ca'' 5 = Inr a0" "ca_issued a0 = []"
    using sample_NewAuthority by blast
  obtain issued a1 where i: "Issue sample_x509 (sample_cert_env 7) sample_identity 100 10 a0 = Inr (issued, a1)"
    using sample_Issue by blast
  have env7: "env_ok (sample_cert_env 7) a0" using a0(2) by (intro sample_env_ok) simp_all
  obtain r1 where r1: "gm_get (ca_issued a1) (Itoa 7) = Some r1" using i by (elim Issue_cases) (auto simp: sample_cert_env_def)
  define r where "r = r1\<lparr>CertRecord_Revoked := True, CertRecord_RevokedAt := 20\<rparr>"
  define a where "a = a1\<lparr>ca_issued := gm_set (Itoa 7) r (ca_issued a1)\<rparr>"
  have seven: "Itoa 7 \<noteq> []" by (rule Itoa_parts [of 7]) simp_all
  have rv: "Revoke 5 (Itoa 7) 20 a1 = Inr (r, a)" using r1 seven by (simp add: Revoke_def check_def r_def a_def IsZero_def Let_def)
  have rv2: "Revoke 5 (Itoa 7) 30 a = Inr (r\<lparr>CertRecord_RevokedAt := 30\<rparr>, a\<lparr>ca_issued := gm_set (Itoa 7) (r\<lparr>CertRecord_RevokedAt := 30\<rparr>) (ca_issued a)\<rparr>)"
    using seven by (simp add: Revoke_def check_def a_def IsZero_def Let_def r_def)
  have ok: "authority_ok a"
    by (rule Revoke_ok [OF Issue_ok [OF new_authority_ok(1) [OF a0(1)] env7 i] _ rv]) (simp add: IsZero_def)
  have get: "Authority_Record (Itoa 7) a = Some r" by (simp add: Authority_Record_def a_def)
  have run: "cert_run sample_x509 a (a\<lparr>ca_issued := gm_set (Itoa 7) (r\<lparr>CertRecord_RevokedAt := 30\<rparr>) (ca_issued a)\<rparr>)"
    using cert_step.revoke [OF _ rv2] by (simp add: IsZero_def r_into_rtranclp)
  show ?thesis
    using revocation_permanent [OF ok run get] get run by (auto simp: r_def)
qed

end
