(* ===== verification/State_File.thy ===== *)
theory State_File
  imports Private_File
begin

text \<open>
  Private state files of the agent and the authority: internal/agent/private_file.go, the common tail of
  the Save methods of the agent's caches, and writePrivateFile of internal/cert/backup.go.

  The directory is created and restricted, a temporary file is created and restricted before anything is
  written, then the content is written, the file closed and renamed over the target; a deferred removal
  drops the temporary file on every failure. As in \<open>Private_File\<close> a write returns every state of the
  file system it goes through. The locale \<open>state_file\<close> is the contract the caches offer to the agent.
\<close>

section \<open>Writing\<close>

datatype 'e state_error =
    StateInvalid 'e
  | StatePathRequired
  | StateDir string
  | StateTemp string
  | StateEncode string
  | StateClose string
  | StateReplace string
  | StateRemove string
  | StateMiss
  | StateOpen string
  | StateDecode string

definition ensurePrivateStateDir :: "'d write_os \<Rightarrow> string option" where
  "ensurePrivateStateDir os = (case os_mkdir os of Some e \<Rightarrow> Some e | None \<Rightarrow> os_chmod_dir os)"

definition createPrivateStateTempFile :: "'d write_os \<Rightarrow> 'd fs \<Rightarrow> (string + string) \<times> 'd fs list" where
  "createPrivateStateTempFile os fs =
     (case os_temp os of
        Inl e \<Rightarrow> (Inl e, [fs])
      | Inr tmpName \<Rightarrow>
          let fs1 = gm_set tmpName (os_empty os, private_perm) fs in
          (case os_chmod os of
             Some e \<Rightarrow> (Inl e, [fs, fs1, gm_del tmpName fs1])
           | None \<Rightarrow> (Inr tmpName, [fs, fs1])))"

definition save_state :: "('v \<Rightarrow> string + 'd) \<Rightarrow> 'd write_os \<Rightarrow> string \<Rightarrow> 'v \<Rightarrow> 'd fs \<Rightarrow> 'e state_error option \<times> 'd fs list" where
  "save_state enc os path v fs =
     (case ensurePrivateStateDir os of
        Some e \<Rightarrow> (Some (StateDir e), [fs])
      | None \<Rightarrow>
          (case createPrivateStateTempFile os fs of
             (Inl e, fss) \<Rightarrow> (Some (StateTemp e), fss)
           | (Inr tmpName, fss) \<Rightarrow>
               let fs1 = last fss in
               (case enc v of
                  Inl e \<Rightarrow> (Some (StateEncode e), fss @ [gm_del tmpName fs1])
                | Inr d \<Rightarrow>
                    (case os_partial os of
                       Some (e, p) \<Rightarrow>
                         (let fs2 = gm_set tmpName (p, private_perm) fs1 in (Some (StateEncode e), fss @ [fs2, gm_del tmpName fs2]))
                     | None \<Rightarrow>
                         let fs2 = gm_set tmpName (d, private_perm) fs1 in
                         (case os_close os of
                            Some e \<Rightarrow> (Some (StateClose e), fss @ [fs2, gm_del tmpName fs2])
                          | None \<Rightarrow>
                              (case os_rename os of
                                 Some e \<Rightarrow> (Some (StateReplace e), fss @ [fs2, gm_del tmpName fs2])
                               | None \<Rightarrow> (None, fss @ [fs2, gm_set path (d, private_perm) (gm_del tmpName fs2)])))))))"

definition load_state :: "('d \<Rightarrow> string + 'v) \<Rightarrow> string option \<Rightarrow> string \<Rightarrow> 'd fs \<Rightarrow> 'e state_error + 'v" where
  \<comment> \<open>\<open>open_err\<close> is an error of os.Open other than a missing file\<close>
  "load_state dec open_err path fs =
     (case open_err of Some e \<Rightarrow> Inl (StateOpen e) | None \<Rightarrow>
     (case gm_get fs path of
        None \<Rightarrow> Inl StateMiss
      | Some (d, _) \<Rightarrow> (case dec d of Inl e \<Rightarrow> Inl (StateDecode e) | Inr v \<Rightarrow> Inr v)))"

definition codec_ok :: "('v \<Rightarrow> string + 'd) \<Rightarrow> ('d \<Rightarrow> string + 'v) \<Rightarrow> bool" where
  \<comment> \<open>the JSON decoder reads back what the encoder wrote\<close>
  "codec_ok enc dec \<longleftrightarrow> (\<forall>v d. enc v = Inr d \<longrightarrow> dec d = Inr v)"

lemmas save_state_defs = save_state_def ensurePrivateStateDir_def createPrivateStateTempFile_def temp_fresh_def Let_def

lemma save_state_success:
  assumes "save_state enc os path v fs = (None, fss)"
  obtains d where "enc v = Inr d" "gm_get (last fss) path = Some (d, private_perm)"
  using assms by (auto simp: save_state_defs split: option.splits sum.splits)

lemma save_state_failure:
  assumes "save_state enc os path v fs = (Some e, fss)" "temp_fresh os path fs"
  shows "gm_get (last fss) path = gm_get fs path"
  using assms by (auto simp: save_state_defs split: option.splits sum.splits)

lemma save_state_other:
  assumes "save_state enc os path v fs = (err, fss)" "temp_fresh os path fs" "q \<noteq> path"
  shows "gm_get (last fss) q = gm_get fs q"
  using assms by (auto simp: save_state_defs split: option.splits sum.splits)

lemma save_state_crash:
  assumes "save_state enc os path v fs = (err, fss)" "temp_fresh os path fs" "fs' \<in> set fss"
  shows "gm_get fs' path = gm_get fs path \<or> (\<exists>d. enc v = Inr d \<and> gm_get fs' path = Some (d, private_perm))"
  using assms by (auto simp: save_state_defs split: option.splits sum.splits)

lemma save_state_nonempty: "snd (save_state enc os path v fs) \<noteq> []"
  by (auto simp: save_state_defs split: option.splits sum.splits)

lemma save_state_ok:
  assumes "os_ok os path fs" "enc v = Inr d"
  shows "\<exists>fss. save_state enc os path v fs = (None, fss)"
  using assms by (auto simp: os_ok_def save_state_defs)

section \<open>The contract of a state file\<close>

locale state_file =
  fixes save :: "'d write_os \<Rightarrow> 'v \<Rightarrow> 'd fs \<Rightarrow> 'e option \<times> 'd fs list"
    and load :: "'d fs \<Rightarrow> 'l + 'v"
    and ready :: "'d write_os \<Rightarrow> 'd fs \<Rightarrow> bool"
  assumes save_load: "ready os fs \<Longrightarrow> save os v fs = (None, fss) \<Longrightarrow> load (last fss) = Inr v"
    and save_fail: "ready os fs \<Longrightarrow> save os v fs = (Some e, fss) \<Longrightarrow> load (last fss) = load fs"
    and save_crash: "ready os fs \<Longrightarrow> save os v fs = (err, fss) \<Longrightarrow> fs' \<in> set fss \<Longrightarrow> load fs' = load fs \<or> load fs' = Inr v"
begin

text \<open>A sequence of saves, each with its own answers of the operating system, and the values that were stored.\<close>

inductive saves :: "'d fs \<Rightarrow> 'v list \<Rightarrow> 'd fs \<Rightarrow> bool" where
  none: "saves fs [] fs"
| ok: "saves fs vs fs1 \<Longrightarrow> ready os fs1 \<Longrightarrow> save os v fs1 = (None, fss) \<Longrightarrow> saves fs (vs @ [v]) (last fss)"
| failed: "saves fs vs fs1 \<Longrightarrow> ready os fs1 \<Longrightarrow> save os v fs1 = (Some e, fss) \<Longrightarrow> saves fs vs (last fss)"

lemma last_saved:
  assumes "saves fs vs fs'"
  shows "load fs' = (if vs = [] then load fs else Inr (last vs))"
  using assms by induction (auto dest: save_load save_fail)

end

end
