(* ===== verification/Go_HTTP.thy ===== *)
theory Go_HTTP
  imports Go_Text
begin

text \<open>
  Requests and responses of net/http, as far as the handlers of the program read and write them: the
  method, the path, the first value of each query parameter and header, the body, and the certificate
  the peer presented over TLS. A response is a status, its headers and a body of the handler's own type.
\<close>

record peer_cert =
  peer_CommonName :: string
  peer_NotBefore :: time
  peer_NotAfter :: time

record http_request =
  rq_Method :: string
  rq_Path :: string
  rq_Query :: "(string, string) gomap"
  rq_Header :: "(string, string) gomap"
  rq_Body :: "byte list"
  rq_PeerCertificates :: "peer_cert list"

definition Query_Get :: "http_request \<Rightarrow> string \<Rightarrow> string" where
  "Query_Get r key = gm_default [] (rq_Query r) key"

definition Header_Get :: "http_request \<Rightarrow> string \<Rightarrow> string" where
  "Header_Get r key = gm_default [] (rq_Header r) key"

abbreviation MethodGet :: string where "MethodGet \<equiv> ''GET''"
abbreviation MethodPost :: string where "MethodPost \<equiv> ''POST''"
abbreviation MethodDelete :: string where "MethodDelete \<equiv> ''DELETE''"

record 'b http_response =
  rs_Status :: int
  rs_Header :: "(string, string) gomap"
  rs_Body :: "'b option"

abbreviation StatusOK :: int where "StatusOK \<equiv> 200"
abbreviation StatusCreated :: int where "StatusCreated \<equiv> 201"
abbreviation StatusNoContent :: int where "StatusNoContent \<equiv> 204"
abbreviation StatusBadRequest :: int where "StatusBadRequest \<equiv> 400"
abbreviation StatusUnauthorized :: int where "StatusUnauthorized \<equiv> 401"
abbreviation StatusForbidden :: int where "StatusForbidden \<equiv> 403"
abbreviation StatusNotFound :: int where "StatusNotFound \<equiv> 404"
abbreviation StatusMethodNotAllowed :: int where "StatusMethodNotAllowed \<equiv> 405"
abbreviation StatusInternalServerError :: int where "StatusInternalServerError \<equiv> 500"
abbreviation StatusServiceUnavailable :: int where "StatusServiceUnavailable \<equiv> 503"

definition WriteHeader :: "int \<Rightarrow> 'b http_response" where
  \<comment> \<open>a response without a body\<close>
  "WriteHeader status = \<lparr>rs_Status = status, rs_Header = [], rs_Body = None\<rparr>"

definition json_response :: "int \<Rightarrow> 'b \<Rightarrow> 'b http_response" where
  "json_response status payload = \<lparr>rs_Status = status, rs_Header = [(''Content-Type'', ''application/json'')], rs_Body = Some payload\<rparr>"

lemma rs_Status_simps [simp]:
  "rs_Status (WriteHeader s) = s" "rs_Status (json_response s b) = s"
  by (simp_all add: WriteHeader_def json_response_def)

end
