(* ===== verification/Cert_Service.thy ===== *)
theory Cert_Service
  imports Cert State_File Go_HTTP
begin

text \<open>
  The services around the authority: the certificate status responder
  (internal/cert/status_responder.go), the backup of the authority (internal/cert/backup.go) and the
  publication of revocation lists (internal/cert/publisher.go). JSON codecs, SHA-256, url.Parse and the
  HTTP client are arguments; \<open>byte list fs\<close> is the file system.
\<close>

section \<open>Status responder\<close>

record StatusRequest =
  StatusRequest_TenantID :: string
  StatusRequest_Serial :: string

record StatusResponse =
  StatusResponse_Status :: CertificateStatus
  StatusResponse_ThisUpdate :: time
  StatusResponse_NextUpdate :: time
  StatusResponse_MaxAgeSeconds :: int

record StatusResponder =
  responder_authority :: "Authority option"
  responder_maxAge :: duration

datatype status_error =
    StatusAuthorityRequired
  | MaxAgeTooSmall
  | MaxAgeNotWhole
  | MaxAgeInvalid
  | StatusTenantRequired
  | StatusSerialRequired
  | StatusCert cert_error
  | StatusDecode string
  | TenantMismatch
  | SerialMismatch
  | UnknownState string
  | ThisUpdateRequired
  | NextUpdateRequired
  | MaxAgeNotPositive
  | NextNotAfterThis
  | NextUpdateMismatch
  | CheckedAtRequired
  | CheckedAtMismatch
  | RevokedFlagMismatch
  | RevokedFlagRequired
  | ThisUpdateInFuture
  | StatusStale

definition DefaultStatusMaxAge :: duration where "DefaultStatusMaxAge = 5 * nminute"

definition NewStatusResponder :: "Authority option \<Rightarrow> duration \<Rightarrow> status_error + StatusResponder" where
  "NewStatusResponder authority maxAge =
     check (authority = None) StatusAuthorityRequired (
     check (maxAge < nsecond) MaxAgeTooSmall (
     check (maxAge mod nsecond \<noteq> 0) MaxAgeNotWhole (
     Inr \<lparr>responder_authority = authority, responder_maxAge = maxAge\<rparr>)))"

definition responder_MaxAge :: "StatusResponder option \<Rightarrow> duration" where
  "responder_MaxAge r = (case r of None \<Rightarrow> 0 | Some r \<Rightarrow> responder_maxAge r)"

definition normalizeStatusRequest :: "StatusRequest \<Rightarrow> status_error + StatusRequest" where
  "normalizeStatusRequest request =
     (let request = \<lparr>StatusRequest_TenantID = TrimSpace (StatusRequest_TenantID request),
                     StatusRequest_Serial = TrimSpace (StatusRequest_Serial request)\<rparr> in
      check (StatusRequest_TenantID request = []) StatusTenantRequired (
      check (StatusRequest_Serial request = []) StatusSerialRequired (Inr request)))"

definition Respond :: "time \<Rightarrow> StatusResponder \<Rightarrow> StatusRequest \<Rightarrow> time \<Rightarrow> status_error + StatusResponse" where
  "Respond clock r request now =
     (case responder_authority r of
        None \<Rightarrow> Inl StatusAuthorityRequired
      | Some authority \<Rightarrow>
          check (responder_maxAge r < nsecond \<or> responder_maxAge r mod nsecond \<noteq> 0) MaxAgeInvalid (
          bind (normalizeStatusRequest request) (\<lambda>normalized.
          let now = (if IsZero now then clock else now) in
          case Authority_CertificateStatus clock (StatusRequest_TenantID normalized) (StatusRequest_Serial normalized) now authority of
            Inl e \<Rightarrow> Inl (StatusCert e)
          | Inr status \<Rightarrow>
              Inr \<lparr>StatusResponse_Status = status, StatusResponse_ThisUpdate = now,
                   StatusResponse_NextUpdate = now + responder_maxAge r,
                   StatusResponse_MaxAgeSeconds = responder_maxAge r div nsecond\<rparr>)))"

datatype status_body = StatusErrorBody status_error | StatusResponseBody StatusResponse

definition responder_ServeHTTP ::
  "(byte list \<Rightarrow> string + StatusRequest) \<Rightarrow> time \<Rightarrow> time \<Rightarrow> StatusResponder \<Rightarrow> http_request \<Rightarrow> status_body http_response" where
  \<comment> \<open>\<open>now\<close> is the responder's clock\<close>
  "responder_ServeHTTP dec clock now r req =
     (let serve = (\<lambda>request.
            case Respond clock r request now of
              Inl e \<Rightarrow> json_response StatusBadRequest (StatusErrorBody e)
            | Inr response \<Rightarrow>
                (json_response StatusOK (StatusResponseBody response))
                \<lparr>rs_Header := [(''Cache-Control'', ''max-age='' @ Itoa (StatusResponse_MaxAgeSeconds response)),
                               (''Content-Type'', ''application/json'')]\<rparr>)
      in if rq_Method req = MethodGet then
           serve \<lparr>StatusRequest_TenantID = Query_Get req ''tenant_id'', StatusRequest_Serial = Query_Get req ''serial''\<rparr>
         else if rq_Method req = MethodPost then
           (case dec (rq_Body req) of
              Inl e \<Rightarrow> json_response StatusBadRequest (StatusErrorBody (StatusDecode e))
            | Inr request \<Rightarrow> serve request)
         else (WriteHeader StatusMethodNotAllowed)\<lparr>rs_Header := [(''Allow'', ''GET, POST'')]\<rparr>)"

definition validCertificateState :: "string \<Rightarrow> bool" where
  "validCertificateState state \<longleftrightarrow>
     state \<in> {CertificateGood, CertificateRevoked, CertificateExpired, CertificateNotYetValid, CertificateUnknown}"

definition ValidateStatusResponse :: "time \<Rightarrow> StatusResponse \<Rightarrow> StatusRequest \<Rightarrow> time \<Rightarrow> status_error + unit" where
  "ValidateStatusResponse clock response request when =
     bind (normalizeStatusRequest request) (\<lambda>normalized.
     let status = StatusResponse_Status response in
     check (Status_TenantID status \<noteq> StatusRequest_TenantID normalized) TenantMismatch (
     check (Status_Serial status \<noteq> StatusRequest_Serial normalized) SerialMismatch (
     check (\<not> validCertificateState (Status_State status)) (UnknownState (Status_State status)) (
     check (IsZero (StatusResponse_ThisUpdate response)) ThisUpdateRequired (
     check (IsZero (StatusResponse_NextUpdate response)) NextUpdateRequired (
     check (StatusResponse_MaxAgeSeconds response \<le> 0) MaxAgeNotPositive (
     check (\<not> StatusResponse_ThisUpdate response < StatusResponse_NextUpdate response) NextNotAfterThis (
     check (StatusResponse_NextUpdate response \<noteq>
              StatusResponse_ThisUpdate response + wrap64 (StatusResponse_MaxAgeSeconds response * nsecond)) NextUpdateMismatch (
     check (IsZero (Status_CheckedAt status)) CheckedAtRequired (
     check (Status_CheckedAt status \<noteq> StatusResponse_ThisUpdate response) CheckedAtMismatch (
     check (Status_Revoked status \<and> Status_State status \<noteq> CertificateRevoked) RevokedFlagMismatch (
     check (Status_State status = CertificateRevoked \<and> \<not> Status_Revoked status) RevokedFlagRequired (
     let when = (if IsZero when then clock else when) in
     check (when < StatusResponse_ThisUpdate response) ThisUpdateInFuture (
     check (\<not> when < StatusResponse_NextUpdate response) StatusStale (Inr ())))))))))))))))"

section \<open>Backup of the authority\<close>

definition AuthorityBackupVersion :: int where "AuthorityBackupVersion = 1"

record AuthorityBackup =
  AuthorityBackup_Version :: int
  AuthorityBackup_CreatedAt :: time
  AuthorityBackup_CertificateSHA256 :: string
  AuthorityBackup_PrivateKeySHA256 :: string
  AuthorityBackup_Authority :: AuthorityBundle

datatype ca_backup_error =
    CABackupVersion int
  | CABackupTimeRequired
  | CASHA256Length string
  | CASHA256NotHex string
  | CACertificateMismatch
  | CAPrivateKeyMismatch
  | CABundleInvalid cert_error
  | CABackupAuthorityRequired
  | CABackupExport cert_error
  | CABackupPathRequired
  | CABackupEncode string
  | CABackupWrite "unit state_error"
  | CABackupRead string
  | CABackupDecode string
  | CACertPathRequired
  | CAKeyPathRequired
  | CARestoreCert "unit state_error"
  | CARestoreKey "unit state_error"

definition sha256Hex :: "(byte list \<Rightarrow> byte list) \<Rightarrow> byte list \<Rightarrow> string" where
  "sha256Hex sum256 data = hex_Encode (sum256 data)"

definition validateSHA256Hex :: "string \<Rightarrow> string \<Rightarrow> ca_backup_error + unit" where
  "validateSHA256Hex name value =
     check (length value \<noteq> 64) (CASHA256Length name) (
     check (hex_Decode value = None) (CASHA256NotHex name) (Inr ()))"

definition AuthorityBackup_Validate :: "x509_lib \<Rightarrow> (byte list \<Rightarrow> byte list) \<Rightarrow> AuthorityBackup \<Rightarrow> ca_backup_error + unit" where
  "AuthorityBackup_Validate X sum256 b =
     check (AuthorityBackup_Version b \<noteq> AuthorityBackupVersion) (CABackupVersion (AuthorityBackup_Version b)) (
     check (IsZero (AuthorityBackup_CreatedAt b)) CABackupTimeRequired (
     bind (validateSHA256Hex ''authority certificate'' (AuthorityBackup_CertificateSHA256 b)) (\<lambda>_.
     bind (validateSHA256Hex ''authority private key'' (AuthorityBackup_PrivateKeySHA256 b)) (\<lambda>_.
     check (sha256Hex sum256 (AuthorityBundle_CertificatePEM (AuthorityBackup_Authority b)) \<noteq> AuthorityBackup_CertificateSHA256 b) CACertificateMismatch (
     check (sha256Hex sum256 (AuthorityBundle_PrivateKeyPEM (AuthorityBackup_Authority b)) \<noteq> AuthorityBackup_PrivateKeySHA256 b) CAPrivateKeyMismatch (
     case NewAuthorityFromPEM X (AuthorityBundle_CertificatePEM (AuthorityBackup_Authority b))
            (AuthorityBundle_PrivateKeyPEM (AuthorityBackup_Authority b)) of
       Inl e \<Rightarrow> Inl (CABundleInvalid e)
     | Inr _ \<Rightarrow> Inr ()))))))"

definition NewAuthorityBackupFromBundle ::
  "x509_lib \<Rightarrow> (byte list \<Rightarrow> byte list) \<Rightarrow> time \<Rightarrow> AuthorityBundle \<Rightarrow> time \<Rightarrow> ca_backup_error + AuthorityBackup" where
  "NewAuthorityBackupFromBundle X sum256 clock bundle createdAt =
     (let createdAt = (if IsZero createdAt then clock else createdAt);
          backup = \<lparr>AuthorityBackup_Version = AuthorityBackupVersion, AuthorityBackup_CreatedAt = createdAt,
                    AuthorityBackup_CertificateSHA256 = sha256Hex sum256 (AuthorityBundle_CertificatePEM bundle),
                    AuthorityBackup_PrivateKeySHA256 = sha256Hex sum256 (AuthorityBundle_PrivateKeyPEM bundle),
                    AuthorityBackup_Authority = bundle\<rparr>
      in bind (AuthorityBackup_Validate X sum256 backup) (\<lambda>_. Inr backup))"

definition NewAuthorityBackup ::
  "x509_lib \<Rightarrow> (byte list \<Rightarrow> byte list) \<Rightarrow> time \<Rightarrow> Authority option \<Rightarrow> time \<Rightarrow> ca_backup_error + AuthorityBackup" where
  "NewAuthorityBackup X sum256 clock authority createdAt =
     (case authority of
        None \<Rightarrow> Inl CABackupAuthorityRequired
      | Some a \<Rightarrow>
          (case ExportCA X a of
             Inl e \<Rightarrow> Inl (CABackupExport e)
           | Inr bundle \<Rightarrow> NewAuthorityBackupFromBundle X sum256 clock bundle createdAt))"

definition writePrivateFile :: "byte list write_os \<Rightarrow> string \<Rightarrow> byte list \<Rightarrow> byte list fs \<Rightarrow> unit state_error option \<times> byte list fs list" where
  \<comment> \<open>like the agent's state files, but the working directory itself is not restricted\<close>
  "writePrivateFile os path data fs =
     save_state Inr (if path_Dir path \<noteq> ''.'' then os else os\<lparr>os_chmod_dir := None\<rparr>) path data fs"

definition SaveAuthorityBackup ::
  "x509_lib \<Rightarrow> (byte list \<Rightarrow> byte list) \<Rightarrow> (AuthorityBackup \<Rightarrow> string + byte list) \<Rightarrow> byte list write_os \<Rightarrow> string \<Rightarrow> AuthorityBackup \<Rightarrow>
     byte list fs \<Rightarrow> ca_backup_error option \<times> byte list fs" where
  "SaveAuthorityBackup X sum256 enc os path backup fs =
     (case AuthorityBackup_Validate X sum256 backup of
        Inl e \<Rightarrow> (Some e, fs)
      | Inr _ \<Rightarrow>
          (case enc backup of
             Inl e \<Rightarrow> (Some (CABackupEncode e), fs)
           | Inr data \<Rightarrow>
               (case writePrivateFile os path (data @ [10]) fs of (err, fss) \<Rightarrow> (map_option CABackupWrite err, last fss))))"

definition Authority_Backup ::
  "x509_lib \<Rightarrow> (byte list \<Rightarrow> byte list) \<Rightarrow> (AuthorityBackup \<Rightarrow> string + byte list) \<Rightarrow> byte list write_os \<Rightarrow> time \<Rightarrow> string \<Rightarrow> time \<Rightarrow>
     Authority \<Rightarrow> byte list fs \<Rightarrow> (ca_backup_error + AuthorityBackup) \<times> byte list fs" where
  "Authority_Backup X sum256 enc os clock path createdAt a fs =
     (if path = [] then (Inl CABackupPathRequired, fs)
      else case NewAuthorityBackup X sum256 clock (Some a) createdAt of
             Inl e \<Rightarrow> (Inl e, fs)
           | Inr backup \<Rightarrow>
               (case SaveAuthorityBackup X sum256 enc os path backup fs of
                  (Some e, fs') \<Rightarrow> (Inl e, fs')
                | (None, fs') \<Rightarrow> (Inr backup, fs')))"

definition LoadAuthorityBackup ::
  "x509_lib \<Rightarrow> (byte list \<Rightarrow> byte list) \<Rightarrow> (byte list \<Rightarrow> string + AuthorityBackup) \<Rightarrow> string option \<Rightarrow> string \<Rightarrow> byte list fs \<Rightarrow>
     ca_backup_error + AuthorityBackup" where
  "LoadAuthorityBackup X sum256 dec read_err path fs =
     (case (read_err, gm_get fs path) of
        (Some e, _) \<Rightarrow> Inl (CABackupRead e)
      | (None, None) \<Rightarrow> Inl (CABackupRead ''file does not exist'')
      | (None, Some (data, _)) \<Rightarrow>
          (case dec data of
             Inl e \<Rightarrow> Inl (CABackupDecode e)
           | Inr backup \<Rightarrow> bind (AuthorityBackup_Validate X sum256 backup) (\<lambda>_. Inr backup)))"

definition RestoreAuthorityBackup ::
  "x509_lib \<Rightarrow> (byte list \<Rightarrow> byte list) \<Rightarrow> byte list write_os \<Rightarrow> byte list write_os \<Rightarrow> string \<Rightarrow> string \<Rightarrow> AuthorityBackup \<Rightarrow>
     byte list fs \<Rightarrow> ca_backup_error option \<times> byte list fs" where
  "RestoreAuthorityBackup X sum256 os1 os2 certPath keyPath backup fs =
     (if certPath = [] then (Some CACertPathRequired, fs)
      else if keyPath = [] then (Some CAKeyPathRequired, fs)
      else case AuthorityBackup_Validate X sum256 backup of
             Inl e \<Rightarrow> (Some e, fs)
           | Inr _ \<Rightarrow>
               (case writePrivateFile os1 certPath (AuthorityBundle_CertificatePEM (AuthorityBackup_Authority backup)) fs of
                  (Some e, fss) \<Rightarrow> (Some (CARestoreCert e), last fss)
                | (None, fss) \<Rightarrow>
                    (case writePrivateFile os2 keyPath (AuthorityBundle_PrivateKeyPEM (AuthorityBackup_Authority backup)) (last fss) of
                       (Some e, fss') \<Rightarrow> (Some (CARestoreKey e), last fss')
                     | (None, fss') \<Rightarrow> (None, last fss'))))"

definition RestoreAuthorityBackupFile ::
  "x509_lib \<Rightarrow> (byte list \<Rightarrow> byte list) \<Rightarrow> (byte list \<Rightarrow> string + AuthorityBackup) \<Rightarrow> string option \<Rightarrow> byte list write_os \<Rightarrow> byte list write_os \<Rightarrow>
     string \<Rightarrow> string \<Rightarrow> string \<Rightarrow> byte list fs \<Rightarrow> (ca_backup_error + AuthorityBackup) \<times> byte list fs" where
  "RestoreAuthorityBackupFile X sum256 dec read_err os1 os2 certPath keyPath backupPath fs =
     (case LoadAuthorityBackup X sum256 dec read_err backupPath fs of
        Inl e \<Rightarrow> (Inl e, fs)
      | Inr backup \<Rightarrow>
          (case RestoreAuthorityBackup X sum256 os1 os2 certPath keyPath backup fs of
             (Some e, fs') \<Rightarrow> (Inl e, fs')
           | (None, fs') \<Rightarrow> (Inr backup, fs')))"

section \<open>Publication of revocation lists\<close>

record PublishedRevocationList =
  Published_TenantID :: string
  Published_Issuer :: string
  Published_GeneratedAt :: time
  Published_NextUpdate :: time
  Published_RevokedCount :: int
  Published_SHA256 :: string
  Published_CRLPath :: string
  Published_ManifestPath :: string

record VerifiedPublishedRevocationList =
  Verified_Manifest :: PublishedRevocationList
  Verified_CRLPEM :: "byte list"
  Verified_Parsed :: x509_crl

datatype publish_error =
    PublishContext ctx_error
  | PublishDirRequired
  | CRLPEMRequired
  | ParseCRL string
  | CRLTenantRequired
  | CRLTenantDots string
  | CRLTenantUnsafe string
  | CreatePublishDir string
  | WriteCRL string
  | MarshalManifest string
  | WriteManifest string
  | ReadManifest string
  | ReadCRL string
  | BaseURLRequired
  | BaseURLNotAbsolute
  | FetchManifest string
  | FetchCRL string
  | DecodeManifest string
  | ManifestTenant string
  | ManifestCRLPath string
  | ManifestSelfPath string
  | CRLSHA256Mismatch
  | CRLCountMismatch
  | CRLNextUpdateMismatch

definition crl_name_char :: "char \<Rightarrow> bool" where
  "crl_name_char r \<longleftrightarrow> (CHR ''a'' \<le> r \<and> r \<le> CHR ''z'') \<or> (CHR ''A'' \<le> r \<and> r \<le> CHR ''Z'') \<or> (CHR ''0'' \<le> r \<and> r \<le> CHR ''9'') \<or>
     r = CHR ''-'' \<or> r = CHR ''_'' \<or> r = CHR ''.''"

definition tenantCRLFileName :: "string \<Rightarrow> publish_error + string" where
  "tenantCRLFileName tenantID =
     (let tenantID = TrimSpace tenantID in
      check (tenantID = []) CRLTenantRequired (
      check (tenantID = ''.'' \<or> tenantID = ''..'') (CRLTenantDots tenantID) (
      check (\<not> list_all crl_name_char tenantID) (CRLTenantUnsafe tenantID) (
      Inr (tenantID @ ''.crl'')))))"

definition NewFileRevocationListPublisher :: "string \<Rightarrow> publish_error + string" where
  \<comment> \<open>a publisher is its directory\<close>
  "NewFileRevocationListPublisher dir = (let dir = TrimSpace dir in check (dir = []) PublishDirRequired (Inr dir))"

definition ParseRevocationListPEM :: "x509_lib \<Rightarrow> byte list \<Rightarrow> publish_error + x509_crl" where
  "ParseRevocationListPEM X crlPEM =
     (case x_pem_decode X crlPEM of
        None \<Rightarrow> Inl CRLPEMRequired
      | Some (ty, der) \<Rightarrow>
          check (ty \<noteq> ''X509 CRL'') CRLPEMRequired (
          case x_parse_crl X der of Inl e \<Rightarrow> Inl (ParseCRL e) | Inr parsed \<Rightarrow> Inr parsed))"

record publish_os =
  po_mkdir :: "string option"
  po_crl :: write_answer
  po_manifest :: write_answer

definition PublishRevocationList ::
  "x509_lib \<Rightarrow> (byte list \<Rightarrow> byte list) \<Rightarrow> (PublishedRevocationList \<Rightarrow> string + byte list) \<Rightarrow> ctx_error option \<Rightarrow> publish_os \<Rightarrow> string \<Rightarrow>
     RevocationList \<Rightarrow> byte list fs \<Rightarrow> (publish_error + PublishedRevocationList) \<times> byte list fs" where
  "PublishRevocationList X sum256 enc ctx os dir l fs =
     (case ctx of Some e \<Rightarrow> (Inl (PublishContext e), fs) | None \<Rightarrow>
      if is_blank dir then (Inl PublishDirRequired, fs)
      else (case ParseRevocationListPEM X (RevocationList_CRLPEM l) of Inl e \<Rightarrow> (Inl e, fs) | Inr _ \<Rightarrow>
           (case tenantCRLFileName (RevocationList_TenantID l) of Inl e \<Rightarrow> (Inl e, fs) | Inr fileName \<Rightarrow>
           (case po_mkdir os of Some e \<Rightarrow> (Inl (CreatePublishDir e), fs) | None \<Rightarrow>
            let crlPath = path_Join [dir, fileName @ ''.pem''];
                manifestPath = path_Join [dir, fileName @ ''.json''];
                published = \<lparr>Published_TenantID = RevocationList_TenantID l, Published_Issuer = RevocationList_Issuer l,
                             Published_GeneratedAt = RevocationList_GeneratedAt l, Published_NextUpdate = RevocationList_NextUpdate l,
                             Published_RevokedCount = int (length (RevocationList_Records l)),
                             Published_SHA256 = hex_Encode (sum256 (RevocationList_CRLPEM l)),
                             Published_CRLPath = crlPath, Published_ManifestPath = manifestPath\<rparr>
            in case WriteFile (po_crl os) crlPath (RevocationList_CRLPEM l) fs of
                 (Some e, fs) \<Rightarrow> (Inl (WriteCRL e), fs)
               | (None, fs) \<Rightarrow>
                   (case enc published of
                      Inl e \<Rightarrow> (Inl (MarshalManifest e), fs)
                    | Inr manifest \<Rightarrow>
                        (case WriteFile (po_manifest os) manifestPath (manifest @ [10]) fs of
                           (Some e, fs) \<Rightarrow> (Inl (WriteManifest e), fs)
                         | (None, fs) \<Rightarrow> (Inr published, fs)))))))"

record go_url =
  url_Scheme :: string
  url_Host :: string
  url_Path :: string
  url_RawQuery :: string
  url_Fragment :: string

definition artifactBase :: "(string \<Rightarrow> go_url option) \<Rightarrow> string \<Rightarrow> string" where
  "artifactBase parse_url pathOrURL =
     (case parse_url pathOrURL of
        Some parsed \<Rightarrow> if url_Scheme parsed \<noteq> [] \<and> url_Path parsed \<noteq> [] then path_Base (url_Path parsed) else path_Base pathOrURL
      | None \<Rightarrow> path_Base pathOrURL)"

definition parsedRevokedCount :: "x509_crl \<Rightarrow> int" where
  "parsedRevokedCount parsed = int (length (crl_Revoked parsed))"

definition verifyPublishedRevocationListArtifacts ::
  "x509_lib \<Rightarrow> (byte list \<Rightarrow> byte list) \<Rightarrow> (byte list \<Rightarrow> string + PublishedRevocationList) \<Rightarrow> (string \<Rightarrow> go_url option) \<Rightarrow>
     string \<Rightarrow> string \<Rightarrow> string \<Rightarrow> byte list \<Rightarrow> byte list \<Rightarrow> publish_error + VerifiedPublishedRevocationList" where
  "verifyPublishedRevocationListArtifacts X sum256 dec parse_url tenantID expectedCRLPath expectedManifestPath manifestData crlPEM =
     (case dec manifestData of
        Inl e \<Rightarrow> Inl (DecodeManifest e)
      | Inr manifest \<Rightarrow>
          check (Published_TenantID manifest \<noteq> TrimSpace tenantID) (ManifestTenant (Published_TenantID manifest)) (
          check (artifactBase parse_url (Published_CRLPath manifest) \<noteq> artifactBase parse_url expectedCRLPath)
            (ManifestCRLPath (Published_CRLPath manifest)) (
          check (artifactBase parse_url (Published_ManifestPath manifest) \<noteq> artifactBase parse_url expectedManifestPath)
            (ManifestSelfPath (Published_ManifestPath manifest)) (
          check (Published_SHA256 manifest \<noteq> hex_Encode (sum256 crlPEM)) CRLSHA256Mismatch (
          bind (ParseRevocationListPEM X crlPEM) (\<lambda>parsed.
          check (Published_RevokedCount manifest \<noteq> parsedRevokedCount parsed) CRLCountMismatch (
          check (\<not> IsZero (Published_NextUpdate manifest) \<and> \<not> IsZero (crl_NextUpdate parsed) \<and>
                 crl_NextUpdate parsed \<noteq> Published_NextUpdate manifest) CRLNextUpdateMismatch (
          Inr \<lparr>Verified_Manifest = manifest, Verified_CRLPEM = crlPEM, Verified_Parsed = parsed\<rparr>))))))))"

definition VerifyPublishedRevocationList ::
  "x509_lib \<Rightarrow> (byte list \<Rightarrow> byte list) \<Rightarrow> (byte list \<Rightarrow> string + PublishedRevocationList) \<Rightarrow> (string \<Rightarrow> go_url option) \<Rightarrow>
     (string \<Rightarrow> string + byte list) \<Rightarrow> string \<Rightarrow> string \<Rightarrow> publish_error + VerifiedPublishedRevocationList" where
  \<comment> \<open>\<open>read_file\<close> is os.ReadFile\<close>
  "VerifyPublishedRevocationList X sum256 dec parse_url read_file dir tenantID =
     (let dir = TrimSpace dir in
      check (dir = []) PublishDirRequired (
      bind (tenantCRLFileName tenantID) (\<lambda>fileName.
      let crlPath = path_Join [dir, fileName @ ''.pem'']; manifestPath = path_Join [dir, fileName @ ''.json''] in
      case read_file manifestPath of
        Inl e \<Rightarrow> Inl (ReadManifest e)
      | Inr manifestData \<Rightarrow>
          (case read_file crlPath of
             Inl e \<Rightarrow> Inl (ReadCRL e)
           | Inr crlPEM \<Rightarrow>
               verifyPublishedRevocationListArtifacts X sum256 dec parse_url tenantID crlPath manifestPath manifestData crlPEM))))"

definition joinArtifactURL :: "(go_url \<Rightarrow> string) \<Rightarrow> go_url \<Rightarrow> string \<Rightarrow> string" where
  \<comment> \<open>\<open>url_string\<close> is URL.String\<close>
  "joinArtifactURL url_string base fileName =
     url_string (base\<lparr>url_Path := rev (dropWhile (\<lambda>c. c = CHR ''/'') (rev (url_Path base))) @ ''/'' @ fileName,
                      url_RawQuery := [], url_Fragment := []\<rparr>)"

definition fetchCRLArtifact :: "(string \<Rightarrow> string + int \<times> (string + byte list)) \<Rightarrow> string \<Rightarrow> string + byte list" where
  \<comment> \<open>\<open>get\<close> makes the request: an error, or a status and the outcome of reading the body\<close>
  "fetchCRLArtifact get artifactURL =
     (case get artifactURL of
        Inl e \<Rightarrow> Inl e
      | Inr (status, body) \<Rightarrow>
          check (status \<noteq> StatusOK) (''GET '' @ artifactURL @ '' returned '' @ Itoa status) body)"

definition VerifyPublishedRevocationListHTTP ::
  "x509_lib \<Rightarrow> (byte list \<Rightarrow> byte list) \<Rightarrow> (byte list \<Rightarrow> string + PublishedRevocationList) \<Rightarrow> (string \<Rightarrow> go_url option) \<Rightarrow> (go_url \<Rightarrow> string) \<Rightarrow>
     (string \<Rightarrow> string + int \<times> (string + byte list)) \<Rightarrow> string \<Rightarrow> string \<Rightarrow> publish_error + VerifiedPublishedRevocationList" where
  "VerifyPublishedRevocationListHTTP X sum256 dec parse_url url_string get baseURL tenantID =
     (let baseURL = TrimSpace baseURL in
      check (baseURL = []) BaseURLRequired (
      case parse_url baseURL of
        None \<Rightarrow> Inl BaseURLNotAbsolute
      | Some parsedBase \<Rightarrow>
          check (url_Scheme parsedBase = [] \<or> url_Host parsedBase = []) BaseURLNotAbsolute (
          bind (tenantCRLFileName tenantID) (\<lambda>fileName.
          let crlURL = joinArtifactURL url_string parsedBase (fileName @ ''.pem'');
              manifestURL = joinArtifactURL url_string parsedBase (fileName @ ''.json'') in
          case fetchCRLArtifact get manifestURL of
            Inl e \<Rightarrow> Inl (FetchManifest e)
          | Inr manifestData \<Rightarrow>
              (case fetchCRLArtifact get crlURL of
                 Inl e \<Rightarrow> Inl (FetchCRL e)
               | Inr crlPEM \<Rightarrow>
                   verifyPublishedRevocationListArtifacts X sum256 dec parse_url tenantID crlURL manifestURL manifestData crlPEM)))))"

section \<open>Status responses\<close>

lemma normalizeStatusRequest_iff:
  "normalizeStatusRequest q = Inr n \<longleftrightarrow>
     \<not> is_blank (StatusRequest_TenantID q) \<and> \<not> is_blank (StatusRequest_Serial q) \<and>
     n = \<lparr>StatusRequest_TenantID = TrimSpace (StatusRequest_TenantID q), StatusRequest_Serial = TrimSpace (StatusRequest_Serial q)\<rparr>"
  by (auto simp: normalizeStatusRequest_def is_blank_def check_def Let_def)

lemma status_shape:
  assumes "Authority_CertificateStatus clock t s now a = Inr st" "\<not> IsZero now"
  shows "Status_TenantID st = t \<and> Status_Serial st = s \<and> Status_CheckedAt st = now \<and> validCertificateState (Status_State st) \<and>
         (Status_Revoked st \<longleftrightarrow> Status_State st = CertificateRevoked)"
  using assms
  by (auto simp: Authority_CertificateStatus_def validCertificateState_def check_def Let_def
      CertificateGood_def CertificateRevoked_def CertificateExpired_def CertificateNotYetValid_def CertificateUnknown_def
      split: if_splits option.splits)

lemma whole_seconds: "x mod nsecond = 0 \<Longrightarrow> int64 x \<Longrightarrow> wrap64 (x div nsecond * nsecond) = x"
  using div_mult_mod_eq [of x nsecond] by (simp add: wrap64_id)

text \<open>
  A status response is accepted by the validation of its request exactly during its validity, from
  the time it was made until its maximal age has passed; before it is refused as from the future,
  afterwards as stale. It says revoked exactly if it carries the revoked flag.
\<close>

lemma status_response_validity:
  assumes resp: "Respond clock r q now = Inr response" and now: "0 < now" and age: "int64 (responder_maxAge r)"
    and w: "\<not> IsZero w"
  shows "ValidateStatusResponse clock' response q w =
           (if w < now then Inl ThisUpdateInFuture
            else if now + responder_maxAge r \<le> w then Inl StatusStale else Inr ()) \<and>
         (Status_Revoked (StatusResponse_Status response) \<longleftrightarrow> Status_State (StatusResponse_Status response) = CertificateRevoked)"
proof -
  have nz: "\<not> IsZero now" using now by (simp add: IsZero_def)
  obtain a n st where a: "responder_authority r = Some a"
    and age1: "nsecond \<le> responder_maxAge r" and age2: "responder_maxAge r mod nsecond = 0"
    and n: "normalizeStatusRequest q = Inr n"
    and st: "Authority_CertificateStatus clock (StatusRequest_TenantID n) (StatusRequest_Serial n) now a = Inr st"
    and response: "response = \<lparr>StatusResponse_Status = st, StatusResponse_ThisUpdate = now,
       StatusResponse_NextUpdate = now + responder_maxAge r, StatusResponse_MaxAgeSeconds = responder_maxAge r div nsecond\<rparr>"
    using resp nz by (auto simp: Respond_def bind_def check_def Let_def split: option.splits if_splits sum.splits)
  have "0 < responder_maxAge r div nsecond" using age1 by (simp add: pos_imp_zdiv_pos_iff)
  moreover have "\<not> IsZero (now + responder_maxAge r)" using now age1 by (simp add: IsZero_def)
  ultimately show ?thesis
    using status_shape [OF st nz] n response nz age1 w whole_seconds [OF age2 age]
    by (simp add: ValidateStatusResponse_def bind_def check_def Let_def)
qed

definition sample_ca :: Authority where
  "sample_ca = \<lparr>ca_cert = \<lparr>x_SerialNumber = 1, x_CommonName = ''ca'', x_NotBefore = 5, x_NotAfter = 500, x_CertSign = True,
       x_ClientServerAuth = False, x_IsCA = True, x_SubjectKeyId = [1], x_PublicKey = ECPublic 2 3, x_SignatureAlgorithm = 0\<rparr>,
     ca_key = \<lparr>ec_X = 2, ec_Y = 3, ec_D = 4\<rparr>, ca_certPEM = [1], ca_issued = []\<rparr>"

definition sample_responder :: StatusResponder where
  "sample_responder = \<lparr>responder_authority = Some sample_ca, responder_maxAge = 300000000000\<rparr>"

definition sample_status_request :: StatusRequest where
  "sample_status_request = \<lparr>StatusRequest_TenantID = ''t'', StatusRequest_Serial = ''7''\<rparr>"

section \<open>Publishing and verifying\<close>

definition to_seconds :: "time \<Rightarrow> time" where
  "to_seconds t = t div nsecond * nsecond"

definition crl_laws :: "x509_lib \<Rightarrow> bool" where
  \<comment> \<open>PEM blocks are read back, and so are CRLs, whose ASN.1 times have a precision of one second\<close>
  "crl_laws X \<longleftrightarrow>
     (\<forall>der. x_pem_decode X (x_pem_encode X ''X509 CRL'' der) = Some (''X509 CRL'', der)) \<and>
     (\<forall>seed crl cert key der. x_create_crl X seed crl cert key = Inr der \<longrightarrow>
        (\<exists>parsed. x_parse_crl X der = Inr parsed \<and> length (crl_Revoked parsed) = length (crl_Revoked crl) \<and>
           crl_NextUpdate parsed = to_seconds (crl_NextUpdate crl)))"

lemma collect_revoked_length: "collect_revoked t rs = Inr (records, revoked) \<Longrightarrow> length revoked = length records"
  by (induction rs arbitrary: records revoked) (auto simp: bind_def split: if_splits option.splits sum.splits)

lemma published_list:
  assumes laws: "crl_laws X" and l: "RevocationListByTenant X env t now ttl a = Inr l"
  shows "RevocationList_TenantID l = t \<and>
         (\<exists>parsed. ParseRevocationListPEM X (RevocationList_CRLPEM l) = Inr parsed \<and>
            length (crl_Revoked parsed) = length (RevocationList_Records l) \<and>
            crl_NextUpdate parsed = to_seconds (RevocationList_NextUpdate l))"
proof -
  let ?now = "if IsZero now then ce_clock env else now"
  obtain records revoked der where c: "collect_revoked t (gm_values (ca_issued a)) = Inr (records, revoked)"
    and der: "x_create_crl X (ce_seed env)
       \<lparr>crl_SignatureAlgorithm = x_SignatureAlgorithm (ca_cert a), crl_Revoked = SliceStable revoked_less revoked,
        crl_Number = Unix ?now, crl_ThisUpdate = ?now, crl_NextUpdate = ?now + ttl\<rparr> (ca_cert a) (ca_key a) = Inr der"
    and le: "RevocationList_TenantID l = t" "RevocationList_Records l = sortRecords records"
      "RevocationList_CRLPEM l = x_pem_encode X ''X509 CRL'' der" "RevocationList_NextUpdate l = ?now + ttl"
    using l by (auto simp: RevocationListByTenant_def bind_def check_def Let_def split: if_splits sum.splits)
  obtain parsed where "x_parse_crl X der = Inr parsed" "length (crl_Revoked parsed) = length revoked"
    "crl_NextUpdate parsed = to_seconds (?now + ttl)"
    using laws der unfolding crl_laws_def by (metis length_SliceStable x509_crl.select_convs(2) x509_crl.select_convs(5))
  then show ?thesis
    using laws le collect_revoked_length [OF c]
    by (simp add: crl_laws_def ParseRevocationListPEM_def check_def sortRecords_def)
qed

lemma crl_file_name:
  assumes "tenantCRLFileName t = Inr f"
  shows "CHR ''/'' \<notin> set f \<and> f \<noteq> []"
proof -
  have "\<not> crl_name_char (CHR ''/'')" by code_simp
  then show ?thesis using assms by (auto simp: tenantCRLFileName_def check_def Let_def list_all_iff split: if_splits)
qed

lemma crl_paths_differ:
  assumes "tenantCRLFileName t = Inr f"
  shows "path_Join [dir, f @ ''.pem''] \<noteq> path_Join [dir, f @ ''.json'']"
proof -
  have "CHR ''/'' \<notin> set f" "f \<noteq> []" using crl_file_name [OF assms] by auto
  then obtain p q where "path_Join [dir, f @ ''.pem''] = p @ f @ ''.pem''" "path_Join [dir, f @ ''.json''] = q @ f @ ''.json''"
    using path_Join_file [of "f @ ''.pem''" dir] path_Join_file [of "f @ ''.json''" dir]
    by (auto simp: append_eq_Cons_conv)
  then have "last (path_Join [dir, f @ ''.pem'']) = CHR ''m''" "last (path_Join [dir, f @ ''.json'']) = CHR ''n''" by simp_all
  then show ?thesis by fastforce
qed

lemma publish_success:
  assumes "PublishRevocationList X sum256 enc ctx os dir l fs = (Inr p, fs')"
  obtains f manifest where "tenantCRLFileName (RevocationList_TenantID l) = Inr f" "enc p = Inr manifest" "\<not> is_blank dir"
    "p = \<lparr>Published_TenantID = RevocationList_TenantID l, Published_Issuer = RevocationList_Issuer l,
          Published_GeneratedAt = RevocationList_GeneratedAt l, Published_NextUpdate = RevocationList_NextUpdate l,
          Published_RevokedCount = int (length (RevocationList_Records l)),
          Published_SHA256 = hex_Encode (sum256 (RevocationList_CRLPEM l)),
          Published_CRLPath = path_Join [dir, f @ ''.pem''], Published_ManifestPath = path_Join [dir, f @ ''.json'']\<rparr>"
    "read_fs fs' (path_Join [dir, f @ ''.pem'']) = Inr (RevocationList_CRLPEM l)"
    "read_fs fs' (path_Join [dir, f @ ''.json'']) = Inr (manifest @ [10])"
proof -
  obtain f where f: "tenantCRLFileName (RevocationList_TenantID l) = Inr f"
    using assms by (auto simp: PublishRevocationList_def split: option.splits sum.splits if_splits)
  with crl_paths_differ [OF f, of dir] that assms show ?thesis
    by (auto simp: PublishRevocationList_def WriteFile_def read_fs_def Let_def
        split: option.splits sum.splits if_splits write_answer.splits)
qed

text \<open>
  A revocation list that was published without an error is accepted by the verification of the
  published files only if its next update falls on a whole second, because a CRL has no fractions of a
  second and the manifest keeps them; otherwise it is refused as a mismatch.
\<close>

lemma publish_verify:
  assumes laws: "crl_laws X" and l: "RevocationListByTenant X env t now ttl a = Inr l"
    and publish: "PublishRevocationList X sum256 enc ctx os dir l fs = (Inr p, fs')"
    and codec: "\<And>m bytes. enc m = Inr bytes \<Longrightarrow> dec (bytes @ [10]) = Inr m"
    and trimmed: "TrimSpace dir = dir" "TrimSpace t = t" and late: "nsecond \<le> RevocationList_NextUpdate l"
  shows "if RevocationList_NextUpdate l mod nsecond = 0
         then \<exists>v. VerifyPublishedRevocationList X sum256 dec parse_url (read_fs fs') dir t = Inr v \<and> Verified_Manifest v = p \<and>
                Verified_CRLPEM v = RevocationList_CRLPEM l
         else VerifyPublishedRevocationList X sum256 dec parse_url (read_fs fs') dir t = Inl CRLNextUpdateMismatch"
proof -
  obtain parsed where tenant: "RevocationList_TenantID l = t"
    and parsed: "ParseRevocationListPEM X (RevocationList_CRLPEM l) = Inr parsed"
      "length (crl_Revoked parsed) = length (RevocationList_Records l)"
      "crl_NextUpdate parsed = to_seconds (RevocationList_NextUpdate l)"
    using published_list [OF laws l] by blast
  obtain f manifest where f: "tenantCRLFileName t = Inr f" "enc p = Inr manifest" "\<not> is_blank dir"
    "p = \<lparr>Published_TenantID = t, Published_Issuer = RevocationList_Issuer l,
          Published_GeneratedAt = RevocationList_GeneratedAt l, Published_NextUpdate = RevocationList_NextUpdate l,
          Published_RevokedCount = int (length (RevocationList_Records l)),
          Published_SHA256 = hex_Encode (sum256 (RevocationList_CRLPEM l)),
          Published_CRLPath = path_Join [dir, f @ ''.pem''], Published_ManifestPath = path_Join [dir, f @ ''.json'']\<rparr>"
    "read_fs fs' (path_Join [dir, f @ ''.pem'']) = Inr (RevocationList_CRLPEM l)"
    "read_fs fs' (path_Join [dir, f @ ''.json'']) = Inr (manifest @ [10])"
    using publish_success [OF publish] tenant by metis
  have dir: "dir \<noteq> []" using f(3) by auto
  have "to_seconds (RevocationList_NextUpdate l) \<noteq> 0" "RevocationList_NextUpdate l \<noteq> 0"
    using late by (simp_all add: to_seconds_def)
  moreover have "to_seconds (RevocationList_NextUpdate l) = RevocationList_NextUpdate l \<longleftrightarrow> RevocationList_NextUpdate l mod nsecond = 0"
    by (metis add_cancel_left_right div_mult_mod_eq to_seconds_def)
  ultimately show ?thesis
    using f dir parsed trimmed codec [OF f(2)]
    by (auto simp: VerifyPublishedRevocationList_def verifyPublishedRevocationListArtifacts_def parsedRevokedCount_def
        bind_def check_def Let_def IsZero_def)
qed

definition sample_crl_lib :: x509_lib where
  "sample_crl_lib = sample_x509
     \<lparr>x_create_crl := (\<lambda>_ crl _ _. if crl_Revoked crl = [] \<and> to_seconds (crl_NextUpdate crl) = 100 * nsecond then Inr [1] else Inl ''unsupported''),
      x_parse_crl := (\<lambda>_. Inr \<lparr>crl_SignatureAlgorithm = 0, crl_Revoked = [], crl_Number = 1, crl_ThisUpdate = 5, crl_NextUpdate = 100 * nsecond\<rparr>),
      x_pem_decode := (\<lambda>data. Some (''X509 CRL'', data))\<rparr>"

lemma sample_crl_laws: "crl_laws sample_crl_lib"
  by (simp add: crl_laws_def sample_crl_lib_def sample_x509_def)

definition sample_crl :: "duration \<Rightarrow> RevocationList" where
  "sample_crl ttl = \<lparr>RevocationList_TenantID = ''t'', RevocationList_Issuer = ''ca'', RevocationList_GeneratedAt = 99000000000,
     RevocationList_NextUpdate = 99000000000 + ttl, RevocationList_Records = [], RevocationList_CRLPEM = [1]\<rparr>"

lemma sample_crl_issued:
  "0 < ttl \<Longrightarrow> to_seconds (99000000000 + ttl) = 100 * nsecond \<Longrightarrow>
     RevocationListByTenant sample_crl_lib (sample_cert_env 1) ''t'' 99000000000 ttl sample_ca = Inr (sample_crl ttl)"
  by (simp add: RevocationListByTenant_def sample_crl_lib_def sample_x509_def sample_cert_env_def sample_ca_def sample_crl_def
      gm_values_def bind_def check_def Let_def IsZero_def sortRecords_def)

definition sample_manifest :: "duration \<Rightarrow> PublishedRevocationList" where
  "sample_manifest ttl = \<lparr>Published_TenantID = ''t'', Published_Issuer = ''ca'', Published_GeneratedAt = 99000000000,
     Published_NextUpdate = 99000000000 + ttl, Published_RevokedCount = 0, Published_SHA256 = hex_Encode [1],
     Published_CRLPath = path_Join [''/p'', ''t.crl.pem''], Published_ManifestPath = path_Join [''/p'', ''t.crl.json'']\<rparr>"

definition sample_manifest_enc :: "duration \<Rightarrow> PublishedRevocationList \<Rightarrow> string + byte list" where
  "sample_manifest_enc ttl m = (if m = sample_manifest ttl then Inr [2] else Inl ''unsupported'')"

lemma sample_published:
  "\<exists>fs'. PublishRevocationList sample_crl_lib id (sample_manifest_enc ttl) None
     \<lparr>po_mkdir = None, po_crl = WriteDone, po_manifest = WriteDone\<rparr> ''/p'' (sample_crl ttl) [] = (Inr (sample_manifest ttl), fs')"
proof -
  have "\<not> is_blank ''/p''" "tenantCRLFileName ''t'' = Inr ''t.crl''" by code_simp+
  moreover have "ParseRevocationListPEM sample_crl_lib [1] =
     Inr \<lparr>crl_SignatureAlgorithm = 0, crl_Revoked = [], crl_Number = 1, crl_ThisUpdate = 5, crl_NextUpdate = 100 * nsecond\<rparr>"
    by (simp add: ParseRevocationListPEM_def sample_crl_lib_def sample_x509_def check_def)
  ultimately show ?thesis
    by (simp add: PublishRevocationList_def sample_crl_def sample_manifest_enc_def sample_manifest_def WriteFile_def Let_def)
qed

end
