(* ===== verification/Ocsp.thy ===== *)
theory Ocsp
  imports Cert_Service
begin

text \<open>
  The OCSP messages of the certificate status responder: internal/cert/ocsp.go.

  encoding/asn1, ECDSA and the digests belong to the standard library; \<open>asn1_lib\<close> holds Marshal and Unmarshal
  at each of the structures the code uses, and the encoded subject and public key of a parsed certificate.
  \<open>asn1_laws\<close> states what is documented about them: Unmarshal reads back what Marshal wrote, except that a
  GeneralizedTime keeps whole seconds and that a RawValue read back carries its full encoding, and that a
  structure is encoded as a SEQUENCE with a DER length.
\<close>

section \<open>Messages\<close>

type_synonym oid = "int list"

definition OCSPSuccessful :: int where "OCSPSuccessful = 0"
definition OCSPMalformed :: int where "OCSPMalformed = 1"
definition OCSPUnauthorized :: int where "OCSPUnauthorized = 6"

definition oidSHA1 :: oid where "oidSHA1 = [1, 3, 14, 3, 2, 26]"
definition oidECDSAWithSHA256 :: oid where "oidECDSAWithSHA256 = [1, 2, 840, 10045, 4, 3, 2]"
definition oidOCSPBasicResponse :: oid where "oidOCSPBasicResponse = [1, 3, 6, 1, 5, 5, 7, 48, 1, 1]"

record raw_value =
  raw_Class :: int
  raw_Tag :: int
  raw_IsCompound :: bool
  raw_Bytes :: "byte list"
  raw_FullBytes :: "byte list"

definition no_raw :: raw_value where
  "no_raw = \<lparr>raw_Class = 0, raw_Tag = 0, raw_IsCompound = False, raw_Bytes = [], raw_FullBytes = []\<rparr>"

definition NullRawValue :: raw_value where
  "NullRawValue = no_raw\<lparr>raw_Tag := 5\<rparr>"

abbreviation ClassContextSpecific :: int where "ClassContextSpecific \<equiv> 2"

record bit_string =
  bits_Bytes :: "byte list"
  bits_BitLength :: int

definition RightAlign :: "bit_string \<Rightarrow> byte list" where
  \<comment> \<open>asn1.BitString.RightAlign\<close>
  "RightAlign b =
     (let shift = nat (8 - bits_BitLength b mod 8); bs = bits_Bytes b in
      if shift = 8 \<or> bs = [] then bs
      else drop_bit shift (hd bs) # map2 (\<lambda>p x. push_bit (8 - shift) p OR drop_bit shift x) (butlast bs) (tl bs))"

record ocspAlgorithmIdentifier =
  Alg_Algorithm :: oid
  Alg_Parameters :: raw_value

record ocspCertID =
  CertID_HashAlgorithm :: ocspAlgorithmIdentifier
  CertID_IssuerName :: "byte list"
  CertID_IssuerKey :: "byte list"
  CertID_SerialNumber :: "int option" \<comment> \<open>a pointer to a big.Int\<close>

record OCSPRequest =
  OCSPRequest_Serial :: string
  OCSPRequest_SerialNumber :: int
  OCSPRequest_certID :: ocspCertID

record ParsedOCSPResponse =
  Parsed_Status :: int
  Parsed_CertificateStatus :: string
  Parsed_Serial :: string
  Parsed_ProducedAt :: time
  Parsed_ThisUpdate :: time
  Parsed_NextUpdate :: time
  Parsed_RevokedAt :: time

record ocspRequest1 =
  Request1_ReqCert :: ocspCertID
  Request1_Extensions :: raw_value

record ocspTBSRequest =
  TBS_Version :: int
  TBS_RequestorName :: raw_value
  TBS_RequestList :: "ocspRequest1 list"
  TBS_RequestExtensions :: raw_value

record ocspResponseBytes =
  RespBytes_ResponseType :: oid
  RespBytes_Response :: "byte list"

record ocspResponseASN1 =
  Resp_Status :: int
  Resp_ResponseBytes :: raw_value

record ocspBasicResponse =
  Basic_TBSResponseData :: raw_value
  Basic_SignatureAlgorithm :: ocspAlgorithmIdentifier
  Basic_Signature :: bit_string

record ocspSingleResponse =
  Single_CertID :: ocspCertID
  Single_CertStatus :: raw_value
  Single_ThisUpdate :: time
  Single_NextUpdate :: time

record ocspResponseData =
  Data_ResponderID :: raw_value
  Data_ProducedAt :: time
  Data_Responses :: "ocspSingleResponse list"

record ocspSubjectPublicKeyInfo =
  SPKI_Algorithm :: ocspAlgorithmIdentifier
  SPKI_SubjectPublicKey :: bit_string

record asn1_lib =
  m_request :: "ocspTBSRequest \<Rightarrow> string + byte list"
  u_request :: "byte list \<Rightarrow> string + ocspTBSRequest \<times> byte list"
  m_error_response :: "int \<Rightarrow> string + byte list"
  m_success_response :: "ocspResponseASN1 \<Rightarrow> string + byte list"
  u_response :: "byte list \<Rightarrow> string + ocspResponseASN1 \<times> byte list"
  m_response_bytes :: "ocspResponseBytes \<Rightarrow> string + byte list"
  u_response_bytes :: "byte list \<Rightarrow> string + ocspResponseBytes \<times> byte list"
  m_basic :: "ocspBasicResponse \<Rightarrow> string + byte list"
  u_basic :: "byte list \<Rightarrow> string + ocspBasicResponse \<times> byte list"
  m_data :: "ocspResponseData \<Rightarrow> string + byte list"
  u_data :: "byte list \<Rightarrow> string + ocspResponseData \<times> byte list"
  m_revoked :: "time \<Rightarrow> string + byte list" \<comment> \<open>ocspRevokedInfo has one field\<close>
  u_revoked :: "byte list \<Rightarrow> string + time \<times> byte list"
  m_octets :: "byte list \<Rightarrow> string + byte list"
  u_spki :: "byte list \<Rightarrow> string + ocspSubjectPublicKeyInfo \<times> byte list"
  u_raw :: "byte list \<Rightarrow> string + raw_value \<times> byte list"
  cert_RawSubject :: "x509_cert \<Rightarrow> byte list"
  cert_RawSPKI :: "x509_cert \<Rightarrow> byte list"
  ecdsa_sign :: "nat \<Rightarrow> ec_key \<Rightarrow> byte list \<Rightarrow> string + byte list"
  ecdsa_verify :: "public_key \<Rightarrow> byte list \<Rightarrow> byte list \<Rightarrow> bool"
  sum_sha1 :: "byte list \<Rightarrow> byte list"
  sum_sha256 :: "byte list \<Rightarrow> byte list"

datatype ocsp_error =
    OCSPCertificateRequired
  | OCSPIssuerRequired
  | OCSPSerialRequired
  | OCSPRequestRequired
  | OCSPParse string
  | OCSPTrailingData
  | OCSPRequestCount
  | OCSPHashAlgorithm oid
  | OCSPIssuerHashes
  | OCSPAuthorityRequired
  | OCSPTenantRequired
  | OCSPMaxAge
  | OCSPStatus cert_error
  | OCSPEncode string
  | OCSPSignError string
  | OCSPRevokedAtRequired
  | OCSPUnknownState string
  | OCSPCertStatusClass
  | OCSPCertStatusTag int
  | OCSPNotSuccessful int
  | OCSPResponseBytesMissing
  | OCSPResponseType oid
  | OCSPSingleResponse
  | OCSPSignatureAlgorithm oid
  | OCSPIssuerKey
  | OCSPSignature

definition marshalled :: "string + byte list \<Rightarrow> ocsp_error + byte list" where
  "marshalled r = (case r of Inl e \<Rightarrow> Inl (OCSPEncode e) | Inr d \<Rightarrow> Inr d)"

definition unmarshal_all :: "string + 'a \<times> byte list \<Rightarrow> ocsp_error + 'a" where
  \<comment> \<open>asn1.Unmarshal followed by the check that nothing is left\<close>
  "unmarshal_all r =
     (case r of
        Inl e \<Rightarrow> Inl (OCSPParse e)
      | Inr (x, rest) \<Rightarrow> check (rest \<noteq> []) OCSPTrailingData (Inr x))"

section \<open>DER helpers\<close>

function der_digits :: "int \<Rightarrow> byte list \<Rightarrow> byte list" where
  \<comment> \<open>the loop of derLength, with the bytes already written\<close>
  "der_digits n buf = (if n > 0 then der_digits (n div 256) (word_of_int n # buf) else buf)"
  by pat_completeness auto
termination by (relation "measure (\<lambda>(n, _). nat n)") auto

declare der_digits.simps [simp del]

definition derLength :: "int \<Rightarrow> byte list" where
  "derLength n =
     (if n < 128 then [word_of_int n]
      else let buf = der_digits n [] in (128 OR word_of_int (int (length buf))) # buf)"

definition wrapASN1Sequence :: "byte list \<Rightarrow> byte list" where
  "wrapASN1Sequence content = (48 # derLength (int (length content))) @ content"

definition asn1Content :: "asn1_lib \<Rightarrow> byte list \<Rightarrow> ocsp_error + byte list" where
  "asn1Content A der = bind (unmarshal_all (u_raw A der)) (\<lambda>raw. Inr (raw_Bytes raw))"

section \<open>Certificate identifiers\<close>

definition issuerPublicKeyBytes :: "asn1_lib \<Rightarrow> x509_cert \<Rightarrow> ocsp_error + byte list" where
  "issuerPublicKeyBytes A issuer =
     (case u_spki A (cert_RawSPKI A issuer) of
        Inl e \<Rightarrow> Inl (OCSPParse e)
      | Inr (spki, _) \<Rightarrow> Inr (RightAlign (SPKI_SubjectPublicKey spki)))"

definition newOCSPCertID :: "asn1_lib \<Rightarrow> x509_cert option \<Rightarrow> int option \<Rightarrow> ocsp_error + ocspCertID" where
  "newOCSPCertID A issuer serial =
     (case issuer of None \<Rightarrow> Inl OCSPIssuerRequired | Some issuer \<Rightarrow>
     (case serial of None \<Rightarrow> Inl OCSPSerialRequired | Some serial \<Rightarrow>
      let nameHash = sum_sha1 A (cert_RawSubject A issuer) in
      bind (issuerPublicKeyBytes A issuer) (\<lambda>keyBytes.
      let keyHash = sum_sha1 A keyBytes in
      Inr \<lparr>CertID_HashAlgorithm = \<lparr>Alg_Algorithm = oidSHA1, Alg_Parameters = NullRawValue\<rparr>,
           CertID_IssuerName = nameHash, CertID_IssuerKey = keyHash, CertID_SerialNumber = Some serial\<rparr>)))"

definition newOCSPResponderIDByKey :: "asn1_lib \<Rightarrow> x509_cert \<Rightarrow> ocsp_error + raw_value" where
  "newOCSPResponderIDByKey A issuer =
     bind (issuerPublicKeyBytes A issuer) (\<lambda>keyBytes.
     bind (marshalled (m_octets A (sum_sha1 A keyBytes))) (\<lambda>keyHashDER.
     Inr \<lparr>raw_Class = ClassContextSpecific, raw_Tag = 2, raw_IsCompound = True, raw_Bytes = keyHashDER, raw_FullBytes = []\<rparr>))"

definition sameOCSPCertIssuer :: "ocspCertID \<Rightarrow> ocspCertID \<Rightarrow> bool" where
  "sameOCSPCertIssuer a b \<longleftrightarrow>
     Alg_Algorithm (CertID_HashAlgorithm a) = Alg_Algorithm (CertID_HashAlgorithm b) \<and>
     CertID_IssuerName a = CertID_IssuerName b \<and> CertID_IssuerKey a = CertID_IssuerKey b"

section \<open>Requests\<close>

definition NewOCSPRequest :: "asn1_lib \<Rightarrow> x509_cert option \<Rightarrow> x509_cert option \<Rightarrow> ocsp_error + byte list" where
  "NewOCSPRequest A certificate issuer =
     (case certificate of None \<Rightarrow> Inl OCSPCertificateRequired | Some certificate \<Rightarrow>
      check (issuer = None) OCSPIssuerRequired (
      bind (newOCSPCertID A issuer (Some (x_SerialNumber certificate))) (\<lambda>certID.
      marshalled (m_request A \<lparr>TBS_Version = 0, TBS_RequestorName = no_raw,
        TBS_RequestList = [\<lparr>Request1_ReqCert = certID, Request1_Extensions = no_raw\<rparr>], TBS_RequestExtensions = no_raw\<rparr>))))"

definition ParseOCSPRequestDER :: "asn1_lib \<Rightarrow> byte list \<Rightarrow> ocsp_error + OCSPRequest" where
  "ParseOCSPRequestDER A der =
     check (der = []) OCSPRequestRequired (
     bind (unmarshal_all (u_request A der)) (\<lambda>parsed.
     case TBS_RequestList parsed of
       [request] \<Rightarrow>
         let certID = Request1_ReqCert request in
         (case CertID_SerialNumber certID of
            None \<Rightarrow> Inl OCSPSerialRequired
          | Some serial \<Rightarrow>
              check (Alg_Algorithm (CertID_HashAlgorithm certID) \<noteq> oidSHA1)
                (OCSPHashAlgorithm (Alg_Algorithm (CertID_HashAlgorithm certID))) (
              check (CertID_IssuerName certID = [] \<or> CertID_IssuerKey certID = []) OCSPIssuerHashes (
              Inr \<lparr>OCSPRequest_Serial = Itoa serial, OCSPRequest_SerialNumber = serial, OCSPRequest_certID = certID\<rparr>)))
     | _ \<Rightarrow> Inl OCSPRequestCount))"

section \<open>Responses\<close>

definition NewOCSPErrorResponse :: "asn1_lib \<Rightarrow> int \<Rightarrow> ocsp_error + byte list" where
  "NewOCSPErrorResponse A status = marshalled (m_error_response A status)"

definition newOCSPCertStatus :: "asn1_lib \<Rightarrow> CertificateStatus \<Rightarrow> ocsp_error + raw_value" where
  "newOCSPCertStatus A status =
     (if Status_State status = CertificateRevoked then
        check (IsZero (Status_RevokedAt status)) OCSPRevokedAtRequired (
        bind (marshalled (m_revoked A (Status_RevokedAt status))) (\<lambda>revokedDER.
        bind (asn1Content A revokedDER) (\<lambda>content.
        Inr \<lparr>raw_Class = ClassContextSpecific, raw_Tag = 1, raw_IsCompound = True, raw_Bytes = content, raw_FullBytes = []\<rparr>)))
      else if Status_State status = CertificateUnknown then Inr (no_raw\<lparr>raw_Class := ClassContextSpecific, raw_Tag := 2\<rparr>)
      else if Status_State status \<in> {CertificateGood, CertificateExpired, CertificateNotYetValid}
      then Inr (no_raw\<lparr>raw_Class := ClassContextSpecific, raw_Tag := 0\<rparr>)
      else Inl (OCSPUnknownState (Status_State status)))"

definition signed_response :: "asn1_lib \<Rightarrow> nat \<Rightarrow> ec_key \<Rightarrow> byte list \<Rightarrow> ocsp_error + byte list" where
  \<comment> \<open>the end of newOCSPSuccessResponse: sign the encoded response data and wrap it; \<open>seed\<close> is the randomness of the signature\<close>
  "signed_response A seed key tbsDER =
     (case ecdsa_sign A seed key (sum_sha256 A tbsDER) of
        Inl e \<Rightarrow> Inl (OCSPSignError e)
      | Inr signature \<Rightarrow>
          bind (marshalled (m_basic A \<lparr>Basic_TBSResponseData = no_raw\<lparr>raw_FullBytes := tbsDER\<rparr>,
            Basic_SignatureAlgorithm = \<lparr>Alg_Algorithm = oidECDSAWithSHA256, Alg_Parameters = no_raw\<rparr>,
            Basic_Signature = \<lparr>bits_Bytes = signature, bits_BitLength = int (length signature) * 8\<rparr>\<rparr>)) (\<lambda>basicDER.
          bind (marshalled (m_response_bytes A \<lparr>RespBytes_ResponseType = oidOCSPBasicResponse, RespBytes_Response = basicDER\<rparr>))
            (\<lambda>responseBytesDER.
          marshalled (m_success_response A \<lparr>Resp_Status = OCSPSuccessful,
            Resp_ResponseBytes = \<lparr>raw_Class = ClassContextSpecific, raw_Tag = 0, raw_IsCompound = True,
              raw_Bytes = responseBytesDER, raw_FullBytes = []\<rparr>\<rparr>))))"

definition newOCSPSuccessResponse ::
  "asn1_lib \<Rightarrow> nat \<Rightarrow> ocspCertID \<Rightarrow> CertificateStatus \<Rightarrow> x509_cert \<Rightarrow> ec_key \<Rightarrow> time \<Rightarrow> time \<Rightarrow> ocsp_error + byte list" where
  \<comment> \<open>the certificate and key of an authority are never nil\<close>
  "newOCSPSuccessResponse A seed certID status issuer key producedAt nextUpdate =
     bind (newOCSPCertStatus A status) (\<lambda>certStatus.
     bind (newOCSPResponderIDByKey A issuer) (\<lambda>responderID.
     bind (marshalled (m_data A \<lparr>Data_ResponderID = responderID, Data_ProducedAt = producedAt,
       Data_Responses = [\<lparr>Single_CertID = certID, Single_CertStatus = certStatus, Single_ThisUpdate = producedAt,
         Single_NextUpdate = nextUpdate\<rparr>]\<rparr>)) (signed_response A seed key)))"

definition RespondOCSPDER :: "asn1_lib \<Rightarrow> nat \<Rightarrow> time \<Rightarrow> StatusResponder \<Rightarrow> string \<Rightarrow> byte list \<Rightarrow> time \<Rightarrow> ocsp_error + byte list" where
  "RespondOCSPDER A seed clock r tenantID requestDER now =
     (case responder_authority r of
        None \<Rightarrow> Inl OCSPAuthorityRequired
      | Some authority \<Rightarrow>
          let tenantID = TrimSpace tenantID in
          check (tenantID = []) OCSPTenantRequired (
          check (responder_maxAge r < nsecond \<or> responder_maxAge r mod nsecond \<noteq> 0) OCSPMaxAge (
          let now = (if IsZero now then clock else now) in
          case ParseOCSPRequestDER A requestDER of
            Inl _ \<Rightarrow> NewOCSPErrorResponse A OCSPMalformed
          | Inr request \<Rightarrow>
              let issuer = ca_cert authority; key = ca_key authority in
              bind (newOCSPCertID A (Some issuer) (Some (OCSPRequest_SerialNumber request))) (\<lambda>expectedCertID.
              if \<not> sameOCSPCertIssuer (OCSPRequest_certID request) expectedCertID then NewOCSPErrorResponse A OCSPUnauthorized
              else (case Authority_CertificateStatus clock tenantID (OCSPRequest_Serial request) now authority of
                      Inl e \<Rightarrow> Inl (OCSPStatus e)
                    | Inr status \<Rightarrow>
                        newOCSPSuccessResponse A seed (OCSPRequest_certID request) status issuer key now (now + responder_maxAge r))))))"

datatype ocsp_body = OCSPReadError string | OCSPErrorBody ocsp_error | OCSPResponseBody "byte list"

definition ServeOCSPHTTP ::
  "asn1_lib \<Rightarrow> nat \<Rightarrow> string option \<Rightarrow> time \<Rightarrow> time \<Rightarrow> StatusResponder \<Rightarrow> string \<Rightarrow> http_request \<Rightarrow> ocsp_body http_response" where
  \<comment> \<open>\<open>read_err\<close> is an error of reading the request body, \<open>now\<close> the responder's clock\<close>
  "ServeOCSPHTTP A seed read_err clock now r tenantID req =
     (if rq_Method req \<noteq> MethodPost then (WriteHeader StatusMethodNotAllowed)\<lparr>rs_Header := [(''Allow'', ''POST'')]\<rparr>
      else case read_err of
        Some e \<Rightarrow> json_response StatusBadRequest (OCSPReadError e)
      | None \<Rightarrow>
          (case RespondOCSPDER A seed clock r tenantID (rq_Body req) now of
             Inl e \<Rightarrow> json_response StatusBadRequest (OCSPErrorBody e)
           | Inr responseDER \<Rightarrow>
               \<lparr>rs_Status = StatusOK,
                rs_Header = [(''Content-Type'', ''application/ocsp-response''),
                             (''Cache-Control'', ''max-age='' @ Itoa (responder_maxAge r div nsecond))],
                rs_Body = Some (OCSPResponseBody responseDER)\<rparr>))"

section \<open>Reading responses\<close>

definition parseOCSPCertStatus :: "asn1_lib \<Rightarrow> raw_value \<Rightarrow> ocsp_error + string \<times> time" where
  "parseOCSPCertStatus A raw =
     check (raw_Class raw \<noteq> ClassContextSpecific) OCSPCertStatusClass (
     if raw_Tag raw = 0 then Inr (CertificateGood, 0)
     else if raw_Tag raw = 1 then
       (case u_revoked A (wrapASN1Sequence (raw_Bytes raw)) of
          Inl e \<Rightarrow> Inl (OCSPParse e)
        | Inr (revoked, _) \<Rightarrow> Inr (CertificateRevoked, revoked))
     else if raw_Tag raw = 2 then Inr (CertificateUnknown, 0)
     else Inl (OCSPCertStatusTag (raw_Tag raw)))"

definition parseOCSPResponseBytes :: "asn1_lib \<Rightarrow> raw_value \<Rightarrow> ocsp_error + ocspResponseBytes" where
  "parseOCSPResponseBytes A raw =
     check (raw_Class raw \<noteq> ClassContextSpecific \<or> raw_Tag raw \<noteq> 0 \<or> \<not> raw_IsCompound raw) OCSPResponseBytesMissing (
     bind (unmarshal_all (u_response_bytes A (raw_Bytes raw))) (\<lambda>responseBytes.
     check (RespBytes_ResponseType responseBytes \<noteq> oidOCSPBasicResponse) (OCSPResponseType (RespBytes_ResponseType responseBytes)) (
     Inr responseBytes)))"

definition parseOCSPBasicResponse :: "asn1_lib \<Rightarrow> byte list \<Rightarrow> ocsp_error + ocspBasicResponse" where
  "parseOCSPBasicResponse A der = unmarshal_all (u_basic A der)"

definition parseOCSPResponseData :: "asn1_lib \<Rightarrow> raw_value \<Rightarrow> ocsp_error + ocspResponseData" where
  "parseOCSPResponseData A raw = unmarshal_all (u_data A (raw_FullBytes raw))"

definition ParseOCSPResponseDER :: "asn1_lib \<Rightarrow> byte list \<Rightarrow> ocsp_error + ParsedOCSPResponse" where
  "ParseOCSPResponseDER A der =
     bind (unmarshal_all (u_response A der)) (\<lambda>response.
     let parsed = \<lparr>Parsed_Status = Resp_Status response, Parsed_CertificateStatus = [], Parsed_Serial = [], Parsed_ProducedAt = 0,
                   Parsed_ThisUpdate = 0, Parsed_NextUpdate = 0, Parsed_RevokedAt = 0\<rparr> in
     if Parsed_Status parsed \<noteq> OCSPSuccessful then Inr parsed
     else
       bind (parseOCSPResponseBytes A (Resp_ResponseBytes response)) (\<lambda>responseBytes.
       bind (parseOCSPBasicResponse A (RespBytes_Response responseBytes)) (\<lambda>basic.
       bind (parseOCSPResponseData A (Basic_TBSResponseData basic)) (\<lambda>data.
       case Data_Responses data of
         [single] \<Rightarrow>
           bind (parseOCSPCertStatus A (Single_CertStatus single)) (\<lambda>(certificateStatus, revokedAt).
           Inr (parsed\<lparr>Parsed_CertificateStatus := certificateStatus,
             Parsed_Serial := (case CertID_SerialNumber (Single_CertID single) of None \<Rightarrow> ''<nil>'' | Some serial \<Rightarrow> Itoa serial),
             Parsed_ProducedAt := Data_ProducedAt data, Parsed_ThisUpdate := Single_ThisUpdate single,
             Parsed_NextUpdate := Single_NextUpdate single, Parsed_RevokedAt := revokedAt\<rparr>))
       | _ \<Rightarrow> Inl OCSPSingleResponse))))"

definition parseSuccessfulOCSPResponseBytes :: "asn1_lib \<Rightarrow> byte list \<Rightarrow> ocsp_error + ocspResponseBytes" where
  "parseSuccessfulOCSPResponseBytes A der =
     bind (unmarshal_all (u_response A der)) (\<lambda>response.
     check (Resp_Status response \<noteq> OCSPSuccessful) (OCSPNotSuccessful (Resp_Status response)) (
     parseOCSPResponseBytes A (Resp_ResponseBytes response)))"

definition VerifyOCSPResponseSignature :: "asn1_lib \<Rightarrow> byte list \<Rightarrow> x509_cert option \<Rightarrow> ocsp_error + unit" where
  "VerifyOCSPResponseSignature A der issuer =
     (case issuer of
        None \<Rightarrow> Inl OCSPIssuerRequired
      | Some issuer \<Rightarrow>
          bind (parseSuccessfulOCSPResponseBytes A der) (\<lambda>responseBytes.
          bind (parseOCSPBasicResponse A (RespBytes_Response responseBytes)) (\<lambda>basic.
          check (Alg_Algorithm (Basic_SignatureAlgorithm basic) \<noteq> oidECDSAWithSHA256)
            (OCSPSignatureAlgorithm (Alg_Algorithm (Basic_SignatureAlgorithm basic))) (
          case x_PublicKey issuer of
            OtherPublic \<Rightarrow> Inl OCSPIssuerKey
          | ECPublic x y \<Rightarrow>
              check (\<not> ecdsa_verify A (ECPublic x y) (sum_sha256 A (raw_FullBytes (Basic_TBSResponseData basic)))
                       (RightAlign (Basic_Signature basic))) OCSPSignature (Inr ())))))"

section \<open>DER lengths\<close>

fun be_bytes :: "nat \<Rightarrow> byte list" where
  \<comment> \<open>the shortest big-endian representation of a number\<close>
  "be_bytes n = (if n = 0 then [] else be_bytes (n div 256) @ [word_of_nat n])"

declare be_bytes.simps [simp del]

definition der_length :: "nat \<Rightarrow> byte list" where
  \<comment> \<open>X.690: one byte below 128, else the number of length bytes with the top bit set, and the length bytes\<close>
  "der_length n = (if n < 128 then [word_of_nat n] else word_of_nat (128 + length (be_bytes n)) # be_bytes n)"

lemma der_digits_be_bytes: "der_digits (int n) buf = be_bytes n @ buf"
proof (induction n arbitrary: buf rule: less_induct)
  case (less n)
  show ?case
  proof (cases "n = 0")
    case False
    then have "der_digits (int n div 256) b = be_bytes (n div 256) @ b" for b
      using less.IH [of "n div 256"] by (simp add: zdiv_int)
    with False show ?thesis
      by (subst der_digits.simps, subst be_bytes.simps) simp
  qed (simp add: der_digits.simps be_bytes.simps)
qed

lemma length_be_bytes: "n < 256 ^ k \<Longrightarrow> length (be_bytes n) \<le> k"
proof (induction k arbitrary: n)
  case (Suc k)
  then have "n div 256 < 256 ^ k" by (simp add: less_mult_imp_div_less)
  with Suc.IH have "length (be_bytes (n div 256)) \<le> k" .
  then show ?case by (subst be_bytes.simps) simp
qed (simp add: be_bytes.simps)

lemma or_128: "k \<le> 8 \<Longrightarrow> 128 OR word_of_int (int k) = (word_of_nat (128 + k) :: byte)"
proof -
  assume "k \<le> 8"
  then have "k = 0 \<or> k = 1 \<or> k = 2 \<or> k = 3 \<or> k = 4 \<or> k = 5 \<or> k = 6 \<or> k = 7 \<or> k = 8" by linarith
  then show ?thesis by (elim disjE) simp_all
qed

lemma derLength_der: "n < 2 ^ 63 \<Longrightarrow> derLength (int n) = der_length n"
  using length_be_bytes [of n 8] or_128 [of "length (be_bytes n)"]
  by (auto simp: derLength_def der_length_def der_digits_be_bytes Let_def)

section \<open>What is relied on of the ASN.1 library\<close>

definition raw_same :: "raw_value \<Rightarrow> raw_value \<Rightarrow> bool" where
  "raw_same r r' \<longleftrightarrow> raw_Class r = raw_Class r' \<and> raw_Tag r = raw_Tag r' \<and> raw_IsCompound r = raw_IsCompound r' \<and> raw_Bytes r = raw_Bytes r'"

definition certid_same :: "ocspCertID \<Rightarrow> ocspCertID \<Rightarrow> bool" where
  "certid_same a b \<longleftrightarrow> Alg_Algorithm (CertID_HashAlgorithm a) = Alg_Algorithm (CertID_HashAlgorithm b) \<and>
     CertID_IssuerName a = CertID_IssuerName b \<and> CertID_IssuerKey a = CertID_IssuerKey b \<and> CertID_SerialNumber a = CertID_SerialNumber b"

definition single_same :: "ocspSingleResponse \<Rightarrow> ocspSingleResponse \<Rightarrow> bool" where
  "single_same a b \<longleftrightarrow> certid_same (Single_CertID a) (Single_CertID b) \<and> raw_same (Single_CertStatus a) (Single_CertStatus b) \<and>
     Single_ThisUpdate b = to_seconds (Single_ThisUpdate a) \<and> Single_NextUpdate b = to_seconds (Single_NextUpdate a)"

definition request_laws :: "asn1_lib \<Rightarrow> bool" where
  "request_laws A \<longleftrightarrow>
     (\<forall>x d. m_request A x = Inr d \<longrightarrow> d \<noteq> [] \<and> (\<exists>y. u_request A d = Inr (y, []) \<and>
        list_all2 (\<lambda>a b. certid_same (Request1_ReqCert a) (Request1_ReqCert b)) (TBS_RequestList x) (TBS_RequestList y)))"

definition response_laws :: "asn1_lib \<Rightarrow> bool" where
  "response_laws A \<longleftrightarrow>
     (\<forall>s d. m_error_response A s = Inr d \<longrightarrow> (\<exists>y. u_response A d = Inr (y, []) \<and> Resp_Status y = s)) \<and>
     (\<forall>x d. m_success_response A x = Inr d \<longrightarrow> (\<exists>y. u_response A d = Inr (y, []) \<and> Resp_Status y = Resp_Status x \<and>
        raw_same (Resp_ResponseBytes x) (Resp_ResponseBytes y))) \<and>
     (\<forall>x d. m_response_bytes A x = Inr d \<longrightarrow> u_response_bytes A d = Inr (x, [])) \<and>
     (\<forall>x d data. m_basic A x = Inr d \<and> m_data A data = Inr (raw_FullBytes (Basic_TBSResponseData x)) \<longrightarrow>
        (\<exists>y. u_basic A d = Inr (y, []) \<and> raw_FullBytes (Basic_TBSResponseData y) = raw_FullBytes (Basic_TBSResponseData x) \<and>
           Alg_Algorithm (Basic_SignatureAlgorithm y) = Alg_Algorithm (Basic_SignatureAlgorithm x) \<and> Basic_Signature y = Basic_Signature x)) \<and>
     (\<forall>x d. m_data A x = Inr d \<longrightarrow> (\<exists>y. u_data A d = Inr (y, []) \<and> Data_ProducedAt y = to_seconds (Data_ProducedAt x) \<and>
        list_all2 single_same (Data_Responses x) (Data_Responses y)))"

definition revoked_laws :: "asn1_lib \<Rightarrow> bool" where
  "revoked_laws A \<longleftrightarrow>
     (\<forall>t d. m_revoked A t = Inr d \<longrightarrow> u_revoked A d = Inr (to_seconds t, []) \<and>
        (\<exists>content raw. length content < 2 ^ 63 \<and> d = 48 # der_length (length content) @ content \<and>
           u_raw A d = Inr (raw, []) \<and> raw_Bytes raw = content))"

definition asn1_laws :: "asn1_lib \<Rightarrow> bool" where
  "asn1_laws A \<longleftrightarrow> request_laws A \<and> response_laws A \<and> revoked_laws A \<and>
     (\<forall>bs. sum_sha1 A bs \<noteq> []) \<and>
     (\<forall>seed key digest sig. ecdsa_sign A seed key digest = Inr sig \<longrightarrow> ecdsa_verify A (ec_public key) digest sig)"

section \<open>Responses read back\<close>

lemma unmarshal_all_simps [simp]: "unmarshal_all (Inr (x, [])) = Inr x" "unmarshal_all (Inl e) = Inl (OCSPParse e)"
  by (simp_all add: unmarshal_all_def check_def)

lemma marshalled_iff [simp]: "marshalled r = Inr d \<longleftrightarrow> r = Inr d"
  by (simp add: marshalled_def split: sum.splits)

lemma RightAlign_bytes [simp]: "RightAlign \<lparr>bits_Bytes = bs, bits_BitLength = int (length bs) * 8\<rparr> = bs"
  by (simp add: RightAlign_def)

lemma bind_InrE:
  assumes "bind r f = Inr x"
  obtains y where "r = Inr y" "f y = Inr x"
  using assms by (cases r) (auto simp: bind_def)

lemma cert_status_roundtrip:
  assumes laws: "revoked_laws A" and raw: "newOCSPCertStatus A st = Inr raw" and same: "raw_same raw raw'"
  shows "parseOCSPCertStatus A raw' = Inr
     (if Status_State st = CertificateRevoked then (CertificateRevoked, to_seconds (Status_RevokedAt st))
      else if Status_State st = CertificateUnknown then (CertificateUnknown, 0) else (CertificateGood, 0))"
proof (cases "Status_State st = CertificateRevoked")
  case True
  then obtain d content where d: "m_revoked A (Status_RevokedAt st) = Inr d" "asn1Content A d = Inr content"
    and r: "raw = \<lparr>raw_Class = ClassContextSpecific, raw_Tag = 1, raw_IsCompound = True, raw_Bytes = content, raw_FullBytes = []\<rparr>"
    using raw by (auto simp: newOCSPCertStatus_def check_def split: if_splits elim!: bind_InrE)
  then obtain content' rw where "u_revoked A d = Inr (to_seconds (Status_RevokedAt st), [])" "length content' < 2 ^ 63"
    "d = 48 # der_length (length content') @ content'" "u_raw A d = Inr (rw, [])" "raw_Bytes rw = content'"
    using laws unfolding revoked_laws_def by blast
  moreover from this d(2) have "content' = content" by (simp add: asn1Content_def bind_def)
  ultimately have "u_revoked A (wrapASN1Sequence content) = Inr (to_seconds (Status_RevokedAt st), [])"
    by (simp add: wrapASN1Sequence_def derLength_der)
  with True r same show ?thesis by (simp add: parseOCSPCertStatus_def raw_same_def check_def)
next
  case False
  with raw same show ?thesis
    by (auto simp: newOCSPCertStatus_def parseOCSPCertStatus_def raw_same_def check_def no_raw_def split: if_splits)
qed

lemma response_lawsD:
  assumes "response_laws A"
  shows "m_success_response A x1 = Inr d \<Longrightarrow> \<exists>y. u_response A d = Inr (y, []) \<and> Resp_Status y = Resp_Status x1 \<and>
      raw_same (Resp_ResponseBytes x1) (Resp_ResponseBytes y)"
    and "m_response_bytes A x2 = Inr d \<Longrightarrow> u_response_bytes A d = Inr (x2, [])"
    and "m_basic A x3 = Inr d \<Longrightarrow> m_data A dt = Inr (raw_FullBytes (Basic_TBSResponseData x3)) \<Longrightarrow>
      \<exists>y. u_basic A d = Inr (y, []) \<and> raw_FullBytes (Basic_TBSResponseData y) = raw_FullBytes (Basic_TBSResponseData x3) \<and>
        Alg_Algorithm (Basic_SignatureAlgorithm y) = Alg_Algorithm (Basic_SignatureAlgorithm x3) \<and> Basic_Signature y = Basic_Signature x3"
    and "m_data A x4 = Inr d \<Longrightarrow> \<exists>y. u_data A d = Inr (y, []) \<and> Data_ProducedAt y = to_seconds (Data_ProducedAt x4) \<and>
      list_all2 single_same (Data_Responses x4) (Data_Responses y)"
  using assms unfolding response_laws_def by blast+

lemma success_response_read:
  assumes laws: "asn1_laws A" and key: "x_PublicKey issuer = ec_public key"
    and resp: "newOCSPSuccessResponse A seed certID st issuer key t1 t2 = Inr der"
  shows "\<exists>p. ParseOCSPResponseDER A der = Inr p \<and> Parsed_Status p = OCSPSuccessful \<and>
           Parsed_Serial p = (case CertID_SerialNumber certID of None \<Rightarrow> ''<nil>'' | Some serial \<Rightarrow> Itoa serial) \<and>
           (Parsed_CertificateStatus p, Parsed_RevokedAt p) =
             (if Status_State st = CertificateRevoked then (CertificateRevoked, to_seconds (Status_RevokedAt st))
              else if Status_State st = CertificateUnknown then (CertificateUnknown, 0) else (CertificateGood, 0)) \<and>
           Parsed_ThisUpdate p = to_seconds t1 \<and> Parsed_NextUpdate p = to_seconds t2"
    and "VerifyOCSPResponseSignature A der (Some issuer) = Inr ()"
proof -
  obtain certStatus where cs: "newOCSPCertStatus A st = Inr certStatus" and resp1: "bind (newOCSPResponderIDByKey A issuer) (\<lambda>responderID.
     bind (marshalled (m_data A \<lparr>Data_ResponderID = responderID, Data_ProducedAt = t1,
       Data_Responses = [\<lparr>Single_CertID = certID, Single_CertStatus = certStatus, Single_ThisUpdate = t1, Single_NextUpdate = t2\<rparr>]\<rparr>))
     (signed_response A seed key)) = Inr der"
    using resp unfolding newOCSPSuccessResponse_def by (rule bind_InrE)
  obtain responderID tbsDER where
    dt: "m_data A \<lparr>Data_ResponderID = responderID, Data_ProducedAt = t1,
       Data_Responses = [\<lparr>Single_CertID = certID, Single_CertStatus = certStatus, Single_ThisUpdate = t1, Single_NextUpdate = t2\<rparr>]\<rparr> = Inr tbsDER"
    and resp2: "signed_response A seed key tbsDER = Inr der"
    using resp1 unfolding marshalled_iff [symmetric] by (elim bind_InrE) blast
  obtain sig where sig: "ecdsa_sign A seed key (sum_sha256 A tbsDER) = Inr sig"
    using resp2 by (cases "ecdsa_sign A seed key (sum_sha256 A tbsDER)") (simp_all add: signed_response_def)
  obtain basicDER rbDER where
    ba: "m_basic A \<lparr>Basic_TBSResponseData = no_raw\<lparr>raw_FullBytes := tbsDER\<rparr>,
           Basic_SignatureAlgorithm = \<lparr>Alg_Algorithm = oidECDSAWithSHA256, Alg_Parameters = no_raw\<rparr>,
           Basic_Signature = \<lparr>bits_Bytes = sig, bits_BitLength = int (length sig) * 8\<rparr>\<rparr> = Inr basicDER" and
    rb: "m_response_bytes A \<lparr>RespBytes_ResponseType = oidOCSPBasicResponse, RespBytes_Response = basicDER\<rparr> = Inr rbDER" and
    su: "m_success_response A \<lparr>Resp_Status = OCSPSuccessful,
           Resp_ResponseBytes = \<lparr>raw_Class = ClassContextSpecific, raw_Tag = 0, raw_IsCompound = True,
             raw_Bytes = rbDER, raw_FullBytes = []\<rparr>\<rparr> = Inr der"
    using resp2 unfolding signed_response_def sig sum.case marshalled_iff [symmetric] by (elim bind_InrE) blast
  have L: "response_laws A" "revoked_laws A" using laws by (simp_all add: asn1_laws_def)
  obtain y1 where y1: "u_response A der = Inr (y1, [])" "Resp_Status y1 = OCSPSuccessful"
    "raw_same \<lparr>raw_Class = ClassContextSpecific, raw_Tag = 0, raw_IsCompound = True, raw_Bytes = rbDER, raw_FullBytes = []\<rparr> (Resp_ResponseBytes y1)"
    using response_lawsD(1) [OF L(1) su] by auto
  have y2: "u_response_bytes A rbDER = Inr (\<lparr>RespBytes_ResponseType = oidOCSPBasicResponse, RespBytes_Response = basicDER\<rparr>, [])"
    by (rule response_lawsD(2) [OF L(1) rb])
  obtain y3 where y3: "u_basic A basicDER = Inr (y3, [])" "raw_FullBytes (Basic_TBSResponseData y3) = tbsDER"
    "Alg_Algorithm (Basic_SignatureAlgorithm y3) = oidECDSAWithSHA256"
    "Basic_Signature y3 = \<lparr>bits_Bytes = sig, bits_BitLength = int (length sig) * 8\<rparr>"
    using response_lawsD(3) [OF L(1) ba, of "\<lparr>Data_ResponderID = responderID, Data_ProducedAt = t1,
       Data_Responses = [\<lparr>Single_CertID = certID, Single_CertStatus = certStatus, Single_ThisUpdate = t1, Single_NextUpdate = t2\<rparr>]\<rparr>"] dt
    by auto
  obtain y4 where y4: "u_data A tbsDER = Inr (y4, [])"
    "list_all2 single_same [\<lparr>Single_CertID = certID, Single_CertStatus = certStatus, Single_ThisUpdate = t1, Single_NextUpdate = t2\<rparr>] (Data_Responses y4)"
    using response_lawsD(4) [OF L(1) dt] by auto
  then obtain si where si: "Data_Responses y4 = [si]" "certid_same certID (Single_CertID si)" "raw_same certStatus (Single_CertStatus si)"
    "Single_ThisUpdate si = to_seconds t1" "Single_NextUpdate si = to_seconds t2"
    by (auto simp: list_all2_Cons1 single_same_def)
  have bytes: "parseOCSPResponseBytes A (Resp_ResponseBytes y1) = Inr \<lparr>RespBytes_ResponseType = oidOCSPBasicResponse, RespBytes_Response = basicDER\<rparr>"
    using y1(3) y2 by (auto simp: parseOCSPResponseBytes_def raw_same_def check_def bind_def)
  note st = cert_status_roundtrip [OF L(2) cs si(3)]
  show "\<exists>p. ParseOCSPResponseDER A der = Inr p \<and> Parsed_Status p = OCSPSuccessful \<and>
           Parsed_Serial p = (case CertID_SerialNumber certID of None \<Rightarrow> ''<nil>'' | Some serial \<Rightarrow> Itoa serial) \<and>
           (Parsed_CertificateStatus p, Parsed_RevokedAt p) =
             (if Status_State st = CertificateRevoked then (CertificateRevoked, to_seconds (Status_RevokedAt st))
              else if Status_State st = CertificateUnknown then (CertificateUnknown, 0) else (CertificateGood, 0)) \<and>
           Parsed_ThisUpdate p = to_seconds t1 \<and> Parsed_NextUpdate p = to_seconds t2"
    using y1(1,2) bytes y3(1,2) y4(1) si(1,2,4,5) st
    by (auto simp: ParseOCSPResponseDER_def parseOCSPBasicResponse_def parseOCSPResponseData_def bind_def certid_same_def Let_def)
  have "ecdsa_verify A (ec_public key) (sum_sha256 A tbsDER) sig" using laws sig unfolding asn1_laws_def by blast
  then show "VerifyOCSPResponseSignature A der (Some issuer) = Inr ()"
    using y1(1,2) bytes y3 key
    by (simp add: VerifyOCSPResponseSignature_def parseSuccessfulOCSPResponseBytes_def parseOCSPBasicResponse_def bind_def check_def)
qed

lemma request_read:
  assumes laws: "asn1_laws A" and req: "NewOCSPRequest A (Some c) (Some issuer) = Inr req"
  obtains certID request where "newOCSPCertID A (Some issuer) (Some (x_SerialNumber c)) = Inr certID"
    "ParseOCSPRequestDER A req = Inr request" "OCSPRequest_Serial request = Itoa (x_SerialNumber c)"
    "OCSPRequest_SerialNumber request = x_SerialNumber c" "certid_same certID (OCSPRequest_certID request)"
    "CertID_SerialNumber certID = Some (x_SerialNumber c)"
proof -
  obtain certID where id: "newOCSPCertID A (Some issuer) (Some (x_SerialNumber c)) = Inr certID"
    and m: "m_request A \<lparr>TBS_Version = 0, TBS_RequestorName = no_raw,
        TBS_RequestList = [\<lparr>Request1_ReqCert = certID, Request1_Extensions = no_raw\<rparr>], TBS_RequestExtensions = no_raw\<rparr> = Inr req"
    using req by (auto simp: NewOCSPRequest_def check_def elim!: bind_InrE)
  have fields: "CertID_SerialNumber certID = Some (x_SerialNumber c)" "Alg_Algorithm (CertID_HashAlgorithm certID) = oidSHA1"
    "CertID_IssuerName certID \<noteq> []" "CertID_IssuerKey certID \<noteq> []"
    using id laws by (auto simp: newOCSPCertID_def asn1_laws_def Let_def elim!: bind_InrE)
  have "request_laws A" using laws by (simp add: asn1_laws_def)
  with m obtain y where "req \<noteq> []" "u_request A req = Inr (y, [])"
    "list_all2 (\<lambda>a b. certid_same (Request1_ReqCert a) (Request1_ReqCert b)) [\<lparr>Request1_ReqCert = certID, Request1_Extensions = no_raw\<rparr>] (TBS_RequestList y)"
    unfolding request_laws_def by fastforce
  moreover from this(3) obtain q where "TBS_RequestList y = [q]" "certid_same certID (Request1_ReqCert q)"
    by (auto simp: list_all2_Cons1)
  moreover from this(2) fields have "Alg_Algorithm (CertID_HashAlgorithm (Request1_ReqCert q)) = oidSHA1"
    "CertID_SerialNumber (Request1_ReqCert q) = Some (x_SerialNumber c)"
    "CertID_IssuerName (Request1_ReqCert q) \<noteq> []" "CertID_IssuerKey (Request1_ReqCert q) \<noteq> []"
    by (simp_all add: certid_same_def)
  ultimately have "ParseOCSPRequestDER A req = Inr \<lparr>OCSPRequest_Serial = Itoa (x_SerialNumber c),
      OCSPRequest_SerialNumber = x_SerialNumber c, OCSPRequest_certID = Request1_ReqCert q\<rparr>" "certid_same certID (Request1_ReqCert q)"
    by (simp_all add: ParseOCSPRequestDER_def check_def bind_def Let_def)
  with id fields show ?thesis by (intro that) auto
qed

text \<open>
  C33: The answer of the responder to the OCSP request for a certificate is read by a client as the status
  the authority has for the certificate's serial number (an expired or not yet valid certificate that is not
  revoked reads as good), valid from the time of the answer to the maximum age, to whole seconds, and
  its signature verifies under the authority's certificate.
\<close>

theorem ocsp_roundtrip:
  assumes laws: "asn1_laws A" and a: "responder_authority r = Some a" and key: "x_PublicKey (ca_cert a) = ec_public (ca_key a)"
    and req: "NewOCSPRequest A (Some c) (Some (ca_cert a)) = Inr req"
    and resp: "RespondOCSPDER A seed clock r t req now = Inr der"
    and now': "now' = (if IsZero now then clock else now)"
  shows "\<exists>st p. Authority_CertificateStatus clock (TrimSpace t) (Itoa (x_SerialNumber c)) now' a = Inr st \<and>
           ParseOCSPResponseDER A der = Inr p \<and> Parsed_Status p = OCSPSuccessful \<and> Parsed_Serial p = Itoa (x_SerialNumber c) \<and>
           (Parsed_CertificateStatus p, Parsed_RevokedAt p) =
             (if Status_State st = CertificateRevoked then (CertificateRevoked, to_seconds (Status_RevokedAt st))
              else if Status_State st = CertificateUnknown then (CertificateUnknown, 0) else (CertificateGood, 0)) \<and>
           Parsed_ThisUpdate p = to_seconds now' \<and> Parsed_NextUpdate p = to_seconds (now' + responder_maxAge r) \<and>
           VerifyOCSPResponseSignature A der (Some (ca_cert a)) = Inr ()"
proof -
  obtain certID request where id: "newOCSPCertID A (Some (ca_cert a)) (Some (x_SerialNumber c)) = Inr certID"
    and pr: "ParseOCSPRequestDER A req = Inr request" "OCSPRequest_Serial request = Itoa (x_SerialNumber c)"
      "OCSPRequest_SerialNumber request = x_SerialNumber c" "certid_same certID (OCSPRequest_certID request)"
      "CertID_SerialNumber certID = Some (x_SerialNumber c)"
    by (rule request_read [OF laws req])
  have "sameOCSPCertIssuer (OCSPRequest_certID request) certID" using pr(4) by (simp add: certid_same_def sameOCSPCertIssuer_def)
  then obtain st where st: "Authority_CertificateStatus clock (TrimSpace t) (Itoa (x_SerialNumber c)) now' a = Inr st"
    and s: "newOCSPSuccessResponse A seed (OCSPRequest_certID request) st (ca_cert a) (ca_key a) now' (now' + responder_maxAge r) = Inr der"
    using resp a pr(1-3) id
    by (auto simp: RespondOCSPDER_def now' Let_def bind_def check_def split: if_splits sum.splits)
  have "CertID_SerialNumber (OCSPRequest_certID request) = Some (x_SerialNumber c)" using pr(4,5) by (simp add: certid_same_def)
  with st success_response_read [OF laws key s] show ?thesis by auto
qed

text \<open>A sample library that knows the messages of one exchange.\<close>

definition sample_certid :: ocspCertID where
  "sample_certid = \<lparr>CertID_HashAlgorithm = \<lparr>Alg_Algorithm = oidSHA1, Alg_Parameters = NullRawValue\<rparr>,
     CertID_IssuerName = [1], CertID_IssuerKey = [1], CertID_SerialNumber = Some 7\<rparr>"

definition sample_request_msg :: ocspTBSRequest where
  "sample_request_msg = \<lparr>TBS_Version = 0, TBS_RequestorName = no_raw,
     TBS_RequestList = [\<lparr>Request1_ReqCert = sample_certid, Request1_Extensions = no_raw\<rparr>], TBS_RequestExtensions = no_raw\<rparr>"

definition sample_data :: ocspResponseData where
  "sample_data = \<lparr>Data_ResponderID = \<lparr>raw_Class = 2, raw_Tag = 2, raw_IsCompound = True, raw_Bytes = [1], raw_FullBytes = []\<rparr>,
     Data_ProducedAt = 20 * nsecond,
     Data_Responses = [\<lparr>Single_CertID = sample_certid,
       Single_CertStatus = \<lparr>raw_Class = 2, raw_Tag = 1, raw_IsCompound = True, raw_Bytes = [9], raw_FullBytes = []\<rparr>,
       Single_ThisUpdate = 20 * nsecond, Single_NextUpdate = 320 * nsecond\<rparr>]\<rparr>"

definition sample_basic :: ocspBasicResponse where
  "sample_basic = \<lparr>Basic_TBSResponseData = no_raw\<lparr>raw_FullBytes := [3]\<rparr>,
     Basic_SignatureAlgorithm = \<lparr>Alg_Algorithm = oidECDSAWithSHA256, Alg_Parameters = no_raw\<rparr>,
     Basic_Signature = \<lparr>bits_Bytes = [2], bits_BitLength = 8\<rparr>\<rparr>"

definition sample_resp_bytes :: ocspResponseBytes where
  "sample_resp_bytes = \<lparr>RespBytes_ResponseType = oidOCSPBasicResponse, RespBytes_Response = [4]\<rparr>"

definition sample_success :: ocspResponseASN1 where
  "sample_success = \<lparr>Resp_Status = OCSPSuccessful,
     Resp_ResponseBytes = \<lparr>raw_Class = 2, raw_Tag = 0, raw_IsCompound = True, raw_Bytes = [5], raw_FullBytes = []\<rparr>\<rparr>"

definition known :: "'a \<Rightarrow> byte list \<Rightarrow> 'a \<Rightarrow> string + byte list" where
  "known x d y = (if y = x then Inr d else Inl ''unknown message'')"

definition sample_asn1 :: asn1_lib where
  "sample_asn1 = \<lparr>m_request = known sample_request_msg [8], u_request = (\<lambda>_. Inr (sample_request_msg, [])),
     m_error_response = (\<lambda>_. Inl ''unknown message''), m_success_response = known sample_success [6],
     u_response = (\<lambda>_. Inr (sample_success, [])),
     m_response_bytes = known sample_resp_bytes [5], u_response_bytes = (\<lambda>_. Inr (sample_resp_bytes, [])),
     m_basic = known sample_basic [4], u_basic = (\<lambda>_. Inr (sample_basic, [])),
     m_data = known sample_data [3], u_data = (\<lambda>_. Inr (sample_data, [])),
     m_revoked = known (15 * nsecond) [48, 1, 9], u_revoked = (\<lambda>_. Inr (15 * nsecond, [])),
     m_octets = Inr, u_spki = (\<lambda>_. Inr (\<lparr>SPKI_Algorithm = \<lparr>Alg_Algorithm = [], Alg_Parameters = no_raw\<rparr>,
       SPKI_SubjectPublicKey = \<lparr>bits_Bytes = [4], bits_BitLength = 8\<rparr>\<rparr>, [])),
     u_raw = (\<lambda>_. Inr (no_raw\<lparr>raw_Bytes := [9]\<rparr>, [])), cert_RawSubject = (\<lambda>_. []), cert_RawSPKI = (\<lambda>_. []),
     ecdsa_sign = (\<lambda>_ _ d. Inr d), ecdsa_verify = (\<lambda>_ d s. s = d), sum_sha1 = (\<lambda>_. [1]), sum_sha256 = (\<lambda>_. [2])\<rparr>"

lemma sample_asn1_laws: "asn1_laws sample_asn1"
proof -
  have "list_all2 single_same (Data_Responses sample_data) (Data_Responses sample_data)"
    by (simp add: sample_data_def single_same_def certid_same_def raw_same_def to_seconds_def)
  moreover have "list_all2 (\<lambda>a b. certid_same (Request1_ReqCert a) (Request1_ReqCert b))
      (TBS_RequestList sample_request_msg) (TBS_RequestList sample_request_msg)"
    by (simp add: sample_request_msg_def certid_same_def)
  moreover have "Data_ProducedAt sample_data = to_seconds (Data_ProducedAt sample_data)" by (simp add: sample_data_def to_seconds_def)
  moreover have "to_seconds (15 * nsecond) = 15 * nsecond" by (simp add: to_seconds_def)
  moreover have "[48, 1, 9] = 48 # der_length (length [9 :: byte]) @ [9 :: byte]" by (simp add: der_length_def)
  ultimately show ?thesis
    unfolding asn1_laws_def request_laws_def response_laws_def revoked_laws_def
    by (intro conjI allI impI)
      (auto simp: sample_asn1_def known_def raw_same_def split: if_splits intro!: exI [of _ "[9 :: byte]"])
qed

definition sample_ocsp_ca :: Authority where
  "sample_ocsp_ca = sample_ca\<lparr>ca_cert := (ca_cert sample_ca)\<lparr>x_PublicKey := ec_public (ca_key sample_ca)\<rparr>,
     ca_issued := [(''7'', \<lparr>CertRecord_Serial = ''7'', CertRecord_TenantID = ''t'', CertRecord_DeviceID = ''d'', CertRecord_Role = ''agent'',
       CertRecord_NotBefore = 1, CertRecord_NotAfter = 30 * nsecond, CertRecord_Revoked = True, CertRecord_RevokedAt = 15 * nsecond,
       CertRecord_CertPEM = []\<rparr>)]\<rparr>"

definition sample_ocsp_responder :: StatusResponder where
  "sample_ocsp_responder = \<lparr>responder_authority = Some sample_ocsp_ca, responder_maxAge = DefaultStatusMaxAge\<rparr>"

theorem ocsp_roundtrip_witness:
  "\<exists>p. RespondOCSPDER sample_asn1 0 1 sample_ocsp_responder ''t'' [8] (20 * nsecond) = Inr [6] \<and>
     ParseOCSPResponseDER sample_asn1 [6] = Inr p \<and> Parsed_CertificateStatus p = CertificateRevoked \<and> Parsed_RevokedAt p = 15 * nsecond"
proof -
  let ?c = "(ca_cert sample_ca)\<lparr>x_SerialNumber := 7\<rparr>"
  have "NewOCSPRequest sample_asn1 (Some ?c) (Some (ca_cert sample_ocsp_ca)) = Inr [8]"
    "RespondOCSPDER sample_asn1 0 1 sample_ocsp_responder ''t'' [8] (20 * nsecond) = Inr [6]"
    "x_PublicKey (ca_cert sample_ocsp_ca) = ec_public (ca_key sample_ocsp_ca)"
    by code_simp+
  moreover have "Status_State st = CertificateRevoked \<and> Status_RevokedAt st = 15 * nsecond"
    if "Authority_CertificateStatus 1 (TrimSpace ''t'') (Itoa 7) (20 * nsecond) sample_ocsp_ca = Inr st" for st
  proof -
    have "Authority_CertificateStatus 1 (TrimSpace ''t'') (Itoa 7) (20 * nsecond) sample_ocsp_ca =
        Inr \<lparr>Status_TenantID = ''t'', Status_Serial = ''7'', Status_State = CertificateRevoked, Status_Revoked = True,
          Status_RevokedAt = 15 * nsecond, Status_NotBefore = 1, Status_NotAfter = 30 * nsecond, Status_CheckedAt = 20 * nsecond\<rparr>"
      by code_simp
    with that show ?thesis by auto
  qed
  moreover have "\<not> IsZero (20 * nsecond)" "to_seconds (15 * nsecond) = 15 * nsecond" by (simp_all add: IsZero_def to_seconds_def)
  ultimately show ?thesis
    using ocsp_roundtrip [OF sample_asn1_laws, of sample_ocsp_responder sample_ocsp_ca ?c "[8]" 0 1 "''t''" "20 * nsecond" "[6]" "20 * nsecond"]
    by (auto simp: sample_ocsp_responder_def)
qed

end
