(* ===== verification/Control.thy ===== *)
theory Control
  imports Store Auth Ocsp
begin

text \<open>
  The control API server: internal/control/server.go.

  A handler takes the request and the server and returns the response with the new server. \<open>api_lib\<close> holds
  the JSON decoders of the request bodies and the libraries of the components the server calls; \<open>api_env\<close>
  holds what the environment answers while one request is served: the readings of the clock in the order
  the code takes them, random values, the operating system's answers and, for the watches, the states of
  the repository seen at the later polls. The repository is the in-memory one and the sessions are the
  in-memory store; the file-backed ones add a save to the same operations. The server keeps the file system
  the revocation lists are published to. \<open>reply\<close> is a response whose body is the encoded value itself.
\<close>

section \<open>The server\<close>

record Info =
  Info_Name :: string
  Info_Version :: string
  Info_Commit :: string
  Info_Date :: string

definition Current :: "string \<Rightarrow> string \<Rightarrow> string \<Rightarrow> string \<Rightarrow> Info" where
  \<comment> \<open>the first three arguments are the variables the linker sets\<close>
  "Current version commit date name = \<lparr>Info_Name = name, Info_Version = version, Info_Commit = commit, Info_Date = date\<rparr>"

record Server =
  srv_info :: Info
  srv_startedAt :: time
  srv_store :: Memory
  srv_authority :: Authority
  srv_signer :: ConfigSigner
  srv_signerAt :: time
  srv_signerPut :: bool \<comment> \<open>whether a function that persists a new signing key is set\<close>
  srv_crlPub :: "string option" \<comment> \<open>the directory of the revocation list publisher\<close>
  srv_authz :: Authorizer
  srv_sessions :: SessionStore
  srv_passwords :: "PasswordAuthenticator option"
  srv_oidc :: "OIDCAuthenticator option"
  srv_classifier :: "Classifier option"
  srv_files :: "byte list fs"

record passwordLoginRequest =
  Login_TenantID :: string
  Login_SubjectID :: string
  Login_Password :: string
  Login_TTLHours :: int

record oidcLoginRequest =
  OIDCLogin_IDToken :: string
  OIDCLogin_TTLHours :: int

record certificateIssueRequest =
  CertIssue_DeviceID :: string
  CertIssue_Role :: string
  CertIssue_TTLHours :: int

record certificateRotateRequest =
  CertRotate_Serial :: string
  CertRotate_TTLHours :: int

record 'j api_lib =
  api_sign :: sign_lib
  api_x509 :: x509_lib
  api_asn1 :: asn1_lib
  api_sum256 :: "byte list \<Rightarrow> byte list"
  api_hmac :: "byte list \<Rightarrow> byte list \<Rightarrow> byte list"
  api_jwt :: "'j json_codec"
  api_uc :: "string \<Rightarrow> string"
  api_manifest :: "PublishedRevocationList \<Rightarrow> string + byte list"
  api_time :: "string \<Rightarrow> string + time" \<comment> \<open>time.Parse with RFC3339Nano\<close>
  dec_tenant :: "byte list \<Rightarrow> string + Tenant"
  dec_device :: "byte list \<Rightarrow> string + Device"
  dec_node :: "byte list \<Rightarrow> string + Node"
  dec_heartbeat :: "byte list \<Rightarrow> string + NodeHeartbeat"
  dec_retire :: "byte list \<Rightarrow> string + string" \<comment> \<open>nodeRetireRequest has one field\<close>
  dec_report :: "byte list \<Rightarrow> string + Report"
  dec_rule :: "byte list \<Rightarrow> string + Rule"
  dec_request :: "byte list \<Rightarrow> string + Request"
  dec_config :: "byte list \<Rightarrow> string + ConfigBundle"
  dec_login :: "byte list \<Rightarrow> string + passwordLoginRequest"
  dec_oidc :: "byte list \<Rightarrow> string + oidcLoginRequest"
  dec_session :: "byte list \<Rightarrow> string + int" \<comment> \<open>sessionIssueRequest has one field\<close>
  dec_issue :: "byte list \<Rightarrow> string + certificateIssueRequest"
  dec_revoke :: "byte list \<Rightarrow> string + string" \<comment> \<open>certificateRevokeRequest has one field\<close>
  dec_rotate :: "byte list \<Rightarrow> string + certificateRotateRequest"

record watch_poll =
  poll_ctx :: "ctx_error option"
  poll_store :: Memory

record api_env =
  env_ctx :: "ctx_error option"
  env_auth :: time \<comment> \<open>the clock when the request is authorized\<close>
  env_subject :: time \<comment> \<open>the clock when the subject is determined for the audit log\<close>
  env_now :: time \<comment> \<open>the handler's own reading\<close>
  env_store1 :: time
  env_store2 :: time
  env_audit :: time
  env_publish :: time
  env_token :: "string + byte list"
  env_cert :: cert_env
  env_crl :: cert_env
  env_key :: "string + byte list \<times> byte list" \<comment> \<open>ed25519.GenerateKey\<close>
  env_put :: "string option" \<comment> \<open>the error of persisting a signing key\<close>
  env_os :: publish_os
  env_read :: "string option" \<comment> \<open>an error of reading a request body\<close>
  env_seed :: nat
  env_polls :: "watch_poll list" \<comment> \<open>the polls of a watch after its first one, until the context is done\<close>

datatype api_error =
    DecodeJSON string
  | BearerInvalid
  | BearerRequired
  | PeerNotYetValid
  | PeerExpired
  | PeerCommonName
  | ActorHeaderRequired
  | TenantHeaderRequired
  | RolesHeaderRequired
  | AuthErr auth_error
  | StoreErr store_error
  | SignErr sign_error
  | CertErr cert_error
  | PublishErr publish_error
  | StatusErr status_error
  | PersistSigningKey string
  | Denied string Action string
  | SessionDenied string string
  | InvalidPassword
  | InvalidIDToken
  | TargetIDRequired
  | AuditTime string string
  | AuditRange
  | AuditLimit
  | SerialNotFound string
  | SerialForeign string

datatype api_body =
    BodyError api_error
  | BodyNotFound
  | BodyRedirect string
  | BodyHealth string time
  | BodyInfo Info
  | BodyConsole
  | BodyKey SigningPublicKey
  | BodyApproval SigningKeyApprovalRequest
  | BodyTenant Tenant
  | BodySession Session
  | BodyDevice Device
  | BodyNode Node
  | BodyInventory Inventory
  | BodyReports "Report list"
  | BodyReport Report
  | BodyEvents "AuditEvent list"
  | BodyRules "Rule list"
  | BodyRule Rule
  | BodyDecision Decision
  | BodyConfigs "ConfigBundle list"
  | BodyConfig ConfigBundle
  | BodySigneds "SignedBundle list"
  | BodySigned SignedBundle
  | BodyRecords "CertRecord list"
  | BodyRecord CertRecord
  | BodyIssued Issued
  | BodyRevocationList RevocationList
  | BodyStatus StatusResponse
  | BodyOCSP ocsp_body

type_synonym reply = "api_body http_response"

definition writeError :: "int \<Rightarrow> api_error \<Rightarrow> reply" where
  "writeError status err = json_response status (BodyError err)"

definition NotFound :: reply where
  \<comment> \<open>http.NotFound\<close>
  "NotFound = \<lparr>rs_Status = StatusNotFound, rs_Header = [(''Content-Type'', ''text/plain; charset=utf-8'')], rs_Body = Some BodyNotFound\<rparr>"

definition decodeJSON :: "(byte list \<Rightarrow> string + 'a) \<Rightarrow> http_request \<Rightarrow> api_error + 'a" where
  "decodeJSON dec r = (case dec (rq_Body r) of Inl e \<Rightarrow> Inl (DecodeJSON e) | Inr v \<Rightarrow> Inr v)"

section \<open>Construction\<close>

definition NewServerWithDependenciesAndSignerPersist ::
  "x509_lib \<Rightarrow> cert_env \<Rightarrow> string + byte list \<times> byte list \<Rightarrow> time \<Rightarrow> time \<Rightarrow> Info \<Rightarrow> Memory option \<Rightarrow> Authority option \<Rightarrow> SessionStore option \<Rightarrow>
     ConfigSigner option \<Rightarrow> bool \<Rightarrow> Server option" where
  \<comment> \<open>None is the panic when the authority or the signer cannot be created\<close>
  "NewServerWithDependenciesAndSignerPersist X env key now now' info repository authority sessions signer signerPut =
     (case (case authority of Some a \<Rightarrow> Inr a | None \<Rightarrow> NewAuthority X env ''anixops-control-ca'' now) of
        Inl _ \<Rightarrow> None
      | Inr authority \<Rightarrow>
     (case (case signer of Some s \<Rightarrow> Inr s | None \<Rightarrow> NewConfigSigner key) of
        Inl _ \<Rightarrow> None
      | Inr signer \<Rightarrow>
          Some \<lparr>srv_info = info, srv_startedAt = now', srv_store = (case repository of None \<Rightarrow> NewMemory | Some m \<Rightarrow> m),
                srv_authority = authority, srv_signer = signer, srv_signerAt = now', srv_signerPut = signerPut, srv_crlPub = None,
                srv_authz = NewAuthorizer, srv_sessions = (case sessions of None \<Rightarrow> NewSessionStore | Some s \<Rightarrow> s),
                srv_passwords = None, srv_oidc = None, srv_classifier = None, srv_files = []\<rparr>))"

definition NewServerWithDependenciesAndSigner where
  "NewServerWithDependenciesAndSigner X env key now now' info repository authority sessions signer =
     NewServerWithDependenciesAndSignerPersist X env key now now' info repository authority sessions signer False"

definition NewServerWithDependencies where
  "NewServerWithDependencies X env key now now' info repository authority sessions =
     NewServerWithDependenciesAndSigner X env key now now' info repository authority sessions None"

definition NewServerWithStoreAndAuthority where
  "NewServerWithStoreAndAuthority X env key now now' info repository authority =
     NewServerWithDependencies X env key now now' info repository authority None"

definition NewServerWithStore where
  "NewServerWithStore X env env' key t now now' info repository =
     (case NewAuthority X env ''anixops-control-ca'' t of
        Inl _ \<Rightarrow> None
      | Inr authority \<Rightarrow> NewServerWithStoreAndAuthority X env' key now now' info repository (Some authority))"

definition NewServer where
  "NewServer X env env' key t now now' info = NewServerWithStore X env env' key t now now' info (Some NewMemory)"

definition SetRevocationListPublisher :: "string option \<Rightarrow> Server \<Rightarrow> Server" where
  "SetRevocationListPublisher publisher s = s\<lparr>srv_crlPub := publisher\<rparr>"

definition SetPasswordAuthenticator :: "PasswordAuthenticator option \<Rightarrow> Server \<Rightarrow> Server" where
  "SetPasswordAuthenticator authenticator s = s\<lparr>srv_passwords := authenticator\<rparr>"

definition SetOIDCAuthenticator :: "OIDCAuthenticator option \<Rightarrow> Server \<Rightarrow> Server" where
  "SetOIDCAuthenticator authenticator s = s\<lparr>srv_oidc := authenticator\<rparr>"

definition SetTrafficClassifier :: "Classifier option \<Rightarrow> Server \<Rightarrow> Server" where
  "SetTrafficClassifier classifier s = s\<lparr>srv_classifier := classifier\<rparr>"

record tls_config =
  tls_MinVersion :: int
  tls_ClientCAs :: "byte list option"
  tls_RequireClientCert :: bool

definition ManagementTLSConfig :: "(byte list \<Rightarrow> bool) \<Rightarrow> bool \<Rightarrow> Server \<Rightarrow> string + tls_config" where
  \<comment> \<open>the first argument is AppendCertsFromPEM on an empty pool\<close>
  "ManagementTLSConfig appendCerts requireClientCert s =
     (let cfg = \<lparr>tls_MinVersion = 771, tls_ClientCAs = None, tls_RequireClientCert = False\<rparr> in
      if \<not> requireClientCert then Inr cfg
      else if \<not> appendCerts (CAPEM (srv_authority s)) then Inl ''append control ca certificate''
      else Inr (cfg\<lparr>tls_ClientCAs := Some (CAPEM (srv_authority s)), tls_RequireClientCert := True\<rparr>))"

definition IssueSession :: "time \<Rightarrow> string + byte list \<Rightarrow> Subject \<Rightarrow> duration \<Rightarrow> time \<Rightarrow> Server \<Rightarrow> auth_error + Session \<times> Server" where
  "IssueSession clock rnd subject ttl now s =
     bind (Session_Issue clock rnd subject ttl now (srv_sessions s)) (\<lambda>(session, st). Inr (session, s\<lparr>srv_sessions := st\<rparr>))"

definition ConfigSigningPublicKey :: "Server \<Rightarrow> byte list" where
  "ConfigSigningPublicKey s = Signer_PublicKey (srv_signer s)"

definition ConfigSigningKey :: "'j api_lib \<Rightarrow> time \<Rightarrow> Server \<Rightarrow> sign_error + SigningPublicKey" where
  "ConfigSigningKey L clock s = NewSigningPublicKey (api_sign L) clock (Signer_PublicKey (srv_signer s)) (srv_signerAt s)"

definition RotateConfigSigningKey :: "'j api_lib \<Rightarrow> api_env \<Rightarrow> Server \<Rightarrow> (api_error + SigningPublicKey) \<times> Server" where
  "RotateConfigSigningKey L env s =
     (case NewConfigSigner (env_key env) of
        Inl e \<Rightarrow> (Inl (SignErr e), s)
      | Inr signer \<Rightarrow>
          let rotatedAt = env_now env in
          case (if srv_signerPut s then env_put env else None) of
            Some e \<Rightarrow> (Inl (PersistSigningKey e), s)
          | None \<Rightarrow>
              let s = s\<lparr>srv_signer := signer, srv_signerAt := rotatedAt\<rparr> in
              (case NewSigningPublicKey (api_sign L) (env_now env) (Signer_PublicKey signer) rotatedAt of
                 Inl e \<Rightarrow> (Inl (SignErr e), s)
               | Inr key \<Rightarrow> (Inr key, s)))"

section \<open>Who makes a request\<close>

definition bearerToken :: "string \<Rightarrow> string" where
  "bearerToken header =
     (if \<not> HasPrefix header ''Bearer '' then [] else TrimSpace (TrimPrefix header ''Bearer ''))"

definition verifyPeerCertificateTime :: "peer_cert \<Rightarrow> time \<Rightarrow> api_error + unit" where
  "verifyPeerCertificateTime certificate now =
     check (now < peer_NotBefore certificate) PeerNotYetValid (
     check (\<not> now < peer_NotAfter certificate) PeerExpired (Inr ()))"

definition rolesFromCertificateRole :: "string \<Rightarrow> Role list" where
  "rolesFromCertificateRole role =
     (if role = RoleAdmin then [RoleAdmin]
      else if role = RoleOperator then [RoleOperator]
      else if role = RoleViewer then [RoleViewer]
      else if role = RoleAgent then [RoleAgent]
      else [RoleAgent])"

definition subjectFromPeerCertificate :: "http_request \<Rightarrow> time \<Rightarrow> api_error + Subject option" where
  \<comment> \<open>None: the request came without a peer certificate\<close>
  "subjectFromPeerCertificate r now =
     (case rq_PeerCertificates r of
        [] \<Rightarrow> Inr None
      | certificate # _ \<Rightarrow>
          bind (verifyPeerCertificateTime certificate now) (\<lambda>_.
          case split_char (CHR '':'') (peer_CommonName certificate) of
            [p0, p1, p2] \<Rightarrow>
              check (p0 = [] \<or> p1 = [] \<or> p2 = []) PeerCommonName (
              Inr (Some \<lparr>Subject_ID = p2, Subject_TenantID = p0, Subject_Roles = rolesFromCertificateRole p1\<rparr>))
          | _ \<Rightarrow> Inl PeerCommonName))"

definition subjectFromHeaders :: "http_request \<Rightarrow> api_error + Subject" where
  "subjectFromHeaders r =
     (let subject = \<lparr>Subject_ID = TrimSpace (Header_Get r ''X-Actor-ID''), Subject_TenantID = TrimSpace (Header_Get r ''X-Tenant-ID''),
            Subject_Roles = filter (\<lambda>role. role \<noteq> []) (map TrimSpace (split_char (CHR '','') (Header_Get r ''X-Roles'')))\<rparr> in
      check (Subject_ID subject = []) ActorHeaderRequired (
      check (Subject_TenantID subject = []) TenantHeaderRequired (
      check (Subject_Roles subject = []) RolesHeaderRequired (Inr subject))))"

definition subjectFromRequest :: "time \<Rightarrow> http_request \<Rightarrow> Server \<Rightarrow> api_error + Subject" where
  "subjectFromRequest now r s =
     (let token = bearerToken (Header_Get r ''Authorization'') in
      if token \<noteq> [] then
        (case Session_Authenticate now token now (srv_sessions s) of Some subject \<Rightarrow> Inr subject | None \<Rightarrow> Inl BearerInvalid)
      else bind (subjectFromPeerCertificate r now) (\<lambda>subject.
           case subject of Some subject \<Rightarrow> Inr subject | None \<Rightarrow> subjectFromHeaders r))"

section \<open>Audit and authorization\<close>

definition new_event :: "string \<Rightarrow> string \<Rightarrow> string \<Rightarrow> string \<Rightarrow> string \<Rightarrow> string \<Rightarrow> AuditEvent" where
  "new_event tenantID actor action objectType objectID message =
     \<lparr>AuditEvent_ID = [], AuditEvent_TenantID = tenantID, AuditEvent_Actor = actor, AuditEvent_Action = action,
      AuditEvent_ObjectType = objectType, AuditEvent_ObjectID = objectID, AuditEvent_Message = message, AuditEvent_CreatedAt = 0\<rparr>"

definition recordAuditEvent :: "api_env \<Rightarrow> Subject \<Rightarrow> string \<Rightarrow> string \<Rightarrow> string \<Rightarrow> string \<Rightarrow> Server \<Rightarrow> store_error + Server" where
  "recordAuditEvent env subject action objectType objectID message s =
     bind (RecordAuditEvent (env_ctx env) (env_audit env)
             (new_event (Subject_TenantID subject) (Subject_ID subject) action objectType objectID message) (srv_store s)) (\<lambda>(_, m).
     Inr (s\<lparr>srv_store := m\<rparr>))"

definition recordAuthorizationDenied :: "api_env \<Rightarrow> Subject \<Rightarrow> string \<Rightarrow> Action \<Rightarrow> Server \<Rightarrow> store_error + Server" where
  "recordAuthorizationDenied env subject tenantID action s =
     bind (RecordAuditEvent (env_ctx env) (env_audit env)
             (new_event tenantID (Subject_ID subject) ''auth.denied'' ''authorization'' action
               (''denied action '' @ action @ '' for subject tenant='' @ Subject_TenantID subject @ '' target tenant='' @ tenantID)) (srv_store s)) (\<lambda>(_, m).
     Inr (s\<lparr>srv_store := m\<rparr>))"

definition permit :: "api_env \<Rightarrow> http_request \<Rightarrow> (Subject \<Rightarrow> string) \<Rightarrow> Action \<Rightarrow> Server \<Rightarrow> (reply + Subject) \<times> Server" where
  \<comment> \<open>the common body of authorize and authorizeOwnTenantSubject; the tenant may depend on the subject\<close>
  "permit env r tenantOf action s =
     (case subjectFromRequest (env_auth env) r s of
        Inl e \<Rightarrow> (Inl (writeError StatusUnauthorized e), s)
      | Inr subject \<Rightarrow>
          (case Allowed (srv_authz s) subject \<lparr>AuthRequest_TenantID = tenantOf subject, AuthRequest_Action = action\<rparr> of
             Inl e \<Rightarrow> (Inl (writeError StatusUnauthorized (AuthErr e)), s)
           | Inr allowed \<Rightarrow>
               if allowed then (Inr subject, s)
               else (case recordAuthorizationDenied env subject (tenantOf subject) action s of
                       Inl e \<Rightarrow> (Inl (writeError StatusInternalServerError (StoreErr e)), s)
                     | Inr s \<Rightarrow> (Inl (writeError StatusForbidden (Denied (Subject_ID subject) action (tenantOf subject))), s))))"

definition authorize :: "api_env \<Rightarrow> http_request \<Rightarrow> string \<Rightarrow> Action \<Rightarrow> Server \<Rightarrow> (reply + Subject) \<times> Server" where
  "authorize env r tenantID action s = permit env r (\<lambda>_. tenantID) action s"

definition authorizeOwnTenantSubject :: "api_env \<Rightarrow> http_request \<Rightarrow> Action \<Rightarrow> Server \<Rightarrow> (reply + Subject) \<times> Server" where
  "authorizeOwnTenantSubject env r action s = permit env r Subject_TenantID action s"

definition authorizeOwnTenant :: "api_env \<Rightarrow> http_request \<Rightarrow> Action \<Rightarrow> Server \<Rightarrow> (reply + unit) \<times> Server" where
  "authorizeOwnTenant env r action s =
     (case authorizeOwnTenantSubject env r action s of (Inl resp, s) \<Rightarrow> (Inl resp, s) | (Inr _, s) \<Rightarrow> (Inr (), s))"

definition subjectForAudit :: "api_env \<Rightarrow> http_request \<Rightarrow> Server \<Rightarrow> reply + Subject" where
  "subjectForAudit env r s =
     (case subjectFromRequest (env_subject env) r s of Inl e \<Rightarrow> Inl (writeError StatusUnauthorized e) | Inr subject \<Rightarrow> Inr subject)"

definition respond_audited :: "api_env \<Rightarrow> Subject \<Rightarrow> string \<Rightarrow> string \<Rightarrow> string \<Rightarrow> string \<Rightarrow> reply \<Rightarrow> Server \<Rightarrow> reply \<times> Server" where
  \<comment> \<open>the common end of the handlers: record the audit event, then answer\<close>
  "respond_audited env subject action objectType objectID message resp s =
     (case recordAuditEvent env subject action objectType objectID message s of
        Inl e \<Rightarrow> (writeError StatusInternalServerError (StoreErr e), s)
      | Inr s \<Rightarrow> (resp, s))"

section \<open>Health, version and signing keys\<close>

definition handleHealth :: "http_request \<Rightarrow> Server \<Rightarrow> reply \<times> Server" where
  "handleHealth r s =
     (if rq_Method r \<noteq> MethodGet then (WriteHeader StatusMethodNotAllowed, s)
      else (json_response StatusOK (BodyHealth (Info_Name (srv_info s)) (srv_startedAt s)), s))"

definition handleVersion :: "http_request \<Rightarrow> Server \<Rightarrow> reply \<times> Server" where
  "handleVersion r s =
     (if rq_Method r \<noteq> MethodGet then (WriteHeader StatusMethodNotAllowed, s) else (json_response StatusOK (BodyInfo (srv_info s)), s))"

definition handleConsole :: "http_request \<Rightarrow> Server \<Rightarrow> reply \<times> Server" where
  "handleConsole r s =
     (if rq_Method r \<noteq> MethodGet then (WriteHeader StatusMethodNotAllowed, s)
      else (\<lparr>rs_Status = StatusOK, rs_Header = [(''Content-Type'', ''text/html; charset=utf-8'')], rs_Body = Some BodyConsole\<rparr>, s))"

definition handleConfigSigningKey :: "'j api_lib \<Rightarrow> api_env \<Rightarrow> http_request \<Rightarrow> Server \<Rightarrow> reply \<times> Server" where
  "handleConfigSigningKey L env r s =
     (if rq_Method r = MethodGet then
        (case authorizeOwnTenantSubject env r ActionConfigRead s of
           (Inl resp, s) \<Rightarrow> (resp, s)
         | (Inr _, s) \<Rightarrow>
             (case ConfigSigningKey L (env_now env) s of
                Inl e \<Rightarrow> (writeError StatusInternalServerError (SignErr e), s)
              | Inr key \<Rightarrow> (json_response StatusOK (BodyKey key), s)))
      else if rq_Method r = MethodPost then
        (case authorizeOwnTenantSubject env r ActionManage s of
           (Inl resp, s) \<Rightarrow> (resp, s)
         | (Inr subject, s) \<Rightarrow>
             (case RotateConfigSigningKey L env s of
                (Inl e, s) \<Rightarrow> (writeError StatusInternalServerError e, s)
              | (Inr key, s) \<Rightarrow>
                  respond_audited env subject ''config_signing_key.rotate'' ''config_signing_key'' (SigningKey_SHA256FingerprintHex key)
                    ''rotated config signing key'' (json_response StatusOK (BodyKey key)) s))
      else (WriteHeader StatusMethodNotAllowed, s))"

definition handleConfigSigningKeyApprovalRequest :: "'j api_lib \<Rightarrow> api_env \<Rightarrow> http_request \<Rightarrow> Server \<Rightarrow> reply \<times> Server" where
  "handleConfigSigningKeyApprovalRequest L env r s =
     (if rq_Method r \<noteq> MethodGet then (WriteHeader StatusMethodNotAllowed, s)
      else case authorizeOwnTenantSubject env r ActionManage s of
             (Inl resp, s) \<Rightarrow> (resp, s)
           | (Inr subject, s) \<Rightarrow>
          (case ConfigSigningKey L (env_now env) s of
             Inl e \<Rightarrow> (writeError StatusInternalServerError (SignErr e), s)
           | Inr key \<Rightarrow>
          (case NewSigningKeyApprovalRequest (api_sign L) (env_now env) key (Subject_ID subject) (env_now env) of
             Inl e \<Rightarrow> (writeError StatusInternalServerError (SignErr e), s)
           | Inr request \<Rightarrow>
               let source = TrimSpace (Query_Get r ''source'');
                   request = request\<lparr>ApprovalRequest_Source := (if source = [] then ''control-api'' else source),
                                     ApprovalRequest_Reason := TrimSpace (Query_Get r ''reason'')\<rparr>
               in respond_audited env subject ''config_signing_key.approval_request.export'' ''config_signing_key''
                    (ApprovalRequest_SHA256FingerprintHex request)
                    (''exported signing key approval request source='' @ ApprovalRequest_Source request @ '' reason='' @ ApprovalRequest_Reason request)
                    (json_response StatusOK (BodyApproval request)) s)))"

section \<open>Tenants and sessions\<close>

definition handleTenants :: "'j api_lib \<Rightarrow> api_env \<Rightarrow> http_request \<Rightarrow> Server \<Rightarrow> reply \<times> Server" where
  "handleTenants L env r s =
     (if rq_Method r \<noteq> MethodPost then (WriteHeader StatusMethodNotAllowed, s)
      else case decodeJSON (dec_tenant L) r of
             Inl e \<Rightarrow> (writeError StatusBadRequest e, s)
           | Inr tenant \<Rightarrow>
          (case authorize env r (Tenant_ID tenant) ActionManage s of
             (Inl resp, s) \<Rightarrow> (resp, s)
           | (Inr _, s) \<Rightarrow>
          (case subjectForAudit env r s of
             Inl resp \<Rightarrow> (resp, s)
           | Inr subject \<Rightarrow>
          (case CreateTenant (env_ctx env) (env_store1 env) (env_store2 env) tenant (srv_store s) of
             Inl e \<Rightarrow> (writeError StatusBadRequest (StoreErr e), s)
           | Inr (created, m) \<Rightarrow>
               respond_audited env subject ''tenant.create'' ''tenant'' (Tenant_ID created) ''created tenant through control API''
                 (json_response StatusCreated (BodyTenant created)) (s\<lparr>srv_store := m\<rparr>)))))"

definition session_hours :: "int \<Rightarrow> int" where
  \<comment> \<open>the limits on the requested lifetime of a session\<close>
  "session_hours hours = (let hours = (if hours \<le> 0 then 8 else hours) in if hours > 24 then 24 else hours)"

definition issue_session :: "api_env \<Rightarrow> Subject \<Rightarrow> int \<Rightarrow> string \<Rightarrow> string \<Rightarrow> Server \<Rightarrow> reply \<times> Server" where
  \<comment> \<open>the common end of the two logins and of handleSessions\<close>
  "issue_session env subject hours action message s =
     (case Session_Issue (env_now env) (env_token env) subject (wrap64 (session_hours hours * nhour)) (env_now env) (srv_sessions s) of
        Inl e \<Rightarrow> (writeError StatusBadRequest (AuthErr e), s)
      | Inr (session, st) \<Rightarrow>
          respond_audited env subject action ''subject'' (Subject_ID subject) message (json_response StatusCreated (BodySession session))
            (s\<lparr>srv_sessions := st\<rparr>))"

definition handlePasswordLogin :: "'j api_lib \<Rightarrow> api_env \<Rightarrow> http_request \<Rightarrow> Server \<Rightarrow> reply \<times> Server" where
  "handlePasswordLogin L env r s =
     (if rq_Method r \<noteq> MethodPost then (WriteHeader StatusMethodNotAllowed, s)
      else case decodeJSON (dec_login L) r of
             Inl e \<Rightarrow> (writeError StatusBadRequest e, s)
           | Inr request \<Rightarrow>
          (case Password_Authenticate (api_hmac L) (srv_passwords s) (Login_TenantID request) (Login_SubjectID request) (Login_Password request) of
             Inl e \<Rightarrow> (writeError StatusServiceUnavailable (AuthErr e), s)
           | Inr None \<Rightarrow> (writeError StatusUnauthorized InvalidPassword, s)
           | Inr (Some subject) \<Rightarrow>
               issue_session env subject (Login_TTLHours request) ''auth.login'' ''password login issued bearer session'' s))"

definition handleOIDCLogin :: "'j api_lib \<Rightarrow> api_env \<Rightarrow> http_request \<Rightarrow> Server \<Rightarrow> reply \<times> Server" where
  "handleOIDCLogin L env r s =
     (if rq_Method r \<noteq> MethodPost then (WriteHeader StatusMethodNotAllowed, s)
      else case decodeJSON (dec_oidc L) r of
             Inl e \<Rightarrow> (writeError StatusBadRequest e, s)
           | Inr request \<Rightarrow>
          (case AuthenticateIDToken (api_hmac L) (api_jwt L) (env_auth env) (srv_oidc s) (OIDCLogin_IDToken request) (env_auth env) of
             Inr (Some subject) \<Rightarrow>
               issue_session env subject (OIDCLogin_TTLHours request) ''auth.login'' ''oidc login issued bearer session'' s
           | _ \<Rightarrow> (writeError StatusUnauthorized InvalidIDToken, s)))"

definition handleSessions :: "'j api_lib \<Rightarrow> api_env \<Rightarrow> http_request \<Rightarrow> Server \<Rightarrow> reply \<times> Server" where
  "handleSessions L env r s =
     (if rq_Method r = MethodPost then
        (case decodeJSON (dec_session L) r of
           Inl e \<Rightarrow> (writeError StatusBadRequest e, s)
         | Inr hours \<Rightarrow>
        (case subjectFromRequest (env_auth env) r s of
           Inl e \<Rightarrow> (writeError StatusUnauthorized e, s)
         | Inr subject \<Rightarrow>
        (case Allowed (srv_authz s) subject \<lparr>AuthRequest_TenantID = Subject_TenantID subject, AuthRequest_Action = ActionRead\<rparr> of
           Inl e \<Rightarrow> (writeError StatusUnauthorized (AuthErr e), s)
         | Inr allowed \<Rightarrow>
             if \<not> allowed then (writeError StatusForbidden (SessionDenied (Subject_ID subject) (Subject_TenantID subject)), s)
             else issue_session env subject hours ''auth.session.issue'' ''issued bearer session'' s)))
      else if rq_Method r = MethodDelete then
        (let token = bearerToken (Header_Get r ''Authorization'') in
         if token = [] then (writeError StatusUnauthorized BearerRequired, s)
         else case Session_Authenticate (env_auth env) token (env_auth env) (srv_sessions s) of
                None \<Rightarrow> (writeError StatusUnauthorized BearerInvalid, s)
              | Some subject \<Rightarrow>
                  (case recordAuditEvent env subject ''auth.session.revoke'' ''subject'' (Subject_ID subject) ''revoked bearer session'' s of
                     Inl e \<Rightarrow> (writeError StatusInternalServerError (StoreErr e), s)
                   | Inr s \<Rightarrow> (WriteHeader StatusNoContent, s\<lparr>srv_sessions := snd (Session_Revoke token (srv_sessions s))\<rparr>)))
      else (WriteHeader StatusMethodNotAllowed, s))"

section \<open>Devices, nodes and inventory\<close>

definition handleDevices :: "'j api_lib \<Rightarrow> api_env \<Rightarrow> http_request \<Rightarrow> string \<Rightarrow> Server \<Rightarrow> reply \<times> Server" where
  "handleDevices L env r tenantID s =
     (if rq_Method r \<noteq> MethodPost then (WriteHeader StatusMethodNotAllowed, s)
      else case subjectForAudit env r s of
             Inl resp \<Rightarrow> (resp, s)
           | Inr subject \<Rightarrow>
          (case decodeJSON (dec_device L) r of
             Inl e \<Rightarrow> (writeError StatusBadRequest e, s)
           | Inr device \<Rightarrow>
          (case RegisterDevice (env_ctx env) (env_store1 env) (env_store2 env) (device\<lparr>Device_TenantID := tenantID\<rparr>) (srv_store s) of
             Inl e \<Rightarrow> (writeError StatusBadRequest (StoreErr e), s)
           | Inr (created, m) \<Rightarrow>
               respond_audited env subject ''device.register'' ''device'' (Device_ID created) ''registered device through control API''
                 (json_response StatusCreated (BodyDevice created)) (s\<lparr>srv_store := m\<rparr>))))"

definition handleNodes :: "'j api_lib \<Rightarrow> api_env \<Rightarrow> http_request \<Rightarrow> string \<Rightarrow> Server \<Rightarrow> reply \<times> Server" where
  "handleNodes L env r tenantID s =
     (if rq_Method r \<noteq> MethodPost then (WriteHeader StatusMethodNotAllowed, s)
      else case subjectForAudit env r s of
             Inl resp \<Rightarrow> (resp, s)
           | Inr subject \<Rightarrow>
          (case decodeJSON (dec_node L) r of
             Inl e \<Rightarrow> (writeError StatusBadRequest e, s)
           | Inr node \<Rightarrow>
          (case RegisterNode (env_ctx env) (env_store1 env) (env_store2 env) (node\<lparr>Node_TenantID := tenantID\<rparr>) (srv_store s) of
             Inl e \<Rightarrow> (writeError StatusBadRequest (StoreErr e), s)
           | Inr (created, m) \<Rightarrow>
               respond_audited env subject ''node.register'' ''node'' (Node_ID created) ''registered node through control API''
                 (json_response StatusCreated (BodyNode created)) (s\<lparr>srv_store := m\<rparr>))))"

definition handleNodeHeartbeats :: "'j api_lib \<Rightarrow> api_env \<Rightarrow> http_request \<Rightarrow> string \<Rightarrow> Server \<Rightarrow> reply \<times> Server" where
  "handleNodeHeartbeats L env r tenantID s =
     (if rq_Method r \<noteq> MethodPost then (WriteHeader StatusMethodNotAllowed, s)
      else case subjectForAudit env r s of
             Inl resp \<Rightarrow> (resp, s)
           | Inr subject \<Rightarrow>
          (case decodeJSON (dec_heartbeat L) r of
             Inl e \<Rightarrow> (writeError StatusBadRequest e, s)
           | Inr heartbeat \<Rightarrow>
          (case RecordNodeHeartbeat (env_ctx env) (env_store1 env) (env_store2 env) (heartbeat\<lparr>NodeHeartbeat_TenantID := tenantID\<rparr>) (srv_store s) of
             Inl e \<Rightarrow> (writeError StatusBadRequest (StoreErr e), s)
           | Inr (updated, m) \<Rightarrow>
               respond_audited env subject ''node.heartbeat'' ''node'' (Node_ID updated) ''recorded node heartbeat through control API''
                 (json_response StatusOK (BodyNode updated)) (s\<lparr>srv_store := m\<rparr>))))"

definition handleNodeRetirements :: "'j api_lib \<Rightarrow> api_env \<Rightarrow> http_request \<Rightarrow> string \<Rightarrow> Server \<Rightarrow> reply \<times> Server" where
  "handleNodeRetirements L env r tenantID s =
     (if rq_Method r \<noteq> MethodPost then (WriteHeader StatusMethodNotAllowed, s)
      else case subjectForAudit env r s of
             Inl resp \<Rightarrow> (resp, s)
           | Inr subject \<Rightarrow>
          (case decodeJSON (dec_retire L) r of
             Inl e \<Rightarrow> (writeError StatusBadRequest e, s)
           | Inr requestNodeID \<Rightarrow>
               let nodeID = TrimSpace requestNodeID in
          (case RetireNode (env_ctx env) (env_store1 env) (env_store2 env) tenantID nodeID (srv_store s) of
             Inl e \<Rightarrow> (writeError StatusBadRequest (StoreErr e), s)
           | Inr (retired, m) \<Rightarrow>
               respond_audited env subject ''node.retire'' ''node'' (Node_ID retired) ''retired node through control API''
                 (json_response StatusOK (BodyNode retired)) (s\<lparr>srv_store := m\<rparr>))))"

definition handleInventory :: "api_env \<Rightarrow> http_request \<Rightarrow> string \<Rightarrow> Server \<Rightarrow> reply \<times> Server" where
  "handleInventory env r tenantID s =
     (if rq_Method r \<noteq> MethodGet then (WriteHeader StatusMethodNotAllowed, s)
      else case Memory_Inventory (env_ctx env) tenantID (srv_store s) of
             Inl e \<Rightarrow> (writeError StatusNotFound (StoreErr e), s)
           | Inr inventory \<Rightarrow> (json_response StatusOK (BodyInventory inventory), s))"

definition handleTelemetry :: "'j api_lib \<Rightarrow> api_env \<Rightarrow> http_request \<Rightarrow> string \<Rightarrow> Server \<Rightarrow> reply \<times> Server" where
  "handleTelemetry L env r tenantID s =
     (if rq_Method r = MethodGet then
        (case Memory_Telemetry (env_ctx env) tenantID (srv_store s) of
           Inl e \<Rightarrow> (writeError StatusNotFound (StoreErr e), s)
         | Inr reports \<Rightarrow> (json_response StatusOK (BodyReports reports), s))
      else if rq_Method r = MethodPost then
        (case decodeJSON (dec_report L) r of
           Inl e \<Rightarrow> (writeError StatusBadRequest e, s)
         | Inr report \<Rightarrow>
        (case RecordTelemetry (api_uc L) (env_ctx env) (env_store1 env) (env_store2 env) (report\<lparr>Report_TenantID := tenantID\<rparr>) (srv_store s) of
           Inl e \<Rightarrow> (writeError StatusBadRequest (StoreErr e), s)
         | Inr (created, m) \<Rightarrow> (json_response StatusCreated (BodyReport created), s\<lparr>srv_store := m\<rparr>)))
      else (WriteHeader StatusMethodNotAllowed, s))"

section \<open>The audit log\<close>

definition parseOptionalAuditTime :: "'j api_lib \<Rightarrow> string \<Rightarrow> string \<Rightarrow> api_error + time" where
  "parseOptionalAuditTime L raw name =
     (let raw = TrimSpace raw in
      if raw = [] then Inr 0
      else case api_time L raw of Inl e \<Rightarrow> Inl (AuditTime name e) | Inr parsed \<Rightarrow> Inr parsed)"

definition parseOptionalAuditLimit :: "string \<Rightarrow> api_error + int" where
  "parseOptionalAuditLimit raw =
     (let raw = TrimSpace raw in
      if raw = [] then Inr 0
      else case Atoi raw of None \<Rightarrow> Inl AuditLimit | Some limit \<Rightarrow> check (limit \<le> 0) AuditLimit (Inr limit))"

record audit_query =
  q_action :: string
  q_actor :: string
  q_objectType :: string
  q_objectID :: string
  q_since :: time
  q_until :: time

definition audit_matches :: "audit_query \<Rightarrow> AuditEvent \<Rightarrow> bool" where
  \<comment> \<open>no continue of the loop applies\<close>
  "audit_matches q event \<longleftrightarrow>
     \<not> (q_action q \<noteq> [] \<and> AuditEvent_Action event \<noteq> q_action q) \<and>
     \<not> (q_actor q \<noteq> [] \<and> AuditEvent_Actor event \<noteq> q_actor q) \<and>
     \<not> (q_objectType q \<noteq> [] \<and> AuditEvent_ObjectType event \<noteq> q_objectType q) \<and>
     \<not> (q_objectID q \<noteq> [] \<and> AuditEvent_ObjectID event \<noteq> q_objectID q) \<and>
     \<not> (\<not> IsZero (q_since q) \<and> AuditEvent_CreatedAt event < q_since q) \<and>
     \<not> (\<not> IsZero (q_until q) \<and> q_until q < AuditEvent_CreatedAt event)"

fun filter_loop :: "audit_query \<Rightarrow> int \<Rightarrow> AuditEvent list \<Rightarrow> AuditEvent list \<Rightarrow> AuditEvent list" where
  \<comment> \<open>the loop of filterAuditEvents with the events found so far\<close>
  "filter_loop q limit filtered [] = filtered"
| "filter_loop q limit filtered (event # events) =
     (if \<not> audit_matches q event then filter_loop q limit filtered events
      else let filtered = filtered @ [event] in
           if limit > 0 \<and> int (length filtered) \<ge> limit then filtered else filter_loop q limit filtered events)"

definition filterAuditEvents :: "'j api_lib \<Rightarrow> AuditEvent list \<Rightarrow> http_request \<Rightarrow> api_error + AuditEvent list" where
  "filterAuditEvents L events r =
     bind (parseOptionalAuditTime L (Query_Get r ''since'') ''since'') (\<lambda>since.
     bind (parseOptionalAuditTime L (Query_Get r ''until'') ''until'') (\<lambda>until.
     check (\<not> IsZero since \<and> \<not> IsZero until \<and> until < since) AuditRange (
     bind (parseOptionalAuditLimit (Query_Get r ''limit'')) (\<lambda>limit.
     Inr (filter_loop \<lparr>q_action = TrimSpace (Query_Get r ''action''), q_actor = TrimSpace (Query_Get r ''actor''),
            q_objectType = TrimSpace (Query_Get r ''object_type''), q_objectID = TrimSpace (Query_Get r ''object_id''),
            q_since = since, q_until = until\<rparr> limit [] events)))))"

definition handleAudit :: "'j api_lib \<Rightarrow> api_env \<Rightarrow> http_request \<Rightarrow> string \<Rightarrow> Server \<Rightarrow> reply \<times> Server" where
  "handleAudit L env r tenantID s =
     (if rq_Method r \<noteq> MethodGet then (WriteHeader StatusMethodNotAllowed, s)
      else case AuditEvents (env_ctx env) tenantID (srv_store s) of
             Inl e \<Rightarrow> (writeError StatusNotFound (StoreErr e), s)
           | Inr events \<Rightarrow>
               (case filterAuditEvents L events r of
                  Inl e \<Rightarrow> (writeError StatusBadRequest e, s)
                | Inr events \<Rightarrow> (json_response StatusOK (BodyEvents events), s)))"

section \<open>Policies\<close>

definition handlePolicies :: "'j api_lib \<Rightarrow> api_env \<Rightarrow> http_request \<Rightarrow> string \<Rightarrow> Server \<Rightarrow> reply \<times> Server" where
  "handlePolicies L env r tenantID s =
     (if rq_Method r = MethodGet then
        (case PolicyRules (env_ctx env) tenantID (srv_store s) of
           Inl e \<Rightarrow> (writeError StatusNotFound (StoreErr e), s)
         | Inr rules \<Rightarrow> (json_response StatusOK (BodyRules rules), s))
      else if rq_Method r = MethodPost then
        (case subjectForAudit env r s of
           Inl resp \<Rightarrow> (resp, s)
         | Inr subject \<Rightarrow>
        (case decodeJSON (dec_rule L) r of
           Inl e \<Rightarrow> (writeError StatusBadRequest e, s)
         | Inr rule \<Rightarrow>
        (case UpsertPolicyRule (env_ctx env) (env_store1 env) (rule\<lparr>Rule_TenantID := tenantID\<rparr>) (srv_store s) of
           Inl e \<Rightarrow> (writeError StatusBadRequest (StoreErr e), s)
         | Inr (created, m) \<Rightarrow>
             respond_audited env subject ''policy.upsert'' ''policy_rule'' (Rule_ID created) ''upserted policy rule through control API''
               (json_response StatusCreated (BodyRule created)) (s\<lparr>srv_store := m\<rparr>))))
      else (WriteHeader StatusMethodNotAllowed, s))"

definition handlePolicyDecisions :: "'j api_lib \<Rightarrow> api_env \<Rightarrow> http_request \<Rightarrow> string \<Rightarrow> Server \<Rightarrow> reply \<times> Server" where
  "handlePolicyDecisions L env r tenantID s =
     (if rq_Method r \<noteq> MethodPost then (WriteHeader StatusMethodNotAllowed, s)
      else case decodeJSON (dec_request L) r of
             Inl e \<Rightarrow> (writeError StatusBadRequest e, s)
           | Inr request \<Rightarrow>
               let request = request\<lparr>Request_TenantID := tenantID\<rparr>;
                   request = (case srv_classifier s of None \<Rightarrow> request
                              | Some classifier \<Rightarrow> request\<lparr>Request_Class := Classify (api_uc L) classifier request\<rparr>)
               in case EvaluatePolicy (api_uc L) (env_ctx env) request (srv_store s) of
                    Inl e \<Rightarrow> (writeError StatusBadRequest (StoreErr e), s)
                  | Inr decision \<Rightarrow> (json_response StatusOK (BodyDecision decision), s))"

section \<open>Configurations\<close>

definition handleConfigs :: "'j api_lib \<Rightarrow> api_env \<Rightarrow> http_request \<Rightarrow> string \<Rightarrow> Server \<Rightarrow> reply \<times> Server" where
  "handleConfigs L env r tenantID s =
     (if rq_Method r = MethodGet then
        (case Memory_Configs (env_ctx env) tenantID (srv_store s) of
           Inl e \<Rightarrow> (writeError StatusNotFound (StoreErr e), s)
         | Inr configs \<Rightarrow> (json_response StatusOK (BodyConfigs configs), s))
      else if rq_Method r = MethodPost then
        (case subjectForAudit env r s of
           Inl resp \<Rightarrow> (resp, s)
         | Inr subject \<Rightarrow>
        (case decodeJSON (dec_config L) r of
           Inl e \<Rightarrow> (writeError StatusBadRequest e, s)
         | Inr bundle \<Rightarrow>
        (case UpsertConfig (env_ctx env) (env_store1 env) (env_store2 env) (bundle\<lparr>ConfigBundle_TenantID := tenantID\<rparr>) (srv_store s) of
           Inl e \<Rightarrow> (writeError StatusBadRequest (StoreErr e), s)
         | Inr (created, m) \<Rightarrow>
             respond_audited env subject ''config.upsert'' ''config_bundle'' (ConfigBundle_ID created) ''upserted config bundle through control API''
               (json_response StatusCreated (BodyConfig created)) (s\<lparr>srv_store := m\<rparr>))))
      else (WriteHeader StatusMethodNotAllowed, s))"

fun select_target :: "string \<Rightarrow> ConfigBundle option \<Rightarrow> ConfigBundle list \<Rightarrow> ConfigBundle option" where
  \<comment> \<open>the loop of selectTargetConfig\<close>
  "select_target targetID selected [] = selected"
| "select_target targetID selected (candidate # rest) =
     (if ConfigBundle_TargetID candidate \<noteq> targetID then select_target targetID selected rest
      else select_target targetID
        (case selected of
           None \<Rightarrow> Some candidate
         | Some best \<Rightarrow> if ConfigBundle_CreatedAt best < ConfigBundle_CreatedAt candidate \<or> ConfigBundle_Version best < ConfigBundle_Version candidate
                        then Some candidate else Some best) rest)"

definition selectTargetConfig :: "ConfigBundle list \<Rightarrow> string \<Rightarrow> ConfigBundle option" where
  "selectTargetConfig configs targetID = select_target targetID None configs"

definition changedConfig :: "ctx_error option \<Rightarrow> string \<Rightarrow> string \<Rightarrow> string \<Rightarrow> Memory \<Rightarrow> store_error + ConfigBundle option" where
  "changedConfig ctx tenantID targetID sinceVersion m =
     bind (Memory_Configs ctx tenantID m) (\<lambda>configs.
     Inr (case selectTargetConfig configs targetID of
            None \<Rightarrow> None
          | Some bundle \<Rightarrow> if sinceVersion \<noteq> [] \<and> ConfigBundle_Version bundle = sinceVersion then None else Some bundle))"

fun watch_loop :: "string \<Rightarrow> string \<Rightarrow> string \<Rightarrow> watch_poll \<Rightarrow> watch_poll list \<Rightarrow> store_error + ConfigBundle option" where
  \<comment> \<open>the polls of a watch; when none is left the context is done. None: nothing changed until then\<close>
  "watch_loop tenantID targetID sinceVersion poll rest =
     bind (changedConfig (poll_ctx poll) tenantID targetID sinceVersion (poll_store poll)) (\<lambda>changed.
     case changed of
       Some bundle \<Rightarrow> Inr (Some bundle)
     | None \<Rightarrow> (case rest of [] \<Rightarrow> Inr None | next # rest \<Rightarrow> watch_loop tenantID targetID sinceVersion next rest))"

definition configWatchTimeout :: "http_request \<Rightarrow> duration" where
  "configWatchTimeout r =
     (let defaultTimeout = 25 * nsecond; maxTimeout = 30 * nsecond; raw = TrimSpace (Query_Get r ''timeout_ms'') in
      if raw = [] then defaultTimeout
      else case Atoi raw of
             None \<Rightarrow> defaultTimeout
           | Some millis \<Rightarrow>
               if millis \<le> 0 then defaultTimeout
               else let timeout = wrap64 (millis * 1000000) in if timeout > maxTimeout then maxTimeout else timeout)"

definition watch_request :: "api_env \<Rightarrow> http_request \<Rightarrow> string \<Rightarrow> Server \<Rightarrow> reply + ConfigBundle" where
  \<comment> \<open>the common part of the two watches: a response, or the changed bundle\<close>
  "watch_request env r tenantID s =
     (if rq_Method r \<noteq> MethodGet then Inl (WriteHeader StatusMethodNotAllowed)
      else let targetID = TrimSpace (Query_Get r ''target_id'') in
      if targetID = [] then Inl (writeError StatusBadRequest TargetIDRequired)
      else let sinceVersion = TrimSpace (Query_Get r ''since_version'') in
      case watch_loop tenantID targetID sinceVersion \<lparr>poll_ctx = env_ctx env, poll_store = srv_store s\<rparr> (env_polls env) of
        Inl e \<Rightarrow> Inl (writeError StatusNotFound (StoreErr e))
      | Inr None \<Rightarrow> Inl (WriteHeader StatusNoContent)
      | Inr (Some bundle) \<Rightarrow> Inr bundle)"

definition handleConfigWatch :: "api_env \<Rightarrow> http_request \<Rightarrow> string \<Rightarrow> Server \<Rightarrow> reply \<times> Server" where
  "handleConfigWatch env r tenantID s =
     (case watch_request env r tenantID s of
        Inl resp \<Rightarrow> (resp, s)
      | Inr bundle \<Rightarrow> (json_response StatusOK (BodyConfig bundle), s))"

definition handleSignedConfigs :: "'j api_lib \<Rightarrow> api_env \<Rightarrow> http_request \<Rightarrow> string \<Rightarrow> Server \<Rightarrow> reply \<times> Server" where
  "handleSignedConfigs L env r tenantID s =
     (if rq_Method r \<noteq> MethodGet then (WriteHeader StatusMethodNotAllowed, s)
      else case Memory_Configs (env_ctx env) tenantID (srv_store s) of
             Inl e \<Rightarrow> (writeError StatusNotFound (StoreErr e), s)
           | Inr configs \<Rightarrow>
               (case traverse (\<lambda>bundle. Sign (api_sign L) (env_now env) (srv_signer s) bundle (env_now env)) configs of
                  Inl e \<Rightarrow> (writeError StatusInternalServerError (SignErr e), s)
                | Inr envelope \<Rightarrow> (json_response StatusOK (BodySigneds envelope), s)))"

definition signConfigBundle :: "'j api_lib \<Rightarrow> api_env \<Rightarrow> ConfigBundle \<Rightarrow> Server \<Rightarrow> sign_error + SignedBundle" where
  "signConfigBundle L env bundle s = Sign (api_sign L) (env_now env) (srv_signer s) bundle (env_now env)"

definition handleSignedConfigWatch :: "'j api_lib \<Rightarrow> api_env \<Rightarrow> http_request \<Rightarrow> string \<Rightarrow> Server \<Rightarrow> reply \<times> Server" where
  "handleSignedConfigWatch L env r tenantID s =
     (case watch_request env r tenantID s of
        Inl resp \<Rightarrow> (resp, s)
      | Inr bundle \<Rightarrow>
          (case signConfigBundle L env bundle s of
             Inl e \<Rightarrow> (writeError StatusInternalServerError (SignErr e), s)
           | Inr envelope \<Rightarrow> (json_response StatusOK (BodySigned envelope), s)))"

section \<open>Certificates\<close>

definition publishRevocationList :: "'j api_lib \<Rightarrow> api_env \<Rightarrow> string \<Rightarrow> Server \<Rightarrow> api_error option \<times> Server" where
  "publishRevocationList L env tenantID s =
     (case srv_crlPub s of
        None \<Rightarrow> (None, s)
      | Some dir \<Rightarrow>
          (case RevocationListByTenant (api_x509 L) (env_crl env) tenantID (env_publish env) (24 * nhour) (srv_authority s) of
             Inl e \<Rightarrow> (Some (CertErr e), s)
           | Inr l \<Rightarrow>
               (case PublishRevocationList (api_x509 L) (api_sum256 L) (api_manifest L) (env_ctx env) (env_os env) dir l (srv_files s) of
                  (Inl e, fs) \<Rightarrow> (Some (PublishErr e), s\<lparr>srv_files := fs\<rparr>)
                | (Inr _, fs) \<Rightarrow> (None, s\<lparr>srv_files := fs\<rparr>))))"

definition cert_hours :: "int \<Rightarrow> duration" where
  \<comment> \<open>the lifetime of a certificate; the product of a duration may wrap around\<close>
  "cert_hours hours = wrap64 ((if hours \<le> 0 then 24 else hours) * nhour)"

definition handleCertificates :: "'j api_lib \<Rightarrow> api_env \<Rightarrow> http_request \<Rightarrow> string \<Rightarrow> Server \<Rightarrow> reply \<times> Server" where
  "handleCertificates L env r tenantID s =
     (if rq_Method r = MethodGet then
        (case Memory_Inventory (env_ctx env) tenantID (srv_store s) of
           Inl e \<Rightarrow> (writeError StatusNotFound (StoreErr e), s)
         | Inr _ \<Rightarrow> (json_response StatusOK (BodyRecords (RecordsByTenant tenantID (srv_authority s))), s))
      else if rq_Method r = MethodPost then
        (case Memory_Inventory (env_ctx env) tenantID (srv_store s) of
           Inl e \<Rightarrow> (writeError StatusNotFound (StoreErr e), s)
         | Inr _ \<Rightarrow>
        (case subjectForAudit env r s of
           Inl resp \<Rightarrow> (resp, s)
         | Inr subject \<Rightarrow>
        (case decodeJSON (dec_issue L) r of
           Inl e \<Rightarrow> (writeError StatusBadRequest e, s)
         | Inr request \<Rightarrow>
        (case Issue (api_x509 L) (env_cert env) \<lparr>Identity_TenantID = tenantID, Identity_DeviceID = CertIssue_DeviceID request,
                Identity_Role = CertIssue_Role request\<rparr> (cert_hours (CertIssue_TTLHours request)) (env_now env) (srv_authority s) of
           Inl e \<Rightarrow> (writeError StatusBadRequest (CertErr e), s)
         | Inr (issued, a) \<Rightarrow>
             respond_audited env subject ''certificate.issue'' ''certificate'' (CertRecord_Serial (Issued_Record issued))
               (''issued certificate for device='' @ CertRecord_DeviceID (Issued_Record issued) @ '' role='' @ CertRecord_Role (Issued_Record issued))
               (json_response StatusCreated (BodyIssued issued)) (s\<lparr>srv_authority := a\<rparr>)))))
      else (WriteHeader StatusMethodNotAllowed, s))"

definition own_certificate :: "string \<Rightarrow> string \<Rightarrow> Server \<Rightarrow> reply + CertRecord" where
  \<comment> \<open>the checks of a revocation and a rotation that the certificate exists and belongs to the tenant\<close>
  "own_certificate tenantID serial s =
     (case Authority_Record serial (srv_authority s) of
        None \<Rightarrow> Inl (writeError StatusBadRequest (SerialNotFound serial))
      | Some existing \<Rightarrow>
          if CertRecord_TenantID existing \<noteq> tenantID then Inl (writeError StatusForbidden (SerialForeign tenantID)) else Inr existing)"

definition handleCertificateRevocations :: "'j api_lib \<Rightarrow> api_env \<Rightarrow> http_request \<Rightarrow> string \<Rightarrow> Server \<Rightarrow> reply \<times> Server" where
  "handleCertificateRevocations L env r tenantID s =
     (if rq_Method r = MethodGet then
        (case Memory_Inventory (env_ctx env) tenantID (srv_store s) of
           Inl e \<Rightarrow> (writeError StatusNotFound (StoreErr e), s)
         | Inr _ \<Rightarrow> (json_response StatusOK (BodyRecords (RevokedRecordsByTenant tenantID (srv_authority s))), s))
      else if rq_Method r = MethodPost then
        (case decodeJSON (dec_revoke L) r of
           Inl e \<Rightarrow> (writeError StatusBadRequest e, s)
         | Inr serial \<Rightarrow>
        (case subjectForAudit env r s of
           Inl resp \<Rightarrow> (resp, s)
         | Inr subject \<Rightarrow>
        (case own_certificate tenantID serial s of
           Inl resp \<Rightarrow> (resp, s)
         | Inr _ \<Rightarrow>
        (case Revoke (env_now env) serial (env_now env) (srv_authority s) of
           Inl e \<Rightarrow> (writeError StatusBadRequest (CertErr e), s)
         | Inr (rcd, a) \<Rightarrow>
        (case publishRevocationList L env tenantID (s\<lparr>srv_authority := a\<rparr>) of
           (Some e, s) \<Rightarrow> (writeError StatusInternalServerError e, s)
         | (None, s) \<Rightarrow>
             respond_audited env subject ''certificate.revoke'' ''certificate'' (CertRecord_Serial rcd)
               (''revoked certificate for device='' @ CertRecord_DeviceID rcd @ '' role='' @ CertRecord_Role rcd)
               (json_response StatusOK (BodyRecord rcd)) s)))))
      else (WriteHeader StatusMethodNotAllowed, s))"

definition handleCertificateRevocationList :: "'j api_lib \<Rightarrow> api_env \<Rightarrow> http_request \<Rightarrow> string \<Rightarrow> Server \<Rightarrow> reply \<times> Server" where
  "handleCertificateRevocationList L env r tenantID s =
     (if rq_Method r \<noteq> MethodGet then (WriteHeader StatusMethodNotAllowed, s)
      else case Memory_Inventory (env_ctx env) tenantID (srv_store s) of
             Inl e \<Rightarrow> (writeError StatusNotFound (StoreErr e), s)
           | Inr _ \<Rightarrow>
               (case RevocationListByTenant (api_x509 L) (env_crl env) tenantID (env_now env) (24 * nhour) (srv_authority s) of
                  Inl e \<Rightarrow> (writeError StatusInternalServerError (CertErr e), s)
                | Inr l \<Rightarrow> (json_response StatusOK (BodyRevocationList l), s)))"

definition handleCertificateStatus :: "api_env \<Rightarrow> http_request \<Rightarrow> string \<Rightarrow> Server \<Rightarrow> reply \<times> Server" where
  "handleCertificateStatus env r tenantID s =
     (if rq_Method r \<noteq> MethodGet then (WriteHeader StatusMethodNotAllowed, s)
      else case Memory_Inventory (env_ctx env) tenantID (srv_store s) of
             Inl e \<Rightarrow> (writeError StatusNotFound (StoreErr e), s)
           | Inr _ \<Rightarrow>
               let serial = TrimSpace (Query_Get r ''serial'') in
               (case NewStatusResponder (Some (srv_authority s)) DefaultStatusMaxAge of
                  Inl e \<Rightarrow> (writeError StatusInternalServerError (StatusErr e), s)
                | Inr responder \<Rightarrow>
                    (case Respond (env_now env) responder \<lparr>StatusRequest_TenantID = tenantID, StatusRequest_Serial = serial\<rparr> (env_now env) of
                       Inl e \<Rightarrow> (writeError StatusBadRequest (StatusErr e), s)
                     | Inr status \<Rightarrow> (json_response StatusOK (BodyStatus status), s))))"

definition handleCertificateOCSP :: "'j api_lib \<Rightarrow> api_env \<Rightarrow> http_request \<Rightarrow> string \<Rightarrow> Server \<Rightarrow> reply \<times> Server" where
  "handleCertificateOCSP L env r tenantID s =
     (if rq_Method r \<noteq> MethodPost then ((WriteHeader StatusMethodNotAllowed)\<lparr>rs_Header := [(''Allow'', ''POST'')]\<rparr>, s)
      else case Memory_Inventory (env_ctx env) tenantID (srv_store s) of
             Inl e \<Rightarrow> (writeError StatusNotFound (StoreErr e), s)
           | Inr _ \<Rightarrow>
               (case NewStatusResponder (Some (srv_authority s)) DefaultStatusMaxAge of
                  Inl e \<Rightarrow> (writeError StatusInternalServerError (StatusErr e), s)
                | Inr responder \<Rightarrow>
                    let resp = ServeOCSPHTTP (api_asn1 L) (env_seed env) (env_read env) (env_now env) (env_now env) responder tenantID r
                    in (\<lparr>rs_Status = rs_Status resp, rs_Header = rs_Header resp, rs_Body = map_option BodyOCSP (rs_Body resp)\<rparr>, s)))"

definition handleCertificateRotations :: "'j api_lib \<Rightarrow> api_env \<Rightarrow> http_request \<Rightarrow> string \<Rightarrow> Server \<Rightarrow> reply \<times> Server" where
  "handleCertificateRotations L env r tenantID s =
     (if rq_Method r \<noteq> MethodPost then (WriteHeader StatusMethodNotAllowed, s)
      else case decodeJSON (dec_rotate L) r of
             Inl e \<Rightarrow> (writeError StatusBadRequest e, s)
           | Inr request \<Rightarrow>
          (case subjectForAudit env r s of
             Inl resp \<Rightarrow> (resp, s)
           | Inr subject \<Rightarrow>
          (case own_certificate tenantID (CertRotate_Serial request) s of
             Inl resp \<Rightarrow> (resp, s)
           | Inr _ \<Rightarrow>
          (case Rotate (api_x509 L) (env_cert env) (CertRotate_Serial request) (cert_hours (CertRotate_TTLHours request)) (env_now env) (srv_authority s) of
             (Inl e, a) \<Rightarrow> (writeError StatusBadRequest (CertErr e), s\<lparr>srv_authority := a\<rparr>)
           | (Inr issued, a) \<Rightarrow>
          (case publishRevocationList L env tenantID (s\<lparr>srv_authority := a\<rparr>) of
             (Some e, s) \<Rightarrow> (writeError StatusInternalServerError e, s)
           | (None, s) \<Rightarrow>
               respond_audited env subject ''certificate.rotate'' ''certificate'' (CertRecord_Serial (Issued_Record issued))
                 (''rotated certificate from serial='' @ CertRotate_Serial request @ '' for device='' @ CertRecord_DeviceID (Issued_Record issued)
                   @ '' role='' @ CertRecord_Role (Issued_Record issued))
                 (json_response StatusCreated (BodyIssued issued)) s)))))"

section \<open>Dispatch\<close>

definition trim_slashes :: "string \<Rightarrow> string" where
  \<comment> \<open>strings.Trim with the cutset of a slash\<close>
  "trim_slashes s = rev (dropWhile (\<lambda>c. c = CHR ''/'') (rev (dropWhile (\<lambda>c. c = CHR ''/'') s)))"

definition parseTenantPath :: "string \<Rightarrow> (string \<times> string) option" where
  "parseTenantPath path =
     (let rest = TrimPrefix path ''/v1/tenants/'' in
      if rest = path then None
      else case split_char (CHR ''/'') (trim_slashes rest) of
             [tenantID, resource] \<Rightarrow> if tenantID = [] \<or> resource = [] then None else Some (tenantID, resource)
           | _ \<Rightarrow> None)"

definition knownTenantResource :: "string \<Rightarrow> bool" where
  "knownTenantResource resource \<longleftrightarrow>
     resource \<in> {''devices'', ''nodes'', ''node-heartbeats'', ''node-retirements'', ''inventory'', ''telemetry'', ''audit'', ''policies'',
       ''policy-decisions'', ''configs'', ''config-watch'', ''signed-configs'', ''signed-config-watch'', ''certificates'',
       ''certificate-revocations'', ''certificate-revocation-list'', ''certificate-status'', ''certificate-ocsp'', ''certificate-rotations''}"

definition by_method :: "string \<Rightarrow> Action option \<Rightarrow> Action option \<Rightarrow> Action option" where
  \<comment> \<open>the action of a GET and of a POST\<close>
  "by_method m g p = (if m = MethodGet then g else if m = MethodPost then p else None)"

definition actionFor :: "string \<Rightarrow> string \<Rightarrow> Action option" where
  "actionFor resource m =
     (if resource \<in> {''devices'', ''nodes''} then by_method m None (Some ActionManage)
      else if resource = ''node-heartbeats'' then by_method m None (Some ActionTelemetryWrite)
      else if resource = ''node-retirements'' then by_method m None (Some ActionManage)
      else if resource = ''inventory'' then by_method m (Some ActionRead) None
      else if resource = ''telemetry'' then by_method m (Some ActionRead) (Some ActionTelemetryWrite)
      else if resource = ''audit'' then by_method m (Some ActionAuditRead) None
      else if resource = ''policies'' then by_method m (Some ActionRead) (Some ActionPolicyEdit)
      else if resource = ''policy-decisions'' then by_method m None (Some ActionRead)
      else if resource = ''configs'' then by_method m (Some ActionConfigRead) (Some ActionManage)
      else if resource \<in> {''config-watch'', ''signed-configs'', ''signed-config-watch''} then by_method m (Some ActionConfigRead) None
      else if resource \<in> {''certificates'', ''certificate-revocations''} then by_method m (Some ActionRead) (Some ActionCertManage)
      else if resource \<in> {''certificate-revocation-list'', ''certificate-status''} then by_method m (Some ActionRead) None
      else if resource = ''certificate-ocsp'' then by_method m None (Some ActionRead)
      else if resource = ''certificate-rotations'' then by_method m None (Some ActionCertManage)
      else None)"

definition tenant_handler :: "'j api_lib \<Rightarrow> api_env \<Rightarrow> string \<Rightarrow> http_request \<Rightarrow> string \<Rightarrow> Server \<Rightarrow> reply \<times> Server" where
  \<comment> \<open>the switch of handleTenantScoped\<close>
  "tenant_handler L env resource =
     (if resource = ''devices'' then handleDevices L env
      else if resource = ''nodes'' then handleNodes L env
      else if resource = ''node-heartbeats'' then handleNodeHeartbeats L env
      else if resource = ''node-retirements'' then handleNodeRetirements L env
      else if resource = ''inventory'' then handleInventory env
      else if resource = ''telemetry'' then handleTelemetry L env
      else if resource = ''audit'' then handleAudit L env
      else if resource = ''policies'' then handlePolicies L env
      else if resource = ''policy-decisions'' then handlePolicyDecisions L env
      else if resource = ''configs'' then handleConfigs L env
      else if resource = ''config-watch'' then handleConfigWatch env
      else if resource = ''signed-configs'' then handleSignedConfigs L env
      else if resource = ''signed-config-watch'' then handleSignedConfigWatch L env
      else if resource = ''certificates'' then handleCertificates L env
      else if resource = ''certificate-revocations'' then handleCertificateRevocations L env
      else if resource = ''certificate-revocation-list'' then handleCertificateRevocationList L env
      else if resource = ''certificate-status'' then handleCertificateStatus env
      else if resource = ''certificate-ocsp'' then handleCertificateOCSP L env
      else if resource = ''certificate-rotations'' then handleCertificateRotations L env
      else (\<lambda>_ _ s. (NotFound, s)))"

definition handleTenantScoped :: "'j api_lib \<Rightarrow> api_env \<Rightarrow> http_request \<Rightarrow> Server \<Rightarrow> reply \<times> Server" where
  "handleTenantScoped L env r s =
     (case parseTenantPath (rq_Path r) of
        None \<Rightarrow> (NotFound, s)
      | Some (tenantID, resource) \<Rightarrow>
     (case actionFor resource (rq_Method r) of
        None \<Rightarrow> if \<not> knownTenantResource resource then (NotFound, s) else (WriteHeader StatusMethodNotAllowed, s)
      | Some action \<Rightarrow>
     (case authorize env r tenantID action s of
        (Inl resp, s) \<Rightarrow> (resp, s)
      | (Inr _, s) \<Rightarrow> tenant_handler L env resource r tenantID s)))"

definition mux_path :: "string \<Rightarrow> string" where
  \<comment> \<open>the cleaned path of http.ServeMux, which keeps a trailing slash\<close>
  "mux_path p =
     (let p = (if p = [] \<or> hd p \<noteq> CHR ''/'' then CHR ''/'' # p else p); np = path_Clean p
      in if last p = CHR ''/'' \<and> np \<noteq> ''/'' then np @ ''/'' else np)"

definition Handler :: "'j api_lib \<Rightarrow> api_env \<Rightarrow> http_request \<Rightarrow> Server \<Rightarrow> reply \<times> Server" where
  "Handler L env r s =
     (if rq_Method r \<noteq> ''CONNECT'' \<and> mux_path (rq_Path r) \<noteq> rq_Path r
      then (\<lparr>rs_Status = 301, rs_Header = [(''Location'', mux_path (rq_Path r))], rs_Body = Some (BodyRedirect (mux_path (rq_Path r)))\<rparr>, s)
      else if rq_Path r = ''/healthz'' then handleHealth r s
      else if rq_Path r = ''/version'' then handleVersion r s
      else if rq_Path r = ''/console'' then handleConsole r s
      else if rq_Path r = ''/v1/login'' then handlePasswordLogin L env r s
      else if rq_Path r = ''/v1/oidc-login'' then handleOIDCLogin L env r s
      else if rq_Path r = ''/v1/sessions'' then handleSessions L env r s
      else if rq_Path r = ''/v1/config-signing-key/approval-request'' then handleConfigSigningKeyApprovalRequest L env r s
      else if rq_Path r = ''/v1/config-signing-key'' then handleConfigSigningKey L env r s
      else if rq_Path r = ''/v1/tenants'' then handleTenants L env r s
      else if HasPrefix (rq_Path r) ''/v1/tenants/'' then handleTenantScoped L env r s
      else (NotFound, s))"

end
