(* ===== verification/Go_Url.thy ===== *)
theory Go_Url
  imports Go_HTTP
begin

text \<open>
  The parts of net/url a client and a server use to pass parameters: url.QueryEscape, url.Values.Encode and
  url.ParseQuery, and the decoding of percent escapes in paths. url.Values are maps with one value per key
  on the encoding side; the decoding side keeps the first value of each key, the only one the program reads.
\<close>

definition unreserved :: "char \<Rightarrow> bool" where
  "unreserved c =
     (let n = (of_char c :: nat) in
      (48 \<le> n \<and> n \<le> 57) \<or> (65 \<le> n \<and> n \<le> 90) \<or> (97 \<le> n \<and> n \<le> 122) \<or> n \<in> {45, 46, 95, 126})"

definition upper_hex :: "nat \<Rightarrow> char" where
  "upper_hex n = (if n < 10 then char_of (48 + n) else char_of (55 + n))"

definition escape_char :: "char \<Rightarrow> string" where
  "escape_char c =
     (if unreserved c then [c]
      else if c = CHR '' '' then ''+''
      else [CHR ''%'', upper_hex (of_char c div 16), upper_hex (of_char c mod 16)])"

definition QueryEscape :: "string \<Rightarrow> string" where
  "QueryEscape s = concat (map escape_char s)"

fun unescape :: "bool \<Rightarrow> string \<Rightarrow> string option" where
  \<comment> \<open>the flag tells whether a plus sign stands for a space, as it does in queries\<close>
  "unescape inQuery [] = Some []"
| "unescape inQuery (c # s) =
     (if c = CHR ''%'' then
        (case s of
           h # l # s' \<Rightarrow>
             (case (hex_value h, hex_value l, unescape inQuery s') of
                (Some a, Some b, Some t) \<Rightarrow> Some (char_of (16 * a + b) # t)
              | _ \<Rightarrow> None)
         | _ \<Rightarrow> None)
      else map_option (Cons (if inQuery \<and> c = CHR ''+'' then CHR '' '' else c)) (unescape inQuery s))"

definition Values_Encode :: "(string, string) gomap \<Rightarrow> string" where
  "Values_Encode m =
     join_char (CHR ''&'') (map (\<lambda>(k, v). QueryEscape k @ CHR ''='' # QueryEscape v) (SliceStable (key_less fst) m))"

definition cut :: "char \<Rightarrow> string \<Rightarrow> string \<times> string" where
  \<comment> \<open>strings.Cut at a single character, without the flag\<close>
  "cut d s = (takeWhile (\<lambda>c. c \<noteq> d) s, drop 1 (dropWhile (\<lambda>c. c \<noteq> d) s))"

definition parse_pair :: "string \<Rightarrow> (string \<times> string) option" where
  "parse_pair seg =
     (if CHR '';'' \<in> set seg \<or> seg = [] then None
      else case cut (CHR ''='') seg of
             (k, v) \<Rightarrow> (case (unescape True k, unescape True v) of (Some k, Some v) \<Rightarrow> Some (k, v) | _ \<Rightarrow> None))"

definition ParseQuery :: "string \<Rightarrow> (string, string) gomap" where
  \<comment> \<open>pairs that cannot be read are left out, as URL.Query does\<close>
  "ParseQuery q =
     fold (\<lambda>(k, v) m. if gm_has m k then m else m @ [(k, v)]) (List.map_filter parse_pair (split_char (CHR ''&'') q)) []"

section \<open>Decoding what was encoded\<close>

lemma hex_value_upper: "n < 16 \<Longrightarrow> hex_value (upper_hex n) = Some (int n)"
  by (auto simp: hex_value_nat upper_hex_def Let_def)

lemma char_of_hex: "char_of (16 * int (of_char c div 16) + int (of_char c mod 16)) = (c :: char)"
proof -
  have "16 * int (of_char c div 16) + int (of_char c mod 16) = int (of_char c)"
    by (metis mult_div_mod_eq of_nat_add of_nat_mult of_nat_numeral)
  also have "char_of (int (of_char c)) = c" by simp
  finally show ?thesis .
qed

lemma of_char_div: "(of_char (c :: char) :: nat) div 16 < 16"
  by (rule less_mult_imp_div_less) (simp add: nat_of_char_less_256)

lemma unescape_char: "unescape True (escape_char c @ s) = map_option (Cons c) (unescape True s)"
proof -
  have plain: "c \<noteq> CHR ''%'' \<and> c \<noteq> CHR ''+''" if "unreserved c" using that by (auto simp: unreserved_def Let_def)
  show ?thesis
    using of_char_div [of c] plain by (auto simp: escape_char_def hex_value_upper char_of_hex split: option.splits)
qed

lemma unescape_QueryEscape [simp]: "unescape True (QueryEscape s) = Some s"
  by (induction s) (simp_all add: QueryEscape_def unescape_char)

lemma escape_char_set: "d \<in> set (escape_char c) \<Longrightarrow> unreserved d \<or> d = CHR ''+'' \<or> d = CHR ''%''"
proof -
  have "unreserved (upper_hex n)" if "n < 16" for n
    using that by (auto simp: upper_hex_def unreserved_def Let_def)
  then show "d \<in> set (escape_char c) \<Longrightarrow> unreserved d \<or> d = CHR ''+'' \<or> d = CHR ''%''"
    using of_char_div [of c] by (auto simp: escape_char_def split: if_splits)
qed

lemma QueryEscape_set: "d \<in> set (QueryEscape s) \<Longrightarrow> unreserved d \<or> d = CHR ''+'' \<or> d = CHR ''%''"
  by (auto simp: QueryEscape_def dest: escape_char_set)

lemma QueryEscape_plain: "CHR ''&'' \<notin> set (QueryEscape s)" "CHR ''='' \<notin> set (QueryEscape s)" "CHR '';'' \<notin> set (QueryEscape s)"
  "CHR ''?'' \<notin> set (QueryEscape s)" "CHR ''#'' \<notin> set (QueryEscape s)"
  by (auto dest!: QueryEscape_set simp: unreserved_def)

lemma cut_append: "d \<notin> set a \<Longrightarrow> cut d (a @ d # b) = (a, b)"
  by (induction a) (auto simp: cut_def)

lemma cut_none: "d \<notin> set a \<Longrightarrow> cut d a = (a, [])"
  by (induction a) (auto simp: cut_def)

lemma parse_pair_encoded: "parse_pair (QueryEscape k @ CHR ''='' # QueryEscape v) = Some (k, v)"
  by (simp add: parse_pair_def cut_append QueryEscape_plain)

lemma split_char_plain: "d \<notin> set p \<Longrightarrow> split_char d (p @ d # s) = p # split_char d s" "d \<notin> set p \<Longrightarrow> split_char d p = [p]"
  by (induction p) auto

lemma split_join_char: "ps \<noteq> [] \<Longrightarrow> \<forall>p\<in>set ps. d \<notin> set p \<Longrightarrow> split_char d (join_char d ps) = ps"
  by (induction d ps rule: join_char.induct) (simp_all add: split_char_plain)

lemma parse_encoded_pairs:
  "List.map_filter parse_pair (split_char (CHR ''&'') (join_char (CHR ''&'') (map (\<lambda>(k, v). QueryEscape k @ CHR ''='' # QueryEscape v) ps))) = ps"
proof (cases "ps = []")
  case True
  then show ?thesis by (simp add: parse_pair_def map_filter_simps)
next
  case False
  let ?enc = "\<lambda>(k, v). QueryEscape k @ CHR ''='' # QueryEscape v"
  have "split_char (CHR ''&'') (join_char (CHR ''&'') (map ?enc ps)) = map ?enc ps"
    using False by (intro split_join_char) (auto simp: QueryEscape_plain)
  moreover have "List.map_filter parse_pair (map ?enc ps) = ps"
    by (induction ps) (auto simp: map_filter_simps parse_pair_encoded)
  ultimately show ?thesis by simp
qed

lemma fold_first_get:
  "gm_get (fold (\<lambda>(k, v) m. if gm_has m k then m else m @ [(k, v)]) ps m0) k =
     (case gm_get m0 k of Some v \<Rightarrow> Some v | None \<Rightarrow> gm_get ps k)"
proof (induction ps arbitrary: m0)
  case Nil
  then show ?case by (simp split: option.splits)
next
  case (Cons p ps)
  then show ?case by (cases p) (auto simp: map_add_def split: option.splits)
qed

lemma ParseQuery_Encode [simp]:
  assumes "gm_ok m"
  shows "gm_get (ParseQuery (Values_Encode m)) k = gm_get m k"
proof -
  have "gm_get (ParseQuery (Values_Encode m)) k = gm_get (SliceStable (key_less fst) m) k"
    by (simp add: ParseQuery_def Values_Encode_def parse_encoded_pairs fold_first_get del: gm_has_iff)
  also have "\<dots> = gm_get m k"
  proof -
    have "mset (map fst (SliceStable (key_less fst) m)) = mset (map fst m)" by (simp only: mset_map mset_SliceStable)
    then have "distinct (map fst (SliceStable (key_less fst) m))" using assms by (metis gm_ok_def mset_eq_imp_distinct_iff)
    then have "gm_get (SliceStable (key_less fst) m) = gm_get m" using assms by (subst map_of_inject_set) (simp_all add: gm_ok_def)
    then show ?thesis by simp
  qed
  finally show ?thesis .
qed

section \<open>Clean paths\<close>

lemma clean_elems_plain:
  "\<forall>e\<in>set es. e \<noteq> [] \<and> e \<noteq> ''.'' \<and> e \<noteq> ''..'' \<Longrightarrow> clean_elems rooted acc es = rev es @ acc"
  by (induction es arbitrary: acc) auto

lemma path_Clean_plain:
  assumes "es \<noteq> []" "\<forall>e\<in>set es. e \<noteq> [] \<and> e \<noteq> ''.'' \<and> e \<noteq> ''..'' \<and> CHR ''/'' \<notin> set e"
  shows "path_Clean (CHR ''/'' # join_char (CHR ''/'') es) = CHR ''/'' # join_char (CHR ''/'') es"
proof -
  have "split_char (CHR ''/'') (join_char (CHR ''/'') es) = es" using assms by (intro split_join_char) auto
  then have "split_char (CHR ''/'') (CHR ''/'' # join_char (CHR ''/'') es) = [] # es" by simp
  then show ?thesis using assms(2) by (simp add: path_Clean_def clean_elems_plain)
qed

end
