(* ===== verification/Control_Client.thy ===== *)
theory Control_Client
  imports Control Go_Url
begin

text \<open>
  The client of the control API: internal/controlclient/client.go.

  A client runs over an HTTP client, a function from requests to responses and the state of the world \<open>'w\<close>
  it talks to. The JSON codecs of the payloads and answers are parameters, collected in \<open>client_codec\<close>: the
  decoder of an answer is given the body as far as it was read. \<open>dec_problem\<close> reads the field error of an error
  body, and is the empty string if there is none.
\<close>

section \<open>Requests and responses\<close>

record wire_request =
  wq_Method :: string
  wq_URL :: string
  wq_Header :: "(string, string) gomap"
  wq_Body :: "byte list"

record wire_response =
  wr_Status :: int
  wr_Header :: "(string, string) gomap"
  wr_Body :: "byte list"
  wr_Err :: "string option" \<comment> \<open>an error of reading the body to its end\<close>

record 'w http_client =
  http_New :: "string \<Rightarrow> string \<Rightarrow> string option" \<comment> \<open>the error of http.NewRequestWithContext for a method and a URL\<close>
  http_Do :: "wire_request \<Rightarrow> 'w \<Rightarrow> (string + wire_response) \<times> 'w"

record Credentials =
  Cred_TenantID :: string
  Cred_ActorID :: string
  Cred_Roles :: "Role list"
  Cred_BearerToken :: string

record 'w Client =
  client_baseURL :: string
  client_http :: "'w http_client"
  client_creds :: Credentials

record AuditQuery =
  AuditQuery_Action :: string
  AuditQuery_Actor :: string
  AuditQuery_ObjectType :: string
  AuditQuery_ObjectID :: string
  AuditQuery_Since :: time
  AuditQuery_Until :: time
  AuditQuery_Limit :: int

datatype client_payload =
    PayTTL int
  | PayLogin passwordLoginRequest
  | PayOIDC oidcLoginRequest
  | PayTenant Tenant
  | PayDevice Device
  | PayNode Node
  | PayHeartbeat NodeHeartbeat
  | PayRetire string
  | PayConfig ConfigBundle
  | PayReport Report
  | PayRequest Request
  | PayRule Rule
  | PayIssue certificateIssueRequest
  | PayRotate certificateRotateRequest
  | PayRevoke string

datatype client_error =
    BaseURLRequired
  | MarshalRequest string
  | CreateRequest string
  | RequestFailed string string string \<comment> \<open>method, path, error\<close>
  | Returned string string int string \<comment> \<open>method, path, status, the server's error or the empty string\<close>
  | DecodeResponse string
  | WatchTargetRequired
  | SignedWatchTargetRequired
  | OCSPTenantRequired
  | OCSPContentType string
  | ReadBody string

record client_codec =
  enc_payload :: "client_payload \<Rightarrow> string + byte list"
  dec_problem :: "byte list \<Rightarrow> string"
  fmt_time :: "time \<Rightarrow> string" \<comment> \<open>Time.Format with RFC3339Nano\<close>
  rd_info :: "byte list \<Rightarrow> string + Info"
  rd_session :: "byte list \<Rightarrow> string + Session"
  rd_key :: "byte list \<Rightarrow> string + SigningPublicKey"
  rd_approval :: "byte list \<Rightarrow> string + SigningKeyApprovalRequest"
  rd_tenant :: "byte list \<Rightarrow> string + Tenant"
  rd_device :: "byte list \<Rightarrow> string + Device"
  rd_node :: "byte list \<Rightarrow> string + Node"
  rd_inventory :: "byte list \<Rightarrow> string + Inventory"
  rd_events :: "byte list \<Rightarrow> string + AuditEvent list"
  rd_configs :: "byte list \<Rightarrow> string + ConfigBundle list"
  rd_config :: "byte list \<Rightarrow> string + ConfigBundle"
  rd_signeds :: "byte list \<Rightarrow> string + SignedBundle list"
  rd_signed :: "byte list \<Rightarrow> string + SignedBundle"
  rd_report :: "byte list \<Rightarrow> string + Report"
  rd_reports :: "byte list \<Rightarrow> string + Report list"
  rd_decision :: "byte list \<Rightarrow> string + Decision"
  rd_rule :: "byte list \<Rightarrow> string + Rule"
  rd_rules :: "byte list \<Rightarrow> string + Rule list"
  rd_issued :: "byte list \<Rightarrow> string + Issued"
  rd_records :: "byte list \<Rightarrow> string + CertRecord list"
  rd_record :: "byte list \<Rightarrow> string + CertRecord"
  rd_crl :: "byte list \<Rightarrow> string + RevocationList"
  rd_status :: "byte list \<Rightarrow> string + CertificateStatus"

section \<open>The client\<close>

definition TrimRight_slash :: "string \<Rightarrow> string" where
  \<comment> \<open>strings.TrimRight with the cutset of a slash\<close>
  "TrimRight_slash s = rev (dropWhile (\<lambda>c. c = CHR ''/'') (rev s))"

definition NewWithCredentials :: "'w http_client \<Rightarrow> string \<Rightarrow> 'w http_client option \<Rightarrow> Credentials \<Rightarrow> client_error + 'w Client" where
  \<comment> \<open>the first argument is a client with a timeout of 10 seconds\<close>
  "NewWithCredentials dflt baseURL httpClient creds =
     (let baseURL = TrimRight_slash baseURL in
      check (baseURL = []) BaseURLRequired (
      Inr \<lparr>client_baseURL = baseURL, client_http = (case httpClient of None \<Rightarrow> dflt | Some h \<Rightarrow> h), client_creds = creds\<rparr>))"

definition no_credentials :: Credentials where
  "no_credentials = \<lparr>Cred_TenantID = [], Cred_ActorID = [], Cred_Roles = [], Cred_BearerToken = []\<rparr>"

definition Client_New :: "'w http_client \<Rightarrow> string \<Rightarrow> 'w http_client option \<Rightarrow> client_error + 'w Client" where
  "Client_New dflt baseURL httpClient = NewWithCredentials dflt baseURL httpClient no_credentials"

definition NewWithBearer :: "'w http_client \<Rightarrow> string \<Rightarrow> 'w http_client option \<Rightarrow> string \<Rightarrow> client_error + 'w Client" where
  "NewWithBearer dflt baseURL httpClient token =
     NewWithCredentials dflt baseURL httpClient (no_credentials\<lparr>Cred_BearerToken := token\<rparr>)"

definition setAuthHeaders :: "Credentials \<Rightarrow> (string, string) gomap \<Rightarrow> (string, string) gomap" where
  "setAuthHeaders creds header =
     (if Cred_BearerToken creds \<noteq> [] then gm_set ''Authorization'' (''Bearer '' @ Cred_BearerToken creds) header
      else if Cred_TenantID creds = [] \<and> Cred_ActorID creds = [] \<and> Cred_Roles creds = [] then header
      else gm_set ''X-Roles'' (join_char (CHR '','') (Cred_Roles creds))
             (gm_set ''X-Actor-ID'' (Cred_ActorID creds) (gm_set ''X-Tenant-ID'' (Cred_TenantID creds) header)))"

definition tenantPath :: "string \<Rightarrow> string \<Rightarrow> string" where
  "tenantPath tenantID resource = ''/v1/tenants/'' @ tenantID @ ''/'' @ resource"

definition send :: "'w Client \<Rightarrow> string \<Rightarrow> string \<Rightarrow> (string, string) gomap \<Rightarrow> byte list \<Rightarrow> 'w \<Rightarrow> (client_error + wire_response) \<times> 'w" where
  \<comment> \<open>create a request, add the credentials and send it, as every operation does\<close>
  "send c m path header body w =
     (case http_New (client_http c) m (client_baseURL c @ path) of
        Some e \<Rightarrow> (Inl (CreateRequest e), w)
      | None \<Rightarrow>
          (case http_Do (client_http c) \<lparr>wq_Method = m, wq_URL = client_baseURL c @ path,
                  wq_Header = setAuthHeaders (client_creds c) header, wq_Body = body\<rparr> w of
             (Inl e, w) \<Rightarrow> (Inl (RequestFailed m path e), w)
           | (Inr resp, w) \<Rightarrow> (Inr resp, w)))"

definition doJSON :: "client_codec \<Rightarrow> 'w Client \<Rightarrow> string \<Rightarrow> string \<Rightarrow> client_payload option \<Rightarrow> int \<Rightarrow> (byte list \<Rightarrow> string + 'a) \<Rightarrow> 'w \<Rightarrow>
    (client_error + 'a) \<times> 'w" where
  "doJSON J c m path payload wantStatus out w =
     (case (case payload of None \<Rightarrow> Inr [] | Some p \<Rightarrow> enc_payload J p) of
        Inl e \<Rightarrow> (Inl (MarshalRequest e), w)
      | Inr body \<Rightarrow>
     (case send c m path (if payload \<noteq> None then [(''Content-Type'', ''application/json'')] else []) body w of
        (Inl e, w) \<Rightarrow> (Inl e, w)
      | (Inr resp, w) \<Rightarrow>
          if wr_Status resp \<noteq> wantStatus then (Inl (Returned m path (wr_Status resp) (dec_problem J (wr_Body resp))), w)
          else (case out (wr_Body resp) of Inl e \<Rightarrow> (Inl (DecodeResponse e), w) | Inr v \<Rightarrow> (Inr v, w))))"

abbreviation no_out :: "byte list \<Rightarrow> string + unit" where "no_out \<equiv> \<lambda>_. Inr ()"

section \<open>Operations\<close>

definition Healthz :: "client_codec \<Rightarrow> 'w Client \<Rightarrow> 'w \<Rightarrow> (client_error + unit) \<times> 'w" where
  "Healthz J c w = doJSON J c MethodGet ''/healthz'' None StatusOK no_out w"

definition Client_Version :: "client_codec \<Rightarrow> 'w Client \<Rightarrow> 'w \<Rightarrow> (client_error + Info) \<times> 'w" where
  "Client_Version J c w = doJSON J c MethodGet ''/version'' None StatusOK (rd_info J) w"

definition Client_IssueSession :: "client_codec \<Rightarrow> 'w Client \<Rightarrow> int \<Rightarrow> 'w \<Rightarrow> (client_error + Session) \<times> 'w" where
  "Client_IssueSession J c ttlHours w = doJSON J c MethodPost ''/v1/sessions'' (Some (PayTTL ttlHours)) StatusCreated (rd_session J) w"

definition RevokeSession :: "client_codec \<Rightarrow> 'w Client \<Rightarrow> 'w \<Rightarrow> (client_error + unit) \<times> 'w" where
  "RevokeSession J c w = doJSON J c MethodDelete ''/v1/sessions'' None StatusNoContent no_out w"

definition Login :: "client_codec \<Rightarrow> 'w Client \<Rightarrow> string \<Rightarrow> string \<Rightarrow> string \<Rightarrow> int \<Rightarrow> 'w \<Rightarrow> (client_error + Session) \<times> 'w" where
  "Login J c tenantID subjectID password ttlHours w = doJSON J c MethodPost ''/v1/login'' (Some (PayLogin \<lparr>Login_TenantID = tenantID, Login_SubjectID = subjectID, Login_Password = password, Login_TTLHours = ttlHours\<rparr>)) StatusCreated (rd_session J) w"

definition OIDCLogin :: "client_codec \<Rightarrow> 'w Client \<Rightarrow> string \<Rightarrow> int \<Rightarrow> 'w \<Rightarrow> (client_error + Session) \<times> 'w" where
  "OIDCLogin J c idToken ttlHours w = doJSON J c MethodPost ''/v1/oidc-login'' (Some (PayOIDC \<lparr>OIDCLogin_IDToken = idToken, OIDCLogin_TTLHours = ttlHours\<rparr>)) StatusCreated (rd_session J) w"

definition Client_ConfigSigningKey :: "client_codec \<Rightarrow> 'w Client \<Rightarrow> 'w \<Rightarrow> (client_error + SigningPublicKey) \<times> 'w" where
  "Client_ConfigSigningKey J c w = doJSON J c MethodGet ''/v1/config-signing-key'' None StatusOK (rd_key J) w"

definition Client_RotateConfigSigningKey :: "client_codec \<Rightarrow> 'w Client \<Rightarrow> 'w \<Rightarrow> (client_error + SigningPublicKey) \<times> 'w" where
  "Client_RotateConfigSigningKey J c w = doJSON J c MethodPost ''/v1/config-signing-key'' None StatusOK (rd_key J) w"

definition ConfigSigningKeyApprovalRequest :: "client_codec \<Rightarrow> 'w Client \<Rightarrow> 'w \<Rightarrow> (client_error + SigningKeyApprovalRequest) \<times> 'w" where
  "ConfigSigningKeyApprovalRequest J c w = doJSON J c MethodGet ''/v1/config-signing-key/approval-request'' None StatusOK (rd_approval J) w"

definition Client_CreateTenant :: "client_codec \<Rightarrow> 'w Client \<Rightarrow> Tenant \<Rightarrow> 'w \<Rightarrow> (client_error + Tenant) \<times> 'w" where
  "Client_CreateTenant J c tenant w = doJSON J c MethodPost ''/v1/tenants'' (Some (PayTenant tenant)) StatusCreated (rd_tenant J) w"

definition Client_RegisterDevice :: "client_codec \<Rightarrow> 'w Client \<Rightarrow> string \<Rightarrow> Device \<Rightarrow> 'w \<Rightarrow> (client_error + Device) \<times> 'w" where
  "Client_RegisterDevice J c tenantID device w = doJSON J c MethodPost (tenantPath tenantID ''devices'') (Some (PayDevice device)) StatusCreated (rd_device J) w"

definition Client_RegisterNode :: "client_codec \<Rightarrow> 'w Client \<Rightarrow> string \<Rightarrow> Node \<Rightarrow> 'w \<Rightarrow> (client_error + Node) \<times> 'w" where
  "Client_RegisterNode J c tenantID node w = doJSON J c MethodPost (tenantPath tenantID ''nodes'') (Some (PayNode node)) StatusCreated (rd_node J) w"

definition PushNodeHeartbeat :: "client_codec \<Rightarrow> 'w Client \<Rightarrow> string \<Rightarrow> NodeHeartbeat \<Rightarrow> 'w \<Rightarrow> (client_error + Node) \<times> 'w" where
  "PushNodeHeartbeat J c tenantID heartbeat w = doJSON J c MethodPost (tenantPath tenantID ''node-heartbeats'') (Some (PayHeartbeat heartbeat)) StatusOK (rd_node J) w"

definition Client_RetireNode :: "client_codec \<Rightarrow> 'w Client \<Rightarrow> string \<Rightarrow> string \<Rightarrow> 'w \<Rightarrow> (client_error + Node) \<times> 'w" where
  "Client_RetireNode J c tenantID nodeID w = doJSON J c MethodPost (tenantPath tenantID ''node-retirements'') (Some (PayRetire nodeID)) StatusOK (rd_node J) w"

definition Client_Inventory :: "client_codec \<Rightarrow> 'w Client \<Rightarrow> string \<Rightarrow> 'w \<Rightarrow> (client_error + Inventory) \<times> 'w" where
  "Client_Inventory J c tenantID w = doJSON J c MethodGet (tenantPath tenantID ''inventory'') None StatusOK (rd_inventory J) w"

definition audit_values :: "client_codec \<Rightarrow> AuditQuery \<Rightarrow> (string, string) gomap" where
  "audit_values J query =
     (let set = (\<lambda>use key v values. if use then gm_set key v values else values);
          values = set (AuditQuery_Action query \<noteq> []) ''action'' (AuditQuery_Action query) [];
          values = set (AuditQuery_Actor query \<noteq> []) ''actor'' (AuditQuery_Actor query) values;
          values = set (AuditQuery_ObjectType query \<noteq> []) ''object_type'' (AuditQuery_ObjectType query) values;
          values = set (AuditQuery_ObjectID query \<noteq> []) ''object_id'' (AuditQuery_ObjectID query) values;
          values = set (\<not> IsZero (AuditQuery_Since query)) ''since'' (fmt_time J (AuditQuery_Since query)) values;
          values = set (\<not> IsZero (AuditQuery_Until query)) ''until'' (fmt_time J (AuditQuery_Until query)) values
      in set (AuditQuery_Limit query > 0) ''limit'' (Itoa (AuditQuery_Limit query)) values)"

definition Client_AuditEvents :: "client_codec \<Rightarrow> 'w Client \<Rightarrow> string \<Rightarrow> AuditQuery \<Rightarrow> 'w \<Rightarrow> (client_error + AuditEvent list) \<times> 'w" where
  "Client_AuditEvents J c tenantID query w =
     (let path = tenantPath tenantID ''audit''; encoded = Values_Encode (audit_values J query);
          path = (if encoded \<noteq> [] then path @ CHR ''?'' # encoded else path)
      in doJSON J c MethodGet path None StatusOK (rd_events J) w)"

definition Client_Configs :: "client_codec \<Rightarrow> 'w Client \<Rightarrow> string \<Rightarrow> 'w \<Rightarrow> (client_error + ConfigBundle list) \<times> 'w" where
  "Client_Configs J c tenantID w = doJSON J c MethodGet (tenantPath tenantID ''configs'') None StatusOK (rd_configs J) w"

definition watch_path :: "string \<Rightarrow> string \<Rightarrow> string \<Rightarrow> string \<Rightarrow> duration \<Rightarrow> string" where
  "watch_path tenantID resource targetID sinceVersion timeout =
     (let query = gm_set ''target_id'' targetID [];
          query = (if sinceVersion \<noteq> [] then gm_set ''since_version'' sinceVersion query else query);
          query = (if timeout > 0 then gm_set ''timeout_ms'' (Itoa (quot timeout 1000000)) query else query)
      in tenantPath tenantID resource @ CHR ''?'' # Values_Encode query)"

definition watch :: "client_codec \<Rightarrow> 'w Client \<Rightarrow> string \<Rightarrow> (byte list \<Rightarrow> string + 'a) \<Rightarrow> 'w \<Rightarrow> (client_error + 'a option) \<times> 'w" where
  \<comment> \<open>the common part of the two watches after the path is built; None: nothing changed\<close>
  "watch J c path out w =
     (case send c MethodGet path [] [] w of
        (Inl e, w) \<Rightarrow> (Inl e, w)
      | (Inr resp, w) \<Rightarrow>
          if wr_Status resp = StatusNoContent then (Inr None, w)
          else if wr_Status resp \<noteq> StatusOK then (Inl (Returned MethodGet path (wr_Status resp) (dec_problem J (wr_Body resp))), w)
          else (case out (wr_Body resp) of Inl e \<Rightarrow> (Inl (DecodeResponse e), w) | Inr v \<Rightarrow> (Inr (Some v), w)))"

definition WatchConfig :: "client_codec \<Rightarrow> 'w Client \<Rightarrow> string \<Rightarrow> string \<Rightarrow> string \<Rightarrow> duration \<Rightarrow> 'w \<Rightarrow> (client_error + ConfigBundle option) \<times> 'w" where
  "WatchConfig J c tenantID targetID sinceVersion timeout w =
     (let targetID = TrimSpace targetID in
      if targetID = [] then (Inl WatchTargetRequired, w)
      else watch J c (watch_path tenantID ''config-watch'' targetID sinceVersion timeout) (rd_config J) w)"

definition SignedConfigs :: "client_codec \<Rightarrow> 'w Client \<Rightarrow> string \<Rightarrow> 'w \<Rightarrow> (client_error + SignedBundle list) \<times> 'w" where
  "SignedConfigs J c tenantID w = doJSON J c MethodGet (tenantPath tenantID ''signed-configs'') None StatusOK (rd_signeds J) w"

definition WatchSignedConfig :: "client_codec \<Rightarrow> 'w Client \<Rightarrow> string \<Rightarrow> string \<Rightarrow> string \<Rightarrow> duration \<Rightarrow> 'w \<Rightarrow> (client_error + SignedBundle option) \<times> 'w" where
  "WatchSignedConfig J c tenantID targetID sinceVersion timeout w =
     (let targetID = TrimSpace targetID in
      if targetID = [] then (Inl SignedWatchTargetRequired, w)
      else watch J c (watch_path tenantID ''signed-config-watch'' targetID sinceVersion timeout) (rd_signed J) w)"

definition Client_UpsertConfig :: "client_codec \<Rightarrow> 'w Client \<Rightarrow> string \<Rightarrow> ConfigBundle \<Rightarrow> 'w \<Rightarrow> (client_error + ConfigBundle) \<times> 'w" where
  "Client_UpsertConfig J c tenantID bundle w = doJSON J c MethodPost (tenantPath tenantID ''configs'') (Some (PayConfig bundle)) StatusCreated (rd_config J) w"

definition Client_PushTelemetry :: "client_codec \<Rightarrow> 'w Client \<Rightarrow> string \<Rightarrow> Report \<Rightarrow> 'w \<Rightarrow> (client_error + Report) \<times> 'w" where
  "Client_PushTelemetry J c tenantID report w = doJSON J c MethodPost (tenantPath tenantID ''telemetry'') (Some (PayReport report)) StatusCreated (rd_report J) w"

definition Client_Telemetry :: "client_codec \<Rightarrow> 'w Client \<Rightarrow> string \<Rightarrow> 'w \<Rightarrow> (client_error + Report list) \<times> 'w" where
  "Client_Telemetry J c tenantID w = doJSON J c MethodGet (tenantPath tenantID ''telemetry'') None StatusOK (rd_reports J) w"

definition PolicyDecision :: "client_codec \<Rightarrow> 'w Client \<Rightarrow> string \<Rightarrow> Request \<Rightarrow> 'w \<Rightarrow> (client_error + Decision) \<times> 'w" where
  "PolicyDecision J c tenantID request w = doJSON J c MethodPost (tenantPath tenantID ''policy-decisions'') (Some (PayRequest request)) StatusOK (rd_decision J) w"

definition Client_UpsertPolicyRule :: "client_codec \<Rightarrow> 'w Client \<Rightarrow> string \<Rightarrow> Rule \<Rightarrow> 'w \<Rightarrow> (client_error + Rule) \<times> 'w" where
  "Client_UpsertPolicyRule J c tenantID r w = doJSON J c MethodPost (tenantPath tenantID ''policies'') (Some (PayRule r)) StatusCreated (rd_rule J) w"

definition Client_PolicyRules :: "client_codec \<Rightarrow> 'w Client \<Rightarrow> string \<Rightarrow> 'w \<Rightarrow> (client_error + Rule list) \<times> 'w" where
  "Client_PolicyRules J c tenantID w = doJSON J c MethodGet (tenantPath tenantID ''policies'') None StatusOK (rd_rules J) w"

definition IssueCertificate :: "client_codec \<Rightarrow> 'w Client \<Rightarrow> string \<Rightarrow> string \<Rightarrow> string \<Rightarrow> int \<Rightarrow> 'w \<Rightarrow> (client_error + Issued) \<times> 'w" where
  "IssueCertificate J c tenantID deviceID role ttlHours w = doJSON J c MethodPost (tenantPath tenantID ''certificates'') (Some (PayIssue \<lparr>CertIssue_DeviceID = deviceID, CertIssue_Role = role, CertIssue_TTLHours = ttlHours\<rparr>)) StatusCreated (rd_issued J) w"

definition Certificates :: "client_codec \<Rightarrow> 'w Client \<Rightarrow> string \<Rightarrow> 'w \<Rightarrow> (client_error + CertRecord list) \<times> 'w" where
  "Certificates J c tenantID w = doJSON J c MethodGet (tenantPath tenantID ''certificates'') None StatusOK (rd_records J) w"

definition RotateCertificate :: "client_codec \<Rightarrow> 'w Client \<Rightarrow> string \<Rightarrow> string \<Rightarrow> int \<Rightarrow> 'w \<Rightarrow> (client_error + Issued) \<times> 'w" where
  "RotateCertificate J c tenantID serial ttlHours w = doJSON J c MethodPost (tenantPath tenantID ''certificate-rotations'') (Some (PayRotate \<lparr>CertRotate_Serial = serial, CertRotate_TTLHours = ttlHours\<rparr>)) StatusCreated (rd_issued J) w"

definition RevokeCertificate :: "client_codec \<Rightarrow> 'w Client \<Rightarrow> string \<Rightarrow> string \<Rightarrow> 'w \<Rightarrow> (client_error + CertRecord) \<times> 'w" where
  "RevokeCertificate J c tenantID serial w = doJSON J c MethodPost (tenantPath tenantID ''certificate-revocations'') (Some (PayRevoke serial)) StatusOK (rd_record J) w"

definition RevokedCertificates :: "client_codec \<Rightarrow> 'w Client \<Rightarrow> string \<Rightarrow> 'w \<Rightarrow> (client_error + CertRecord list) \<times> 'w" where
  "RevokedCertificates J c tenantID w = doJSON J c MethodGet (tenantPath tenantID ''certificate-revocations'') None StatusOK (rd_records J) w"

definition CertificateRevocationList :: "client_codec \<Rightarrow> 'w Client \<Rightarrow> string \<Rightarrow> 'w \<Rightarrow> (client_error + RevocationList) \<times> 'w" where
  "CertificateRevocationList J c tenantID w = doJSON J c MethodGet (tenantPath tenantID ''certificate-revocation-list'') None StatusOK (rd_crl J) w"

definition Client_CertificateStatus :: "client_codec \<Rightarrow> 'w Client \<Rightarrow> string \<Rightarrow> string \<Rightarrow> 'w \<Rightarrow> (client_error + CertificateStatus) \<times> 'w" where
  "Client_CertificateStatus J c tenantID serial w = doJSON J c MethodGet (tenantPath tenantID ''certificate-status'' @ CHR ''?'' # Values_Encode (gm_set ''serial'' serial [])) None StatusOK (rd_status J) w"

definition CertificateOCSP :: "client_codec \<Rightarrow> 'w Client \<Rightarrow> string \<Rightarrow> byte list \<Rightarrow> 'w \<Rightarrow> (client_error + byte list) \<times> 'w" where
  "CertificateOCSP J c tenantID requestDER w =
     (if tenantID = [] then (Inl OCSPTenantRequired, w)
      else let path = tenantPath tenantID ''certificate-ocsp'' in
      (case send c MethodPost path [(''Content-Type'', ''application/ocsp-request'')] requestDER w of
         (Inl e, w) \<Rightarrow> (Inl e, w)
       | (Inr resp, w) \<Rightarrow>
           if wr_Status resp \<noteq> StatusOK then (Inl (Returned MethodPost path (wr_Status resp) (dec_problem J (wr_Body resp))), w)
           else let got = gm_default [] (wr_Header resp) ''Content-Type'' in
           if got \<noteq> ''application/ocsp-response'' then (Inl (OCSPContentType got), w)
           else (case wr_Err resp of Some e \<Rightarrow> (Inl (ReadBody e), w) | None \<Rightarrow> (Inr (wr_Body resp), w))))"

end
