(* ===== verification/Control_Props.thy ===== *)
theory Control_Props
  imports Control
begin

text \<open>
  What the control API promises.

  \<open>effect t s s'\<close> says that serving a request for tenant \<open>t\<close> kept the server well-formed and left the
  data of every other tenant alone: its part of the repository, its certificates and its sessions. The locale
  \<open>api_handler\<close> is the contract between handleTenantScoped and the handlers of the resources; every handler
  is an interpretation of it.
\<close>

section \<open>The server's invariant and the data of a tenant\<close>

definition certs_of :: "string \<Rightarrow> Authority \<Rightarrow> (string \<times> CertRecord) set" where
  "certs_of t a = {(k, r). gm_get (ca_issued a) k = Some r \<and> CertRecord_TenantID r = t}"

definition sessions_of :: "string \<Rightarrow> SessionStore \<Rightarrow> (string \<times> Session) set" where
  "sessions_of t st = {(k, se). gm_get st k = Some se \<and> Subject_TenantID (Session_Subject se) = t}"

definition tenant_view :: "string \<Rightarrow> Server \<Rightarrow> _" where
  "tenant_view t s = (view t (srv_store s), certs_of t (srv_authority s), sessions_of t (srv_sessions s))"

definition server_ok :: "Server \<Rightarrow> bool" where
  "server_ok s \<longleftrightarrow> store_ok (srv_store s) \<and> authority_ok (srv_authority s) \<and> gm_ok (srv_sessions s) \<and> srv_authz s = NewAuthorizer"

definition env_fresh :: "api_env \<Rightarrow> Server \<Rightarrow> bool" where
  \<comment> \<open>random serials and session tokens are new, and the clock is not the zero time\<close>
  "env_fresh env s \<longleftrightarrow> env_ok (env_cert env) (srv_authority s) \<and> \<not> IsZero (env_now env) \<and>
     (\<forall>bs. env_token env = Inr bs \<longrightarrow> gm_get (srv_sessions s) (b64_encode RawURLEncoding bs) = None)"

definition effect :: "string \<Rightarrow> Server \<Rightarrow> Server \<Rightarrow> bool" where
  "effect t s s' \<longleftrightarrow> (server_ok s \<longrightarrow> server_ok s') \<and> (\<forall>t'. t' \<noteq> t \<longrightarrow> tenant_view t' s' = tenant_view t' s)"

lemma effect_refl [simp, intro]: "effect t s s"
  by (simp add: effect_def)

lemma effect_trans: "effect t s1 s2 \<Longrightarrow> effect t s2 s3 \<Longrightarrow> effect t s1 s3"
  by (simp add: effect_def)

lemma effect_store:
  assumes "store_ok (srv_store s) \<Longrightarrow> store_ok m" "\<And>t'. t' \<noteq> t \<Longrightarrow> view t' m = view t' (srv_store s)"
  shows "effect t s (s\<lparr>srv_store := m\<rparr>)"
  using assms by (simp add: effect_def server_ok_def tenant_view_def)

lemma effect_authority:
  assumes "authority_ok (srv_authority s) \<Longrightarrow> authority_ok a" "\<And>t'. t' \<noteq> t \<Longrightarrow> certs_of t' a = certs_of t' (srv_authority s)"
  shows "effect t s (s\<lparr>srv_authority := a\<rparr>)"
  using assms by (simp add: effect_def server_ok_def tenant_view_def)

lemma effect_sessions:
  assumes "gm_ok (srv_sessions s) \<Longrightarrow> gm_ok st" "\<And>t'. t' \<noteq> t \<Longrightarrow> sessions_of t' st = sessions_of t' (srv_sessions s)"
  shows "effect t s (s\<lparr>srv_sessions := st\<rparr>)"
  using assms by (simp add: effect_def server_ok_def tenant_view_def)

lemma effect_other [simp]:
  "effect t s (s\<lparr>srv_files := fs\<rparr>)" "effect t s (s\<lparr>srv_signer := k, srv_signerAt := n\<rparr>)"
  by (simp_all add: effect_def server_ok_def tenant_view_def)

context repository_op
begin

lemma effect_op: "op x (srv_store s) = Inr (r, m') \<Longrightarrow> effect (tenant x) s (s\<lparr>srv_store := m'\<rparr>)"
  by (rule effect_store) (auto intro: keeps isolates)

end

lemma recordAuditEvent_effect:
  assumes "recordAuditEvent env subject action ot oid msg s = Inr s'"
  shows "effect (Subject_TenantID subject) s s'"
proof -
  obtain e m where "RecordAuditEvent (env_ctx env) (env_audit env)
      (new_event (Subject_TenantID subject) (Subject_ID subject) action ot oid msg) (srv_store s) = Inr (e, m)" "s' = s\<lparr>srv_store := m\<rparr>"
    using assms by (auto simp: recordAuditEvent_def bind_def split: sum.splits)
  with record_audit.effect_op [where x = "(env_ctx env, env_audit env, new_event (Subject_TenantID subject) (Subject_ID subject) action ot oid msg)"]
  show ?thesis by (simp add: new_event_def)
qed

lemma respond_audited_effect:
  assumes "effect t s s1" "Subject_TenantID subject = t"
  shows "effect t s (snd (respond_audited env subject action ot oid msg resp s1))"
  using assms recordAuditEvent_effect [of env subject action ot oid msg s1]
  by (auto simp: respond_audited_def split: sum.splits intro: effect_trans)

section \<open>Certificates and sessions\<close>

lemma Issue_certs:
  assumes "Issue X env identity ttl now a = Inr (issued, a')" "env_ok env a" "t' \<noteq> Identity_TenantID identity"
  shows "certs_of t' a' = certs_of t' a"
proof (rule Issue_cases [OF assms(1)])
  fix n assume n: "ce_serial env = Inr n" and a': "a' = a\<lparr>ca_issued := gm_set (Itoa n) (Issued_Record issued) (ca_issued a)\<rparr>"
    and t: "CertRecord_TenantID (Issued_Record issued) = Identity_TenantID identity"
  have "gm_get (ca_issued a) (Itoa n) = None" using assms(2) n by (simp add: env_ok_def)
  then show ?thesis using a' t assms(3) by (auto simp: certs_of_def split: if_splits)
qed

lemma Revoke_certs:
  assumes "Revoke clock serial now a = Inr (rcd, a')" "Authority_Record serial a = Some r" "CertRecord_TenantID r \<noteq> t'"
  shows "certs_of t' a' = certs_of t' a"
  using assms by (elim Revoke_cases) (auto simp: certs_of_def Authority_Record_def split: if_splits)

lemma Rotate_certs:
  assumes rot: "Rotate X env serial ttl now a = (outcome, a')" and env: "env_ok env a"
    and r: "Authority_Record serial a = Some r" "CertRecord_TenantID r \<noteq> t'"
  shows "certs_of t' a' = certs_of t' a"
proof (rule Rotate_cases [OF rot])
  fix rcd assume "Revoke (ce_clock env) serial now a = Inr (rcd, a')"
  then show ?thesis by (rule Revoke_certs [OF _ r])
next
  fix rcd issued a1
  assume rv: "Revoke (ce_clock env) serial now a = Inr (rcd, a1)"
    and i: "Issue X env \<lparr>Identity_TenantID = CertRecord_TenantID rcd, Identity_DeviceID = CertRecord_DeviceID rcd,
                   Identity_Role = CertRecord_Role rcd\<rparr> ttl (if IsZero now then ce_clock env else now) a1 = Inr (issued, a')"
  have "CertRecord_TenantID rcd = CertRecord_TenantID r" using rv r(1) by (elim Revoke_cases) (simp add: Authority_Record_def)
  then have "certs_of t' a' = certs_of t' a1"
    using r(2) by (intro Issue_certs [OF i Revoke_serials [OF rv env]]) simp
  with Revoke_certs [OF rv r] show ?thesis by simp
qed simp

lemma own_certificate_iff:
  "own_certificate t serial s = Inr r \<longleftrightarrow> Authority_Record serial (srv_authority s) = Some r \<and> CertRecord_TenantID r = t"
  by (auto simp: own_certificate_def split: option.splits)

lemma Session_Issue_sessions:
  assumes "Session_Issue clock rnd subject ttl now st = Inr (session, st')"
    and "\<And>bs. rnd = Inr bs \<Longrightarrow> gm_get st (b64_encode RawURLEncoding bs) = None" and "t' \<noteq> Subject_TenantID subject"
  shows "sessions_of t' st' = sessions_of t' st"
  using assms by (auto simp: Session_Issue_def check_def Let_def sessions_of_def split: if_splits sum.splits)

lemma Session_Issue_gm_ok: "Session_Issue clock rnd subject ttl now st = Inr (session, st') \<Longrightarrow> gm_ok st \<Longrightarrow> gm_ok st'"
  by (auto simp: Session_Issue_def check_def Let_def split: if_splits sum.splits)

section \<open>The subject of a request\<close>

lemma subject_stable:
  assumes "subjectFromRequest n1 r s = Inr a" "subjectFromRequest n2 r s = Inr b"
  shows "a = b"
proof (cases "bearerToken (Header_Get r ''Authorization'') = []")
  case False
  then show ?thesis
    using assms by (auto simp: subjectFromRequest_def Session_Authenticate_def Let_def split: option.splits if_splits)
next
  case True
  then show ?thesis
    using assms
    by (auto simp: subjectFromRequest_def subjectFromPeerCertificate_def verifyPeerCertificateTime_def bind_def check_def Let_def
        split: list.splits sum.splits if_splits)
qed

lemma Allowed_True:
  "Allowed a subject req = Inr True \<Longrightarrow> Subject_TenantID subject = AuthRequest_TenantID req"
  by (auto simp: Allowed_def check_def split: if_splits)

lemma permit_cases:
  assumes "permit env r tenantOf action s = (res, s')"
  obtains (granted) subj where "res = Inr subj" "s' = s" "subjectFromRequest (env_auth env) r s = Inr subj"
      "Allowed (srv_authz s) subj \<lparr>AuthRequest_TenantID = tenantOf subj, AuthRequest_Action = action\<rparr> = Inr True"
  | (refused) resp where "res = Inl resp" "s' = s" "rs_Status resp = 401 \<or> rs_Status resp = 500"
  | (denied) resp subj where "res = Inl resp" "rs_Status resp = 403" "subjectFromRequest (env_auth env) r s = Inr subj"
      "recordAuthorizationDenied env subj (tenantOf subj) action s = Inr s'"
  using assms by (auto simp: permit_def writeError_def split: sum.splits if_splits)

section \<open>The contract of a resource handler\<close>

definition acts_for :: "api_env \<Rightarrow> http_request \<Rightarrow> string \<Rightarrow> Server \<Rightarrow> bool" where
  "acts_for env r t s \<longleftrightarrow> (\<forall>subj. subjectForAudit env r s = Inr subj \<longrightarrow> Subject_TenantID subj = t)"

locale api_handler =
  fixes h :: "api_env \<Rightarrow> http_request \<Rightarrow> string \<Rightarrow> Server \<Rightarrow> reply \<times> Server"
  assumes contract: "env_fresh env s \<Longrightarrow> acts_for env r t s \<Longrightarrow> effect t s (snd (h env r t s))"
begin

lemma authorized_effect:
  assumes auth: "authorize env r t action s = (Inr subj, s1)" and fresh: "env_fresh env s"
  shows "s1 = s" "subjectFromRequest (env_auth env) r s = Inr subj" "Subject_TenantID subj = t" "effect t s (snd (h env r t s))"
proof -
  show s: "s1 = s" "subjectFromRequest (env_auth env) r s = Inr subj" "Subject_TenantID subj = t"
    using permit_cases [OF auth [unfolded authorize_def]] Allowed_True by fastforce+
  have "acts_for env r t s"
    using s(2,3) by (auto simp: acts_for_def subjectForAudit_def split: sum.splits dest: subject_stable)
  with fresh show "effect t s (snd (h env r t s))" by (rule contract)
qed

end

section \<open>Every handler keeps the contract\<close>

named_theorems api_effects

declare create_tenant.effect_op [where x = "(ctx, n, n', x)" for ctx n n' x, simplified, api_effects]
  register_device.effect_op [where x = "(ctx, n, n', x)" for ctx n n' x, simplified, api_effects]
  register_node.effect_op [where x = "(ctx, n, n', x)" for ctx n n' x, simplified, api_effects]
  node_heartbeat.effect_op [where x = "(ctx, n, n', x)" for ctx n n' x, simplified, api_effects]
  retire_node.effect_op [where x = "(ctx, n, n', t, x)" for ctx n n' t x, simplified, api_effects]
  record_telemetry.effect_op [where x = "(uc, ctx, n, n', x)" for uc ctx n n' x, simplified, api_effects]
  upsert_policy.effect_op [where x = "(ctx, n, x)" for ctx n x, simplified, api_effects]
  upsert_config.effect_op [where x = "(ctx, n, n', x)" for ctx n n' x, simplified, api_effects]

lemma acts_forD: "acts_for env r t s \<Longrightarrow> subjectForAudit env r s = Inr subj \<Longrightarrow> Subject_TenantID subj = t"
  by (simp add: acts_for_def)

interpretation devices: api_handler "handleDevices L" for L :: "'j api_lib"
  by unfold_locales
    (auto simp: handleDevices_def split: sum.splits dest!: api_effects intro!: respond_audited_effect intro: acts_forD)

interpretation nodes: api_handler "handleNodes L" for L :: "'j api_lib"
  by unfold_locales
    (auto simp: handleNodes_def split: sum.splits dest!: api_effects intro!: respond_audited_effect intro: acts_forD)

interpretation heartbeats: api_handler "handleNodeHeartbeats L" for L :: "'j api_lib"
  by unfold_locales
    (auto simp: handleNodeHeartbeats_def split: sum.splits dest!: api_effects intro!: respond_audited_effect intro: acts_forD)

interpretation retirements: api_handler "handleNodeRetirements L" for L :: "'j api_lib"
  by unfold_locales
    (auto simp: handleNodeRetirements_def Let_def split: sum.splits dest!: api_effects intro!: respond_audited_effect intro: acts_forD)

interpretation inventories: api_handler handleInventory
  by unfold_locales (auto simp: handleInventory_def split: sum.splits)

interpretation telemetry_reports: api_handler "handleTelemetry L" for L :: "'j api_lib"
  by unfold_locales (auto simp: handleTelemetry_def split: sum.splits dest!: api_effects)

interpretation audits: api_handler "handleAudit L" for L :: "'j api_lib"
  by unfold_locales (auto simp: handleAudit_def split: sum.splits)

interpretation policies: api_handler "handlePolicies L" for L :: "'j api_lib"
  by unfold_locales
    (auto simp: handlePolicies_def split: sum.splits dest!: api_effects intro!: respond_audited_effect intro: acts_forD)

interpretation decisions: api_handler "handlePolicyDecisions L" for L :: "'j api_lib"
  by unfold_locales (auto simp: handlePolicyDecisions_def Let_def split: sum.splits)

interpretation configs: api_handler "handleConfigs L" for L :: "'j api_lib"
  by unfold_locales
    (auto simp: handleConfigs_def split: sum.splits dest!: api_effects intro!: respond_audited_effect intro: acts_forD)

interpretation config_watch: api_handler handleConfigWatch
  by unfold_locales (auto simp: handleConfigWatch_def split: sum.splits)

interpretation signed_configs: api_handler "handleSignedConfigs L" for L :: "'j api_lib"
  by unfold_locales (auto simp: handleSignedConfigs_def split: sum.splits)

interpretation signed_watch: api_handler "handleSignedConfigWatch L" for L :: "'j api_lib"
  by unfold_locales (auto simp: handleSignedConfigWatch_def split: sum.splits)

interpretation revocation_lists: api_handler "handleCertificateRevocationList L" for L :: "'j api_lib"
  by unfold_locales (auto simp: handleCertificateRevocationList_def split: sum.splits)

interpretation statuses: api_handler handleCertificateStatus
  by unfold_locales (auto simp: handleCertificateStatus_def Let_def split: sum.splits)

interpretation ocsp_requests: api_handler "handleCertificateOCSP L" for L :: "'j api_lib"
  by unfold_locales (auto simp: handleCertificateOCSP_def Let_def split: sum.splits)

lemma publish_effect: "publishRevocationList L env t s = (err, s') \<Longrightarrow> effect t' s s'"
  by (auto simp: publishRevocationList_def split: option.splits sum.splits prod.splits)

lemma issue_effect:
  assumes fresh: "env_fresh env s"
    and i: "Issue X (env_cert env) \<lparr>Identity_TenantID = t, Identity_DeviceID = d, Identity_Role = ro\<rparr> ttl now (srv_authority s) = Inr (issued, a)"
  shows "effect t s (s\<lparr>srv_authority := a\<rparr>)"
proof (rule effect_authority)
  have env: "env_ok (env_cert env) (srv_authority s)" using fresh by (simp add: env_fresh_def)
  show "authority_ok (srv_authority s) \<Longrightarrow> authority_ok a" by (rule Issue_ok [OF _ env i])
  show "certs_of t' a = certs_of t' (srv_authority s)" if "t' \<noteq> t" for t' using Issue_certs [OF i env] that by simp
qed

lemma revoke_effect:
  assumes fresh: "env_fresh env s" and own: "own_certificate t serial s = Inr r"
    and rv: "Revoke (env_now env) serial (env_now env) (srv_authority s) = Inr (rcd, a)"
  shows "effect t s (s\<lparr>srv_authority := a\<rparr>)"
proof (rule effect_authority)
  show "authority_ok (srv_authority s) \<Longrightarrow> authority_ok a" using fresh by (intro Revoke_ok [OF _ _ rv]) (simp_all add: env_fresh_def)
  show "certs_of t' a = certs_of t' (srv_authority s)" if "t' \<noteq> t" for t'
    using own that unfolding own_certificate_iff by (intro Revoke_certs [OF rv, of r]) auto
qed

lemma rotate_effect:
  assumes "env_fresh env s" "own_certificate t serial s = Inr r" "Rotate X (env_cert env) serial ttl now (srv_authority s) = (outcome, a)"
  shows "effect t s (s\<lparr>srv_authority := a\<rparr>)"
proof (rule effect_authority)
  have "cert_step X (srv_authority s) a" using assms by (auto simp: env_fresh_def intro: cert_step.rotate)
  then show "authority_ok (srv_authority s) \<Longrightarrow> authority_ok a" by (simp add: cert_step_ok)
  show "certs_of t' a = certs_of t' (srv_authority s)" if "t' \<noteq> t" for t'
    using assms(1,2) that unfolding own_certificate_iff env_fresh_def by (intro Rotate_certs [OF assms(3), of r]) auto
qed

interpretation certificates: api_handler "handleCertificates L" for L :: "'j api_lib"
  by unfold_locales
    (auto simp: handleCertificates_def split: sum.splits intro!: respond_audited_effect intro: acts_forD issue_effect)

lemma publish_respond_effect:
  assumes "effect t s s1" "Subject_TenantID subj = t"
  shows "effect t s (snd (case publishRevocationList L env t s1 of
           (Some e, s2) \<Rightarrow> (writeError StatusInternalServerError e, s2)
         | (None, s2) \<Rightarrow> respond_audited env subj action ot oid msg resp s2))"
proof -
  obtain err s2 where p: "publishRevocationList L env t s1 = (err, s2)" by (metis prod.exhaust)
  have "effect t s s2" by (rule effect_trans [OF assms(1) publish_effect [OF p]])
  with assms(2) show ?thesis by (cases err) (simp_all add: p respond_audited_effect)
qed

interpretation revocations: api_handler "handleCertificateRevocations L" for L :: "'j api_lib"
proof
  fix env s r t
  assume fresh: "env_fresh env s" and acts: "acts_for env r t s"
  show "effect t s (snd (handleCertificateRevocations L env r t s))"
    unfolding handleCertificateRevocations_def
    by (simp split: sum.splits)
      (auto intro!: publish_respond_effect intro: acts_forD [OF acts] revoke_effect [OF fresh])
qed

interpretation rotations: api_handler "handleCertificateRotations L" for L :: "'j api_lib"
proof
  fix env s r t
  assume fresh: "env_fresh env s" and acts: "acts_for env r t s"
  show "effect t s (snd (handleCertificateRotations L env r t s))"
  proof (cases "rq_Method r = MethodPost")
    case True
    show ?thesis
    proof (cases "decodeJSON (dec_rotate L) r")
      case (Inr request)
      obtain outcome a where rot: "Rotate (api_x509 L) (env_cert env) (CertRotate_Serial request)
          (cert_hours (CertRotate_TTLHours request)) (env_now env) (srv_authority s) = (outcome, a)" by (metis prod.exhaust)
      show ?thesis
        using True Inr rot acts_forD [OF acts] rotate_effect [OF fresh _ rot]
        by (cases outcome) (auto simp: handleCertificateRotations_def split: sum.splits intro!: publish_respond_effect)
    qed (simp add: handleCertificateRotations_def True)
  qed (simp add: handleCertificateRotations_def)
qed

lemma if_handler:
  "effect t s (snd (f r t s)) \<Longrightarrow> effect t s (snd (g r t s)) \<Longrightarrow> effect t s (snd ((if c then f else g) r t s))"
  by simp

interpretation resources: api_handler "\<lambda>env. tenant_handler L env resource" for L :: "'j api_lib" and resource
proof
  fix env s r t
  assume a: "env_fresh env s" "acts_for env r t s"
  have "effect t s (snd ((\<lambda>_ _ s. (NotFound, s)) r t s))" by simp
  then show "effect t s (snd (tenant_handler L env resource r t s))"
    unfolding tenant_handler_def
    by (intro if_handler devices.contract [OF a] nodes.contract [OF a] heartbeats.contract [OF a] retirements.contract [OF a]
      inventories.contract [OF a] telemetry_reports.contract [OF a] audits.contract [OF a] policies.contract [OF a]
      decisions.contract [OF a] configs.contract [OF a] config_watch.contract [OF a] signed_configs.contract [OF a]
      signed_watch.contract [OF a] certificates.contract [OF a] revocations.contract [OF a] revocation_lists.contract [OF a]
      statuses.contract [OF a] ocsp_requests.contract [OF a] rotations.contract [OF a])
qed

section \<open>Whose data a request changes\<close>

definition denied_event :: "Subject \<Rightarrow> string \<Rightarrow> Server \<Rightarrow> Server \<Rightarrow> bool" where
  \<comment> \<open>the only change is one event in the audit log of the tenant that a denied request was about\<close>
  "denied_event subj t s s' \<longleftrightarrow> (\<exists>e. AuditEvent_Action e = ''auth.denied'' \<and> AuditEvent_Actor e = Subject_ID subj \<and> AuditEvent_TenantID e = t \<and>
     s' = s\<lparr>srv_store := (srv_store s)\<lparr>mem_audit := append_log t e (mem_audit (srv_store s))\<rparr>\<rparr>)"

lemma RecordAuditEvent_appends:
  assumes "RecordAuditEvent ctx now ev m = Inr (e, m')"
  shows "m' = m\<lparr>mem_audit := append_log (AuditEvent_TenantID ev) e (mem_audit m)\<rparr> \<and> AuditEvent_TenantID e = AuditEvent_TenantID ev \<and>
    AuditEvent_Action e = AuditEvent_Action ev \<and> AuditEvent_Actor e = AuditEvent_Actor ev"
  using assms by (auto simp: RecordAuditEvent_def with_ctx_def lift_err_def bind_def Let_def split: sum.splits option.splits)

lemma denied_recorded:
  assumes "recordAuthorizationDenied env subj t action s = Inr s'"
  shows "denied_event subj t s s'" "effect t s s'"
proof -
  obtain e m where m: "RecordAuditEvent (env_ctx env) (env_audit env)
      (new_event t (Subject_ID subj) ''auth.denied'' ''authorization'' action
        (''denied action '' @ action @ '' for subject tenant='' @ Subject_TenantID subj @ '' target tenant='' @ t)) (srv_store s) = Inr (e, m)"
    and s': "s' = s\<lparr>srv_store := m\<rparr>"
    using assms by (auto simp: recordAuthorizationDenied_def bind_def split: sum.splits)
  then show "denied_event subj t s s'"
    using RecordAuditEvent_appends [OF m] unfolding denied_event_def by (intro exI [of _ e]) (simp add: new_event_def)
  show "effect t s s'"
    using record_audit.effect_op [where x = "(env_ctx env, env_audit env, new_event t (Subject_ID subj) ''auth.denied'' ''authorization'' action
        (''denied action '' @ action @ '' for subject tenant='' @ Subject_TenantID subj @ '' target tenant='' @ t))"] m s'
    by (simp add: new_event_def)
qed

lemma denied_view: "denied_event subj t s s' \<Longrightarrow> t' \<noteq> t \<Longrightarrow> tenant_view t' s' = tenant_view t' s"
  by (auto simp: denied_event_def tenant_view_def view_def)

definition requester :: "'j api_lib \<Rightarrow> api_env \<Rightarrow> http_request \<Rightarrow> Server \<Rightarrow> Subject \<Rightarrow> bool" where
  \<comment> \<open>whom the server takes the sender of a request for: the user who logs in, or the subject of the request\<close>
  "requester L env r s subj \<longleftrightarrow>
     (if rq_Path r = ''/v1/login'' then
        \<exists>q. decodeJSON (dec_login L) r = Inr q \<and>
          Password_Authenticate (api_hmac L) (srv_passwords s) (Login_TenantID q) (Login_SubjectID q) (Login_Password q) = Inr (Some subj)
      else if rq_Path r = ''/v1/oidc-login'' then
        \<exists>q. decodeJSON (dec_oidc L) r = Inr q \<and>
          AuthenticateIDToken (api_hmac L) (api_jwt L) (env_auth env) (srv_oidc s) (OIDCLogin_IDToken q) (env_auth env) = Inr (Some subj)
      else subjectFromRequest (env_auth env) r s = Inr subj)"

definition confined :: "'j api_lib \<Rightarrow> api_env \<Rightarrow> http_request \<Rightarrow> Server \<Rightarrow> Server \<Rightarrow> bool" where
  "confined L env r s s' \<longleftrightarrow>
     s' = s \<or> (\<exists>subj. requester L env r s subj \<and>
       (effect (Subject_TenantID subj) s s' \<or> (\<exists>t. denied_event subj t s s' \<and> effect t s s')))"

lemma confined_refl [simp]: "confined L env r s s"
  by (simp add: confined_def)

lemma confined_own: "requester L env r s subj \<Longrightarrow> effect (Subject_TenantID subj) s s' \<Longrightarrow> confined L env r s s'"
  by (auto simp: confined_def)

lemma confined_denied: "requester L env r s subj \<Longrightarrow> recordAuthorizationDenied env subj t action s = Inr s' \<Longrightarrow> confined L env r s s'"
  using denied_recorded unfolding confined_def by blast

lemma requester_plain:
  "rq_Path r \<notin> {''/v1/login'', ''/v1/oidc-login''} \<Longrightarrow> subjectFromRequest (env_auth env) r s = Inr subj \<Longrightarrow> requester L env r s subj"
  by (simp add: requester_def)

lemma permit_confined:
  assumes p: "permit env r tenantOf action s = (res, s1)" and path: "rq_Path r \<notin> {''/v1/login'', ''/v1/oidc-login''}"
    and granted: "\<And>subj. res = Inr subj \<Longrightarrow> s1 = s \<Longrightarrow> subjectFromRequest (env_auth env) r s = Inr subj \<Longrightarrow> Subject_TenantID subj = tenantOf subj \<Longrightarrow>
      effect (Subject_TenantID subj) s (snd (f subj s))"
  shows "confined L env r s (snd (case (res, s1) of (Inl resp, s2) \<Rightarrow> (resp, s2) | (Inr subj, s2) \<Rightarrow> f subj s2))"
  using p
proof (cases rule: permit_cases)
  case (granted subj)
  then show ?thesis
    using assms(3) [of subj] Allowed_True [OF granted(4)] confined_own [OF requester_plain [OF path granted(3)]] by simp
next
  case (denied resp subj)
  then show ?thesis using confined_denied [OF requester_plain [OF path denied(3)] denied(4)] by simp
qed simp

lemma issue_session_effect:
  assumes "env_fresh env s"
  shows "effect (Subject_TenantID subj) s (snd (issue_session env subj hours action msg s))"
proof (cases "Session_Issue (env_now env) (env_token env) subj (wrap64 (session_hours hours * nhour)) (env_now env) (srv_sessions s)")
  case (Inr p)
  obtain session st where i: "Session_Issue (env_now env) (env_token env) subj (wrap64 (session_hours hours * nhour)) (env_now env) (srv_sessions s) =
      Inr (session, st)" using Inr by (cases p) auto
  have "effect (Subject_TenantID subj) s (s\<lparr>srv_sessions := st\<rparr>)"
  proof (rule effect_sessions)
    show "gm_ok (srv_sessions s) \<Longrightarrow> gm_ok st" by (rule Session_Issue_gm_ok [OF i])
    show "sessions_of t' st = sessions_of t' (srv_sessions s)" if "t' \<noteq> Subject_TenantID subj" for t'
      using assms that by (intro Session_Issue_sessions [OF i]) (simp_all add: env_fresh_def)
  qed
  then show ?thesis by (simp add: issue_session_def i respond_audited_effect)
qed (simp add: issue_session_def)

lemma revoked_session_effect:
  assumes "Session_Authenticate n token n (srv_sessions s) = Some subj"
  shows "effect (Subject_TenantID subj) s (s\<lparr>srv_sessions := snd (Session_Revoke token (srv_sessions s))\<rparr>)"
proof -
  obtain se where se: "gm_get (srv_sessions s) token = Some se" "Session_Subject se = subj"
    using assms by (auto simp: Session_Authenticate_def Let_def split: if_splits option.splits)
  show ?thesis
  proof (rule effect_sessions)
    show "gm_ok (srv_sessions s) \<Longrightarrow> gm_ok (snd (Session_Revoke token (srv_sessions s)))" by (simp add: Session_Revoke_def se)
    show "sessions_of t' (snd (Session_Revoke token (srv_sessions s))) = sessions_of t' (srv_sessions s)" if "t' \<noteq> Subject_TenantID subj" for t'
      using that se by (auto simp: Session_Revoke_def sessions_of_def split: if_splits)
  qed
qed

lemma sessions_confined:
  assumes fresh: "env_fresh env s" and path: "rq_Path r = ''/v1/sessions''"
  shows "confined L env r s (snd (handleSessions L env r s))"
proof -
  have plain: "rq_Path r \<notin> {''/v1/login'', ''/v1/oidc-login''}" by (simp add: path)
  consider (post) "rq_Method r = MethodPost" | (delete) "rq_Method r = MethodDelete" | (other) "rq_Method r \<noteq> MethodPost" "rq_Method r \<noteq> MethodDelete" by blast
  then show ?thesis
  proof cases
    case post
    then show ?thesis
      by (auto simp: handleSessions_def split: sum.splits
          intro!: confined_own [OF requester_plain [OF plain] issue_session_effect [OF fresh]])
  next
    case delete
    let ?token = "bearerToken (Header_Get r ''Authorization'')"
    show ?thesis
    proof (cases "?token = [] \<or> Session_Authenticate (env_auth env) ?token (env_auth env) (srv_sessions s) = None")
      case True
      then show ?thesis using delete by (auto simp: handleSessions_def Let_def)
    next
      case False
      then obtain subj where subj: "Session_Authenticate (env_auth env) ?token (env_auth env) (srv_sessions s) = Some subj" by blast
      have req: "requester L env r s subj"
        using False subj by (intro requester_plain [OF plain]) (simp add: subjectFromRequest_def)
      show ?thesis
      proof (cases "recordAuditEvent env subj ''auth.session.revoke'' ''subject'' (Subject_ID subj) ''revoked bearer session'' s")
        case (Inr s1)
        then have "srv_sessions s1 = srv_sessions s" by (auto simp: recordAuditEvent_def bind_def split: sum.splits)
        then have "effect (Subject_TenantID subj) s1 (s1\<lparr>srv_sessions := snd (Session_Revoke ?token (srv_sessions s1))\<rparr>)"
          using subj by (intro revoked_session_effect) simp
        then show ?thesis
          using confined_own [OF req effect_trans [OF recordAuditEvent_effect [OF Inr]]] delete False subj Inr
          by (simp add: handleSessions_def Let_def)
      qed (use delete False subj in \<open>simp add: handleSessions_def Let_def\<close>)
    qed
  qed (simp add: handleSessions_def)
qed

lemma logins_confined:
  assumes "env_fresh env s"
  shows "rq_Path r = ''/v1/login'' \<Longrightarrow> confined L env r s (snd (handlePasswordLogin L env r s))"
    and "rq_Path r = ''/v1/oidc-login'' \<Longrightarrow> confined L env r s (snd (handleOIDCLogin L env r s))"
  using issue_session_effect [OF assms]
  by (auto simp: handlePasswordLogin_def handleOIDCLogin_def requester_def split: sum.splits option.splits intro!: confined_own)

lemma rotate_key_effect: "effect t s (snd (RotateConfigSigningKey L env s))"
  by (simp add: RotateConfigSigningKey_def Let_def split: sum.splits option.splits)

lemma signing_key_confined:
  assumes path: "rq_Path r \<notin> {''/v1/login'', ''/v1/oidc-login''}"
  shows "confined L env r s (snd (handleConfigSigningKey L env r s))"
    and "confined L env r s (snd (handleConfigSigningKeyApprovalRequest L env r s))"
proof -
  obtain res1 s1 where p1: "permit env r Subject_TenantID ActionConfigRead s = (res1, s1)" by (metis prod.exhaust)
  obtain res2 s2 where p2: "permit env r Subject_TenantID ActionManage s = (res2, s2)" by (metis prod.exhaust)
  have read: "confined L env r s (snd (case (res1, s1) of (Inl resp, s2) \<Rightarrow> (resp, s2)
      | (Inr subj, s2) \<Rightarrow> (case ConfigSigningKey L (env_now env) s2 of
            Inl e \<Rightarrow> (writeError StatusInternalServerError (SignErr e), s2) | Inr key \<Rightarrow> (json_response StatusOK (BodyKey key), s2))))"
    by (rule permit_confined [OF p1 path]) (simp split: sum.splits)
  have rotate: "confined L env r s (snd (case (res2, s2) of (Inl resp, s2) \<Rightarrow> (resp, s2)
      | (Inr subj, s2) \<Rightarrow> (case RotateConfigSigningKey L env s2 of
            (Inl e, s) \<Rightarrow> (writeError StatusInternalServerError e, s)
          | (Inr key, s) \<Rightarrow> respond_audited env subj ''config_signing_key.rotate'' ''config_signing_key'' (SigningKey_SHA256FingerprintHex key)
                ''rotated config signing key'' (json_response StatusOK (BodyKey key)) s)))"
  proof (rule permit_confined [OF p2 path])
    fix subj :: Subject
    obtain k s3 where k: "RotateConfigSigningKey L env s = (k, s3)" by (metis prod.exhaust)
    then have "effect (Subject_TenantID subj) s s3" using rotate_key_effect [of "Subject_TenantID subj" s L env] by simp
    then show "effect (Subject_TenantID subj) s (snd (case RotateConfigSigningKey L env s of
            (Inl e, s) \<Rightarrow> (writeError StatusInternalServerError e, s)
          | (Inr key, s) \<Rightarrow> respond_audited env subj ''config_signing_key.rotate'' ''config_signing_key'' (SigningKey_SHA256FingerprintHex key)
                ''rotated config signing key'' (json_response StatusOK (BodyKey key)) s))"
      by (cases k) (simp_all add: k respond_audited_effect)
  qed
  show "confined L env r s (snd (handleConfigSigningKey L env r s))"
    using read rotate by (simp add: handleConfigSigningKey_def authorizeOwnTenantSubject_def p1 p2)
  have "confined L env r s (snd (case (res2, s2) of (Inl resp, s2) \<Rightarrow> (resp, s2) | (Inr subj, s2) \<Rightarrow>
      (case ConfigSigningKey L (env_now env) s2 of
         Inl e \<Rightarrow> (writeError StatusInternalServerError (SignErr e), s2)
       | Inr key \<Rightarrow>
      (case NewSigningKeyApprovalRequest (api_sign L) (env_now env) key (Subject_ID subj) (env_now env) of
         Inl e \<Rightarrow> (writeError StatusInternalServerError (SignErr e), s2)
       | Inr request \<Rightarrow>
           let source = TrimSpace (Query_Get r ''source'');
               request = request\<lparr>ApprovalRequest_Source := (if source = [] then ''control-api'' else source),
                                 ApprovalRequest_Reason := TrimSpace (Query_Get r ''reason'')\<rparr>
           in respond_audited env subj ''config_signing_key.approval_request.export'' ''config_signing_key''
                (ApprovalRequest_SHA256FingerprintHex request)
                (''exported signing key approval request source='' @ ApprovalRequest_Source request @ '' reason='' @ ApprovalRequest_Reason request)
                (json_response StatusOK (BodyApproval request)) s2))))"
    by (rule permit_confined [OF p2 path]) (simp add: Let_def respond_audited_effect split: sum.splits)
  then show "confined L env r s (snd (handleConfigSigningKeyApprovalRequest L env r s))"
    by (simp add: handleConfigSigningKeyApprovalRequest_def authorizeOwnTenantSubject_def p2)
qed

lemma tenants_confined:
  assumes path: "rq_Path r \<notin> {''/v1/login'', ''/v1/oidc-login''}"
  shows "confined L env r s (snd (handleTenants L env r s))"
proof (cases "rq_Method r = MethodPost \<and> (\<exists>x. decodeJSON (dec_tenant L) r = Inr x)")
  case True
  then obtain x where x: "decodeJSON (dec_tenant L) r = Inr x" by blast
  obtain res1 s1 where p1: "permit env r (\<lambda>_. Tenant_ID x) ActionManage s = (res1, s1)" by (metis prod.exhaust)
  have "confined L env r s (snd (case (res1, s1) of (Inl resp, s2) \<Rightarrow> (resp, s2) | (Inr subj, s2) \<Rightarrow>
      (case subjectForAudit env r s2 of
         Inl resp \<Rightarrow> (resp, s2)
       | Inr subject \<Rightarrow>
      (case CreateTenant (env_ctx env) (env_store1 env) (env_store2 env) x (srv_store s2) of
         Inl e \<Rightarrow> (writeError StatusBadRequest (StoreErr e), s2)
       | Inr (created, m) \<Rightarrow>
           respond_audited env subject ''tenant.create'' ''tenant'' (Tenant_ID created) ''created tenant through control API''
             (json_response StatusCreated (BodyTenant created)) (s2\<lparr>srv_store := m\<rparr>)))))"
  proof (rule permit_confined [OF p1 path])
    fix subj assume own: "subjectFromRequest (env_auth env) r s = Inr subj" "Subject_TenantID subj = Tenant_ID x"
    have aud: "Subject_TenantID subject = Subject_TenantID subj" if "subjectForAudit env r s = Inr subject" for subject
      using that subject_stable [OF own(1), of "env_subject env"] by (auto simp: subjectForAudit_def split: sum.splits)
    show "effect (Subject_TenantID subj) s (snd (case subjectForAudit env r s of Inl resp \<Rightarrow> (resp, s) | Inr subject \<Rightarrow>
      (case CreateTenant (env_ctx env) (env_store1 env) (env_store2 env) x (srv_store s) of
         Inl e \<Rightarrow> (writeError StatusBadRequest (StoreErr e), s)
       | Inr (created, m) \<Rightarrow>
           respond_audited env subject ''tenant.create'' ''tenant'' (Tenant_ID created) ''created tenant through control API''
             (json_response StatusCreated (BodyTenant created)) (s\<lparr>srv_store := m\<rparr>))))"
      using aud own(2) by (auto split: sum.splits dest!: create_tenant.effect_op [where x = "(c, n, n', x)" for c n n' x, simplified] intro!: respond_audited_effect)
  qed
  with True x show ?thesis by (simp add: handleTenants_def authorize_def p1)
next
  case False
  then show ?thesis by (auto simp: handleTenants_def split: sum.splits)
qed

lemma scoped_confined:
  assumes fresh: "env_fresh env s" and path: "rq_Path r \<notin> {''/v1/login'', ''/v1/oidc-login''}"
  shows "confined L env r s (snd (handleTenantScoped L env r s))"
proof (cases "parseTenantPath (rq_Path r)")
  case (Some p)
  obtain t resource where p: "parseTenantPath (rq_Path r) = Some (t, resource)" using Some by (cases p) auto
  show ?thesis
  proof (cases "actionFor resource (rq_Method r)")
    case (Some action)
    obtain res1 s1 where p1: "permit env r (\<lambda>_. t) action s = (res1, s1)" by (metis prod.exhaust)
    have "confined L env r s (snd (case (res1, s1) of (Inl resp, s2) \<Rightarrow> (resp, s2) | (Inr subj, s2) \<Rightarrow> tenant_handler L env resource r t s2))"
    proof (rule permit_confined [OF p1 path])
      fix subj assume "res1 = Inr subj" "Subject_TenantID subj = t"
      then show "effect (Subject_TenantID subj) s (snd (tenant_handler L env resource r t s))"
        using resources.authorized_effect(4) [of env r t action s subj s1 L resource] fresh p1 by (simp add: authorize_def)
    qed
    then show ?thesis by (simp add: handleTenantScoped_def p Some authorize_def p1)
  qed (simp add: handleTenantScoped_def p)
qed (simp add: handleTenantScoped_def)

lemma if_cases: "(c \<Longrightarrow> P f) \<Longrightarrow> (\<not> c \<Longrightarrow> P g) \<Longrightarrow> P (if c then f else g)"
  by simp

lemma Handler_confined:
  assumes fresh: "env_fresh env s"
  shows "confined L env r s (snd (Handler L env r s))"
  unfolding Handler_def
  by (intro if_cases [where P = "\<lambda>x. confined L env r s (snd x)"] logins_confined [OF fresh] sessions_confined [OF fresh]
      signing_key_confined tenants_confined scoped_confined [OF fresh])
    (simp_all add: handleHealth_def handleVersion_def handleConsole_def)

section \<open>Properties of the control API\<close>

text \<open>
  C3: The control API isolates tenants. Whatever request is served, if it changes any data of a tenant
  (its part of the repository, its certificates or its sessions), then the sender was authenticated, by
  session, client certificate, headers, password or ID token, as a subject of this very tenant; the one
  exception is an event \<open>auth.denied\<close> in the audit log of a tenant that the sender was refused access to.
\<close>

theorem api_isolation:
  assumes "Handler L env r s = (resp, s')" "env_fresh env s" "tenant_view t s' \<noteq> tenant_view t s"
  shows "\<exists>subj. requester L env r s subj \<and> (Subject_TenantID subj = t \<or> denied_event subj t s s')"
proof -
  have "confined L env r s s'" using Handler_confined [OF assms(2), of L r] assms(1) by simp
  then obtain subj where req: "requester L env r s subj"
    and "effect (Subject_TenantID subj) s s' \<or> (\<exists>t'. denied_event subj t' s s')"
    using assms(3) unfolding confined_def by blast
  then have "Subject_TenantID subj = t \<or> denied_event subj t s s'"
    using assms(3) denied_view unfolding effect_def by metis
  with req show ?thesis by blast
qed

inductive served :: "'j api_lib \<Rightarrow> Server \<Rightarrow> Server \<Rightarrow> bool" for L where
  start: "served L s s"
| request: "served L s s1 \<Longrightarrow> env_fresh env s1 \<Longrightarrow> Handler L env r s1 = (resp, s2) \<Longrightarrow> served L s s2"

lemma Handler_ok: "env_fresh env s \<Longrightarrow> Handler L env r s = (resp, s') \<Longrightarrow> server_ok s \<Longrightarrow> server_ok s'"
  using Handler_confined [of env s L r] by (auto simp: confined_def effect_def)

lemma NewServer_ok:
  assumes "NewServerWithDependenciesAndSignerPersist X env key now now' info repository authority sessions signer put = Some s"
    and "\<And>m. repository = Some m \<Longrightarrow> store_ok m" "\<And>a. authority = Some a \<Longrightarrow> authority_ok a" "\<And>st. sessions = Some st \<Longrightarrow> gm_ok st"
  shows "server_ok s"
  using assms store_ok_NewMemory new_authority_ok(1)
  by (auto simp: NewServerWithDependenciesAndSignerPersist_def server_ok_def NewSessionStore_def gm_ok_def split: option.splits sum.splits)

lemma new_server_ok: "NewServer X env env' key t now now' info = Some s \<Longrightarrow> server_ok s"
  by (auto simp: NewServer_def NewServerWithStore_def NewServerWithStoreAndAuthority_def NewServerWithDependencies_def
      NewServerWithDependenciesAndSigner_def store_ok_NewMemory split: sum.splits intro!: NewServer_ok intro: new_authority_ok(1))

text \<open>
  C4: Every state a server reaches from a new one by serving requests is well-formed: the repository and
  the certificate authority satisfy their invariants, each session is stored under one token, and the roles
  grant what they granted at the start.
\<close>

theorem api_reachable_ok:
  assumes "NewServer X env env' key t now now' info = Some s0" "served L s0 s"
  shows "server_ok s"
  using assms(2) new_server_ok [OF assms(1)] by induction (auto intro: Handler_ok)

text \<open>
  C5: A request for a resource of a tenant changes the server or succeeds only if its sender is a subject of
  the tenant with a role that grants the action the resource and the method require. A sender who is
  refused leaves at most one event \<open>auth.denied\<close>, and gets a 403 response.
\<close>

theorem api_authorization:
  assumes h: "handleTenantScoped L env r s = (resp, s')" and path: "parseTenantPath (rq_Path r) = Some (t, resource)"
    and ok: "server_ok s" and changed: "s' \<noteq> s \<or> rs_Status resp < 400"
  shows "\<exists>subj. subjectFromRequest (env_auth env) r s = Inr subj \<and>
           (denied_event subj t s s' \<and> rs_Status resp = 403 \<or>
            Subject_TenantID subj = t \<and> (\<exists>action role. actionFor resource (rq_Method r) = Some action \<and>
              role \<in> set (Subject_Roles subj) \<and> action \<in> granted_actions role))"
proof (cases "actionFor resource (rq_Method r)")
  case None
  then have "s' = s" "rs_Status resp \<ge> 400" using h path by (auto simp: handleTenantScoped_def NotFound_def split: if_splits)
  with changed show ?thesis by simp
next
  case (Some action)
  obtain res s1 where p: "permit env r (\<lambda>_. t) action s = (res, s1)" by (metis prod.exhaust)
  have h': "(case res of Inl resp \<Rightarrow> (resp, s1) | Inr _ \<Rightarrow> tenant_handler L env resource r t s1) = (resp, s')"
    using h path Some p by (auto simp: handleTenantScoped_def authorize_def split: sum.splits)
  show ?thesis
    using p
  proof (cases rule: permit_cases)
    case (granted subj)
    have "Allowed NewAuthorizer subj \<lparr>AuthRequest_TenantID = t, AuthRequest_Action = action\<rparr> = Inr True"
      using granted(4) ok by (simp add: server_ok_def)
    then have "Subject_TenantID subj = t \<and> (\<exists>role\<in>set (Subject_Roles subj). action \<in> granted_actions role)"
      by (auto simp: Allowed_def grants_iff list_ex_iff check_def split: if_splits)
    with granted(3) Some show ?thesis by blast
  next
    case (refused resp')
    with h' changed show ?thesis by auto
  next
    case (denied resp' subj)
    with h' denied_recorded(1) [OF denied(4)] show ?thesis by auto
  qed
qed

lemma watch_loop_find:
  "watch_loop t target since poll rest =
     (case find (\<lambda>p. changedConfig (poll_ctx p) t target since (poll_store p) \<noteq> Inr None) (poll # rest) of
        None \<Rightarrow> Inr None
      | Some p \<Rightarrow> changedConfig (poll_ctx p) t target since (poll_store p))"
proof (induction rest arbitrary: poll)
  case Nil
  show ?case by (cases "changedConfig (poll_ctx poll) t target since (poll_store poll)") (auto simp: bind_def split: option.splits)
next
  case (Cons p rest)
  show ?case
    using Cons.IH [of p]
    by (cases "changedConfig (poll_ctx poll) t target since (poll_store poll)") (auto simp: bind_def split: option.splits)
qed


section \<open>Certificates as identities\<close>

lemma split_char_append: "split_char c (a @ c # b) = split_char c a @ split_char c b"
proof (induction a)
  case (Cons x a)
  then show ?case by (cases "split_char c a") auto
qed simp

lemma split_char_single: "split_char c s = [x] \<longleftrightarrow> c \<notin> set s \<and> x = s"
proof (induction s arbitrary: x)
  case (Cons y s)
  then show ?case by (cases "split_char c s") (auto split: list.splits)
qed auto

definition colon_free :: "Identity \<Rightarrow> bool" where
  "colon_free i \<longleftrightarrow> CHR '':'' \<notin> set (Identity_TenantID i) \<union> set (Identity_Role i) \<union> set (Identity_DeviceID i)"

lemma split_common_name:
  "split_char (CHR '':'') (commonName i) = [p0, p1, p2] \<longleftrightarrow>
     colon_free i \<and> p0 = Identity_TenantID i \<and> p1 = Identity_Role i \<and> p2 = Identity_DeviceID i"
proof -
  have split: "split_char (CHR '':'') (commonName i) =
      split_char (CHR '':'') (Identity_TenantID i) @ split_char (CHR '':'') (Identity_Role i) @ split_char (CHR '':'') (Identity_DeviceID i)"
    by (simp add: commonName_def split_char_append)
  have three: "a @ b @ c = [x, y, z] \<longleftrightarrow> a = [x] \<and> b = [y] \<and> c = [z]" if "a \<noteq> []" "b \<noteq> []" "c \<noteq> []" for a b c :: "string list" and x y z
    using that by (auto simp: append_eq_Cons_conv)
  show ?thesis unfolding split by (subst three) (auto simp: split_char_single colon_free_def)
qed


section \<open>Signed configurations\<close>

lemma traverse_Inr: "traverse f xs = Inr ys \<Longrightarrow> list_all2 (\<lambda>x y. f x = Inr y) xs ys"
  by (induction xs arbitrary: ys) (auto simp: bind_def split: sum.splits)

lemma signed_verifies:
  assumes laws: "sign_laws L" and k: "length k = PrivateKeySize"
    and sign: "Sign L clock \<lparr>signer_publicKey = ed_Public k, signer_privateKey = Some k\<rparr> b now = Inr sb"
  shows "Verify L \<lparr>signer_publicKey = ed_Public k, signer_privateKey = None\<rparr> sb = Inr ()" "Signed_Bundle sb = b"
proof -
  obtain p where p: "ConfigBundle_Validate b = Inr ()" "json_payload L b = Inr p"
    "sb = \<lparr>Signed_Bundle = b, Signed_Algorithm = ConfigSignatureAlgorithm,
           Signed_Signature = b64_encode StdEncoding (ed_sign L k p), Signed_SignedAt = (if IsZero now then clock else now)\<rparr>"
    using sign by (auto simp: Sign_iff)
  moreover have "ed_verify L (ed_Public k) p (ed_sign L k p)" using laws k by (simp add: sign_laws_def)
  moreover have "length (ed_Public k) = PublicKeySize" using k by (simp add: ed_Public_def)
  ultimately show "Verify L \<lparr>signer_publicKey = ed_Public k, signer_privateKey = None\<rparr> sb = Inr ()" "Signed_Bundle sb = b"
    by (simp_all add: Verify_iff)
qed


section \<open>A sample server\<close>

definition no_decoder :: "byte list \<Rightarrow> string + 'a" where
  "no_decoder _ = Inl ''unexpected body''"

definition sample_api :: "string api_lib" where
  "sample_api = \<lparr>api_sign = sample_lib, api_x509 = sample_x509, api_asn1 = sample_asn1, api_sum256 = (\<lambda>_. [2]), api_hmac = (\<lambda>_ _. [1]),
     api_jwt = sample_codec, api_uc = id, api_manifest = (\<lambda>_. Inr [2]), api_time = (\<lambda>_. Inl ''not a time''),
     dec_tenant = (\<lambda>_. Inr (sample_tenant\<lparr>Tenant_ID := ''t''\<rparr>)), dec_device = no_decoder, dec_node = no_decoder,
     dec_heartbeat = no_decoder, dec_retire = no_decoder, dec_report = no_decoder, dec_rule = no_decoder, dec_request = no_decoder,
     dec_config = (\<lambda>_. Inr sample_bundle), dec_login = no_decoder, dec_oidc = no_decoder, dec_session = no_decoder,
     dec_issue = no_decoder, dec_revoke = no_decoder, dec_rotate = no_decoder\<rparr>"

definition sample_api_env :: api_env where
  "sample_api_env = \<lparr>env_ctx = None, env_auth = 11, env_subject = 12, env_now = 13, env_store1 = 14, env_store2 = 15, env_audit = 16,
     env_publish = 17, env_token = Inr [1], env_cert = sample_cert_env 7, env_crl = sample_cert_env 8,
     env_key = Inr (replicate 32 1, replicate 64 1), env_put = None,
     env_os = \<lparr>po_mkdir = None, po_crl = WriteDone, po_manifest = WriteDone\<rparr>, env_read = None, env_seed = 0, env_polls = []\<rparr>"

definition sample_req :: "string \<Rightarrow> string \<Rightarrow> string \<Rightarrow> http_request" where
  \<comment> \<open>a request of a user of tenant t with the given role\<close>
  "sample_req m path role = \<lparr>rq_Method = m, rq_Path = path, rq_Query = [(''target_id'', ''d'')],
     rq_Header = [(''X-Actor-ID'', ''u''), (''X-Tenant-ID'', ''t''), (''X-Roles'', role)], rq_Body = [], rq_PeerCertificates = []\<rparr>"

definition sample_new_server :: "Server option" where
  "sample_new_server = NewServer sample_x509 (sample_cert_env 1) (sample_cert_env 2) (Inr (replicate 32 1, replicate 64 1)) 5 6 7
     \<lparr>Info_Name = ''control'', Info_Version = ''1'', Info_Commit = ''c'', Info_Date = ''d''\<rparr>"

definition sample_server_ca :: Authority where
  "sample_server_ca = \<lparr>ca_cert = \<lparr>x_SerialNumber = 1, x_CommonName = ''ca'', x_NotBefore = 5, x_NotAfter = 500, x_CertSign = True,
       x_ClientServerAuth = False, x_IsCA = True, x_SubjectKeyId = [1], x_PublicKey = ECPublic 2 3, x_SignatureAlgorithm = 0\<rparr>,
     ca_key = \<lparr>ec_X = 2, ec_Y = 3, ec_D = 4\<rparr>, ca_certPEM = [1], ca_issued = []\<rparr>"

definition sample_server0 :: Server where
  "sample_server0 = \<lparr>srv_info = \<lparr>Info_Name = ''control'', Info_Version = ''1'', Info_Commit = ''c'', Info_Date = ''d''\<rparr>, srv_startedAt = 7,
     srv_store = NewMemory, srv_authority = sample_server_ca,
     srv_signer = \<lparr>signer_publicKey = replicate 32 1, signer_privateKey = Some (replicate 64 1)\<rparr>, srv_signerAt = 7, srv_signerPut = False,
     srv_crlPub = None, srv_authz = NewAuthorizer, srv_sessions = NewSessionStore, srv_passwords = None, srv_oidc = None,
     srv_classifier = None, srv_files = []\<rparr>"

definition sample_event :: "string \<Rightarrow> string \<Rightarrow> string \<Rightarrow> string \<Rightarrow> string \<Rightarrow> string \<Rightarrow> time \<Rightarrow> AuditEvent" where
  "sample_event ident actor action objectType objectID message now =
     \<lparr>AuditEvent_ID = ident, AuditEvent_TenantID = ''t'', AuditEvent_Actor = actor, AuditEvent_Action = action,
      AuditEvent_ObjectType = objectType, AuditEvent_ObjectID = objectID, AuditEvent_Message = message, AuditEvent_CreatedAt = now\<rparr>"

definition sample_created :: Tenant where
  "sample_created = \<lparr>Tenant_ID = ''t'', Tenant_Name = ''Tenant one'', Tenant_CreatedAt = 14\<rparr>"

definition sample_stored :: ConfigBundle where
  "sample_stored = sample_bundle\<lparr>ConfigBundle_Values := Some [], ConfigBundle_CreatedAt := 14\<rparr>"

definition sample_log1 :: "AuditEvent list" where
  "sample_log1 = [sample_event ''t-000001'' ''system'' ''tenant.create'' ''tenant'' ''t'' [] 15,
     sample_event ''t-000002'' ''u'' ''tenant.create'' ''tenant'' ''t'' ''created tenant through control API'' 16]"

definition sample_server1 :: Server where
  "sample_server1 = sample_server0\<lparr>srv_store := NewMemory\<lparr>mem_tenants := [(''t'', sample_created)], mem_audit := [(''t'', sample_log1)]\<rparr>\<rparr>"

definition sample_server2 :: Server where
  "sample_server2 = sample_server0\<lparr>srv_store := NewMemory\<lparr>mem_tenants := [(''t'', sample_created)],
     mem_configs := [(''t'', [(''c1'', sample_stored)])],
     mem_audit := [(''t'', sample_log1 @ [sample_event ''t-000003'' ''system'' ''config.upsert'' ''config_bundle'' ''c1'' [] 15,
       sample_event ''t-000004'' ''u'' ''config.upsert'' ''config_bundle'' ''c1'' ''upserted config bundle through control API'' 16])]\<rparr>\<rparr>"

lemma sample_new: "sample_new_server = Some sample_server0"
  by code_simp

lemma sample_state:
  "srv_sessions sample_server0 = []" "ca_issued (srv_authority sample_server0) = []"
  "srv_sessions sample_server1 = []" "ca_issued (srv_authority sample_server1) = []"
  by (simp_all add: sample_server1_def sample_server0_def sample_server_ca_def NewSessionStore_def)

lemma sample_fresh:
  "srv_sessions s = [] \<Longrightarrow> ca_issued (srv_authority s) = [] \<Longrightarrow> env_fresh sample_api_env s"
  by (simp add: env_fresh_def sample_api_env_def IsZero_def sample_env_ok)

lemma Handler_scoped:
  assumes "mux_path (rq_Path r) = rq_Path r" "HasPrefix (rq_Path r) ''/v1/tenants/''"
  shows "Handler L env r s = handleTenantScoped L env r s"
proof -
  have "rq_Path r \<notin> {''/healthz'', ''/version'', ''/console'', ''/v1/login'', ''/v1/oidc-login'', ''/v1/sessions'',
      ''/v1/config-signing-key/approval-request'', ''/v1/config-signing-key'', ''/v1/tenants''}"
    using assms(2) by (auto simp: HasPrefix_def)
  with assms show ?thesis by (simp add: Handler_def)
qed

lemma sample_requests:
  "Handler sample_api sample_api_env (sample_req MethodPost ''/v1/tenants'' RoleAdmin) sample_server0 =
     (json_response StatusCreated (BodyTenant sample_created), sample_server1)"
  "handleTenantScoped sample_api sample_api_env (sample_req MethodPost ''/v1/tenants/t/configs'' RoleAdmin) sample_server1 =
     (json_response StatusCreated (BodyConfig sample_stored), sample_server2)"
  "Handler sample_api sample_api_env (sample_req MethodPost ''/v1/tenants/t/configs'' RoleAdmin) sample_server1 =
     (json_response StatusCreated (BodyConfig sample_stored), sample_server2)"
proof -
  let ?r = "sample_req MethodPost ''/v1/tenants/t/configs'' RoleAdmin"
  show "Handler sample_api sample_api_env (sample_req MethodPost ''/v1/tenants'' RoleAdmin) sample_server0 =
     (json_response StatusCreated (BodyTenant sample_created), sample_server1)"
    by code_simp
  show scoped: "handleTenantScoped sample_api sample_api_env ?r sample_server1 = (json_response StatusCreated (BodyConfig sample_stored), sample_server2)"
    by code_simp
  have "mux_path (rq_Path ?r) = rq_Path ?r \<and> HasPrefix (rq_Path ?r) ''/v1/tenants/''" by code_simp
  then show "Handler sample_api sample_api_env ?r sample_server1 = (json_response StatusCreated (BodyConfig sample_stored), sample_server2)"
    using scoped Handler_scoped [of ?r sample_api sample_api_env sample_server1] by simp
qed

lemma sample_served: "served sample_api sample_server0 sample_server2"
proof -
  have "served sample_api sample_server0 sample_server1"
    using served.request [OF served.start sample_fresh [OF sample_state(1,2)] sample_requests(1)] .
  then show ?thesis
    using served.request [OF _ sample_fresh [OF sample_state(3,4)] sample_requests(3)] by blast
qed

lemma sample_server_ok: "server_ok sample_server1"
  using sample_new [unfolded sample_new_server_def, THEN new_server_ok]
  by (rule Handler_ok [OF sample_fresh [OF sample_state(1,2)] sample_requests(1)])

theorem api_isolation_witness:
  "tenant_view ''t'' sample_server2 \<noteq> tenant_view ''t'' sample_server1 \<and>
   (\<exists>subj. requester sample_api sample_api_env (sample_req MethodPost ''/v1/tenants/t/configs'' RoleAdmin) sample_server1 subj \<and>
     (Subject_TenantID subj = ''t'' \<or> denied_event subj ''t'' sample_server1 sample_server2))"
proof -
  have "view ''t'' (srv_store sample_server2) \<noteq> view ''t'' (srv_store sample_server1)" by code_simp
  then have changed: "tenant_view ''t'' sample_server2 \<noteq> tenant_view ''t'' sample_server1" by (simp add: tenant_view_def)
  from api_isolation [OF sample_requests(3) sample_fresh [OF sample_state(3,4)] this] changed show ?thesis by blast
qed

theorem api_reachable_ok_witness: "server_ok sample_server2 \<and> mem_configs (srv_store sample_server2) \<noteq> []"
proof -
  have "mem_configs (srv_store sample_server2) \<noteq> []" by code_simp
  with api_reachable_ok [OF sample_new [unfolded sample_new_server_def] sample_served] show ?thesis by simp
qed

theorem api_authorization_witness:
  "\<exists>subj. subjectFromRequest 11 (sample_req MethodPost ''/v1/tenants/t/configs'' RoleAdmin) sample_server1 = Inr subj \<and> Subject_TenantID subj = ''t'' \<and>
     (\<exists>action role. actionFor ''configs'' MethodPost = Some action \<and> role \<in> set (Subject_Roles subj) \<and> action \<in> granted_actions role)"
proof -
  let ?r = "sample_req MethodPost ''/v1/tenants/t/configs'' RoleAdmin"
  have "parseTenantPath (rq_Path ?r) = Some (''t'', ''configs'')" by code_simp
  from api_authorization [OF sample_requests(2) this sample_server_ok] show ?thesis
    by (auto simp: sample_api_env_def sample_req_def)
qed


lemma sample_peer:
  "\<exists>issued a'. Issue sample_x509 (sample_cert_env 7) sample_identity (100 * nsecond) (10 * nsecond) a = Inr (issued, a') \<and>
     CertRecord_NotBefore (Issued_Record issued) = 10 * nsecond \<and> CertRecord_NotAfter (Issued_Record issued) = 110 * nsecond"
  by (simp add: Issue_def sample_identity_def sample_cert_env_def sample_x509_def check_def randomSerial_def bind_def Let_def IsZero_def)



end
