(* ===== verification/Agent_State.thy ===== *)
theory Agent_State
  imports Cert State_File Telemetry
begin

text \<open>
  The persistent state of the agent: the configuration cache (internal/agent/cache.go), the signing key
  cache and trust policy (signing_key_cache.go, signing_key_trust.go), signing key approvals
  (signing_key_approval.go), the CRL cache (crl_cache.go) and the telemetry queue (telemetry_queue.go).

  Every cache is a file; its Save validates and then is \<open>save_state\<close>, its Load is \<open>load_state\<close> followed by
  the same validation. Each is an interpretation of the contract \<open>state_file\<close>.
\<close>

section \<open>Configuration cache\<close>

definition NewFileConfigCache :: "string \<Rightarrow> domain_error state_error + string" where
  \<comment> \<open>a cache is its path\<close>
  "NewFileConfigCache path = check (path = []) StatePathRequired (Inr path)"

definition ConfigCache_Load ::
  "('d \<Rightarrow> string + ConfigBundle) \<Rightarrow> string option \<Rightarrow> string \<Rightarrow> 'd fs \<Rightarrow> domain_error state_error + ConfigBundle" where
  "ConfigCache_Load dec open_err path fs =
     bind (load_state dec open_err path fs) (\<lambda>bundle.
     case ConfigBundle_Validate bundle of Inl e \<Rightarrow> Inl (StateInvalid e) | Inr _ \<Rightarrow> Inr bundle)"

definition ConfigCache_Save ::
  "(ConfigBundle \<Rightarrow> string + 'd) \<Rightarrow> 'd write_os \<Rightarrow> string \<Rightarrow> ConfigBundle \<Rightarrow> 'd fs \<Rightarrow> domain_error state_error option \<times> 'd fs list" where
  "ConfigCache_Save enc os path bundle fs =
     (case ConfigBundle_Validate bundle of
        Inl e \<Rightarrow> (Some (StateInvalid e), [fs])
      | Inr _ \<Rightarrow> save_state enc os path bundle fs)"

section \<open>Signing key cache and trust\<close>

definition NewFileSigningKeyCache :: "string \<Rightarrow> sign_error state_error + string" where
  "NewFileSigningKeyCache path = check (path = []) StatePathRequired (Inr path)"

definition SigningKeyCache_Load ::
  "('d \<Rightarrow> string + SigningPublicKey) \<Rightarrow> string option \<Rightarrow> string \<Rightarrow> 'd fs \<Rightarrow> sign_error state_error + SigningPublicKey" where
  "SigningKeyCache_Load dec open_err path fs =
     bind (load_state dec open_err path fs) (\<lambda>key.
     case NewConfigVerifierFromSigningKey key of Inl e \<Rightarrow> Inl (StateInvalid e) | Inr _ \<Rightarrow> Inr key)"

definition SigningKeyCache_Save ::
  "(SigningPublicKey \<Rightarrow> string + 'd) \<Rightarrow> 'd write_os \<Rightarrow> string \<Rightarrow> SigningPublicKey \<Rightarrow> 'd fs \<Rightarrow> sign_error state_error option \<times> 'd fs list" where
  "SigningKeyCache_Save enc os path key fs =
     (case NewConfigVerifierFromSigningKey key of
        Inl e \<Rightarrow> (Some (StateInvalid e), [fs])
      | Inr _ \<Rightarrow> save_state enc os path key fs)"

record SigningKeyTrustPolicy =
  PinnedSHA256 :: string

datatype trust_error =
    PinNotHex
  | PinLength
  | PinMismatch string string
  | TrustKey sign_error

definition normalizeSigningKeyPin :: "sign_lib \<Rightarrow> string \<Rightarrow> trust_error + string" where
  "normalizeSigningKeyPin L pin =
     (let pin = TrimSpace (ToLower (lower_uc L) pin);
          pin = TrimPrefix pin ''sha256:''
      in if pin = [] then Inr []
         else case hex_Decode pin of
                None \<Rightarrow> Inl PinNotHex
              | Some decoded \<Rightarrow> check (length decoded \<noteq> 32) PinLength (Inr pin))"

definition NewSigningKeyTrustPolicy :: "sign_lib \<Rightarrow> string \<Rightarrow> trust_error + SigningKeyTrustPolicy" where
  "NewSigningKeyTrustPolicy L pinnedSHA256 =
     bind (normalizeSigningKeyPin L pinnedSHA256) (\<lambda>normalized. Inr \<lparr>PinnedSHA256 = normalized\<rparr>)"

definition TrustPolicy_Validate :: "sign_lib \<Rightarrow> SigningKeyTrustPolicy \<Rightarrow> SigningPublicKey \<Rightarrow> trust_error + unit" where
  "TrustPolicy_Validate L p key =
     (if PinnedSHA256 p = [] then Inr ()
      else case SHA256Fingerprint L key of
             Inl e \<Rightarrow> Inl (TrustKey e)
           | Inr got \<Rightarrow> check (got \<noteq> PinnedSHA256 p) (PinMismatch got (PinnedSHA256 p)) (Inr ()))"

section \<open>Signing key approvals\<close>

definition SigningKeyApprovalVersion :: int where "SigningKeyApprovalVersion = 1"

record SigningKeyApproval =
  Approval_Version :: int
  Approval_Algorithm :: string
  Approval_PublicKey :: string
  Approval_SHA256FingerprintHex :: string
  Approval_ApprovedBy :: string
  Approval_ApprovedAt :: time
  Approval_Source :: string
  Approval_Note :: string
  Approval_RequestedBy :: string
  Approval_RequestedAt :: "time option"

datatype approval_error =
    ApproverRequired
  | ApprovalKey sign_error
  | ApprovalPin trust_error
  | EnvelopeMismatch string string
  | ApprovalVersion int
  | ApprovalTimeRequired
  | ApprovalFingerprintRequired
  | ApprovalMismatch string string
  | KeyNotApproved
  | ApprovalPathRequired
  | ApprovalOpen string
  | ApprovalDecode string

definition NewSigningKeyApproval :: "sign_lib \<Rightarrow> time \<Rightarrow> SigningPublicKey \<Rightarrow> string \<Rightarrow> time \<Rightarrow> approval_error + SigningKeyApproval" where
  "NewSigningKeyApproval L clock key approvedBy approvedAt =
     (let approvedBy = TrimSpace approvedBy in
      check (approvedBy = []) ApproverRequired (
      let approvedAt = (if IsZero approvedAt then clock else approvedAt) in
      case NewConfigVerifierFromSigningKey key of Inl e \<Rightarrow> Inl (ApprovalKey e) | Inr _ \<Rightarrow>
      (case SHA256Fingerprint L key of Inl e \<Rightarrow> Inl (ApprovalKey e) | Inr fingerprint \<Rightarrow>
       bind (if SigningKey_SHA256FingerprintHex key \<noteq> []
             then (case normalizeSigningKeyPin L (SigningKey_SHA256FingerprintHex key) of
                     Inl e \<Rightarrow> Inl (ApprovalPin e)
                   | Inr normalized \<Rightarrow> check (normalized \<noteq> fingerprint) (EnvelopeMismatch normalized fingerprint) (Inr ()))
             else Inr ()) (\<lambda>_.
       Inr \<lparr>Approval_Version = SigningKeyApprovalVersion, Approval_Algorithm = SigningKey_Algorithm key,
            Approval_PublicKey = SigningKey_PublicKey key, Approval_SHA256FingerprintHex = fingerprint,
            Approval_ApprovedBy = approvedBy, Approval_ApprovedAt = approvedAt, Approval_Source = [], Approval_Note = [],
            Approval_RequestedBy = [], Approval_RequestedAt = None\<rparr>))))"

definition NewSigningKeyApprovalFromRequest ::
  "sign_lib \<Rightarrow> time \<Rightarrow> SigningKeyApprovalRequest \<Rightarrow> string \<Rightarrow> time \<Rightarrow> approval_error + SigningKeyApproval" where
  "NewSigningKeyApprovalFromRequest L clock request approvedBy approvedAt =
     (case ApprovalRequest_SigningPublicKey L request of Inl e \<Rightarrow> Inl (ApprovalKey e) | Inr key \<Rightarrow>
      bind (NewSigningKeyApproval L clock key approvedBy approvedAt) (\<lambda>approval.
      Inr (approval\<lparr>Approval_Source := TrimSpace (ApprovalRequest_Source request),
                    Approval_Note := TrimSpace (ApprovalRequest_Reason request),
                    Approval_RequestedBy := TrimSpace (ApprovalRequest_RequestedBy request),
                    Approval_RequestedAt := Some (ApprovalRequest_RequestedAt request)\<rparr>)))"

definition Approval_SigningPublicKey :: "sign_lib \<Rightarrow> SigningKeyApproval \<Rightarrow> approval_error + SigningPublicKey" where
  "Approval_SigningPublicKey L a =
     check (Approval_Version a \<noteq> SigningKeyApprovalVersion) (ApprovalVersion (Approval_Version a)) (
     check (is_blank (Approval_ApprovedBy a)) ApproverRequired (
     check (IsZero (Approval_ApprovedAt a)) ApprovalTimeRequired (
     case normalizeSigningKeyPin L (Approval_SHA256FingerprintHex a) of Inl e \<Rightarrow> Inl (ApprovalPin e) | Inr normalized \<Rightarrow>
     check (normalized = []) ApprovalFingerprintRequired (
     let key = \<lparr>SigningKey_Algorithm = Approval_Algorithm a, SigningKey_PublicKey = Approval_PublicKey a,
                SigningKey_SHA256FingerprintHex = normalized, SigningKey_RotatedAt = Approval_ApprovedAt a\<rparr> in
     case SHA256Fingerprint L key of Inl e \<Rightarrow> Inl (ApprovalKey e) | Inr fingerprint \<Rightarrow>
     check (fingerprint \<noteq> normalized) (ApprovalMismatch normalized fingerprint) (Inr key)))))"

definition Approval_TrustPolicy :: "sign_lib \<Rightarrow> SigningKeyApproval \<Rightarrow> approval_error + SigningKeyTrustPolicy" where
  "Approval_TrustPolicy L a =
     bind (Approval_SigningPublicKey L a) (\<lambda>key.
     case NewSigningKeyTrustPolicy L (SigningKey_SHA256FingerprintHex key) of Inl e \<Rightarrow> Inl (ApprovalPin e) | Inr p \<Rightarrow> Inr p)"

definition ValidateSigningKey :: "sign_lib \<Rightarrow> SigningKeyApproval \<Rightarrow> SigningPublicKey \<Rightarrow> approval_error + unit" where
  "ValidateSigningKey L a key =
     bind (Approval_SigningPublicKey L a) (\<lambda>approved.
     check (SigningKey_Algorithm approved \<noteq> SigningKey_Algorithm key \<or> SigningKey_PublicKey approved \<noteq> SigningKey_PublicKey key) KeyNotApproved (
     bind (Approval_TrustPolicy L a) (\<lambda>policy.
     case TrustPolicy_Validate L policy key of Inl e \<Rightarrow> Inl (ApprovalPin e) | Inr _ \<Rightarrow> Inr ())))"

definition LoadSigningKeyApproval ::
  "sign_lib \<Rightarrow> ('d \<Rightarrow> string + SigningKeyApproval) \<Rightarrow> string option \<Rightarrow> string \<Rightarrow> 'd fs \<Rightarrow> approval_error state_error + SigningKeyApproval" where
  "LoadSigningKeyApproval L dec open_err path fs =
     check (is_blank path) StatePathRequired (
     bind (load_state dec open_err path fs) (\<lambda>approval.
     case Approval_SigningPublicKey L approval of Inl e \<Rightarrow> Inl (StateInvalid e) | Inr _ \<Rightarrow> Inr approval))"

definition SaveSigningKeyApproval ::
  "sign_lib \<Rightarrow> (SigningKeyApproval \<Rightarrow> string + 'd) \<Rightarrow> 'd write_os \<Rightarrow> string \<Rightarrow> SigningKeyApproval \<Rightarrow> 'd fs \<Rightarrow>
     approval_error state_error option \<times> 'd fs list" where
  "SaveSigningKeyApproval L enc os path approval fs =
     (if is_blank path then (Some StatePathRequired, [fs])
      else case Approval_SigningPublicKey L approval of
             Inl e \<Rightarrow> (Some (StateInvalid e), [fs])
           | Inr _ \<Rightarrow> save_state enc os path approval fs)"

section \<open>CRL cache\<close>

datatype crl_error =
    CRLTenantIDRequired
  | CRLIssuerRequired
  | CRLGeneratedRequired
  | CRLNextUpdateRequired
  | CRLNextUpdateOrder
  | CRLPEMNeeded
  | CRLParse string
  | CRLRecordTenant string
  | CRLRecordNotRevoked string

fun validate_crl_records :: "string \<Rightarrow> CertRecord list \<Rightarrow> crl_error + unit" where
  \<comment> \<open>the loop of validateRevocationList\<close>
  "validate_crl_records tenant [] = Inr ()"
| "validate_crl_records tenant (r # rs) =
     check (CertRecord_TenantID r \<noteq> tenant) (CRLRecordTenant (CertRecord_TenantID r)) (
     check (\<not> CertRecord_Revoked r) (CRLRecordNotRevoked (CertRecord_Serial r)) (
     validate_crl_records tenant rs))"

definition validateRevocationList :: "x509_lib \<Rightarrow> RevocationList \<Rightarrow> crl_error + unit" where
  "validateRevocationList X l =
     check (RevocationList_TenantID l = []) CRLTenantIDRequired (
     check (RevocationList_Issuer l = []) CRLIssuerRequired (
     check (IsZero (RevocationList_GeneratedAt l)) CRLGeneratedRequired (
     check (IsZero (RevocationList_NextUpdate l)) CRLNextUpdateRequired (
     check (\<not> RevocationList_GeneratedAt l < RevocationList_NextUpdate l) CRLNextUpdateOrder (
     case x_pem_decode X (RevocationList_CRLPEM l) of
       None \<Rightarrow> Inl CRLPEMNeeded
     | Some (ty, der) \<Rightarrow>
         check (ty \<noteq> ''X509 CRL'') CRLPEMNeeded (
         case x_parse_crl X der of
           Inl e \<Rightarrow> Inl (CRLParse e)
         | Inr _ \<Rightarrow> validate_crl_records (RevocationList_TenantID l) (RevocationList_Records l)))))))"

definition NewFileCRLCache :: "string \<Rightarrow> crl_error state_error + string" where
  "NewFileCRLCache path = check (path = []) StatePathRequired (Inr path)"

definition CRLCache_Load ::
  "x509_lib \<Rightarrow> ('d \<Rightarrow> string + RevocationList) \<Rightarrow> string option \<Rightarrow> string \<Rightarrow> 'd fs \<Rightarrow> crl_error state_error + RevocationList" where
  "CRLCache_Load X dec open_err path fs =
     bind (load_state dec open_err path fs) (\<lambda>l.
     case validateRevocationList X l of Inl e \<Rightarrow> Inl (StateInvalid e) | Inr _ \<Rightarrow> Inr l)"

definition CRLCache_Save ::
  "x509_lib \<Rightarrow> (RevocationList \<Rightarrow> string + 'd) \<Rightarrow> 'd write_os \<Rightarrow> string \<Rightarrow> RevocationList \<Rightarrow> 'd fs \<Rightarrow> crl_error state_error option \<times> 'd fs list" where
  "CRLCache_Save X enc os path l fs =
     (case validateRevocationList X l of
        Inl e \<Rightarrow> (Some (StateInvalid e), [fs])
      | Inr _ \<Rightarrow> save_state enc os path l fs)"

section \<open>Telemetry queue\<close>

definition DefaultTelemetryQueueMaxReports :: int where "DefaultTelemetryQueueMaxReports = 1024"

record FileTelemetryQueue =
  queue_path :: string
  queue_maxReports :: int

datatype queue_error = QueueMaxReports | QueueReport telemetry_error

definition NewBoundedFileTelemetryQueue :: "string \<Rightarrow> int \<Rightarrow> queue_error state_error + FileTelemetryQueue" where
  "NewBoundedFileTelemetryQueue path maxReports =
     check (path = []) StatePathRequired (
     check (maxReports \<le> 0) (StateInvalid QueueMaxReports) (
     Inr \<lparr>queue_path = path, queue_maxReports = maxReports\<rparr>))"

definition NewFileTelemetryQueue :: "string \<Rightarrow> queue_error state_error + FileTelemetryQueue" where
  "NewFileTelemetryQueue path = NewBoundedFileTelemetryQueue path DefaultTelemetryQueueMaxReports"

definition clean_report :: "(string \<Rightarrow> string) \<Rightarrow> time \<Rightarrow> Report \<Rightarrow> queue_error state_error + Report" where
  \<comment> \<open>the body of the loops of Load and Save\<close>
  "clean_report uc clock report =
     (let clean = Report_Sanitized uc clock report in
      case Report_Validate clean of Inl e \<Rightarrow> Inl (StateInvalid (QueueReport e)) | Inr _ \<Rightarrow> Inr clean)"

definition Queue_Load ::
  "('d \<Rightarrow> string + Report list) \<Rightarrow> (string \<Rightarrow> string) \<Rightarrow> time \<Rightarrow> string option \<Rightarrow> FileTelemetryQueue \<Rightarrow> 'd fs \<Rightarrow> queue_error state_error + Report list" where
  "Queue_Load dec uc clock open_err q fs =
     (case open_err of Some e \<Rightarrow> Inl (StateOpen e) | None \<Rightarrow>
     (case gm_get fs (queue_path q) of
        None \<Rightarrow> Inr []
      | Some (d, _) \<Rightarrow>
          (case dec d of
             Inl e \<Rightarrow> Inl (StateDecode e)
           | Inr queued \<Rightarrow> traverse (clean_report uc clock) queued)))"

definition Queue_Save ::
  "(Report list \<Rightarrow> string + 'd) \<Rightarrow> (string \<Rightarrow> string) \<Rightarrow> time \<Rightarrow> 'd write_os \<Rightarrow> string option \<Rightarrow> FileTelemetryQueue \<Rightarrow> Report list \<Rightarrow> 'd fs \<Rightarrow>
     queue_error state_error option \<times> 'd fs list" where
  \<comment> \<open>\<open>rm_err\<close> is an error of os.Remove other than a missing file\<close>
  "Queue_Save enc uc clock os rm_err q reports fs =
     (if reports = [] then
        (case rm_err of Some e \<Rightarrow> (Some (StateRemove e), [fs]) | None \<Rightarrow> (None, [fs, gm_del (queue_path q) fs]))
      else case traverse (clean_report uc clock) reports of
             Inl e \<Rightarrow> (Some e, [fs])
           | Inr clean \<Rightarrow>
               let clean = (if int (length clean) > queue_maxReports q
                            then drop (length clean - nat (queue_maxReports q)) clean else clean)
               in save_state enc os (queue_path q) clean fs)"

section \<open>The caches as state files\<close>

lemma validated_state_file:
  fixes save :: "'d write_os \<Rightarrow> 'v \<Rightarrow> 'd fs \<Rightarrow> 'e state_error option \<times> 'd fs list" and load :: "'d fs \<Rightarrow> 'e state_error + 'v"
  assumes save: "\<And>os v fs. save os v fs = (case val v of Inl e \<Rightarrow> (Some (StateInvalid e), [fs]) | Inr _ \<Rightarrow> save_state enc os path v fs)"
    and load: "\<And>fs. load fs = bind (load_state dec None path fs) (\<lambda>v. case val v of Inl e \<Rightarrow> Inl (StateInvalid e) | Inr _ \<Rightarrow> Inr v)"
  shows "state_file save load (\<lambda>os fs. codec_ok enc dec \<and> temp_fresh os path fs)"
proof unfold_locales
  have loaded: "load fs' = Inr v" if "val v = Inr u" "enc v = Inr d" "gm_get fs' path = Some (d, perm)" "codec_ok enc dec" for fs' v u d perm
    using that by (simp add: load load_state_def codec_ok_def bind_def)
  have same: "load fs' = load fs" if "gm_get fs' path = gm_get fs path" for fs' fs
    using that by (simp add: load load_state_def)
  fix os :: "'d write_os" and fs :: "'d fs" and v :: 'v and fss :: "'d fs list"
  assume ready: "codec_ok enc dec \<and> temp_fresh os path fs"
  show "load (last fss) = Inr v" if "save os v fs = (None, fss)"
  proof (cases "val v")
    case (Inl e)
    with that show ?thesis by (simp add: save)
  next
    case (Inr u)
    then have "save_state enc os path v fs = (None :: 'e state_error option, fss)" using that by (simp add: save)
    then show ?thesis using save_state_success loaded Inr ready by metis
  qed
  show "load (last fss) = load fs" if "save os v fs = (Some e, fss)" for e
  proof (cases "val v")
    case (Inl e)
    with that show ?thesis by (auto simp: save)
  next
    case (Inr u)
    then have "save_state enc os path v fs = (Some e :: 'e state_error option, fss)" using that by (simp add: save)
    then have "gm_get (last fss) path = gm_get fs path" using ready by (intro save_state_failure) auto
    then show ?thesis by (rule same)
  qed
  show "load fs' = load fs \<or> load fs' = Inr v" if w: "save os v fs = (err, fss)" and fs': "fs' \<in> set fss" for err fs'
  proof (cases "val v")
    case (Inl e)
    with that show ?thesis by (auto simp: save)
  next
    case (Inr u)
    then have "save_state enc os path v fs = (err :: 'e state_error option, fss)" using that by (simp add: save)
    then consider "gm_get fs' path = gm_get fs path" | d where "enc v = Inr d" "gm_get fs' path = Some (d, private_perm)"
      using save_state_crash [of enc os path v fs err fss fs'] ready fs' by blast
    then show ?thesis using loaded [OF Inr] same ready by cases blast+
  qed
qed

interpretation config_cache:
  state_file "\<lambda>os. ConfigCache_Save enc os path" "ConfigCache_Load dec None path" "\<lambda>os fs. codec_ok enc dec \<and> temp_fresh os path fs"
  for enc :: "ConfigBundle \<Rightarrow> string + 'd" and dec path
  by (rule validated_state_file) (simp_all add: ConfigCache_Save_def ConfigCache_Load_def)

interpretation signing_key_cache:
  state_file "\<lambda>os. SigningKeyCache_Save enc os path" "SigningKeyCache_Load dec None path" "\<lambda>os fs. codec_ok enc dec \<and> temp_fresh os path fs"
  for enc :: "SigningPublicKey \<Rightarrow> string + 'd" and dec path
  by (rule validated_state_file) (simp_all add: SigningKeyCache_Save_def SigningKeyCache_Load_def)

interpretation crl_cache:
  state_file "\<lambda>os. CRLCache_Save X enc os path" "CRLCache_Load X dec None path" "\<lambda>os fs. codec_ok enc dec \<and> temp_fresh os path fs"
  for X and enc :: "RevocationList \<Rightarrow> string + 'd" and dec path
  by (rule validated_state_file) (simp_all add: CRLCache_Save_def CRLCache_Load_def)

section \<open>Approved keys\<close>

lemma normalizePin_hex: "length bs = 32 \<Longrightarrow> normalizeSigningKeyPin L (hex_Encode bs) = Inr (hex_Encode bs)"
  using hex_Encode_normal [where bs = bs]
  by (auto simp: normalizeSigningKeyPin_def Let_def TrimPrefix_def check_def)

lemma fingerprint_bytes:
  "SHA256Fingerprint L key = Inr fp \<longleftrightarrow> (\<exists>pk. PublicKeyBytes key = Inr pk \<and> fp = hex_Encode (lib_sum256 L pk))"
  by (auto simp: SHA256Fingerprint_def bind_def split: sum.splits)

lemma TrustPolicy_Validate_iff:
  "TrustPolicy_Validate L p key = Inr () \<longleftrightarrow> PinnedSHA256 p = [] \<or> SHA256Fingerprint L key = Inr (PinnedSHA256 p)"
  by (auto simp: TrustPolicy_Validate_def check_def split: sum.splits if_splits)

lemma PublicKeyBytes_cong:
  "SigningKey_Algorithm k = SigningKey_Algorithm k' \<Longrightarrow> SigningKey_PublicKey k = SigningKey_PublicKey k' \<Longrightarrow> PublicKeyBytes k = PublicKeyBytes k'"
  by (simp add: PublicKeyBytes_def)

lemma ApprovalRequest_key:
  assumes "ApprovalRequest_SigningPublicKey L r = Inr key"
  shows "SigningKey_Algorithm key = ApprovalRequest_Algorithm r \<and> SigningKey_PublicKey key = ApprovalRequest_PublicKey r \<and>
         SHA256Fingerprint L key = Inr (SigningKey_SHA256FingerprintHex key)"
proof -
  define k where "k = \<lparr>SigningKey_Algorithm = ApprovalRequest_Algorithm r, SigningKey_PublicKey = ApprovalRequest_PublicKey r,
    SigningKey_SHA256FingerprintHex = ApprovalRequest_SHA256FingerprintHex r, SigningKey_RotatedAt = ApprovalRequest_RotatedAt r\<rparr>"
  obtain fp where fp: "validateSigningPublicKeyFingerprint L k = Inr fp" and key: "key = k\<lparr>SigningKey_SHA256FingerprintHex := fp\<rparr>"
    using assms by (auto simp: ApprovalRequest_SigningPublicKey_def check_def bind_def Let_def k_def split: if_splits sum.splits)
  obtain pk where "PublicKeyBytes k = Inr pk" "fp = hex_Encode (lib_sum256 L pk)" using fp by (auto simp: validate_fingerprint_iff)
  then have "SHA256Fingerprint L key = Inr fp"
    using PublicKeyBytes_cong [of key k] key by (simp add: fingerprint_bytes)
  then show ?thesis using key by (simp add: k_def)
qed

lemma Approval_policy:
  assumes laws: "sign_laws L" and a: "Approval_SigningPublicKey L a = Inr key"
  shows "Approval_TrustPolicy L a = Inr \<lparr>PinnedSHA256 = SigningKey_SHA256FingerprintHex key\<rparr> \<and>
         SHA256Fingerprint L key = Inr (SigningKey_SHA256FingerprintHex key) \<and> SigningKey_SHA256FingerprintHex key \<noteq> [] \<and>
         SigningKey_Algorithm key = Approval_Algorithm a \<and> SigningKey_PublicKey key = Approval_PublicKey a"
proof -
  obtain n where n: "n \<noteq> []" "SHA256Fingerprint L key = Inr n" "SigningKey_SHA256FingerprintHex key = n"
    "SigningKey_Algorithm key = Approval_Algorithm a" "SigningKey_PublicKey key = Approval_PublicKey a"
    using a by (auto simp: Approval_SigningPublicKey_def check_def Let_def split: if_splits sum.splits)
  then obtain pk where "n = hex_Encode (lib_sum256 L pk)" by (auto simp: fingerprint_bytes)
  then have "normalizeSigningKeyPin L n = Inr n" using laws by (simp add: normalizePin_hex sign_laws_def)
  with n a show ?thesis by (simp add: Approval_TrustPolicy_def NewSigningKeyTrustPolicy_def bind_def)
qed

text \<open>
  The trust policy an agent derives from an approval of the control server's approval request
  accepts the key the request was made for, and accepts no key whose SHA-256 fingerprint differs.
\<close>

lemma approval_pins_key:
  assumes laws: "sign_laws L"
    and req: "NewSigningKeyApprovalRequest L clock key requester at1 = Inr request"
    and appr: "NewSigningKeyApprovalFromRequest L clock' (request\<lparr>ApprovalRequest_Source := src, ApprovalRequest_Reason := why\<rparr>) approver at2 = Inr approval"
    and clock: "\<not> IsZero clock'"
  shows "\<exists>policy. Approval_TrustPolicy L approval = Inr policy \<and> TrustPolicy_Validate L policy key = Inr () \<and>
           ValidateSigningKey L approval key = Inr () \<and>
           (\<forall>key'. TrustPolicy_Validate L policy key' = Inr () \<longrightarrow> SHA256Fingerprint L key' = SHA256Fingerprint L key)"
proof -
  let ?r = "request\<lparr>ApprovalRequest_Source := src, ApprovalRequest_Reason := why\<rparr>"
  obtain k where k: "ApprovalRequest_SigningPublicKey L ?r = Inr k"
    and a: "Approval_Version approval = SigningKeyApprovalVersion" "\<not> is_blank (Approval_ApprovedBy approval)"
      "\<not> IsZero (Approval_ApprovedAt approval)" "Approval_Algorithm approval = SigningKey_Algorithm k"
      "Approval_PublicKey approval = SigningKey_PublicKey k" "SHA256Fingerprint L k = Inr (Approval_SHA256FingerprintHex approval)"
    using appr clock
    by (auto simp: NewSigningKeyApprovalFromRequest_def NewSigningKeyApproval_def bind_def check_def Let_def is_blank_def
        split: sum.splits if_splits)
  have rk: "SigningKey_Algorithm k = SigningKey_Algorithm key" "SigningKey_PublicKey k = SigningKey_PublicKey key"
    using ApprovalRequest_key [OF k] req
    by (auto simp: NewSigningKeyApprovalRequest_def bind_def check_def Let_def split: sum.splits if_splits)
  have pk: "SHA256Fingerprint L key = Inr (Approval_SHA256FingerprintHex approval)"
    using a(6) PublicKeyBytes_cong [of k key] rk by (simp add: fingerprint_bytes)
  then obtain bs where bs: "Approval_SHA256FingerprintHex approval = hex_Encode bs" "length bs = 32"
    using laws by (auto simp: fingerprint_bytes sign_laws_def)
  let ?k = "\<lparr>SigningKey_Algorithm = Approval_Algorithm approval, SigningKey_PublicKey = Approval_PublicKey approval,
    SigningKey_SHA256FingerprintHex = Approval_SHA256FingerprintHex approval, SigningKey_RotatedAt = Approval_ApprovedAt approval\<rparr>"
  have fk: "SHA256Fingerprint L ?k = Inr (Approval_SHA256FingerprintHex approval)"
    using pk PublicKeyBytes_cong [of ?k key] rk a(4,5) by (simp add: fingerprint_bytes)
  have spk: "Approval_SigningPublicKey L approval = Inr ?k"
    using a(1-3) bs fk normalizePin_hex [OF bs(2), of L] hex_Encode_normal(4) [of bs]
    by (auto simp: Approval_SigningPublicKey_def check_def Let_def)
  have tv: "TrustPolicy_Validate L \<lparr>PinnedSHA256 = Approval_SHA256FingerprintHex approval\<rparr> key = Inr ()"
    by (simp add: TrustPolicy_Validate_iff pk)
  have pol: "Approval_TrustPolicy L approval = Inr \<lparr>PinnedSHA256 = Approval_SHA256FingerprintHex approval\<rparr>"
    "Approval_SHA256FingerprintHex approval \<noteq> []"
    using Approval_policy [OF laws spk] by simp_all
  have "ValidateSigningKey L approval key = Inr ()"
    using spk pol tv rk a(4,5) by (simp add: ValidateSigningKey_def bind_def check_def)
  then show ?thesis
    using pol tv pk by (simp add: TrustPolicy_Validate_iff)
qed

definition sample_key :: SigningPublicKey where
  "sample_key = \<lparr>SigningKey_Algorithm = ConfigSignatureAlgorithm, SigningKey_PublicKey = b64_encode StdEncoding (replicate 32 1),
     SigningKey_SHA256FingerprintHex = [], SigningKey_RotatedAt = 3\<rparr>"

definition sample_approval_request :: SigningKeyApprovalRequest where
  "sample_approval_request = (case NewSigningKeyApprovalRequest sample_lib 9 sample_key ''ops'' 5 of Inr r \<Rightarrow> r)"

definition sample_approval :: SigningKeyApproval where
  "sample_approval = (case NewSigningKeyApprovalFromRequest sample_lib 8
      (sample_approval_request\<lparr>ApprovalRequest_Source := [], ApprovalRequest_Reason := ''rotation''\<rparr>) ''sec'' 6 of Inr a \<Rightarrow> a)"

end
