(* ===== verification/Agent.thy ===== *)
theory Agent
  imports Agent_State Transport Go_HTTP
begin

text \<open>
  The agent's service (internal/agent/service.go), its probe loop (probe.go) and its local API
  (localapi.go). The state is the record \<open>Service\<close>; the transport apply function acts on a world of
  type \<open>'w\<close>, as in \<open>Transport\<close>. The configuration cache is the file cache of \<open>Agent_State\<close>, given by its
  path, over a file system of contents \<open>'d\<close>. Readings of time.Now are arguments.
\<close>

section \<open>Service\<close>

record AgentSnapshot =
  snap_TenantID :: string
  snap_DeviceID :: string
  snap_Platform :: string
  snap_ConfigVersion :: string
  snap_Running :: bool
  snap_Protocol :: Protocol
  snap_LinkClass :: LinkClass
  snap_RTTMillis :: int
  snap_PacketLossPermil :: int
  snap_JitterMillis :: int
  snap_UDPAvailable :: bool
  snap_Reason :: string
  snap_UpdatedAt :: time

definition zero_snapshot :: AgentSnapshot where
  "zero_snapshot = \<lparr>snap_TenantID = [], snap_DeviceID = [], snap_Platform = [], snap_ConfigVersion = [], snap_Running = False,
     snap_Protocol = [], snap_LinkClass = [], snap_RTTMillis = 0, snap_PacketLossPermil = 0, snap_JitterMillis = 0,
     snap_UDPAvailable = False, snap_Reason = [], snap_UpdatedAt = 0\<rparr>"

record 'w Service =
  svc_cfg :: Config
  svc_switchRuntime :: "SwitchRuntime option"
  svc_transportApply :: "'w ApplyFunc option"
  svc_telemetryQueue :: "FileTelemetryQueue option"
  svc_snapshot :: AgentSnapshot
  svc_cache :: "string option" \<comment> \<open>the path of the configuration cache\<close>

datatype agent_error =
    AgentConfigInvalid config_error
  | TransportApplyRequired
  | TransportRuntimeRequired
  | AgentCache "domain_error state_error"
  | CachedTenantMismatch string string
  | CachedTargetMismatch string string
  | InitialTransport Protocol string
  | AgentSwitch switch_error
  | AgentBundleInvalid domain_error
  | ConfigTenantMismatch string string
  | ConfigTargetMismatch string string
  | SaveConfigCache "domain_error state_error"

definition snapshotWithProtocolLocked :: "string \<Rightarrow> 'w Service \<Rightarrow> Protocol \<Rightarrow> string \<Rightarrow> time \<Rightarrow> AgentSnapshot" where
  \<comment> \<open>\<open>platform\<close> is \<open>runtime.GOOS + "/" + runtime.GOARCH\<close>\<close>
  "snapshotWithProtocolLocked platform s protocol reason now =
     \<lparr>snap_TenantID = AgentConfig_TenantID (Config_Agent (svc_cfg s)), snap_DeviceID = AgentConfig_DeviceID (Config_Agent (svc_cfg s)),
      snap_Platform = platform, snap_ConfigVersion = AgentConfig_ConfigVersion (Config_Agent (svc_cfg s)),
      snap_Running = snap_Running (svc_snapshot s), snap_Protocol = protocol, snap_LinkClass = snap_LinkClass (svc_snapshot s),
      snap_RTTMillis = snap_RTTMillis (svc_snapshot s), snap_PacketLossPermil = snap_PacketLossPermil (svc_snapshot s),
      snap_JitterMillis = snap_JitterMillis (svc_snapshot s), snap_UDPAvailable = snap_UDPAvailable (svc_snapshot s),
      snap_Reason = reason, snap_UpdatedAt = now\<rparr>"

definition snapshotWithSignalsLocked :: "string \<Rightarrow> 'w Service \<Rightarrow> Protocol \<Rightarrow> string \<Rightarrow> time \<Rightarrow> Signals \<Rightarrow> AgentSnapshot" where
  "snapshotWithSignalsLocked platform s protocol reason now signals =
     (snapshotWithProtocolLocked platform s protocol reason now)
     \<lparr>snap_LinkClass := (if Signals_LinkClass signals = [] then LinkUnknown else Signals_LinkClass signals),
      snap_RTTMillis := Signals_RTTMillis signals, snap_PacketLossPermil := Signals_PacketLossPermil signals,
      snap_JitterMillis := Signals_JitterMillis signals, snap_UDPAvailable := Signals_UDPAvailable signals\<rparr>"

definition evaluateLocked :: "string \<Rightarrow> (float64 \<Rightarrow> string) \<Rightarrow> time \<Rightarrow> 'w Service \<Rightarrow> Signals \<Rightarrow> AgentSnapshot" where
  "evaluateLocked platform pct now s signals =
     (let selected = Select pct signals
      in snapshotWithSignalsLocked platform s (Selection_Protocol selected) (Selection_Reason selected) now signals)"

definition initial_signals :: Signals where
  \<comment> \<open>the signals of a service that has not probed yet\<close>
  "initial_signals = \<lparr>Signals_LinkClass = LinkUnknown, Signals_UDPAvailable = True, Signals_QoSRisk = False, Signals_DPIRisk = False,
     Signals_RTTMillis = 0, Signals_PacketLossPermil = 0, Signals_JitterMillis = 0, Signals_HandshakeSuccess = []\<rparr>"

definition newServiceWithDependencies ::
  "string \<Rightarrow> (float64 \<Rightarrow> string) \<Rightarrow> time \<Rightarrow> ('d \<Rightarrow> string + ConfigBundle) \<Rightarrow> string option \<Rightarrow> 'd fs \<Rightarrow>
     Config \<Rightarrow> string option \<Rightarrow> SwitchRuntime option \<Rightarrow> 'w ApplyFunc option \<Rightarrow> FileTelemetryQueue option \<Rightarrow> agent_error + 'w Service" where
  "newServiceWithDependencies platform pct now dec open_err fs cfg cache rt app queue =
     (case Config_Validate cfg of Inl e \<Rightarrow> Inl (AgentConfigInvalid e) | Inr _ \<Rightarrow>
     check (rt \<noteq> None \<and> app = None) TransportApplyRequired (
     check (rt = None \<and> app \<noteq> None) TransportRuntimeRequired (
     bind (case cache of
             None \<Rightarrow> Inr cfg
           | Some path \<Rightarrow>
               (case ConfigCache_Load dec open_err path fs of
                  Inl e \<Rightarrow> if e = StateMiss then Inr cfg else Inl (AgentCache e)
                | Inr cached \<Rightarrow>
                    check (ConfigBundle_TenantID cached \<noteq> AgentConfig_TenantID (Config_Agent cfg))
                      (CachedTenantMismatch (ConfigBundle_TenantID cached) (AgentConfig_TenantID (Config_Agent cfg))) (
                    check (ConfigBundle_TargetID cached \<noteq> AgentConfig_DeviceID (Config_Agent cfg))
                      (CachedTargetMismatch (ConfigBundle_TargetID cached) (AgentConfig_DeviceID (Config_Agent cfg))) (
                    Inr (cfg\<lparr>Config_Agent := (Config_Agent cfg)\<lparr>AgentConfig_ConfigVersion := ConfigBundle_Version cached\<rparr>\<rparr>))))) (\<lambda>cfg.
     let service = \<lparr>svc_cfg = cfg, svc_switchRuntime = rt, svc_transportApply = app, svc_telemetryQueue = queue,
                    svc_snapshot = zero_snapshot, svc_cache = cache\<rparr>
     in Inr (service\<lparr>svc_snapshot :=
               (case rt of
                  Some r \<Rightarrow> snapshotWithSignalsLocked platform service (sr_active r) ''transport runtime active'' now initial_signals
                | None \<Rightarrow> evaluateLocked platform pct now service initial_signals)\<rparr>)))))"

definition NewServiceWithCache where
  "NewServiceWithCache platform pct now dec open_err fs cfg cache =
     newServiceWithDependencies platform pct now dec open_err fs cfg cache None None None"

definition NewService where
  "NewService platform pct now dec fs cfg = NewServiceWithCache platform pct now dec None fs cfg None"

definition NewServiceWithTransportRuntime where
  "NewServiceWithTransportRuntime platform pct now dec open_err fs cfg cache rt app =
     newServiceWithDependencies platform pct now dec open_err fs cfg cache rt app None"

definition NewServiceWithTelemetryQueue where
  "NewServiceWithTelemetryQueue platform pct now dec open_err fs cfg cache queue =
     newServiceWithDependencies platform pct now dec open_err fs cfg cache None None queue"

definition NewServiceWithTransportRuntimeAndTelemetryQueue where
  "NewServiceWithTransportRuntimeAndTelemetryQueue platform pct now dec open_err fs cfg cache rt app queue =
     newServiceWithDependencies platform pct now dec open_err fs cfg cache rt app queue"

section \<open>Running, evaluating and applying\<close>

definition set_running :: "bool \<Rightarrow> time \<Rightarrow> 'w Service \<Rightarrow> 'w Service" where
  \<comment> \<open>the locked updates of Start\<close>
  "set_running b now s = s\<lparr>svc_snapshot := (svc_snapshot s)\<lparr>snap_Running := b, snap_UpdatedAt := now\<rparr>\<rparr>"

definition Service_Start :: "time \<Rightarrow> time \<Rightarrow> 'w Service \<Rightarrow> 'w \<Rightarrow> agent_error option \<times> 'w Service \<times> 'w Service \<times> 'w" where
  \<comment> \<open>the service while it runs and after the context is done; Start blocks in between\<close>
  "Service_Start t1 t2 s w =
     (let s1 = set_running True t1 s;
          initialProtocol = (case svc_switchRuntime s1 of None \<Rightarrow> [] | Some r \<Rightarrow> sr_active r)
      in case svc_transportApply s1 of
           None \<Rightarrow> (None, s1, set_running False t2 s1, w)
         | Some app \<Rightarrow>
             (case app initialProtocol w of
                (Some e, w') \<Rightarrow> (Some (InitialTransport initialProtocol e), s1, set_running False t2 s1, w')
              | (None, w') \<Rightarrow> (None, s1, set_running False t2 s1, w')))"

definition Service_Evaluate :: "string \<Rightarrow> (float64 \<Rightarrow> string) \<Rightarrow> time \<Rightarrow> Signals \<Rightarrow> 'w Service \<Rightarrow> AgentSnapshot \<times> 'w Service" where
  "Service_Evaluate platform pct now signals s =
     (let s = s\<lparr>svc_snapshot := evaluateLocked platform pct now s signals\<rparr> in (svc_snapshot s, s))"

definition EvaluateAndApply ::
  "string \<Rightarrow> (float64 \<Rightarrow> string) \<Rightarrow> 'w SwitchReporter option \<Rightarrow> time \<Rightarrow> Signals \<Rightarrow> 'w Service \<Rightarrow> 'w \<Rightarrow>
     (AgentSnapshot \<times> SwitchReport option \<times> agent_error option) \<times> 'w Service \<times> 'w" where
  "EvaluateAndApply platform pct reporter now signals s w =
     (case svc_switchRuntime s of
        None \<Rightarrow>
          let previous = snap_Protocol (svc_snapshot s);
              s = s\<lparr>svc_snapshot := evaluateLocked platform pct now s signals\<rparr>
          in ((svc_snapshot s,
               Some \<lparr>SwitchReport_Previous = previous, SwitchReport_Selected = snap_Protocol (svc_snapshot s), SwitchReport_Applied = True,
                     SwitchReport_Suppressed = False, SwitchReport_RolledBack = False, SwitchReport_Reason = snap_Reason (svc_snapshot s),
                     SwitchReport_Error = [], SwitchReport_Signals = signals, SwitchReport_EvaluatedAt = snap_UpdatedAt (svc_snapshot s)\<rparr>,
               None), s, w)
      | Some rt \<Rightarrow>
          (case SwitchRuntime_Evaluate pct reporter now signals (svc_transportApply s) rt w of
             ((report, err), rt, w) \<Rightarrow>
               let s = s\<lparr>svc_switchRuntime := Some rt\<rparr> in
               (case (report, err) of
                  (Some report, None) \<Rightarrow>
                    let reason = SwitchReport_Reason report @
                          (if SwitchReport_RolledBack report \<and> SwitchReport_Error report \<noteq> [] then '': '' @ SwitchReport_Error report else []);
                        s = s\<lparr>svc_snapshot := snapshotWithSignalsLocked platform s (SwitchReport_Selected report) reason now signals\<rparr>
                    in ((svc_snapshot s, Some report, None), s, w)
                | (_, Some e) \<Rightarrow> ((svc_snapshot s, None, Some (AgentSwitch e)), s, w)
                | (None, None) \<Rightarrow> ((svc_snapshot s, None, None), s, w))))"

definition parseTransportProtocol :: "(string \<Rightarrow> string) \<Rightarrow> string \<Rightarrow> Protocol option" where
  "parseTransportProtocol uc value =
     (let v = TrimSpace (ToLower uc value) in
      if v = ProtocolWireGuard \<or> v = ''wireguard'' then Some ProtocolWireGuard
      else if v = ProtocolHysteria2 then Some ProtocolHysteria2
      else if v = ProtocolReality then Some ProtocolReality
      else if v = ProtocolTUIC then Some ProtocolTUIC
      else None)"

definition ApplyConfig ::
  "(string \<Rightarrow> string) \<Rightarrow> (ConfigBundle \<Rightarrow> string + 'd) \<Rightarrow> 'd write_os \<Rightarrow> time \<Rightarrow> ConfigBundle \<Rightarrow> 'w Service \<Rightarrow> 'd fs \<Rightarrow>
     agent_error option \<times> 'w Service \<times> 'd fs" where
  "ApplyConfig uc enc os now bundle s fs =
     (case ConfigBundle_Validate bundle of Inl e \<Rightarrow> (Some (AgentBundleInvalid e), s, fs) | Inr _ \<Rightarrow>
      if ConfigBundle_TenantID bundle \<noteq> AgentConfig_TenantID (Config_Agent (svc_cfg s))
      then (Some (ConfigTenantMismatch (ConfigBundle_TenantID bundle) (AgentConfig_TenantID (Config_Agent (svc_cfg s)))), s, fs)
      else if ConfigBundle_TargetID bundle \<noteq> AgentConfig_DeviceID (Config_Agent (svc_cfg s))
      then (Some (ConfigTargetMismatch (ConfigBundle_TargetID bundle) (AgentConfig_DeviceID (Config_Agent (svc_cfg s)))), s, fs)
      else case (case svc_cache s of None \<Rightarrow> (None, [fs]) | Some path \<Rightarrow> ConfigCache_Save enc os path bundle fs) of
             (Some e, fss) \<Rightarrow> (Some (SaveConfigCache e), s, last fss)
           | (None, fss) \<Rightarrow>
               let snap = svc_snapshot s;
                   snap = (case parseTransportProtocol uc (gm_default [] (case ConfigBundle_Values bundle of None \<Rightarrow> [] | Some m \<Rightarrow> m) ''transport'') of
                             None \<Rightarrow> snap | Some protocol \<Rightarrow> snap\<lparr>snap_Protocol := protocol\<rparr>);
                   s = s\<lparr>svc_cfg := (svc_cfg s)\<lparr>Config_Agent := (Config_Agent (svc_cfg s))\<lparr>AgentConfig_ConfigVersion := ConfigBundle_Version bundle\<rparr>\<rparr>,
                         svc_snapshot := snap\<lparr>snap_ConfigVersion := ConfigBundle_Version bundle, snap_UpdatedAt := now\<rparr>\<rparr>
               in (None, s, last fss))"

definition boolMetric :: "bool \<Rightarrow> float64" where
  "boolMetric v = (if v then Fin 1 else Fin 0)"

definition TelemetryReport :: "time \<Rightarrow> 'w Service \<Rightarrow> Report" where
  "TelemetryReport now s =
     (let snap = svc_snapshot s in
      \<lparr>Report_TenantID = snap_TenantID snap, Report_SubjectID = snap_DeviceID snap, Report_SubjectKind = SubjectAgent, Report_Timestamp = now,
       Report_Metrics = Some [(''rtt_millis'', Fin (of_int (snap_RTTMillis snap))),
                              (''packet_loss_permil'', Fin (of_int (snap_PacketLossPermil snap))),
                              (''jitter_millis'', Fin (of_int (snap_JitterMillis snap))),
                              (''udp_available'', boolMetric (snap_UDPAvailable snap))],
       Report_Logs = Some [\<lparr>LogRecord_Level = ''info'', LogRecord_Message = ''agent snapshot'',
                            LogRecord_Fields = Some [(''platform'', snap_Platform snap), (''protocol'', snap_Protocol snap),
                                                     (''config_version'', snap_ConfigVersion snap), (''link_class'', snap_LinkClass snap)]\<rparr>]\<rparr>)"

section \<open>Probe loop\<close>

definition probe_handler ::
  "string \<Rightarrow> (float64 \<Rightarrow> string) \<Rightarrow> 'w SwitchReporter option \<Rightarrow> time \<Rightarrow> Signals \<Rightarrow>
     agent_error option \<times> 'w Service \<times> 'w \<Rightarrow> agent_error option \<times> 'w Service \<times> 'w" where
  \<comment> \<open>the signal handler of RunProbeLoop; the first switch error is kept\<close>
  "probe_handler platform pct reporter now signals st =
     (case st of (switchErr, s, w) \<Rightarrow>
        if svc_switchRuntime s \<noteq> None then
          (case EvaluateAndApply platform pct reporter now signals s w of
             ((_, _, err), s, w) \<Rightarrow> (if switchErr = None then err else switchErr, s, w))
        else (switchErr, snd (Service_Evaluate platform pct now signals s), w))"

definition Service_RunProbeLoop ::
  "string \<Rightarrow> (float64 \<Rightarrow> string) \<Rightarrow> 'w SwitchReporter option \<Rightarrow> (time \<times> Signals) list \<Rightarrow> probe_loop_error option \<Rightarrow>
     'w Service \<Rightarrow> 'w \<Rightarrow> (agent_error + probe_loop_error option) \<times> 'w Service \<times> 'w" where
  \<comment> \<open>\<open>rounds\<close> are the signals the transport's probe loop handed over, with the clock, and \<open>err\<close> what it returned\<close>
  "Service_RunProbeLoop platform pct reporter rounds err s w =
     (case fold (\<lambda>(now, signals). probe_handler platform pct reporter now signals) rounds (None, s, w) of
        (Some e, s, w) \<Rightarrow> (Inl e, s, w)
      | (None, s, w) \<Rightarrow> (Inr err, s, w))"

section \<open>Local API\<close>

datatype local_body =
    LocalHealth bool
  | LocalSnapshot AgentSnapshot
  | LocalReport Report
  | LocalConfig ConfigBundle
  | LocalDecodeError string
  | LocalApplyError agent_error

definition handleLocalHealth :: "http_request \<Rightarrow> 'w Service \<Rightarrow> local_body http_response" where
  "handleLocalHealth r s =
     (if rq_Method r \<noteq> MethodGet then WriteHeader StatusMethodNotAllowed
      else json_response StatusOK (LocalHealth (snap_Running (svc_snapshot s))))"

definition handleLocalSnapshot :: "http_request \<Rightarrow> 'w Service \<Rightarrow> local_body http_response" where
  "handleLocalSnapshot r s =
     (if rq_Method r \<noteq> MethodGet then WriteHeader StatusMethodNotAllowed else json_response StatusOK (LocalSnapshot (svc_snapshot s)))"

definition handleLocalTelemetry :: "time \<Rightarrow> http_request \<Rightarrow> 'w Service \<Rightarrow> local_body http_response" where
  "handleLocalTelemetry now r s =
     (if rq_Method r \<noteq> MethodGet then WriteHeader StatusMethodNotAllowed else json_response StatusOK (LocalReport (TelemetryReport now s)))"

definition currentLocalConfig :: "'w Service \<Rightarrow> ConfigBundle" where
  "currentLocalConfig s =
     \<lparr>ConfigBundle_ID = ''current'', ConfigBundle_TenantID = snap_TenantID (svc_snapshot s), ConfigBundle_TargetID = snap_DeviceID (svc_snapshot s),
      ConfigBundle_Version = snap_ConfigVersion (svc_snapshot s),
      ConfigBundle_Values = Some [(''transport'', snap_Protocol (svc_snapshot s))], ConfigBundle_CreatedAt = 0\<rparr>"

definition handleLocalConfig ::
  "(byte list \<Rightarrow> string + ConfigBundle) \<Rightarrow> (string \<Rightarrow> string) \<Rightarrow> (ConfigBundle \<Rightarrow> string + 'd) \<Rightarrow> 'd write_os \<Rightarrow> time \<Rightarrow> http_request \<Rightarrow>
     'w Service \<Rightarrow> 'd fs \<Rightarrow> local_body http_response \<times> 'w Service \<times> 'd fs" where
  "handleLocalConfig dec uc enc os now r s fs =
     (if rq_Method r = MethodGet then (json_response StatusOK (LocalConfig (currentLocalConfig s)), s, fs)
      else if rq_Method r = MethodPost then
        (case dec (rq_Body r) of
           Inl e \<Rightarrow> (json_response StatusBadRequest (LocalDecodeError e), s, fs)
         | Inr bundle \<Rightarrow>
             (case ApplyConfig uc enc os now bundle s fs of
                (Some e, s, fs) \<Rightarrow> (json_response StatusBadRequest (LocalApplyError e), s, fs)
              | (None, s, fs) \<Rightarrow> (json_response StatusOK (LocalSnapshot (svc_snapshot s)), s, fs)))
      else (WriteHeader StatusMethodNotAllowed, s, fs))"

definition LocalHandler ::
  "(byte list \<Rightarrow> string + ConfigBundle) \<Rightarrow> (string \<Rightarrow> string) \<Rightarrow> (ConfigBundle \<Rightarrow> string + 'd) \<Rightarrow> 'd write_os \<Rightarrow> time \<Rightarrow> http_request \<Rightarrow>
     'w Service \<Rightarrow> 'd fs \<Rightarrow> local_body http_response \<times> 'w Service \<times> 'd fs" where
  "LocalHandler dec uc enc os now r s fs =
     (if rq_Path r = ''/healthz'' then (handleLocalHealth r s, s, fs)
      else if rq_Path r = ''/v1/snapshot'' then (handleLocalSnapshot r s, s, fs)
      else if rq_Path r = ''/v1/telemetry'' then (handleLocalTelemetry now r s, s, fs)
      else if rq_Path r = ''/v1/config'' then handleLocalConfig dec uc enc os now r s fs
      else (WriteHeader StatusNotFound, s, fs))"

section \<open>Restarting\<close>

text \<open>The runs of an agent that applies configurations, some of which are refused or cannot be saved.\<close>

inductive apply_run ::
  "(string \<Rightarrow> string) \<Rightarrow> (ConfigBundle \<Rightarrow> string + 'd) \<Rightarrow> string \<Rightarrow> 'w Service \<Rightarrow> 'd fs \<Rightarrow> 'w Service \<Rightarrow> 'd fs \<Rightarrow> bool"
  for uc enc path s0 fs0 where
  start: "apply_run uc enc path s0 fs0 s0 fs0"
| config: "apply_run uc enc path s0 fs0 s fs \<Longrightarrow> temp_fresh os path fs \<Longrightarrow>
    ApplyConfig uc enc os now bundle s fs = (err, s', fs') \<Longrightarrow> apply_run uc enc path s0 fs0 s' fs'"

definition with_version :: "string \<Rightarrow> Config \<Rightarrow> Config" where
  "with_version v cfg = cfg\<lparr>Config_Agent := (Config_Agent cfg)\<lparr>AgentConfig_ConfigVersion := v\<rparr>\<rparr>"

lemma with_version_simps [simp]:
  "AgentConfig_TenantID (Config_Agent (with_version v cfg)) = AgentConfig_TenantID (Config_Agent cfg)"
  "AgentConfig_DeviceID (Config_Agent (with_version v cfg)) = AgentConfig_DeviceID (Config_Agent cfg)"
  "AgentConfig_ConfigVersion (Config_Agent (with_version v cfg)) = v"
  "with_version v (with_version u cfg) = with_version v cfg"
  "with_version (AgentConfig_ConfigVersion (Config_Agent cfg)) cfg = cfg"
  by (simp_all add: with_version_def)

definition cached_state :: "('d \<Rightarrow> string + ConfigBundle) \<Rightarrow> string \<Rightarrow> Config \<Rightarrow> 'w Service \<Rightarrow> 'd fs \<Rightarrow> bool" where
  \<comment> \<open>the service runs the cached configuration, or its initial one if there is none\<close>
  "cached_state dec path cfg s fs \<longleftrightarrow> svc_cache s = Some path \<and>
     (ConfigCache_Load dec None path fs = Inl StateMiss \<and> svc_cfg s = cfg \<or>
      (\<exists>b. ConfigCache_Load dec None path fs = Inr b \<and> ConfigBundle_TenantID b = AgentConfig_TenantID (Config_Agent cfg) \<and>
           ConfigBundle_TargetID b = AgentConfig_DeviceID (Config_Agent cfg) \<and> svc_cfg s = with_version (ConfigBundle_Version b) cfg))"

lemma new_service_cached:
  assumes "newServiceWithDependencies platform pct now dec None fs cfg (Some path) rt app queue = Inr s"
  shows "cached_state dec path cfg s fs"
  using assms
  by (auto simp: newServiceWithDependencies_def cached_state_def with_version_def bind_def check_def Let_def
      split: sum.splits option.splits if_splits)

lemma cached_new_service:
  assumes "cached_state dec path cfg s fs" "Config_Validate cfg = Inr ()" "(rt = None) = (app = None)"
  shows "\<exists>s'. newServiceWithDependencies platform pct now dec None fs cfg (Some path) rt app queue = Inr s' \<and>
              svc_cfg s' = svc_cfg s"
  using assms
  by (auto simp: newServiceWithDependencies_def cached_state_def with_version_def bind_def check_def Let_def)

lemma ApplyConfig_outcomes:
  assumes "ApplyConfig uc enc os now bundle s fs = (err, s', fs')" and cache: "svc_cache s = Some path"
  obtains (refused) e where "err = Some e" "s' = s" "fs' = fs"
  | (unsaved) e fss where "err = Some (SaveConfigCache e)" "s' = s" "ConfigCache_Save enc os path bundle fs = (Some e, fss)" "fs' = last fss"
  | (applied) fss where "err = None" "ConfigCache_Save enc os path bundle fs = (None, fss)" "fs' = last fss"
      "ConfigBundle_TenantID bundle = AgentConfig_TenantID (Config_Agent (svc_cfg s))"
      "ConfigBundle_TargetID bundle = AgentConfig_DeviceID (Config_Agent (svc_cfg s))"
      "svc_cfg s' = with_version (ConfigBundle_Version bundle) (svc_cfg s)" "svc_cache s' = Some path"
proof (cases "ConfigBundle_Validate bundle")
  case (Inl e)
  with assms show ?thesis by (auto simp: ApplyConfig_def intro: refused)
next
  case (Inr u)
  show ?thesis
  proof (cases "ConfigBundle_TenantID bundle = AgentConfig_TenantID (Config_Agent (svc_cfg s)) \<and>
                ConfigBundle_TargetID bundle = AgentConfig_DeviceID (Config_Agent (svc_cfg s))")
    case False
    with assms Inr show ?thesis by (auto simp: ApplyConfig_def split: if_splits intro: refused)
  next
    case ids: True
    obtain e fss where save: "ConfigCache_Save enc os path bundle fs = (e, fss)" by (metis prod.exhaust)
    show ?thesis
    proof (cases e)
      case (Some e')
      with assms Inr ids save show ?thesis by (intro unsaved) (auto simp: ApplyConfig_def)
    next
      case None
      with assms Inr ids save show ?thesis by (intro applied) (auto simp: ApplyConfig_def with_version_def Let_def)
    qed
  qed
qed

lemma apply_cached:
  assumes st: "cached_state dec path cfg s fs" and codec: "codec_ok enc dec" and fresh: "temp_fresh os path fs"
    and step: "ApplyConfig uc enc os now bundle s fs = (err, s', fs')"
  shows "cached_state dec path cfg s' fs'"
proof -
  have cache: "svc_cache s = Some path" using st by (simp add: cached_state_def)
  note ready = conjI [OF codec fresh]
  show ?thesis
  proof (rule ApplyConfig_outcomes [OF step cache])
    fix e fss assume "s' = s" "ConfigCache_Save enc os path bundle fs = (Some e, fss)" "fs' = last fss"
    then show ?thesis using st config_cache.save_fail [OF ready] by (simp add: cached_state_def)
  next
    fix fss assume a: "ConfigCache_Save enc os path bundle fs = (None, fss)" "fs' = last fss"
      "ConfigBundle_TenantID bundle = AgentConfig_TenantID (Config_Agent (svc_cfg s))"
      "ConfigBundle_TargetID bundle = AgentConfig_DeviceID (Config_Agent (svc_cfg s))"
      "svc_cfg s' = with_version (ConfigBundle_Version bundle) (svc_cfg s)" "svc_cache s' = Some path"
    have "ConfigCache_Load dec None path fs' = Inr bundle" using config_cache.save_load [OF ready a(1)] a(2) by simp
    with a st show ?thesis by (auto simp: cached_state_def)
  qed (use st in auto)
qed

text \<open>
  C36: Restarting an agent resumes its configuration: after any sequence of applied, refused and unsaved
  configurations, a service built again from the same static configuration and the cache file succeeds
  and has the configuration, and so the version, of the service before the restart.
\<close>

theorem restart_resumes_config:
  assumes new: "newServiceWithDependencies platform pct now dec None fs0 cfg (Some path) rt app queue = Inr s0"
    and run: "apply_run uc enc path s0 fs0 s fs" and codec: "codec_ok enc dec"
  shows "\<exists>s'. newServiceWithDependencies platform pct now' dec None fs cfg (Some path) rt app queue = Inr s' \<and>
              svc_cfg s' = svc_cfg s \<and> snap_ConfigVersion (svc_snapshot s') = AgentConfig_ConfigVersion (Config_Agent (svc_cfg s))"
proof -
  have "cached_state dec path cfg s fs"
    using run by induction (auto intro: new_service_cached [OF new] apply_cached [OF _ codec])
  moreover have "Config_Validate cfg = Inr ()" "(rt = None) = (app = None)"
    using new by (auto simp: newServiceWithDependencies_def check_def split: sum.splits if_splits)
  ultimately obtain s' where s': "newServiceWithDependencies platform pct now' dec None fs cfg (Some path) rt app queue = Inr s'"
    "svc_cfg s' = svc_cfg s"
    using cached_new_service by blast
  then have "snap_ConfigVersion (svc_snapshot s') = AgentConfig_ConfigVersion (Config_Agent (svc_cfg s'))"
    by (auto simp: newServiceWithDependencies_def evaluateLocked_def snapshotWithSignalsLocked_def snapshotWithProtocolLocked_def
        bind_def check_def Let_def split: sum.splits option.splits if_splits)
  with s' show ?thesis by simp
qed

definition sample_config_cfg :: Config where
  "sample_config_cfg = \<lparr>Config_Agent = \<lparr>AgentConfig_TenantID = ''t'', AgentConfig_DeviceID = ''d'', AgentConfig_ConfigVersion = ''v0''\<rparr>,
     Config_Control = \<lparr>ControlConfig_ListenAddr = ''a''\<rparr>\<rparr>"

theorem restart_resumes_config_witness:
  "\<exists>s0 s s' fs. newServiceWithDependencies ''p'' (\<lambda>_. []) 1 Inr None [] sample_config_cfg (Some ''/d/c.json'') None
       (None :: unit ApplyFunc option) None = Inr s0 \<and> apply_run id Inr ''/d/c.json'' s0 [] s fs \<and>
     newServiceWithDependencies ''p'' (\<lambda>_. []) 2 Inr None fs sample_config_cfg (Some ''/d/c.json'') None
       (None :: unit ApplyFunc option) None = Inr s' \<and>
     snap_ConfigVersion (svc_snapshot s') = ''v1''"
proof -
  have valid: "Config_Validate sample_config_cfg = Inr ()" by code_simp
  have "ConfigCache_Load Inr None ''/d/c.json'' [] = Inl StateMiss" by (simp add: ConfigCache_Load_def load_state_def bind_def)
  then obtain s0 where s0: "newServiceWithDependencies ''p'' (\<lambda>_. []) 1 Inr None [] sample_config_cfg (Some ''/d/c.json'') None
      (None :: unit ApplyFunc option) None = Inr s0"
    using valid by (simp add: newServiceWithDependencies_def check_def bind_def)
  have cfg0: "svc_cfg s0 = sample_config_cfg" "svc_cache s0 = Some ''/d/c.json''"
    using new_service_cached [OF s0] by (auto simp: cached_state_def ConfigCache_Load_def load_state_def bind_def)
  have ok: "os_ok (sample_os sample_bundle) ''/d/c.json'' []" by (intro sample_os_ok) simp_all
  have "\<exists>fss. save_state Inr (sample_os sample_bundle) ''/d/c.json'' sample_bundle [] = (None :: domain_error state_error option, fss)"
    by (rule save_state_ok [OF ok]) simp
  then obtain fss where save: "ConfigCache_Save Inr (sample_os sample_bundle) ''/d/c.json'' sample_bundle [] = (None, fss)"
    using sample_bundle_valid by (auto simp: ConfigCache_Save_def)
  obtain err s fs where ap: "ApplyConfig id Inr (sample_os sample_bundle) 3 sample_bundle s0 [] = (err, s, fs)" by (metis prod.exhaust)
  have s: "svc_cfg s = with_version ''v1'' sample_config_cfg"
    using ap save cfg0 sample_bundle_valid
    by (auto simp: ApplyConfig_def with_version_def sample_bundle_def sample_config_cfg_def Let_def)
  have run: "apply_run id Inr ''/d/c.json'' s0 [] s fs"
    using ok by (intro apply_run.config [OF apply_run.start _ ap]) (simp add: os_ok_def)
  have "codec_ok Inr Inr" by (simp add: codec_ok_def)
  from restart_resumes_config [OF s0 run this, of 2] s s0 run show ?thesis by auto
qed

end
