(* ===== verification/Agent_Sync.thy ===== *)
theory Agent_Sync
  imports Agent
begin

text \<open>
  Synchronisation of the agent with the control server (internal/agent/sync.go).

  The control client is a record of functions on a world \<open>'w\<close>: each call returns its result and the next
  world. \<open>agent_io\<close> holds the codecs of the state files and \<open>sync_env\<close> the answers of the operating
  system and the clock during one synchronisation. A loop that runs until its context is done is a
  function of the schedule of its rounds: whether the round's context is done after the sync, and whether
  it is done while the loop waits.
\<close>

section \<open>Clients and environments\<close>

record 'w sync_client =
  cl_Configs :: "string \<Rightarrow> 'w \<Rightarrow> (string + ConfigBundle list) \<times> 'w"
  cl_PushTelemetry :: "string \<Rightarrow> Report \<Rightarrow> 'w \<Rightarrow> string option \<times> 'w"
  cl_WatchConfig :: "string \<Rightarrow> string \<Rightarrow> string \<Rightarrow> 'w \<Rightarrow> (string + ConfigBundle option) \<times> 'w"
  cl_SignedConfigs :: "string \<Rightarrow> 'w \<Rightarrow> (string + SignedBundle list) \<times> 'w"
  cl_WatchSignedConfig :: "string \<Rightarrow> string \<Rightarrow> string \<Rightarrow> 'w \<Rightarrow> (string + SignedBundle option) \<times> 'w"
  cl_ConfigSigningKey :: "'w \<Rightarrow> (string + SigningPublicKey) \<times> 'w"
  cl_CertificateRevocationList :: "string \<Rightarrow> 'w \<Rightarrow> (string + RevocationList) \<times> 'w"

record 'd agent_io =
  io_uc :: "string \<Rightarrow> string"
  io_lib :: sign_lib
  io_x509 :: x509_lib
  io_enc_config :: "ConfigBundle \<Rightarrow> string + 'd"
  io_enc_queue :: "Report list \<Rightarrow> string + 'd"
  io_dec_queue :: "'d \<Rightarrow> string + Report list"
  io_enc_key :: "SigningPublicKey \<Rightarrow> string + 'd"
  io_dec_key :: "'d \<Rightarrow> string + SigningPublicKey"
  io_enc_crl :: "RevocationList \<Rightarrow> string + 'd"

record 'd sync_env =
  se_now :: time
  se_cache_os :: "'d write_os"
  se_queue_open :: "string option"
  se_queue_os :: "'d write_os"
  se_queue_rm :: "string option"
  se_key_open :: "string option"
  se_key_os :: "'d write_os"
  se_crl_os :: "'d write_os"

datatype sync_error =
    SyncClientRequired
  | WatchClientRequired
  | VerifierRequired
  | FetchConfigs string
  | ApplyError agent_error
  | WatchError string
  | VerifyError sign_error
  | FetchSigningKey string
  | LoadCachedKey string "sign_error state_error"
  | ValidateFetchedKey sign_error
  | FetchedKeyPin trust_error
  | CachedKeyPin trust_error
  | BuildVerifier sign_error
  | SaveSigningKey "sign_error state_error"
  | CRLClientRequired
  | CRLCacheRequired
  | FetchCRLError string
  | CRLTenantMismatch string string
  | SaveCRL "crl_error state_error"
  | LoadQueue "queue_error state_error"
  | PushTelemetry string
  | PushAndSaveQueue string "queue_error state_error"
  | ClearQueue "queue_error state_error"

section \<open>Selecting configurations\<close>

definition newer :: "ConfigBundle \<Rightarrow> ConfigBundle option \<Rightarrow> bool" where
  \<comment> \<open>the test of both selection loops: nothing found yet, created later, or a greater version string\<close>
  "newer candidate selected =
     (case selected of
        None \<Rightarrow> True
      | Some s \<Rightarrow> ConfigBundle_CreatedAt s < ConfigBundle_CreatedAt candidate \<or> ConfigBundle_Version s < ConfigBundle_Version candidate)"

fun select_loop :: "string \<Rightarrow> ConfigBundle option \<Rightarrow> ConfigBundle list \<Rightarrow> ConfigBundle option" where
  "select_loop deviceID selected [] = selected"
| "select_loop deviceID selected (candidate # rest) =
     (if ConfigBundle_TargetID candidate \<noteq> deviceID then select_loop deviceID selected rest
      else select_loop deviceID (if newer candidate selected then Some candidate else selected) rest)"

definition selectConfig :: "ConfigBundle list \<Rightarrow> string \<Rightarrow> ConfigBundle option" where
  "selectConfig configs deviceID = select_loop deviceID None configs"

fun verified_loop :: "(SignedBundle \<Rightarrow> sign_error + unit) \<Rightarrow> string \<Rightarrow> ConfigBundle option \<Rightarrow> SignedBundle list \<Rightarrow> sign_error + ConfigBundle option" where
  "verified_loop verify deviceID selected [] = Inr selected"
| "verified_loop verify deviceID selected (candidate # rest) =
     (if ConfigBundle_TargetID (Signed_Bundle candidate) \<noteq> deviceID then verified_loop verify deviceID selected rest
      else bind (verify candidate) (\<lambda>_.
           verified_loop verify deviceID (if newer (Signed_Bundle candidate) selected then Some (Signed_Bundle candidate) else selected) rest))"

definition selectVerifiedConfig :: "SignedBundle list \<Rightarrow> string \<Rightarrow> (SignedBundle \<Rightarrow> sign_error + unit) \<Rightarrow> sign_error + ConfigBundle option" where
  "selectVerifiedConfig configs deviceID verify = verified_loop verify deviceID None configs"

section \<open>Pushing telemetry\<close>

fun push_all :: "('w sync_client) \<Rightarrow> Report list \<Rightarrow> 'w \<Rightarrow> (string \<times> Report list) option \<times> 'w" where
  \<comment> \<open>the loop over the pending reports; a failure returns its error and the reports not delivered\<close>
  "push_all client [] w = (None, w)"
| "push_all client (queued # rest) w =
     (case cl_PushTelemetry client (Report_TenantID queued) queued w of
        (Some err, w) \<Rightarrow> (Some (err, queued # rest), w)
      | (None, w) \<Rightarrow> push_all client rest w)"

definition pushTelemetry ::
  "'d agent_io \<Rightarrow> 'd sync_env \<Rightarrow> 'w sync_client \<Rightarrow> Report \<Rightarrow> 'w Service \<Rightarrow> 'd fs \<Rightarrow> 'w \<Rightarrow> sync_error option \<times> 'd fs \<times> 'w" where
  "pushTelemetry io env client report s fs w =
     (let report = Report_Sanitized (io_uc io) (se_now env) report in
      case (case svc_telemetryQueue s of
              None \<Rightarrow> Inr [report]
            | Some q \<Rightarrow>
                (case Queue_Load (io_dec_queue io) (io_uc io) (se_now env) (se_queue_open env) q fs of
                   Inl e \<Rightarrow> Inl (LoadQueue e)
                 | Inr queued \<Rightarrow> Inr (queued @ [report]))) of
        Inl e \<Rightarrow> (Some e, fs, w)
      | Inr pending \<Rightarrow>
          (case push_all client pending w of
             (Some (err, remaining), w) \<Rightarrow>
               (case svc_telemetryQueue s of
                  None \<Rightarrow> (Some (PushTelemetry err), fs, w)
                | Some q \<Rightarrow>
                    (case Queue_Save (io_enc_queue io) (io_uc io) (se_now env) (se_queue_os env) (se_queue_rm env) q remaining fs of
                       (Some saveErr, fss) \<Rightarrow> (Some (PushAndSaveQueue err saveErr), last fss, w)
                     | (None, fss) \<Rightarrow> (Some (PushTelemetry err), last fss, w)))
           | (None, w) \<Rightarrow>
               (case svc_telemetryQueue s of
                  None \<Rightarrow> (None, fs, w)
                | Some q \<Rightarrow>
                    (case Queue_Save (io_enc_queue io) (io_uc io) (se_now env) (se_queue_os env) (se_queue_rm env) q [] fs of
                       (Some saveErr, fss) \<Rightarrow> (Some (ClearQueue saveErr), last fss, w)
                     | (None, fss) \<Rightarrow> (None, last fss, w)))))"

section \<open>One synchronisation\<close>

definition apply_then_push ::
  "'d agent_io \<Rightarrow> 'd sync_env \<Rightarrow> 'w sync_client \<Rightarrow> ConfigBundle option \<Rightarrow> 'w Service \<Rightarrow> 'd fs \<Rightarrow> 'w \<Rightarrow> sync_error option \<times> 'w Service \<times> 'd fs \<times> 'w" where
  \<comment> \<open>the common end of the unsigned and verified synchronisations\<close>
  "apply_then_push io env client selected s fs w =
     (case (case selected of
              None \<Rightarrow> (None, s, fs)
            | Some bundle \<Rightarrow> ApplyConfig (io_uc io) (io_enc_config io) (se_cache_os env) (se_now env) bundle s fs) of
        (Some e, s, fs) \<Rightarrow> (Some (ApplyError e), s, fs, w)
      | (None, s, fs) \<Rightarrow>
          (case pushTelemetry io env client (TelemetryReport (se_now env) s) s fs w of (err, fs, w) \<Rightarrow> (err, s, fs, w)))"

definition SyncOnce ::
  "'d agent_io \<Rightarrow> 'd sync_env \<Rightarrow> 'w sync_client option \<Rightarrow> 'w Service \<Rightarrow> 'd fs \<Rightarrow> 'w \<Rightarrow> sync_error option \<times> 'w Service \<times> 'd fs \<times> 'w" where
  "SyncOnce io env client s fs w =
     (case client of None \<Rightarrow> (Some SyncClientRequired, s, fs, w) | Some c \<Rightarrow>
     (case cl_Configs c (snap_TenantID (svc_snapshot s)) w of
        (Inl e, w) \<Rightarrow> (Some (FetchConfigs e), s, fs, w)
      | (Inr configs, w) \<Rightarrow> apply_then_push io env c (selectConfig configs (snap_DeviceID (svc_snapshot s))) s fs w))"

definition WatchConfigOnce ::
  "'d agent_io \<Rightarrow> 'd sync_env \<Rightarrow> 'w sync_client option \<Rightarrow> 'w Service \<Rightarrow> 'd fs \<Rightarrow> 'w \<Rightarrow> sync_error option \<times> 'w Service \<times> 'd fs \<times> 'w" where
  "WatchConfigOnce io env client s fs w =
     (case client of None \<Rightarrow> (Some WatchClientRequired, s, fs, w) | Some c \<Rightarrow>
     (case cl_WatchConfig c (snap_TenantID (svc_snapshot s)) (snap_DeviceID (svc_snapshot s)) (snap_ConfigVersion (svc_snapshot s)) w of
        (Inl e, w) \<Rightarrow> (Some (WatchError e), s, fs, w)
      | (Inr changed, w) \<Rightarrow> apply_then_push io env c changed s fs w))"

definition WatchSignedConfigOnce ::
  "'d agent_io \<Rightarrow> 'd sync_env \<Rightarrow> 'w sync_client option \<Rightarrow> ConfigSigner option \<Rightarrow> 'w Service \<Rightarrow> 'd fs \<Rightarrow> 'w \<Rightarrow> sync_error option \<times> 'w Service \<times> 'd fs \<times> 'w" where
  "WatchSignedConfigOnce io env client verifier s fs w =
     (case client of None \<Rightarrow> (Some WatchClientRequired, s, fs, w) | Some c \<Rightarrow>
     (case verifier of None \<Rightarrow> (Some VerifierRequired, s, fs, w) | Some v \<Rightarrow>
     (case cl_WatchSignedConfig c (snap_TenantID (svc_snapshot s)) (snap_DeviceID (svc_snapshot s)) (snap_ConfigVersion (svc_snapshot s)) w of
        (Inl e, w) \<Rightarrow> (Some (WatchError e), s, fs, w)
      | (Inr None, w) \<Rightarrow> apply_then_push io env c None s fs w
      | (Inr (Some sb), w) \<Rightarrow>
          (case Verify (io_lib io) v sb of
             Inl e \<Rightarrow> (Some (VerifyError e), s, fs, w)
           | Inr _ \<Rightarrow> apply_then_push io env c (Some (Signed_Bundle sb)) s fs w))))"

definition SyncSignedOnce ::
  "'d agent_io \<Rightarrow> 'd sync_env \<Rightarrow> 'w sync_client option \<Rightarrow> ConfigSigner option \<Rightarrow> 'w Service \<Rightarrow> 'd fs \<Rightarrow> 'w \<Rightarrow> sync_error option \<times> 'w Service \<times> 'd fs \<times> 'w" where
  "SyncSignedOnce io env client verifier s fs w =
     (case client of None \<Rightarrow> (Some SyncClientRequired, s, fs, w) | Some c \<Rightarrow>
     (case verifier of None \<Rightarrow> (Some VerifierRequired, s, fs, w) | Some v \<Rightarrow>
     (case cl_SignedConfigs c (snap_TenantID (svc_snapshot s)) w of
        (Inl e, w) \<Rightarrow> (Some (FetchConfigs e), s, fs, w)
      | (Inr configs, w) \<Rightarrow>
          (case selectVerifiedConfig configs (snap_DeviceID (svc_snapshot s)) (Verify (io_lib io) v) of
             Inl e \<Rightarrow> (Some (VerifyError e), s, fs, w)
           | Inr selected \<Rightarrow> apply_then_push io env c selected s fs w))))"

definition signingKeyForSync ::
  "'d agent_io \<Rightarrow> 'd sync_env \<Rightarrow> 'w sync_client \<Rightarrow> string option \<Rightarrow> SigningKeyTrustPolicy \<Rightarrow> 'd fs \<Rightarrow> 'w \<Rightarrow>
     (sync_error + SigningPublicKey \<times> bool) \<times> 'w" where
  "signingKeyForSync io env client cache trustPolicy fs w =
     (case cl_ConfigSigningKey client w of
        (Inr key, w) \<Rightarrow>
          ((case NewConfigVerifierFromSigningKey key of
              Inl e \<Rightarrow> Inl (ValidateFetchedKey e)
            | Inr _ \<Rightarrow> (case TrustPolicy_Validate (io_lib io) trustPolicy key of Inl e \<Rightarrow> Inl (FetchedKeyPin e) | Inr _ \<Rightarrow> Inr (key, True))), w)
      | (Inl err, w) \<Rightarrow>
          ((case cache of
              None \<Rightarrow> Inl (FetchSigningKey err)
            | Some path \<Rightarrow>
                (case SigningKeyCache_Load (io_dec_key io) (se_key_open env) path fs of
                   Inl e \<Rightarrow> Inl (LoadCachedKey err e)
                 | Inr cached \<Rightarrow>
                     (case TrustPolicy_Validate (io_lib io) trustPolicy cached of Inl e \<Rightarrow> Inl (CachedKeyPin e) | Inr _ \<Rightarrow> Inr (cached, False)))), w))"

definition save_key_then_push ::
  "'d agent_io \<Rightarrow> 'd sync_env \<Rightarrow> 'w sync_client \<Rightarrow> string option \<Rightarrow> SigningPublicKey \<Rightarrow> bool \<Rightarrow> 'w Service \<Rightarrow> 'd fs \<Rightarrow> 'w \<Rightarrow>
     sync_error option \<times> 'w Service \<times> 'd fs \<times> 'w" where
  \<comment> \<open>the end of SyncSignedOnceWithKeyRefreshPolicy\<close>
  "save_key_then_push io env c cache key fetched s fs w =
     (case (if fetched then (case cache of None \<Rightarrow> (None, [fs]) | Some path \<Rightarrow> SigningKeyCache_Save (io_enc_key io) (se_key_os env) path key fs)
            else (None, [fs])) of
        (Some e, fss) \<Rightarrow> (Some (SaveSigningKey e), s, last fss, w)
      | (None, fss) \<Rightarrow>
          (case pushTelemetry io env c (TelemetryReport (se_now env) s) s (last fss) w of (err, fs, w) \<Rightarrow> (err, s, fs, w)))"

definition SyncSignedOnceWithKeyRefreshPolicy ::
  "'d agent_io \<Rightarrow> 'd sync_env \<Rightarrow> 'w sync_client option \<Rightarrow> string option \<Rightarrow> SigningKeyTrustPolicy \<Rightarrow> 'w Service \<Rightarrow> 'd fs \<Rightarrow> 'w \<Rightarrow>
     sync_error option \<times> 'w Service \<times> 'd fs \<times> 'w" where
  "SyncSignedOnceWithKeyRefreshPolicy io env client cache trustPolicy s fs w =
     (case client of None \<Rightarrow> (Some SyncClientRequired, s, fs, w) | Some c \<Rightarrow>
     (case signingKeyForSync io env c cache trustPolicy fs w of
        (Inl e, w) \<Rightarrow> (Some e, s, fs, w)
      | (Inr (key, fetched), w) \<Rightarrow>
     (case NewConfigVerifierFromSigningKey key of
        Inl e \<Rightarrow> (Some (BuildVerifier e), s, fs, w)
      | Inr verifier \<Rightarrow>
     (case cl_SignedConfigs c (snap_TenantID (svc_snapshot s)) w of
        (Inl e, w) \<Rightarrow> (Some (FetchConfigs e), s, fs, w)
      | (Inr configs, w) \<Rightarrow>
     (case selectVerifiedConfig configs (snap_DeviceID (svc_snapshot s)) (Verify (io_lib io) verifier) of
        Inl e \<Rightarrow> (Some (VerifyError e), s, fs, w)
      | Inr selected \<Rightarrow>
     (case (case selected of
              None \<Rightarrow> (None, s, fs)
            | Some bundle \<Rightarrow> ApplyConfig (io_uc io) (io_enc_config io) (se_cache_os env) (se_now env) bundle s fs) of
        (Some e, s, fs) \<Rightarrow> (Some (ApplyError e), s, fs, w)
      | (None, s, fs) \<Rightarrow>
          save_key_then_push io env c cache key fetched s fs w))))))"

definition SyncSignedOnceWithKeyRefresh where
  "SyncSignedOnceWithKeyRefresh io env client cache s fs w =
     SyncSignedOnceWithKeyRefreshPolicy io env client cache \<lparr>PinnedSHA256 = []\<rparr> s fs w"

definition SyncCRLOnce ::
  "'d agent_io \<Rightarrow> 'd sync_env \<Rightarrow> 'w sync_client option \<Rightarrow> string option \<Rightarrow> 'w Service \<Rightarrow> 'd fs \<Rightarrow> 'w \<Rightarrow> sync_error option \<times> 'd fs \<times> 'w" where
  "SyncCRLOnce io env client cache s fs w =
     (case client of None \<Rightarrow> (Some CRLClientRequired, fs, w) | Some c \<Rightarrow>
     (case cache of None \<Rightarrow> (Some CRLCacheRequired, fs, w) | Some path \<Rightarrow>
     (case cl_CertificateRevocationList c (snap_TenantID (svc_snapshot s)) w of
        (Inl e, w) \<Rightarrow> (Some (FetchCRLError e), fs, w)
      | (Inr l, w) \<Rightarrow>
          if RevocationList_TenantID l \<noteq> snap_TenantID (svc_snapshot s)
          then (Some (CRLTenantMismatch (RevocationList_TenantID l) (snap_TenantID (svc_snapshot s))), fs, w)
          else (case CRLCache_Save (io_x509 io) (io_enc_crl io) (se_crl_os env) path l fs of
                  (Some e, fss) \<Rightarrow> (Some (SaveCRL e), last fss, w)
                | (None, fss) \<Rightarrow> (None, last fss, w)))))"

section \<open>The loop\<close>

record SyncLoopOptions =
  opt_Interval :: duration
  opt_InitialBackoff :: duration
  opt_MaxBackoff :: duration

datatype loop_error =
    IntervalNotPositive
  | MaxBackoffTooSmall
  | LoopClientRequired
  | LoopVerifierRequired
  | LoopCacheRequired

definition normalizeSyncLoopOptions :: "SyncLoopOptions \<Rightarrow> loop_error + SyncLoopOptions" where
  "normalizeSyncLoopOptions options =
     check (opt_Interval options \<le> 0) IntervalNotPositive (
     let options = (if opt_InitialBackoff options \<le> 0 then options\<lparr>opt_InitialBackoff := opt_Interval options\<rparr> else options);
         options = (if opt_MaxBackoff options \<le> 0 then options\<lparr>opt_MaxBackoff := wrap64 (opt_InitialBackoff options * 8)\<rparr> else options) in
     check (opt_MaxBackoff options < opt_InitialBackoff options) MaxBackoffTooSmall (Inr options))"

definition nextSyncBackoff :: "duration \<Rightarrow> duration \<Rightarrow> duration" where
  "nextSyncBackoff current maxb =
     (if current \<le> 0 then maxb
      else let next = wrap64 (current * 2)
           in if next < current \<or> next > maxb then maxb else next)"

record 'env sync_round =
  round_env :: 'env \<comment> \<open>what the sync of this round meets\<close>
  round_ctx :: "ctx_error option" \<comment> \<open>ctx.Err() after a failed sync\<close>
  round_done :: "ctx_error option" \<comment> \<open>the context ends while the loop waits\<close>

fun sync_rounds ::
  "SyncLoopOptions \<Rightarrow> ('env \<Rightarrow> 'st \<Rightarrow> 'e option \<times> 'st) \<Rightarrow> duration \<Rightarrow> 'env sync_round list \<Rightarrow> 'st \<Rightarrow> duration list \<times> ctx_error option \<times> 'st" where
  \<comment> \<open>the body of runSyncLoop: the delays it waits for, what it returns if a round of the schedule ends it, and the state\<close>
  "sync_rounds options sync backoff [] st = ([], None, st)"
| "sync_rounds options sync backoff (r # rs) st =
     (case sync (round_env r) st of (err, st) \<Rightarrow>
        if err \<noteq> None \<and> round_ctx r \<noteq> None then ([], round_ctx r, st)
        else let (delay, backoff) = (if err \<noteq> None then (backoff, nextSyncBackoff backoff (opt_MaxBackoff options))
                                     else (opt_Interval options, opt_InitialBackoff options))
             in case round_done r of
                  Some e \<Rightarrow> ([delay], Some e, st)
                | None \<Rightarrow> (case sync_rounds options sync backoff rs st of (delays, res) \<Rightarrow> (delay # delays, res)))"

definition runSyncLoop ::
  "SyncLoopOptions \<Rightarrow> ('env \<Rightarrow> 'st \<Rightarrow> 'e option \<times> 'st) \<Rightarrow> 'env sync_round list \<Rightarrow> 'st \<Rightarrow> loop_error + duration list \<times> ctx_error option \<times> 'st" where
  "runSyncLoop options syncOnce rounds st =
     bind (normalizeSyncLoopOptions options) (\<lambda>options.
     Inr (sync_rounds options syncOnce (opt_InitialBackoff options) rounds st))"

definition interval_options :: "duration \<Rightarrow> SyncLoopOptions" where
  "interval_options interval = \<lparr>opt_Interval = interval, opt_InitialBackoff = 0, opt_MaxBackoff = 0\<rparr>"

definition RunSyncLoopWithOptions where
  "RunSyncLoopWithOptions io client options rounds st =
     check (client = None) LoopClientRequired (
     runSyncLoop options (\<lambda>env (s, fs, w). SyncOnce io env client s fs w) rounds st)"

definition RunSyncLoop where
  "RunSyncLoop io client interval rounds st = RunSyncLoopWithOptions io client (interval_options interval) rounds st"

definition RunSignedSyncLoopWithOptions where
  "RunSignedSyncLoopWithOptions io client verifier options rounds st =
     check (client = None) LoopClientRequired (
     check (verifier = None) LoopVerifierRequired (
     runSyncLoop options (\<lambda>env (s, fs, w). SyncSignedOnce io env client verifier s fs w) rounds st))"

definition RunSignedSyncLoop where
  "RunSignedSyncLoop io client verifier interval rounds st =
     RunSignedSyncLoopWithOptions io client verifier (interval_options interval) rounds st"

definition RunSignedKeySyncLoopWithPolicyAndOptions where
  "RunSignedKeySyncLoopWithPolicyAndOptions io client cache trustPolicy options rounds st =
     check (client = None) LoopClientRequired (
     runSyncLoop options (\<lambda>env (s, fs, w). SyncSignedOnceWithKeyRefreshPolicy io env client cache trustPolicy s fs w) rounds st)"

definition RunSignedKeySyncLoopWithOptions where
  "RunSignedKeySyncLoopWithOptions io client cache options rounds st =
     RunSignedKeySyncLoopWithPolicyAndOptions io client cache \<lparr>PinnedSHA256 = []\<rparr> options rounds st"

definition RunSignedKeySyncLoop where
  "RunSignedKeySyncLoop io client cache interval rounds st =
     RunSignedKeySyncLoopWithOptions io client cache (interval_options interval) rounds st"

definition RunSignedKeySyncLoopWithPolicy where
  "RunSignedKeySyncLoopWithPolicy io client cache trustPolicy interval rounds st =
     RunSignedKeySyncLoopWithPolicyAndOptions io client cache trustPolicy (interval_options interval) rounds st"

definition RunCRLSyncLoopWithOptions where
  "RunCRLSyncLoopWithOptions io client cache options s rounds st =
     check (client = None) LoopClientRequired (
     check (cache = None) LoopCacheRequired (
     runSyncLoop options (\<lambda>env (fs, w). SyncCRLOnce io env client cache s fs w) rounds st))"

definition RunCRLSyncLoop where
  "RunCRLSyncLoop io client cache interval s rounds st =
     RunCRLSyncLoopWithOptions io client cache (interval_options interval) s rounds st"

section \<open>Back-off and termination of the loop\<close>

lemma nextSyncBackoff_min:
  assumes "0 < c" "c \<le> m" "int64 m"
  shows "nextSyncBackoff c m = min (2 * c) m"
proof (cases "2 * c \<le> max_int64")
  case True
  then have "wrap64 (c * 2) = 2 * c" using assms(1) by (intro trans [OF wrap64_id]) (auto simp: int64_def)
  then show ?thesis using assms by (auto simp: nextSyncBackoff_def Let_def)
next
  case False
  have c: "c \<le> max_int64" using assms by (simp add: int64_def)
  have "(c * 2 + 2 ^ 63) mod 2 ^ 64 = c * 2 + 2 ^ 63 - 2 ^ 64"
  proof -
    have "(c * 2 + 2 ^ 63 - 2 ^ 64) mod 2 ^ 64 = c * 2 + 2 ^ 63 - 2 ^ 64"
      by (rule mod_pos_pos_trivial) (use False c in simp_all)
    then show ?thesis by (metis minus_mod_self2)
  qed
  then have "wrap64 (c * 2) < c" using False c by (simp add: wrap64_def)
  then show ?thesis using assms False by (simp add: nextSyncBackoff_def Let_def int64_def)
qed

lemma normalized_options:
  assumes "normalizeSyncLoopOptions opts = Inr o'" "int64 (opt_MaxBackoff opts)"
  shows "0 < opt_Interval o'" "0 < opt_InitialBackoff o'" "opt_InitialBackoff o' \<le> opt_MaxBackoff o'" "int64 (opt_MaxBackoff o')"
    "opt_Interval o' = opt_Interval opts"
  using assms by (auto simp: normalizeSyncLoopOptions_def check_def Let_def wrap64_int64 split: if_splits)

lemma sync_rounds_bounds:
  assumes "0 < opt_InitialBackoff opts" "opt_InitialBackoff opts \<le> opt_MaxBackoff opts" "int64 (opt_MaxBackoff opts)"
    and "opt_InitialBackoff opts \<le> b" "b \<le> opt_MaxBackoff opts"
  shows "\<forall>d\<in>set (fst (sync_rounds opts sync b rs st)). d = opt_Interval opts \<or> opt_InitialBackoff opts \<le> d \<and> d \<le> opt_MaxBackoff opts"
  using assms(4,5)
proof (induction rs arbitrary: b st)
  case (Cons r rs)
  have next': "opt_InitialBackoff opts \<le> nextSyncBackoff b (opt_MaxBackoff opts)" "nextSyncBackoff b (opt_MaxBackoff opts) \<le> opt_MaxBackoff opts"
    using nextSyncBackoff_min [of b "opt_MaxBackoff opts"] Cons.prems assms by auto
  obtain err st' where sync: "sync (round_env r) st = (err, st')" by (metis prod.exhaust)
  show ?case
    using Cons.IH [OF next', of st'] Cons.IH [of "opt_InitialBackoff opts" st'] Cons.prems assms(1,2)
    by (auto simp: sync Let_def split: option.splits prod.splits)
qed simp

lemma sync_rounds_failing:
  assumes "0 < opt_InitialBackoff opts" "opt_InitialBackoff opts \<le> opt_MaxBackoff opts" "int64 (opt_MaxBackoff opts)"
    and "\<forall>env st. fst (sync env st) \<noteq> None" "\<forall>r\<in>set rs. round_ctx r = None \<and> round_done r = None"
    and "b = min (opt_InitialBackoff opts * 2 ^ k) (opt_MaxBackoff opts)"
  shows "fst (sync_rounds opts sync b rs st) = map (\<lambda>i. min (opt_InitialBackoff opts * 2 ^ (k + i)) (opt_MaxBackoff opts)) [0..<length rs]"
  using assms(5,6)
proof (induction rs arbitrary: b k st)
  case (Cons r rs)
  let ?b = "\<lambda>i. min (opt_InitialBackoff opts * 2 ^ i) (opt_MaxBackoff opts)"
  have pos: "0 < opt_InitialBackoff opts * 2 ^ k" using assms(1) by simp
  have "nextSyncBackoff b (opt_MaxBackoff opts) = min (2 * b) (opt_MaxBackoff opts)"
    using Cons.prems(2) pos assms(1-3) by (intro nextSyncBackoff_min) auto
  also have "\<dots> = ?b (Suc k)" using Cons.prems(2) pos assms(1,2) by (auto simp: min_def)
  finally have nb: "nextSyncBackoff b (opt_MaxBackoff opts) = ?b (Suc k)" .
  obtain e st' where sync: "sync (round_env r) st = (Some e, st')"
    using assms(4) by (metis prod.collapse option.exhaust_sel)
  have "fst (sync_rounds opts sync b (r # rs) st) = b # fst (sync_rounds opts sync (?b (Suc k)) rs st')"
    using Cons.prems(1) by (simp add: sync nb split: prod.split)
  also have "\<dots> = b # map (\<lambda>i. ?b (Suc k + i)) [0..<length rs]" using Cons.IH [of "?b (Suc k)" "Suc k" st'] Cons.prems(1) by simp
  also have "\<dots> = map (\<lambda>i. ?b (k + i)) [0..<length (r # rs)]"
    using Cons.prems(2) by (simp add: upt_conv_Cons map_Suc_upt [symmetric] del: upt_Suc)
  finally show ?case .
qed simp

lemma sync_rounds_stops:
  assumes "i < length rs" "round_done (rs ! i) = Some e"
  shows "\<exists>delays e' st'. sync_rounds opts sync b rs st = (delays, Some e', st') \<and> length delays \<le> Suc i"
  using assms
proof (induction rs arbitrary: b st i)
  case (Cons r rs)
  obtain err st1 where sync: "sync (round_env r) st = (err, st1)" by (metis prod.exhaust)
  show ?case
  proof (cases "round_done r")
    case (Some e')
    then show ?thesis using Cons.prems by (auto simp: sync Let_def)
  next
    case None
    then obtain j where j: "i = Suc j" using Cons.prems by (cases i) auto
    have stop: "\<exists>delays e' st'. sync_rounds opts sync b' rs st1 = (delays, Some e', st') \<and> length delays \<le> Suc j" for b'
      using Cons.IH Cons.prems j by simp
    show ?thesis
      using None j stop [of "nextSyncBackoff b (opt_MaxBackoff opts)"] stop [of "opt_InitialBackoff opts"] by (auto simp: sync Let_def)
  qed
qed simp


section \<open>Clean reports\<close>

lemma fold_copy_map:
  "distinct (map fst ms) \<Longrightarrow> fst ` set acc \<inter> fst ` set ms = {} \<Longrightarrow>
     fold (\<lambda>(k, v). gm_set k (f k v)) ms acc = acc @ map (\<lambda>(k, v). (k, f k v)) ms"
proof (induction ms arbitrary: acc)
  case (Cons kv ms)
  obtain k v where kv: "kv = (k, v)" by (cases kv)
  have "gm_set k (f k v) acc = acc @ [(k, f k v)]" using Cons.prems kv by (intro gm_set_fresh) auto
  with Cons kv show ?case by auto
qed simp

lemma gm_set_all: "P k v \<Longrightarrow> \<forall>(k, v) \<in> set acc. P k v \<Longrightarrow> \<forall>(k, v) \<in> set (gm_set k v acc). P k v"
  by (induction acc) auto

lemma copy_idem:
  assumes "\<And>k v. f k (f k v) = f k v"
  shows "fold (\<lambda>(k, v). gm_set k (f k v)) (fold (\<lambda>(k, v). gm_set k (f k v)) ms []) [] = fold (\<lambda>(k, v). gm_set k (f k v)) ms []"
proof -
  define m where "m = fold (\<lambda>(k, v). gm_set k (f k v)) ms []"
  have ok: "distinct (map fst m)" using ok_fold_copy [of f ms] by (simp add: m_def gm_ok_def)
  have vals: "\<forall>(k, v) \<in> set m. f k v = v"
  proof -
    have "\<forall>(k, v) \<in> set (fold (\<lambda>(k, v). gm_set k (f k v)) ms acc). f k v = v" if "\<forall>(k, v) \<in> set acc. f k v = v" for acc
      using that
    proof (induction ms arbitrary: acc)
      case (Cons kv ms)
      obtain k v where kv: "kv = (k, v)" by (cases kv)
      have "\<forall>(k, v) \<in> set (gm_set k (f k v) acc). f k v = v"
        by (rule gm_set_all) (rule assms, rule Cons.prems)
      from Cons.IH [OF this] show ?case by (simp only: kv fold_simps prod.case)
    qed simp
    from this [of "[]"] show ?thesis by (simp add: m_def)
  qed
  have "fold (\<lambda>(k, v). gm_set k (f k v)) m [] = map (\<lambda>(k, v). (k, f k v)) m" using fold_copy_map [OF ok, of "[]" f] by simp
  also have "\<dots> = m" using vals by (auto intro!: map_idI)
  finally show ?thesis by (simp add: m_def)
qed

lemma sanitizeLog_idem: "sanitizeLog uc (sanitizeLog uc l) = sanitizeLog uc l"
proof (cases "LogRecord_Fields l")
  case (Some fs)
  then show ?thesis
    using copy_idem [of "\<lambda>key v. if sensitiveKey uc key then ''[redacted]'' else v" fs] by (simp add: sanitizeLog_def)
qed (simp add: sanitizeLog_def)

lemma Report_Sanitized_idem:
  assumes "\<not> IsZero clock"
  shows "Report_Sanitized uc clock' (Report_Sanitized uc clock r) = Report_Sanitized uc clock r"
proof -
  define s where "s = Report_Sanitized uc clock r"
  have ts: "\<not> IsZero (Report_Timestamp s)" using assms by (simp add: s_def Report_Sanitized_def Let_def)
  have m: "map_option (\<lambda>ms. fold (\<lambda>(k, v). gm_set k v) ms []) (Report_Metrics s) = Report_Metrics s"
    using copy_idem [of "\<lambda>_ v. v"] by (cases "Report_Metrics r") (simp_all add: s_def Report_Sanitized_def Let_def)
  have l: "map_option (map (sanitizeLog uc)) (Report_Logs s) = Report_Logs s"
    by (cases "Report_Logs r") (simp_all add: s_def Report_Sanitized_def Let_def sanitizeLog_idem)
  show ?thesis unfolding s_def [symmetric] using ts m l by (simp add: Report_Sanitized_def [of uc clock' s])
qed

definition finite_metrics :: "Report \<Rightarrow> bool" where
  \<comment> \<open>JSON has no representation of NaN and the infinities\<close>
  "finite_metrics r \<longleftrightarrow> (case Report_Metrics r of None \<Rightarrow> True
     | Some ms \<Rightarrow> list_all (\<lambda>(_, v). case v of Fin _ \<Rightarrow> True | _ \<Rightarrow> False) ms)"

definition ready_report :: "(string \<Rightarrow> string) \<Rightarrow> Report \<Rightarrow> bool" where
  \<comment> \<open>a report that is valid and that cleaning at any time leaves as it is\<close>
  "ready_report uc r \<longleftrightarrow> (\<forall>clock. clean_report uc clock r = Inr r) \<and> finite_metrics r"

lemma ready_sanitized: "ready_report uc r \<Longrightarrow> Report_Sanitized uc clock r = r \<and> Report_Validate r = Inr ()"
  unfolding ready_report_def clean_report_def Let_def
  by (drule conjunct1, drule spec [of _ clock]) (auto split: sum.splits)

lemma sanitized_ready:
  "\<not> IsZero clock \<Longrightarrow> Report_Validate (Report_Sanitized uc clock r) = Inr () \<Longrightarrow> finite_metrics (Report_Sanitized uc clock r) \<Longrightarrow>
     ready_report uc (Report_Sanitized uc clock r)"
  by (simp add: ready_report_def clean_report_def Report_Sanitized_idem)

lemma traverse_ready: "\<forall>r\<in>set rs. ready_report uc r \<Longrightarrow> traverse (clean_report uc clock) rs = Inr rs"
  by (induction rs) (auto simp: ready_report_def bind_def)

section \<open>The queue as a buffer\<close>

definition queue_holds :: "'d agent_io \<Rightarrow> FileTelemetryQueue \<Rightarrow> 'd fs \<Rightarrow> Report list \<Rightarrow> bool" where
  "queue_holds io q fs rs \<longleftrightarrow> (\<forall>clock. Queue_Load (io_dec_queue io) (io_uc io) clock None q fs = Inr rs) \<and>
     (\<forall>r\<in>set rs. ready_report (io_uc io) r)"

definition queue_io_ok :: "'d agent_io \<Rightarrow> bool" where
  \<comment> \<open>reports with finite metrics can be encoded, and are decoded as they were\<close>
  "queue_io_ok io \<longleftrightarrow> codec_ok (io_enc_queue io) (io_dec_queue io) \<and>
     (\<forall>rs. (\<forall>r\<in>set rs. finite_metrics r) \<longrightarrow> (\<exists>d. io_enc_queue io rs = Inr d))"

definition queue_env_ok :: "FileTelemetryQueue \<Rightarrow> 'd sync_env \<Rightarrow> 'd fs \<Rightarrow> bool" where
  \<comment> \<open>the operating system answers every call on the queue file without an error\<close>
  "queue_env_ok q env fs \<longleftrightarrow> se_queue_open env = None \<and> se_queue_rm env = None \<and> os_ok (se_queue_os env) (queue_path q) fs \<and>
     \<not> IsZero (se_now env)"

lemma Queue_Save_holds:
  assumes io: "queue_io_ok io" and env: "queue_env_ok q env fs" and rs: "\<forall>r\<in>set rs. ready_report (io_uc io) r"
    and len: "int (length rs) \<le> queue_maxReports q"
  shows "\<exists>fss. Queue_Save (io_enc_queue io) (io_uc io) (se_now env) (se_queue_os env) (se_queue_rm env) q rs fs = (None, fss) \<and>
           queue_holds io q (last fss) rs"
proof (cases "rs = []")
  case True
  then show ?thesis using env by (simp add: Queue_Save_def queue_env_ok_def queue_holds_def Queue_Load_def)
next
  case False
  obtain d where d: "io_enc_queue io rs = Inr d" "io_dec_queue io d = Inr rs"
    using io rs unfolding queue_io_ok_def codec_ok_def ready_report_def by blast
  have "os_ok (se_queue_os env) (queue_path q) fs" using env by (simp add: queue_env_ok_def)
  from save_state_ok [OF this, of "io_enc_queue io" rs d] d(1) obtain fss where
    s: "save_state (io_enc_queue io) (se_queue_os env) (queue_path q) rs fs = (None :: queue_error state_error option, fss)" by blast
  then obtain d' where "io_enc_queue io rs = Inr d'" "gm_get (last fss) (queue_path q) = Some (d', private_perm)"
    by (rule save_state_success)
  with s d rs len False traverse_ready [OF rs] show ?thesis
    by (simp add: Queue_Save_def queue_holds_def Queue_Load_def)
qed

text \<open>
  The agent relies on the control server for one thing: a report it accepts is appended to the reports it
  has, and a report it refuses is not.
\<close>

locale telemetry_sink =
  fixes push :: "string \<Rightarrow> Report \<Rightarrow> 'w \<Rightarrow> string option \<times> 'w"
    and delivered :: "'w \<Rightarrow> Report list"
    and acceptable :: "Report \<Rightarrow> bool"
  assumes push_accepted: "acceptable r \<Longrightarrow> push (Report_TenantID r) r w = (None, w') \<Longrightarrow> delivered w' = delivered w @ [r]"
    and push_refused: "acceptable r \<Longrightarrow> push (Report_TenantID r) r w = (Some e, w') \<Longrightarrow> delivered w' = delivered w"
begin

lemma push_all_delivers:
  assumes client: "cl_PushTelemetry client = push" and ok: "\<forall>r\<in>set pending. acceptable r"
    and run: "push_all client pending w = (res, w')"
  shows "\<exists>sent rest. pending = sent @ rest \<and> delivered w' = delivered w @ sent \<and>
           (case res of None \<Rightarrow> rest = [] | Some (e, remaining) \<Rightarrow> remaining = rest)"
  using ok run
proof (induction pending arbitrary: w)
  case (Cons r pending)
  obtain e w1 where p: "push (Report_TenantID r) r w = (e, w1)" by (metis prod.exhaust)
  show ?case
  proof (cases e)
    case None
    then have "push_all client pending w1 = (res, w')" "delivered w1 = delivered w @ [r]"
      using Cons.prems p push_accepted by (auto simp: client)
    moreover obtain sent rest where "pending = sent @ rest" "delivered w' = delivered w1 @ sent"
      "case res of None \<Rightarrow> rest = [] | Some (e, remaining) \<Rightarrow> remaining = rest"
      using Cons.IH [of w1] Cons.prems(1) calculation(1) by auto
    ultimately have "pending = sent @ rest" "delivered w' = delivered w @ r # sent"
      "case res of None \<Rightarrow> rest = [] | Some (e, remaining) \<Rightarrow> remaining = rest" by simp_all
    then show ?thesis by (intro exI [of _ "r # sent"] exI [of _ rest]) simp
  next
    case (Some e')
    then show ?thesis using Cons.prems p push_refused [of r w e' w1] by (auto simp: client)
  qed
qed simp

lemma pushTelemetry_conserves:
  assumes client: "cl_PushTelemetry client = push" and io: "queue_io_ok io" and env: "queue_env_ok q env fs"
    and q: "svc_telemetryQueue s = Some q" and qs: "queue_holds io q fs qs"
    and r: "r' = Report_Sanitized (io_uc io) (se_now env) r" "Report_Validate r' = Inr ()" "finite_metrics r'"
    and ok: "\<forall>x\<in>set (qs @ [r']). acceptable x" and len: "int (length qs) + 1 \<le> queue_maxReports q"
    and push: "pushTelemetry io env client r s fs w = (err, fs', w')"
  shows "\<exists>qs'. queue_holds io q fs' qs' \<and> delivered w' @ qs' = delivered w @ qs @ [r'] \<and> length qs' \<le> Suc (length qs) \<and> (err = None \<longrightarrow> qs' = [])"
proof -
  have ready: "\<forall>x\<in>set (qs @ [r']). ready_report (io_uc io) x"
    using qs r env sanitized_ready by (auto simp: queue_holds_def queue_env_ok_def)
  have load: "Queue_Load (io_dec_queue io) (io_uc io) (se_now env) (se_queue_open env) q fs = Inr qs"
    using qs env by (simp add: queue_holds_def queue_env_ok_def)
  obtain res w1 where pa: "push_all client (qs @ [r']) w = (res, w1)" by (metis prod.exhaust)
  obtain sent rest where sr: "qs @ [r'] = sent @ rest" "delivered w1 = delivered w @ sent"
    and res: "case res of None \<Rightarrow> rest = [] | Some (e, remaining) \<Rightarrow> remaining = rest"
    using push_all_delivers [OF client ok pa] by blast
  have "length (sent @ rest) = Suc (length qs)" by (simp add: sr(1) [symmetric])
  then have len': "int (length rest) \<le> queue_maxReports q" "length rest \<le> Suc (length qs)" using len by auto
  have "\<forall>x\<in>set rest. ready_report (io_uc io) x" using ready sr(1) by (metis UnCI set_append)
  from Queue_Save_holds [OF io env this len'(1)] obtain fss where
    save: "Queue_Save (io_enc_queue io) (io_uc io) (se_now env) (se_queue_os env) (se_queue_rm env) q rest fs = (None, fss)"
    and holds: "queue_holds io q (last fss) rest" by blast
  have out: "fs' = last fss" "w' = w1" "err = None \<longrightarrow> rest = []"
    using push pa save q load res by (auto simp: pushTelemetry_def r(1) [symmetric] split: option.splits)
  show ?thesis
    using holds sr out len'(2) by (intro exI [of _ rest]) auto
qed

end

section \<open>Only verified configurations\<close>

lemma verified_loop_sound:
  assumes "verified_loop verify dev sel cs = Inr (Some b)"
  shows "sel = Some b \<or> (\<exists>c\<in>set cs. Signed_Bundle c = b \<and> verify c = Inr () \<and> ConfigBundle_TargetID b = dev)"
  using assms
  by (induction cs arbitrary: sel) (auto simp: bind_def split: if_splits sum.splits)

lemma verified_loop_strict:
  assumes "verified_loop verify dev sel cs = Inr b" "c \<in> set cs" "ConfigBundle_TargetID (Signed_Bundle c) = dev"
  shows "verify c = Inr ()"
  using assms by (induction cs arbitrary: sel) (auto simp: bind_def split: if_splits sum.splits)

lemma save_key_then_push_service: "save_key_then_push io env c cache key fetched s fs w = (err, s', fs', w') \<Longrightarrow> s' = s"
  by (auto simp: save_key_then_push_def split: prod.splits option.splits)

lemma ApplyConfig_changes:
  assumes "ApplyConfig uc enc os now bundle s fs = (err, s', fs')"
  shows "s' = s \<or> err = None \<and> ConfigBundle_TenantID bundle = AgentConfig_TenantID (Config_Agent (svc_cfg s)) \<and>
           ConfigBundle_TargetID bundle = AgentConfig_DeviceID (Config_Agent (svc_cfg s)) \<and>
           svc_cfg s' = with_version (ConfigBundle_Version bundle) (svc_cfg s)"
proof (cases "svc_cache s")
  case (Some path)
  show ?thesis by (rule ApplyConfig_outcomes [OF assms Some]) simp_all
next
  case None
  show ?thesis
  proof (cases "ConfigBundle_Validate bundle")
    case (Inl e)
    then show ?thesis using assms by (simp add: ApplyConfig_def)
  next
    case (Inr u)
    then show ?thesis using assms None by (auto simp: ApplyConfig_def with_version_def Let_def split: if_splits)
  qed
qed

definition changed_by :: "'w Service \<Rightarrow> 'w Service \<Rightarrow> ConfigBundle \<Rightarrow> bool" where
  \<comment> \<open>the service switched to a bundle for its own tenant and device\<close>
  "changed_by s s' b \<longleftrightarrow> ConfigBundle_TenantID b = AgentConfig_TenantID (Config_Agent (svc_cfg s)) \<and>
     ConfigBundle_TargetID b = AgentConfig_DeviceID (Config_Agent (svc_cfg s)) \<and> svc_cfg s' = with_version (ConfigBundle_Version b) (svc_cfg s)"

lemma key_for_sync:
  assumes "signingKeyForSync io env c cache pol fs w = (Inr (key, fetched), w')"
  shows "TrustPolicy_Validate (io_lib io) pol key = Inr ()"
  using assms by (auto simp: signingKeyForSync_def split: prod.splits sum.splits option.splits)

text \<open>
  C37: A synchronisation with key refresh never runs an unverified configuration: if it changes the
  service, then to a bundle for the agent's own tenant and device that the server sent with a signature
  that verifies under a key accepted by the trust policy, and every bundle of the response for this
  device verifies; if one of them does not, nothing changes.
\<close>

theorem only_verified_configs:
  assumes sync: "SyncSignedOnceWithKeyRefreshPolicy io env (Some c) cache pol s fs w = (err, s', fs', w')"
    and configs: "\<And>u. \<exists>w1. cl_SignedConfigs c (snap_TenantID (svc_snapshot s)) u = (Inr configs, w1)"
    and changed: "s' \<noteq> s"
  shows "\<exists>key v sb. TrustPolicy_Validate (io_lib io) pol key = Inr () \<and> NewConfigVerifierFromSigningKey key = Inr v \<and>
           sb \<in> set configs \<and> Verify (io_lib io) v sb = Inr () \<and> changed_by s s' (Signed_Bundle sb) \<and>
           (\<forall>x\<in>set configs. ConfigBundle_TargetID (Signed_Bundle x) = snap_DeviceID (svc_snapshot s) \<longrightarrow> Verify (io_lib io) v x = Inr ())"
proof -
  obtain r w1 where k: "signingKeyForSync io env c cache pol fs w = (r, w1)" by (metis prod.exhaust)
  obtain key fetched where r: "r = Inr (key, fetched)"
    using sync k changed by (cases r) (auto simp: SyncSignedOnceWithKeyRefreshPolicy_def)
  obtain v where v: "NewConfigVerifierFromSigningKey key = Inr v"
    using sync k r changed
    by (cases "NewConfigVerifierFromSigningKey key") (auto simp: SyncSignedOnceWithKeyRefreshPolicy_def)
  obtain w2 where cs: "cl_SignedConfigs c (snap_TenantID (svc_snapshot s)) w1 = (Inr configs, w2)" using configs by blast
  obtain sel where sel: "selectVerifiedConfig configs (snap_DeviceID (svc_snapshot s)) (Verify (io_lib io) v) = Inr sel"
    using sync k r v cs changed
    by (cases "selectVerifiedConfig configs (snap_DeviceID (svc_snapshot s)) (Verify (io_lib io) v)")
      (auto simp: SyncSignedOnceWithKeyRefreshPolicy_def)
  have sync': "(case (case sel of None \<Rightarrow> (None, s, fs)
            | Some bundle \<Rightarrow> ApplyConfig (io_uc io) (io_enc_config io) (se_cache_os env) (se_now env) bundle s fs) of
          (Some e, s, fs) \<Rightarrow> (Some (ApplyError e), s, fs, w2)
        | (None, s, fs) \<Rightarrow> save_key_then_push io env c cache key fetched s fs w2) = (err, s', fs', w')"
    using sync unfolding SyncSignedOnceWithKeyRefreshPolicy_def by (simp only: k r v cs sel option.case sum.case prod.case)
  obtain b where b: "sel = Some b"
    using sync' changed by (cases sel) (auto dest: save_key_then_push_service)
  obtain e s1 fs1 where ap: "ApplyConfig (io_uc io) (io_enc_config io) (se_cache_os env) (se_now env) b s fs = (e, s1, fs1)" by (metis prod.exhaust)
  have "s' = s1"
    using sync' by (cases e) (auto simp: b ap dest: save_key_then_push_service)
  then have "changed_by s s' b" using ApplyConfig_changes [OF ap] changed by (simp add: changed_by_def)
  moreover obtain sb where "sb \<in> set configs" "Signed_Bundle sb = b" "Verify (io_lib io) v sb = Inr ()"
    using verified_loop_sound [of "Verify (io_lib io) v" "snap_DeviceID (svc_snapshot s)" None configs b] sel b
    by (auto simp: selectVerifiedConfig_def)
  moreover have "\<forall>x\<in>set configs. ConfigBundle_TargetID (Signed_Bundle x) = snap_DeviceID (svc_snapshot s) \<longrightarrow> Verify (io_lib io) v x = Inr ()"
    using verified_loop_strict [OF sel [unfolded selectVerifiedConfig_def]] by blast
  ultimately show ?thesis
    using key_for_sync [OF k [unfolded r]] v by (intro exI [of _ key] exI [of _ v] exI [of _ sb]) simp
qed

section \<open>Which configuration is selected\<close>

lemma select_loop_newest:
  assumes mono: "\<And>a b. a \<in> insert x (set cs) \<Longrightarrow> b \<in> insert x (set cs) \<Longrightarrow> ConfigBundle_Version a < ConfigBundle_Version b \<Longrightarrow>
      ConfigBundle_CreatedAt a < ConfigBundle_CreatedAt b" and x: "ConfigBundle_TargetID x = dev"
  shows "\<exists>b. select_loop dev (Some x) cs = Some b \<and> b \<in> insert x (set cs) \<and> ConfigBundle_TargetID b = dev \<and>
           (\<forall>c\<in>insert x (set cs). ConfigBundle_TargetID c = dev \<longrightarrow> ConfigBundle_CreatedAt c \<le> ConfigBundle_CreatedAt b)"
  using assms
proof (induction cs arbitrary: x)
  case (Cons c cs)
  show ?case
  proof (cases "ConfigBundle_TargetID c = dev \<and> newer c (Some x)")
    case True
    then have later: "ConfigBundle_CreatedAt x < ConfigBundle_CreatedAt c"
      using Cons.prems(1) [of x c] by (auto simp: newer_def)
    have "\<exists>b. select_loop dev (Some c) cs = Some b \<and> b \<in> insert c (set cs) \<and> ConfigBundle_TargetID b = dev \<and>
           (\<forall>d\<in>insert c (set cs). ConfigBundle_TargetID d = dev \<longrightarrow> ConfigBundle_CreatedAt d \<le> ConfigBundle_CreatedAt b)"
      using True by (intro Cons.IH) (auto intro: Cons.prems(1))
    with True later show ?thesis by fastforce
  next
    case False
    have "\<exists>b. select_loop dev (Some x) cs = Some b \<and> b \<in> insert x (set cs) \<and> ConfigBundle_TargetID b = dev \<and>
           (\<forall>d\<in>insert x (set cs). ConfigBundle_TargetID d = dev \<longrightarrow> ConfigBundle_CreatedAt d \<le> ConfigBundle_CreatedAt b)"
      using Cons.prems(2) by (intro Cons.IH) (auto intro: Cons.prems(1))
    with False Cons.prems(2) show ?thesis by (fastforce simp: newer_def)
  qed
qed simp

definition version_bundle :: "string \<Rightarrow> time \<Rightarrow> ConfigBundle" where
  "version_bundle v t = sample_bundle\<lparr>ConfigBundle_ID := v, ConfigBundle_Version := v, ConfigBundle_CreatedAt := t\<rparr>"

lemma selectConfig_mono:
  assumes mono: "\<And>a b. a \<in> set configs \<Longrightarrow> b \<in> set configs \<Longrightarrow> ConfigBundle_TargetID a = dev \<Longrightarrow> ConfigBundle_TargetID b = dev \<Longrightarrow>
      ConfigBundle_Version a < ConfigBundle_Version b \<Longrightarrow> ConfigBundle_CreatedAt a < ConfigBundle_CreatedAt b"
    and ex: "\<exists>a\<in>set configs. ConfigBundle_TargetID a = dev"
  shows "\<exists>b. selectConfig configs dev = Some b \<and> b \<in> set configs \<and> ConfigBundle_TargetID b = dev \<and>
           (\<forall>c\<in>set configs. ConfigBundle_TargetID c = dev \<longrightarrow> ConfigBundle_CreatedAt c \<le> ConfigBundle_CreatedAt b)"
proof -
  let ?cs = "filter (\<lambda>a. ConfigBundle_TargetID a = dev) configs"
  have skip: "select_loop dev sel configs = select_loop dev sel ?cs" for sel
    by (induction configs arbitrary: sel) simp_all
  obtain x cs where cs: "?cs = x # cs" using ex by (cases ?cs) (auto simp: filter_empty_conv)
  have inv: "set (x # cs) = {a \<in> set configs. ConfigBundle_TargetID a = dev}" by (metis cs set_filter)
  then have x: "ConfigBundle_TargetID x = dev" by auto
  have "\<exists>b. select_loop dev (Some x) cs = Some b \<and> b \<in> insert x (set cs) \<and> ConfigBundle_TargetID b = dev \<and>
           (\<forall>c\<in>insert x (set cs). ConfigBundle_TargetID c = dev \<longrightarrow> ConfigBundle_CreatedAt c \<le> ConfigBundle_CreatedAt b)"
    by (rule select_loop_newest) (use inv x mono in auto)
  then obtain b where b: "select_loop dev (Some x) cs = Some b" "b \<in> set (x # cs)"
    "\<forall>c\<in>set (x # cs). ConfigBundle_TargetID c = dev \<longrightarrow> ConfigBundle_CreatedAt c \<le> ConfigBundle_CreatedAt b" by auto
  have "selectConfig configs dev = Some b"
    using b(1) x by (simp add: selectConfig_def skip [of None] cs newer_def)
  then show ?thesis using b(2,3) unfolding inv by blast
qed

text \<open>
  If the version strings of the bundles for a device are ordered like their creation times, the
  agent selects the newest one, in whatever order the server lists them. Otherwise it may not: of version
  v10 and the older v9, listed in this order, it selects v9, because either a later creation or a greater
  version string replaces the selection.
\<close>

lemma selectConfig_newest:
  assumes mono: "\<And>a b. a \<in> set configs \<Longrightarrow> b \<in> set configs \<Longrightarrow> ConfigBundle_TargetID a = dev \<Longrightarrow> ConfigBundle_TargetID b = dev \<Longrightarrow>
      ConfigBundle_Version a < ConfigBundle_Version b \<Longrightarrow> ConfigBundle_CreatedAt a < ConfigBundle_CreatedAt b"
    and ex: "\<exists>a\<in>set configs. ConfigBundle_TargetID a = dev"
  shows "(\<exists>b. selectConfig configs dev = Some b \<and> b \<in> set configs \<and> ConfigBundle_TargetID b = dev \<and>
           (\<forall>c\<in>set configs. ConfigBundle_TargetID c = dev \<longrightarrow> ConfigBundle_CreatedAt c \<le> ConfigBundle_CreatedAt b)) \<and>
         selectConfig [version_bundle ''v10'' 20, version_bundle ''v9'' 10] ''d'' = Some (version_bundle ''v9'' 10)"
proof
  show "\<exists>b. selectConfig configs dev = Some b \<and> b \<in> set configs \<and> ConfigBundle_TargetID b = dev \<and>
           (\<forall>c\<in>set configs. ConfigBundle_TargetID c = dev \<longrightarrow> ConfigBundle_CreatedAt c \<le> ConfigBundle_CreatedAt b)"
    by (rule selectConfig_mono) (rule mono, assumption+, rule ex)
  show "selectConfig [version_bundle ''v10'' 20, version_bundle ''v9'' 10] ''d'' = Some (version_bundle ''v9'' 10)"
    by code_simp
qed


definition sample_signer :: ConfigSigner where
  "sample_signer = \<lparr>signer_publicKey = replicate 32 1, signer_privateKey = Some (replicate 64 1)\<rparr>"

definition sample_signed :: SignedBundle where
  "sample_signed = (case Sign sample_lib 9 sample_signer sample_bundle 7 of Inr sb \<Rightarrow> sb)"

definition sample_io :: "unit agent_io" where
  "sample_io = \<lparr>io_uc = id, io_lib = sample_lib, io_x509 = sample_x509, io_enc_config = (\<lambda>_. Inr ()), io_enc_queue = (\<lambda>_. Inr ()),
     io_dec_queue = (\<lambda>_. Inr []), io_enc_key = (\<lambda>_. Inr ()), io_dec_key = (\<lambda>_. Inl []), io_enc_crl = (\<lambda>_. Inr ())\<rparr>"

definition sample_sync_env :: "unit sync_env" where
  "sample_sync_env = \<lparr>se_now = 11, se_cache_os = sample_os (), se_queue_open = None, se_queue_os = sample_os (), se_queue_rm = None,
     se_key_open = None, se_key_os = sample_os (), se_crl_os = sample_os ()\<rparr>"

definition sample_client :: "unit sync_client" where
  "sample_client = \<lparr>cl_Configs = (\<lambda>_ w. (Inr [], w)), cl_PushTelemetry = (\<lambda>_ _ w. (None, w)), cl_WatchConfig = (\<lambda>_ _ _ w. (Inr None, w)),
     cl_SignedConfigs = (\<lambda>_ w. (Inr [sample_signed], w)), cl_WatchSignedConfig = (\<lambda>_ _ _ w. (Inr None, w)),
     cl_ConfigSigningKey = (\<lambda>w. (Inr sample_key, w)), cl_CertificateRevocationList = (\<lambda>_ w. (Inl [], w))\<rparr>"

definition sample_service :: "unit Service" where
  "sample_service = (case newServiceWithDependencies ''p'' (\<lambda>_. []) 1 (Inr :: ConfigBundle \<Rightarrow> string + ConfigBundle) None [] sample_config_cfg None None None None of Inr s \<Rightarrow> s)"

theorem only_verified_configs_witness:
  "\<exists>s'. fst (snd (SyncSignedOnceWithKeyRefreshPolicy sample_io sample_sync_env (Some sample_client) None \<lparr>PinnedSHA256 = []\<rparr> sample_service [] ())) = s' \<and>
     changed_by sample_service s' sample_bundle"
proof -
  let ?sync = "SyncSignedOnceWithKeyRefreshPolicy sample_io sample_sync_env (Some sample_client) None \<lparr>PinnedSHA256 = []\<rparr> sample_service [] ()"
  obtain err s' fs' w' where sync: "?sync = (err, s', fs', w')" by (metis prod.exhaust)
  have "AgentConfig_ConfigVersion (Config_Agent (svc_cfg (fst (snd ?sync)))) \<noteq> AgentConfig_ConfigVersion (Config_Agent (svc_cfg sample_service))"
    by code_simp
  then have "s' \<noteq> sample_service" unfolding sync by auto
  moreover have "\<exists>w1. cl_SignedConfigs sample_client (snap_TenantID (svc_snapshot sample_service)) u = (Inr [sample_signed], w1)" for u
    by (simp add: sample_client_def)
  moreover have "Signed_Bundle sample_signed = sample_bundle" by code_simp
  ultimately show ?thesis using only_verified_configs [OF sync] unfolding sync by fastforce
qed

end
