(* ===== verification/Agent_Control.thy ===== *)
theory Agent_Control
  imports Agent_Sync Store
begin

text \<open>
  The agent and the control plane's repository together.

  A report pushed by the agent reaches \<open>RecordTelemetry\<close> of the repository, or is refused because the
  server cannot be reached. The world of the control client is the list of the following attempts, whether
  each reaches the server, and the repository. The interpretation \<open>store_sink\<close> shows that the repository
  keeps the promise the agent's queue relies on; a refused report is not in the repository, so this is the
  case where the connection fails before the request is handled.
\<close>

definition store_push :: "(string \<Rightarrow> string) \<Rightarrow> time \<Rightarrow> time \<Rightarrow> string \<Rightarrow> Report \<Rightarrow> bool list \<times> Memory \<Rightarrow> string option \<times> bool list \<times> Memory" where
  "store_push uc clock now t r w =
     (case w of (up, m) \<Rightarrow>
        (if up = [] \<or> \<not> hd up then (Some ''unreachable'', tl up, m)
         else (case RecordTelemetry uc None clock now r m of
                 Inl e \<Rightarrow> (Some ''refused'', tl up, m)
               | Inr (_, m') \<Rightarrow> (None, tl up, m'))))"

lemma RecordTelemetry_ready:
  assumes "ready_report uc r"
  shows "RecordTelemetry uc None clock now r m = Inr (r', m') \<Longrightarrow>
      log_of (mem_telemetry m') t = log_of (mem_telemetry m) t @ (if t = Report_TenantID r then [r] else []) \<and> mem_tenants m' = mem_tenants m"
    and "gm_has (mem_tenants m) (Report_TenantID r) \<Longrightarrow> \<exists>m'. RecordTelemetry uc None clock now r m = Inr (r, m')"
  using ready_sanitized [OF assms]
  by (auto simp: RecordTelemetry_def with_ctx_def bind_def lift_err_def check_def Let_def auditLocked_def split: if_splits)

interpretation store_sink: telemetry_sink "store_push uc clock now" "\<lambda>(up, m). log_of (mem_telemetry m) t"
    "\<lambda>r. ready_report uc r \<and> Report_TenantID r = t" for uc clock now t
  by unfold_locales
    (auto simp: store_push_def RecordTelemetry_ready(1) split: if_splits sum.splits prod.splits)

lemma push_all_up:
  assumes "cl_PushTelemetry client = store_push uc clock now"
    and "\<forall>r\<in>set pending. ready_report uc r \<and> gm_has (mem_tenants m) (Report_TenantID r)"
    and "length pending \<le> length up" "\<forall>b\<in>set (take (length pending) up). b"
  shows "\<exists>w'. push_all client pending (up, m) = (None, w')"
  using assms(2-)
proof (induction pending arbitrary: up m)
  case (Cons r pending)
  then obtain up' where up: "up = True # up'" by (cases up) auto
  obtain m' where m': "RecordTelemetry uc None clock now r m = Inr (r, m')"
    using RecordTelemetry_ready(2) [of uc r m clock now] Cons.prems(1) by auto
  have "store_push uc clock now (Report_TenantID r) r (up, m) = (None, up', m')"
    by (simp add: store_push_def up m')
  moreover have "\<exists>w'. push_all client pending (up', m') = (None, w')"
    using Cons.prems up RecordTelemetry_ready(1) [OF _ m'] by (intro Cons.IH) auto
  ultimately show ?case by (simp add: assms(1))
qed simp


definition sample_repo :: Memory where
  "sample_repo = result_state (CreateTenant None 5 6 (sample_tenant\<lparr>Tenant_ID := ''t''\<rparr>) NewMemory)"

definition sample_queue :: FileTelemetryQueue where
  "sample_queue = \<lparr>queue_path = ''/d/queue.json'', queue_maxReports = 100\<rparr>"

definition sample_queue_io :: "Report list agent_io" where
  "sample_queue_io = \<lparr>io_uc = id, io_lib = sample_lib, io_x509 = sample_x509, io_enc_config = (\<lambda>_. Inr []), io_enc_queue = Inr,
     io_dec_queue = Inr, io_enc_key = (\<lambda>_. Inr []), io_dec_key = (\<lambda>_. Inl []), io_enc_crl = (\<lambda>_. Inr [])\<rparr>"

definition sample_queue_env :: "Report list sync_env" where
  "sample_queue_env = \<lparr>se_now = 11, se_cache_os = sample_os [], se_queue_open = None, se_queue_os = sample_os [], se_queue_rm = None,
     se_key_open = None, se_key_os = sample_os [], se_crl_os = sample_os []\<rparr>"

definition sample_push_client :: "(bool list \<times> Memory) sync_client" where
  "sample_push_client = \<lparr>cl_Configs = (\<lambda>_ w. (Inr [], w)), cl_PushTelemetry = store_push id 12 13, cl_WatchConfig = (\<lambda>_ _ _ w. (Inr None, w)),
     cl_SignedConfigs = (\<lambda>_ w. (Inr [], w)), cl_WatchSignedConfig = (\<lambda>_ _ _ w. (Inr None, w)),
     cl_ConfigSigningKey = (\<lambda>w. (Inl [], w)), cl_CertificateRevocationList = (\<lambda>_ w. (Inl [], w))\<rparr>"

definition sample_queue_service :: "(bool list \<times> Memory) Service" where
  "sample_queue_service = \<lparr>svc_cfg = sample_config_cfg, svc_switchRuntime = None, svc_transportApply = None, svc_telemetryQueue = Some sample_queue,
     svc_snapshot = svc_snapshot sample_service, svc_cache = None\<rparr>"

definition sample_telemetry :: Report where
  "sample_telemetry = TelemetryReport 11 sample_queue_service"


end
