(* ===== verification/Client_Server.thy ===== *)
theory Client_Server
  imports Control_Client Control_Props Agent_Control
begin

text \<open>
  The client and the server of the control API joined by HTTP.

  The world of the client is the list of the environments of the coming requests and the server; when the
  list is empty the server cannot be reached. A request arrives with the percent escapes of its path
  decoded, its query parsed, and the white space around header values removed. \<open>enc\<close> is the encoder of
  response bodies. The interpretation \<open>api_sink\<close> shows that the API keeps the promise the agent's telemetry
  queue relies on, so the agent, the client, the server and the repository are composed.
\<close>

section \<open>The wire\<close>

type_synonym api_world = "api_env list \<times> Server"

definition url_target :: "string \<Rightarrow> string \<Rightarrow> string \<times> string" where
  \<comment> \<open>the escaped path and the query of a URL under the base; a fragment is not sent\<close>
  "url_target base url = cut (CHR ''?'') (fst (cut (CHR ''#'') (TrimPrefix url base)))"

definition arrived :: "string \<Rightarrow> wire_request \<Rightarrow> http_request" where
  "arrived base q =
     \<lparr>rq_Method = wq_Method q, rq_Path = the (unescape False (fst (url_target base (wq_URL q)))),
      rq_Query = ParseQuery (snd (url_target base (wq_URL q))),
      rq_Header = map (map_prod id TrimSpace) (wq_Header q), rq_Body = wq_Body q, rq_PeerCertificates = []\<rparr>"

definition wire_reply :: "(api_body option \<Rightarrow> byte list) \<Rightarrow> reply \<Rightarrow> wire_response" where
  "wire_reply enc resp = \<lparr>wr_Status = rs_Status resp, wr_Header = rs_Header resp, wr_Body = enc (rs_Body resp), wr_Err = None\<rparr>"

definition api_transport :: "'j api_lib \<Rightarrow> (api_body option \<Rightarrow> byte list) \<Rightarrow> string \<Rightarrow> api_world http_client" where
  "api_transport L enc base =
     \<lparr>http_New = (\<lambda>m url. if unescape False (fst (url_target base url)) = None then Some ''invalid URL escape'' else None),
      http_Do = (\<lambda>q (envs, s).
        case envs of
          [] \<Rightarrow> (Inl ''connection refused'', (envs, s))
        | env # envs \<Rightarrow> (case Handler L env (arrived base q) s of (resp, s) \<Rightarrow> (Inr (wire_reply enc resp), (envs, s))))\<rparr>"

definition api_client :: "'j api_lib \<Rightarrow> (api_body option \<Rightarrow> byte list) \<Rightarrow> string \<Rightarrow> Credentials \<Rightarrow> api_world Client" where
  "api_client L enc base creds = \<lparr>client_baseURL = base, client_http = api_transport L enc base, client_creds = creds\<rparr>"

section \<open>Paths of tenants\<close>

definition plain_id :: "string \<Rightarrow> bool" where
  "plain_id t \<longleftrightarrow> t \<noteq> [] \<and> t \<noteq> ''.'' \<and> t \<noteq> ''..'' \<and> (\<forall>c\<in>set t. unreserved c)"

lemma unreserved_plain: "unreserved c \<Longrightarrow> c \<noteq> CHR ''/'' \<and> c \<noteq> CHR ''?'' \<and> c \<noteq> CHR ''#'' \<and> c \<noteq> CHR ''%'' \<and> c \<noteq> CHR ''+'' \<and> c \<noteq> CHR '',''"
  by (auto simp: unreserved_def Let_def)

lemma plain_idD:
  assumes "plain_id t"
  shows "CHR ''/'' \<notin> set t" "CHR ''?'' \<notin> set t" "CHR ''#'' \<notin> set t" "CHR ''%'' \<notin> set t"
  using assms unreserved_plain by (auto simp: plain_id_def)

lemma unescape_plain: "CHR ''%'' \<notin> set s \<Longrightarrow> unescape False s = Some s"
  by (induction s) auto

lemma tenantPath_join: "tenantPath t resource = CHR ''/'' # join_char (CHR ''/'') [''v1'', ''tenants'', t, resource]"
  by (simp add: tenantPath_def)

lemma mux_path_tenant:
  assumes "plain_id t" "plain_id r"
  shows "mux_path (tenantPath t r) = tenantPath t r"
proof -
  have clean: "path_Clean (tenantPath t r) = tenantPath t r"
    unfolding tenantPath_join using assms plain_idD [OF assms(1)] plain_idD [OF assms(2)]
    by (intro path_Clean_plain) (auto simp: plain_id_def)
  have "last (tenantPath t r) \<noteq> CHR ''/''"
  proof -
    have "last r \<in> set r" using assms(2) by (simp add: plain_id_def)
    then have "last r \<noteq> CHR ''/''" using plain_idD(1) [OF assms(2)] by metis
    then show ?thesis using assms(2) by (simp add: tenantPath_def plain_id_def)
  qed
  moreover have "tenantPath t r \<noteq> []" "hd (tenantPath t r) = CHR ''/''" by (simp_all add: tenantPath_def)
  ultimately show ?thesis using clean by (simp add: mux_path_def Let_def)
qed

lemma parseTenantPath_tenant:
  assumes "plain_id t" "plain_id r"
  shows "parseTenantPath (tenantPath t r) = Some (t, r)"
proof -
  have ne: "t \<noteq> []" "r \<noteq> []" and sl: "CHR ''/'' \<notin> set t" "CHR ''/'' \<notin> set r"
    using assms plain_idD(1) by (auto simp: plain_id_def)
  have "trim_slashes (t @ CHR ''/'' # r) = t @ CHR ''/'' # r"
  proof -
    obtain c t' where t: "t = c # t'" using ne by (cases t) auto
    obtain r' d where r: "r = r' @ [d]" using ne by (cases r rule: rev_cases) auto
    show ?thesis using sl by (auto simp: trim_slashes_def t r)
  qed
  moreover have "tenantPath t r = ''/v1/tenants/'' @ (t @ CHR ''/'' # r)" by (simp add: tenantPath_def)
  then have "TrimPrefix (tenantPath t r) ''/v1/tenants/'' = t @ CHR ''/'' # r" "tenantPath t r \<noteq> t @ CHR ''/'' # r"
    by (simp_all only: TrimPrefix_append) (simp add: tenantPath_def)
  ultimately show ?thesis
    using ne by (simp add: parseTenantPath_def split_char_plain [OF sl(1)] split_char_plain(2) [OF sl(2)])
qed

lemma Handler_tenant:
  assumes "rq_Path r = tenantPath t resource" "plain_id t" "plain_id resource"
  shows "Handler L env r s = handleTenantScoped L env r s"
  using assms by (intro Handler_scoped) (simp_all add: mux_path_tenant, simp add: tenantPath_def HasPrefix_def)

section \<open>Requests as they arrive\<close>

lemma join_char_set: "set (join_char d ps) \<subseteq> insert d (\<Union> (set ` set ps))"
  by (induction d ps rule: join_char.induct) auto

lemma Values_Encode_set: "c \<in> set (Values_Encode m) \<Longrightarrow> unreserved c \<or> c \<in> {CHR ''+'', CHR ''%'', CHR ''&'', CHR ''=''}"
  unfolding Values_Encode_def
  by (drule subsetD [OF join_char_set]) (auto dest: QueryEscape_set)

lemma tenantPath_plain:
  assumes "plain_id t" "plain_id r"
  shows "CHR ''?'' \<notin> set (tenantPath t r)" "CHR ''#'' \<notin> set (tenantPath t r)" "CHR ''%'' \<notin> set (tenantPath t r)"
  using plain_idD [OF assms(1)] plain_idD [OF assms(2)] by (simp_all add: tenantPath_def)

lemma url_target_path:
  assumes "plain_id t" "plain_id r"
  shows "url_target base (base @ tenantPath t r) = (tenantPath t r, [])"
  using tenantPath_plain [OF assms] by (simp add: url_target_def cut_none)

lemma url_target_query:
  assumes "plain_id t" "plain_id r"
  shows "url_target base (base @ tenantPath t r @ CHR ''?'' # Values_Encode m) = (tenantPath t r, Values_Encode m)"
proof -
  have "CHR ''#'' \<notin> set (Values_Encode m)" by (auto dest!: Values_Encode_set simp: unreserved_def)
  then have "CHR ''#'' \<notin> set (tenantPath t r @ CHR ''?'' # Values_Encode m)" using tenantPath_plain(2) [OF assms] by simp
  from cut_none [OF this] show ?thesis
    by (simp only: url_target_def TrimPrefix_append fst_conv cut_append [OF tenantPath_plain(1) [OF assms]])
qed

definition tenant_request :: "Credentials \<Rightarrow> string \<Rightarrow> string \<Rightarrow> string \<Rightarrow> (string, string) gomap \<Rightarrow> (string, string) gomap \<Rightarrow> byte list \<Rightarrow> http_request" where
  \<comment> \<open>the request of a client with the given credentials, as the server sees it\<close>
  "tenant_request creds m t resource query header body =
     \<lparr>rq_Method = m, rq_Path = tenantPath t resource, rq_Query = query,
      rq_Header = map (map_prod id TrimSpace) (setAuthHeaders creds header), rq_Body = body, rq_PeerCertificates = []\<rparr>"

lemma ParseQuery_Nil [simp]: "ParseQuery [] = []"
  by (simp add: ParseQuery_def parse_pair_def map_filter_simps)

lemma send_api:
  assumes "plain_id t" "plain_id r" and query: "query = [] \<and> q = [] \<or> query = CHR ''?'' # Values_Encode m \<and> q = ParseQuery (Values_Encode m)"
  shows "send (api_client L enc base creds) mth (tenantPath t r @ query) header body (envs, s) =
     (case envs of
        [] \<Rightarrow> (Inl (RequestFailed mth (tenantPath t r @ query) ''connection refused''), (envs, s))
      | env # envs \<Rightarrow> (case handleTenantScoped L env (tenant_request creds mth t r q header body) s of
            (resp, s) \<Rightarrow> (Inr (wire_reply enc resp), (envs, s))))"
proof -
  have target: "url_target base (base @ tenantPath t r @ query) = (tenantPath t r, drop 1 query)"
    using query url_target_path [OF assms(1,2)] url_target_query [OF assms(1,2)] by auto
  have "arrived base \<lparr>wq_Method = mth, wq_URL = base @ tenantPath t r @ query, wq_Header = setAuthHeaders creds header, wq_Body = body\<rparr> =
      tenant_request creds mth t r q header body"
    using query by (auto simp: arrived_def tenant_request_def target unescape_plain tenantPath_plain [OF assms(1,2)])
  moreover have "Handler L env (tenant_request creds mth t r q header body) s =
      handleTenantScoped L env (tenant_request creds mth t r q header body) s" for env
    using assms(1,2) by (intro Handler_tenant [where t = t and resource = r]) (simp_all add: tenant_request_def)
  ultimately show ?thesis
    by (simp add: send_def api_client_def api_transport_def target unescape_plain tenantPath_plain [OF assms(1,2)]
        split: list.splits prod.splits)
qed

lemmas send_api_plain = send_api [OF _ _ disjI1 [OF conjI [OF refl refl]], unfolded append_Nil2]

section \<open>Credentials\<close>

lemma strip_one_hd: "s \<noteq> [] \<Longrightarrow> hd s \<notin> set (concat encs) \<Longrightarrow> strip_one encs s = None"
proof -
  assume "s \<noteq> []" and hd: "hd s \<notin> set (concat encs)"
  then obtain c r where s: "s = c # r" by (cases s) auto
  have "\<not> (p \<noteq> [] \<and> prefix p s)" if p: "p \<in> set encs" for p
  proof (intro notI, elim conjE)
    assume "p \<noteq> []" "prefix p s"
    then have "c \<in> set p" by (cases p) (auto simp: s)
    with p have "c \<in> set (concat encs)" by auto
    then show False using hd by (simp add: s del: set_concat)
  qed
  then show "strip_one encs s = None" by (auto simp: strip_one_def find_None_iff)
qed

lemma TrimSpace_ends:
  assumes "s \<noteq> []" "hd s \<notin> set (concat space_encodings)" "last s \<notin> set (concat space_encodings)"
  shows "TrimSpace s = s"
proof -
  have "strip_one space_encodings s = None" using assms(1,2) by (rule strip_one_hd)
  moreover have "strip_one (map rev space_encodings) (rev s) = None"
    using assms(1,3) by (intro strip_one_hd) (auto simp: hd_rev)
  ultimately show ?thesis by (simp add: TrimSpace_def strip_all_id)
qed

lemma unreserved_not_space: "unreserved c \<Longrightarrow> c \<notin> set (concat space_encodings)"
proof -
  have "list_all (\<lambda>c. \<not> unreserved c) (concat space_encodings)" by code_simp
  then show "unreserved c \<Longrightarrow> c \<notin> set (concat space_encodings)" by (auto simp: list_all_iff)
qed

definition plain_word :: "string \<Rightarrow> bool" where
  "plain_word s \<longleftrightarrow> s \<noteq> [] \<and> (\<forall>c\<in>set s. unreserved c)"

lemma plain_word_trim: "plain_word s \<Longrightarrow> TrimSpace s = s"
  using unreserved_not_space by (intro TrimSpace_plain) (simp add: plain_word_def del: set_concat)

definition plain_creds :: "Credentials \<Rightarrow> bool" where
  \<comment> \<open>a bearer token, or the identity and the roles of a subject\<close>
  "plain_creds creds \<longleftrightarrow>
     (if Cred_BearerToken creds \<noteq> [] then plain_word (Cred_BearerToken creds)
      else TrimSpace (Cred_TenantID creds) = Cred_TenantID creds \<and> Cred_TenantID creds \<noteq> [] \<and>
           TrimSpace (Cred_ActorID creds) = Cred_ActorID creds \<and> Cred_ActorID creds \<noteq> [] \<and>
           Cred_Roles creds \<noteq> [] \<and> (\<forall>role\<in>set (Cred_Roles creds). plain_word role))"

lemma bearer_header: "plain_word token \<Longrightarrow> bearerToken (TrimSpace (''Bearer '' @ token)) = token"
proof -
  assume w: "plain_word token"
  have "last token \<in> set token" using w by (simp add: plain_word_def)
  then have "last token \<notin> set (concat space_encodings)" using w unreserved_not_space by (metis plain_word_def)
  moreover have "unreserved (CHR ''B'')" by code_simp
  then have "CHR ''B'' \<notin> set (concat space_encodings)" by (rule unreserved_not_space)
  ultimately have "TrimSpace (''Bearer '' @ token) = ''Bearer '' @ token"
    using w by (intro TrimSpace_ends) (simp_all add: plain_word_def)
  moreover have "TrimPrefix (''Bearer '' @ token) ''Bearer '' = token" by (rule TrimPrefix_append)
  ultimately show ?thesis using plain_word_trim [OF w] by (simp add: bearerToken_def HasPrefix_def)
qed

lemma roles_header:
  assumes "roles \<noteq> []" "\<forall>role\<in>set roles. plain_word role"
  shows "map TrimSpace (split_char (CHR '','') (TrimSpace (join_char (CHR '','') roles))) = roles"
proof -
  have comma: "CHR '','' \<notin> set (concat space_encodings)"
  proof -
    have "CHR '','' \<notin> set (concat space_encodings) \<longleftrightarrow> True" by code_simp
    then show ?thesis by simp
  qed
  have "c \<notin> set (concat space_encodings)" if "c \<in> set (join_char (CHR '','') roles)" for c
  proof -
    have "c = CHR '','' \<or> unreserved c"
      using subsetD [OF join_char_set that] assms(2) by (auto simp: plain_word_def)
    then show ?thesis using comma unreserved_not_space by metis
  qed
  then have "TrimSpace (join_char (CHR '','') roles) = join_char (CHR '','') roles" by (intro TrimSpace_plain ballI)
  moreover have "\<forall>role\<in>set roles. CHR '','' \<notin> set role"
    using assms(2) unreserved_plain by (auto simp: plain_word_def)
  ultimately have "split_char (CHR '','') (TrimSpace (join_char (CHR '','') roles)) = roles"
    using assms(1) by (simp add: split_join_char)
  moreover have "map TrimSpace roles = roles" using assms(2) plain_word_trim by (simp add: map_idI)
  ultimately show ?thesis by simp
qed

lemma header_value: "gm_get (map (map_prod id TrimSpace) header) k = map_option TrimSpace (gm_get header k)"
  by (induction header) (auto simp: map_prod_def)

definition credentials_subject :: "time \<Rightarrow> Credentials \<Rightarrow> Server \<Rightarrow> api_error + Subject" where
  \<comment> \<open>whom the credentials stand for\<close>
  "credentials_subject now creds s =
     (if Cred_BearerToken creds \<noteq> [] then
        (case Session_Authenticate now (Cred_BearerToken creds) now (srv_sessions s) of Some subject \<Rightarrow> Inr subject | None \<Rightarrow> Inl BearerInvalid)
      else Inr \<lparr>Subject_ID = Cred_ActorID creds, Subject_TenantID = Cred_TenantID creds, Subject_Roles = Cred_Roles creds\<rparr>)"

lemma request_subject:
  assumes creds: "plain_creds creds" and header: "gm_get header ''Authorization'' = None"
  shows "subjectFromRequest now (tenant_request creds m t r q header body) s = credentials_subject now creds s"
proof (cases "Cred_BearerToken creds = []")
  case False
  then have w: "plain_word (Cred_BearerToken creds)" using creds by (simp add: plain_creds_def)
  have "Header_Get (tenant_request creds m t r q header body) ''Authorization'' = TrimSpace (''Bearer '' @ Cred_BearerToken creds)"
    using False by (simp add: Header_Get_def tenant_request_def gm_default_def header_value setAuthHeaders_def)
  with bearer_header [OF w] False show ?thesis by (simp add: subjectFromRequest_def credentials_subject_def)
next
  case True
  then have c: "TrimSpace (Cred_TenantID creds) = Cred_TenantID creds" "Cred_TenantID creds \<noteq> []"
    "TrimSpace (Cred_ActorID creds) = Cred_ActorID creds" "Cred_ActorID creds \<noteq> []"
    "Cred_Roles creds \<noteq> []" "\<forall>role\<in>set (Cred_Roles creds). plain_word role"
    using creds by (simp_all add: plain_creds_def)
  have ne: "filter (\<lambda>role. role \<noteq> []) (Cred_Roles creds) = Cred_Roles creds"
    using c(6) by (intro filter_True) (auto simp: plain_word_def)
  have h: "Header_Get (tenant_request creds m t r q header body) ''Authorization'' = []"
    "Header_Get (tenant_request creds m t r q header body) ''X-Tenant-ID'' = Cred_TenantID creds"
    "Header_Get (tenant_request creds m t r q header body) ''X-Actor-ID'' = Cred_ActorID creds"
    "Header_Get (tenant_request creds m t r q header body) ''X-Roles'' = TrimSpace (join_char (CHR '','') (Cred_Roles creds))"
    using True c header
    by (simp_all add: Header_Get_def tenant_request_def gm_default_def header_value setAuthHeaders_def)
  have "subjectFromHeaders (tenant_request creds m t r q header body) =
      Inr \<lparr>Subject_ID = Cred_ActorID creds, Subject_TenantID = Cred_TenantID creds, Subject_Roles = Cred_Roles creds\<rparr>"
    by (simp add: subjectFromHeaders_def Let_def h c(1-5) roles_header [OF c(5,6)] ne)
  moreover have "bearerToken [] = []" by (simp add: bearerToken_def HasPrefix_def)
  moreover have "subjectFromPeerCertificate (tenant_request creds m t r q header body) now = Inr None"
    by (simp add: subjectFromPeerCertificate_def tenant_request_def)
  ultimately show ?thesis using True by (simp add: subjectFromRequest_def credentials_subject_def h(1))
qed

section \<open>Telemetry over the API\<close>

definition api_push :: "'j api_lib \<Rightarrow> (api_body option \<Rightarrow> byte list) \<Rightarrow> client_codec \<Rightarrow> string \<Rightarrow> Credentials \<Rightarrow> string \<Rightarrow> Report \<Rightarrow> api_world \<Rightarrow>
    string option \<times> api_world" where
  \<comment> \<open>PushTelemetry as the agent uses it: only whether it fails matters\<close>
  "api_push L enc J base creds t r w =
     (case Client_PushTelemetry J (api_client L enc base creds) t r w of (Inl _, w) \<Rightarrow> (Some ''refused'', w) | (Inr _, w) \<Rightarrow> (None, w))"

definition pushable :: "'j api_lib \<Rightarrow> (api_body option \<Rightarrow> byte list) \<Rightarrow> client_codec \<Rightarrow> string \<Rightarrow> Report \<Rightarrow> bool" where
  \<comment> \<open>a clean report of the tenant that JSON keeps in both directions\<close>
  "pushable L enc J t r \<longleftrightarrow> ready_report (api_uc L) r \<and> Report_TenantID r = t \<and> plain_id t \<and>
     (\<forall>b. enc_payload J (PayReport r) = Inr b \<longrightarrow> dec_report L b = Inr r) \<and> rd_report J (enc (Some (BodyReport r))) = Inr r"

definition reports_at :: "string \<Rightarrow> api_world \<Rightarrow> Report list" where
  "reports_at t w = log_of (mem_telemetry (srv_store (snd w))) t"

lemma denied_telemetry: "denied_event subj t s s' \<Longrightarrow> mem_telemetry (srv_store s') = mem_telemetry (srv_store s)"
  by (auto simp: denied_event_def)

lemma plain_telemetry [simp]: "plain_id ''telemetry''" "plain_id ''config-watch''" "plain_id ''signed-config-watch''"
  by code_simp+

lemma scoped_telemetry:
  assumes t: "plain_id t" and h: "handleTenantScoped L env (tenant_request creds MethodPost t ''telemetry'' [] header body) s = (resp, s')"
  shows "(\<exists>report created m. dec_report L body = Inr report \<and>
           RecordTelemetry (api_uc L) (env_ctx env) (env_store1 env) (env_store2 env) (report\<lparr>Report_TenantID := t\<rparr>) (srv_store s) = Inr (created, m) \<and>
           resp = json_response StatusCreated (BodyReport created) \<and> s' = s\<lparr>srv_store := m\<rparr>) \<or>
         rs_Status resp \<noteq> StatusCreated \<and> mem_telemetry (srv_store s') = mem_telemetry (srv_store s)"
proof -
  let ?r = "tenant_request creds MethodPost t ''telemetry'' [] header body"
  have r: "parseTenantPath (rq_Path ?r) = Some (t, ''telemetry'')" "rq_Method ?r = MethodPost" "rq_Body ?r = body"
    using t by (simp_all add: tenant_request_def parseTenantPath_tenant)
  have action: "actionFor ''telemetry'' MethodPost = Some ActionTelemetryWrite" by code_simp
  obtain res s1 where p: "permit env ?r (\<lambda>_. t) ActionTelemetryWrite s = (res, s1)" by (metis prod.exhaust)
  have handler: "tenant_handler L env ''telemetry'' = handleTelemetry L env" by (simp add: tenant_handler_def)
  have h': "(case res of Inl resp \<Rightarrow> (resp, s1) | Inr _ \<Rightarrow> handleTelemetry L env ?r t s1) = (resp, s')"
    using h p by (simp add: handleTenantScoped_def authorize_def r action handler split: sum.splits)
  show ?thesis
    using p
  proof (cases rule: permit_cases)
    case (granted subj)
    then show ?thesis using h'
      by (auto simp: handleTelemetry_def r decodeJSON_def writeError_def split: sum.splits)
  next
    case (refused resp')
    then show ?thesis using h' by auto
  next
    case (denied resp' subj)
    then show ?thesis using h' denied_telemetry [OF denied_recorded(1) [OF denied(4)]] by auto
  qed
qed

lemma api_push_cases:
  assumes ok: "pushable L enc J t r" and push: "api_push L enc J base creds t r w = (err, w')"
  shows "reports_at t w' = (if err = None then reports_at t w @ [r] else reports_at t w)"
proof (cases "enc_payload J (PayReport r)")
  case (Inl e)
  then show ?thesis using push by (auto simp: api_push_def Client_PushTelemetry_def doJSON_def)
next
  case (Inr body)
  have t: "plain_id t" "Report_TenantID r = t" and dec: "dec_report L body = Inr r" and rd: "rd_report J (enc (Some (BodyReport r))) = Inr r"
    using ok Inr by (auto simp: pushable_def)
  obtain envs s where w: "w = (envs, s)" by (cases w)
  have send: "send (api_client L enc base creds) MethodPost (tenantPath t ''telemetry'') [(''Content-Type'', ''application/json'')] body (envs, s) =
     (case envs of
        [] \<Rightarrow> (Inl (RequestFailed MethodPost (tenantPath t ''telemetry'') ''connection refused''), (envs, s))
      | env # envs \<Rightarrow> (case handleTenantScoped L env (tenant_request creds MethodPost t ''telemetry'' [] [(''Content-Type'', ''application/json'')] body) s of
            (resp, s) \<Rightarrow> (Inr (wire_reply enc resp), (envs, s))))"
    by (rule send_api_plain [OF t(1) plain_telemetry(1)])
  show ?thesis
  proof (cases envs)
    case Nil
    then show ?thesis using push by (auto simp: api_push_def Client_PushTelemetry_def doJSON_def Inr send [unfolded Nil] w Nil)
  next
    case (Cons env envs')
    obtain resp s1 where h: "handleTenantScoped L env (tenant_request creds MethodPost t ''telemetry'' [] [(''Content-Type'', ''application/json'')] body) s = (resp, s1)"
      by (metis prod.exhaust)
    have pushed: "(err, w') = (if rs_Status resp \<noteq> StatusCreated then (Some ''refused'', (envs', s1))
        else (case rd_report J (enc (rs_Body resp)) of Inl _ \<Rightarrow> (Some ''refused'', (envs', s1)) | Inr _ \<Rightarrow> (None, (envs', s1))))"
      using push by (simp add: api_push_def Client_PushTelemetry_def doJSON_def Inr send [unfolded Cons] w Cons h wire_reply_def split: sum.splits if_splits)
    from scoped_telemetry [OF t(1) h] show ?thesis
    proof (elim disjE exE conjE)
      fix report created m
      assume a: "dec_report L body = Inr report" "resp = json_response StatusCreated (BodyReport created)" "s1 = s\<lparr>srv_store := m\<rparr>"
        "RecordTelemetry (api_uc L) (env_ctx env) (env_store1 env) (env_store2 env) (report\<lparr>Report_TenantID := t\<rparr>) (srv_store s) = Inr (created, m)"
      have same: "report\<lparr>Report_TenantID := t\<rparr> = r" using a(1) dec t(2) by auto
      have "Report_Sanitized (api_uc L) (env_store1 env) r = r" using ok ready_sanitized by (simp add: pushable_def)
      then have "created = r \<and> log_of (mem_telemetry m) t = log_of (mem_telemetry (srv_store s)) t @ [r]"
        using a(4) t(2) unfolding same
        by (auto simp: RecordTelemetry_def with_ctx_def bind_def lift_err_def check_def Let_def auditLocked_def append_log_def log_of_def
            split: if_splits sum.splits option.splits)
      then show ?thesis using pushed a(2,3) rd by (simp add: json_response_def reports_at_def w)
    next
      assume "rs_Status resp \<noteq> StatusCreated" "mem_telemetry (srv_store s1) = mem_telemetry (srv_store s)"
      then show ?thesis using pushed by (simp add: reports_at_def w)
    qed
  qed
qed

interpretation api_sink: telemetry_sink "api_push L enc J base creds" "reports_at t" "pushable L enc J t" for L :: "'j api_lib" and enc J base creds t
  by unfold_locales (auto simp: pushable_def dest: api_push_cases [rotated])


section \<open>Watching a configuration over the API\<close>

lemma watch_query:
  fixes target since
  assumes "TrimSpace target = target"
  shows "\<exists>m. watch_path t resource target since timeout = tenantPath t resource @ CHR ''?'' # Values_Encode m \<and> gm_ok m \<and>
           gm_default [] m ''target_id'' = target \<and> gm_default [] m ''since_version'' = since"
  by (auto simp: watch_path_def Let_def gm_ok_def gm_default_def)


section \<open>Samples\<close>

definition sample_client_codec :: client_codec where
  "sample_client_codec = \<lparr>enc_payload = (\<lambda>_. Inr [1]), dec_problem = (\<lambda>_. []), fmt_time = (\<lambda>_. []),
     rd_info = (\<lambda>_. Inl []), rd_session = (\<lambda>_. Inl []), rd_key = (\<lambda>_. Inl []), rd_approval
     = (\<lambda>_. Inl []), rd_tenant = (\<lambda>_. Inl []), rd_device = (\<lambda>_. Inl []), rd_node =
     (\<lambda>_. Inl []), rd_inventory = (\<lambda>_. Inl []), rd_events = (\<lambda>_. Inl []), rd_configs =
     (\<lambda>_. Inl []), rd_config = (\<lambda>_. Inr sample_stored), rd_signeds = (\<lambda>_. Inl []),
     rd_signed = (\<lambda>_. Inl []), rd_report = (\<lambda>_. Inr sample_telemetry), rd_reports = (\<lambda>_.
     Inl []), rd_decision = (\<lambda>_. Inl []), rd_rule = (\<lambda>_. Inl []), rd_rules = (\<lambda>_. Inl []),
     rd_issued = (\<lambda>_. Inl []), rd_records = (\<lambda>_. Inl []), rd_record = (\<lambda>_. Inl []), rd_crl
     = (\<lambda>_. Inl []), rd_status = (\<lambda>_. Inl [])\<rparr>"

definition sample_creds :: Credentials where
  "sample_creds = \<lparr>Cred_TenantID = ''t'', Cred_ActorID = ''u'', Cred_Roles = [RoleAgent], Cred_BearerToken = []\<rparr>"

definition sample_push_api :: "string api_lib" where
  "sample_push_api = sample_api\<lparr>dec_report := (\<lambda>_. Inr sample_telemetry)\<rparr>"

definition sample_api_sync :: "api_world sync_client" where
  "sample_api_sync = \<lparr>cl_Configs = (\<lambda>_ w. (Inr [], w)),
     cl_PushTelemetry = api_push sample_push_api (\<lambda>_. []) sample_client_codec ''http://c'' sample_creds, cl_WatchConfig = (\<lambda>_ _ _ w. (Inr None, w)),
     cl_SignedConfigs = (\<lambda>_ w. (Inr [], w)), cl_WatchSignedConfig = (\<lambda>_ _ _ w. (Inr None, w)),
     cl_ConfigSigningKey = (\<lambda>w. (Inl [], w)), cl_CertificateRevocationList = (\<lambda>_ w. (Inl [], w))\<rparr>"

definition sample_api_service :: "api_world Service" where
  "sample_api_service = \<lparr>svc_cfg = sample_config_cfg, svc_switchRuntime = None, svc_transportApply = None, svc_telemetryQueue = Some sample_queue,
     svc_snapshot = svc_snapshot sample_service, svc_cache = None\<rparr>"

lemma sample_plain: "plain_id ''t''" "plain_creds sample_creds" "Allowed NewAuthorizer \<lparr>Subject_ID = ''u'', Subject_TenantID = ''t'', Subject_Roles = [RoleAgent]\<rparr>
    \<lparr>AuthRequest_TenantID = ''t'', AuthRequest_Action = ActionTelemetryWrite\<rparr> = Inr True"
  by code_simp+

lemma sample_telemetry_facts:
  "sample_telemetry = Report_Sanitized (io_uc sample_queue_io) (se_now sample_queue_env) sample_telemetry"
  "Report_Validate sample_telemetry = Inr ()" "finite_metrics sample_telemetry" "Report_TenantID sample_telemetry = ''t''"
  by (code_simp, code_simp, code_simp, code_simp)



end
