(* ===== verification/Node_Service.thy ===== *)
theory Node_Service
  imports Store
begin

text \<open>
  The service of a network node: internal/node/service.go.

  A node keeps a snapshot of itself, applies the configurations the control plane has for it and reports its
  health. The control client is a record of functions over the state of the world \<open>'w\<close>. The loop is a
  function of the schedule of its rounds: what the context answers after each synchronisation and whether
  the timer or the end of the context is taken. The lock of the service is held by each method that
  accesses the snapshot from start to end, and is not modelled.
\<close>

section \<open>The snapshot\<close>

record NodeSnapshot =
  node_TenantID :: string
  node_NodeID :: string
  node_Role :: string
  node_Region :: string
  node_Endpoint :: string
  node_Healthy :: bool
  node_ConfigVersion :: string
  node_UpdatedAt :: time

datatype node_error =
    NodeSnapTenantRequired
  | NodeSnapIDRequired
  | NodeSnapRoleRequired
  | NodeSnapRoleUnsupported string
  | NodeSnapRegionRequired
  | NodeConfigInvalid domain_error
  | NodeConfigTenant string string
  | NodeConfigTarget string string
  | NodeConfigHealthy string
  | NodeClientRequired
  | NodeWatchClientRequired
  | NodeIntervalPositive
  | FetchNodeConfigs string
  | WatchNodeConfig string
  | PushHeartbeat string

definition validNodeRole :: "string \<Rightarrow> bool" where
  "validNodeRole role \<longleftrightarrow> role \<in> {NodeChinaEntry, NodeOverseasEdge, NodeCore, NodeEgress}"

definition NodeSnapshot_Validate :: "NodeSnapshot \<Rightarrow> node_error + unit" where
  "NodeSnapshot_Validate s =
     check (is_blank (node_TenantID s)) NodeSnapTenantRequired (
     check (is_blank (node_NodeID s)) NodeSnapIDRequired (
     check (node_Role s = []) NodeSnapRoleRequired (
     check (\<not> validNodeRole (node_Role s)) (NodeSnapRoleUnsupported (node_Role s)) (
     check (is_blank (node_Region s)) NodeSnapRegionRequired (Inr ())))))"

definition NewNodeService :: "time \<Rightarrow> NodeSnapshot \<Rightarrow> node_error + NodeSnapshot" where
  "NewNodeService now snapshot =
     bind (NodeSnapshot_Validate snapshot) (\<lambda>_.
     Inr (if IsZero (node_UpdatedAt snapshot) then snapshot\<lparr>node_UpdatedAt := now\<rparr> else snapshot))"

section \<open>Configurations\<close>

definition ParseBool :: "string \<Rightarrow> bool option" where
  \<comment> \<open>strconv.ParseBool\<close>
  "ParseBool s =
     (if s \<in> {''1'', ''t'', ''T'', ''true'', ''TRUE'', ''True''} then Some True
      else if s \<in> {''0'', ''f'', ''F'', ''false'', ''FALSE'', ''False''} then Some False else None)"

definition bundle_value :: "ConfigBundle \<Rightarrow> string \<Rightarrow> string" where
  \<comment> \<open>reading the map of values, which may be nil\<close>
  "bundle_value bundle key = gm_default [] (case ConfigBundle_Values bundle of None \<Rightarrow> [] | Some m \<Rightarrow> m) key"

definition Node_ApplyConfig :: "time \<Rightarrow> ConfigBundle \<Rightarrow> NodeSnapshot \<Rightarrow> node_error option \<times> NodeSnapshot" where
  "Node_ApplyConfig now bundle s =
     (case ConfigBundle_Validate bundle of
        Inl e \<Rightarrow> (Some (NodeConfigInvalid e), s)
      | Inr _ \<Rightarrow>
      if ConfigBundle_TenantID bundle \<noteq> node_TenantID s then (Some (NodeConfigTenant (ConfigBundle_TenantID bundle) (node_TenantID s)), s)
      else if ConfigBundle_TargetID bundle \<noteq> node_NodeID s then (Some (NodeConfigTarget (ConfigBundle_TargetID bundle) (node_NodeID s)), s)
      else
        let endpoint = TrimSpace (bundle_value bundle ''endpoint'');
            s = (if endpoint \<noteq> [] then s\<lparr>node_Endpoint := endpoint\<rparr> else s);
            region = TrimSpace (bundle_value bundle ''region'');
            s = (if region \<noteq> [] then s\<lparr>node_Region := region\<rparr> else s);
            rawHealthy = TrimSpace (bundle_value bundle ''healthy'') in
        case (if rawHealthy = [] then Some (node_Healthy s) else ParseBool rawHealthy) of
          None \<Rightarrow> (Some (NodeConfigHealthy rawHealthy), s)
        | Some healthy \<Rightarrow>
            (None, s\<lparr>node_Healthy := healthy, node_ConfigVersion := ConfigBundle_Version bundle, node_UpdatedAt := now\<rparr>))"

fun node_select :: "string \<Rightarrow> ConfigBundle option \<Rightarrow> ConfigBundle list \<Rightarrow> ConfigBundle option" where
  \<comment> \<open>the loop of selectConfig\<close>
  "node_select targetID selected [] = selected"
| "node_select targetID selected (candidate # rest) =
     (if ConfigBundle_TargetID candidate \<noteq> targetID then node_select targetID selected rest
      else node_select targetID
        (case selected of
           None \<Rightarrow> Some candidate
         | Some best \<Rightarrow> if ConfigBundle_CreatedAt best < ConfigBundle_CreatedAt candidate \<or> ConfigBundle_Version best < ConfigBundle_Version candidate
                        then Some candidate else Some best) rest)"

definition Node_selectConfig :: "ConfigBundle list \<Rightarrow> string \<Rightarrow> ConfigBundle option" where
  "Node_selectConfig configs targetID = node_select targetID None configs"

section \<open>Synchronisation\<close>

record 'w node_client =
  nc_Configs :: "string \<Rightarrow> 'w \<Rightarrow> (string + ConfigBundle list) \<times> 'w"
  nc_WatchConfig :: "string \<Rightarrow> string \<Rightarrow> string \<Rightarrow> 'w \<Rightarrow> (string + ConfigBundle option) \<times> 'w"
  nc_PushNodeHeartbeat :: "string \<Rightarrow> NodeHeartbeat \<Rightarrow> 'w \<Rightarrow> (string + Node) \<times> 'w"

definition observeControlNode :: "time \<Rightarrow> Node \<Rightarrow> NodeSnapshot \<Rightarrow> NodeSnapshot" where
  "observeControlNode now updated s =
     (if Node_TenantID updated \<noteq> [] \<and> Node_TenantID updated \<noteq> node_TenantID s then s
      else if Node_ID updated \<noteq> [] \<and> Node_ID updated \<noteq> node_NodeID s then s
      else
        let s = (if Node_Endpoint updated \<noteq> [] then s\<lparr>node_Endpoint := Node_Endpoint updated\<rparr> else s);
            s = s\<lparr>node_Healthy := Node_Healthy updated\<rparr>
        in s\<lparr>node_UpdatedAt := (if \<not> IsZero (Node_UpdatedAt updated) then Node_UpdatedAt updated else now)\<rparr>)"

definition heartbeat_of :: "NodeSnapshot \<Rightarrow> NodeHeartbeat" where
  "heartbeat_of s = \<lparr>NodeHeartbeat_TenantID = node_TenantID s, NodeHeartbeat_NodeID = node_NodeID s,
     NodeHeartbeat_Healthy = node_Healthy s, NodeHeartbeat_Endpoint = node_Endpoint s\<rparr>"

definition apply_and_push :: "time \<Rightarrow> time \<Rightarrow> 'w node_client \<Rightarrow> ConfigBundle option \<Rightarrow> NodeSnapshot \<Rightarrow> 'w \<Rightarrow> node_error option \<times> NodeSnapshot \<times> 'w" where
  \<comment> \<open>the common end of SyncOnce and WatchConfigOnce\<close>
  "apply_and_push now now' client selected s w =
     (case (case selected of None \<Rightarrow> (None, s) | Some bundle \<Rightarrow> Node_ApplyConfig now bundle s) of
        (Some e, s) \<Rightarrow> (Some e, s, w)
      | (None, s) \<Rightarrow>
          (case nc_PushNodeHeartbeat client (node_TenantID s) (heartbeat_of s) w of
             (Inl e, w) \<Rightarrow> (Some (PushHeartbeat e), s, w)
           | (Inr updated, w) \<Rightarrow> (None, observeControlNode now' updated s, w)))"

definition Node_SyncOnce :: "time \<Rightarrow> time \<Rightarrow> 'w node_client option \<Rightarrow> NodeSnapshot \<Rightarrow> 'w \<Rightarrow> node_error option \<times> NodeSnapshot \<times> 'w" where
  "Node_SyncOnce now now' client s w =
     (case client of
        None \<Rightarrow> (Some NodeClientRequired, s, w)
      | Some c \<Rightarrow>
          (case nc_Configs c (node_TenantID s) w of
             (Inl e, w) \<Rightarrow> (Some (FetchNodeConfigs e), s, w)
           | (Inr configs, w) \<Rightarrow> apply_and_push now now' c (Node_selectConfig configs (node_NodeID s)) s w))"

definition Node_WatchConfigOnce :: "time \<Rightarrow> time \<Rightarrow> 'w node_client option \<Rightarrow> NodeSnapshot \<Rightarrow> 'w \<Rightarrow> node_error option \<times> NodeSnapshot \<times> 'w" where
  "Node_WatchConfigOnce now now' client s w =
     (case client of
        None \<Rightarrow> (Some NodeWatchClientRequired, s, w)
      | Some c \<Rightarrow>
          (case nc_WatchConfig c (node_TenantID s) (node_NodeID s) (node_ConfigVersion s) w of
             (Inl e, w) \<Rightarrow> (Some (WatchNodeConfig e), s, w)
           | (Inr changed, w) \<Rightarrow> apply_and_push now now' c changed s w))"

record node_round =
  nr_now :: time
  nr_now' :: time
  nr_err :: "ctx_error option" \<comment> \<open>ctx.Err() after the synchronisation\<close>
  nr_done :: "ctx_error option" \<comment> \<open>the context is done before the timer fires\<close>

fun node_rounds :: "'w node_client \<Rightarrow> node_round list \<Rightarrow> NodeSnapshot \<Rightarrow> 'w \<Rightarrow> ctx_error option \<times> NodeSnapshot \<times> 'w" where
  \<comment> \<open>None: the loop is still running after these rounds\<close>
  "node_rounds client [] s w = (None, s, w)"
| "node_rounds client (r # rs) s w =
     (case Node_SyncOnce (nr_now r) (nr_now' r) (Some client) s w of
        (err, s, w) \<Rightarrow>
          if err \<noteq> None \<and> nr_err r \<noteq> None then (nr_err r, s, w)
          else (case nr_done r of Some e \<Rightarrow> (Some e, s, w) | None \<Rightarrow> node_rounds client rs s w))"

definition Node_RunSyncLoop :: "'w node_client option \<Rightarrow> duration \<Rightarrow> node_round list \<Rightarrow> NodeSnapshot \<Rightarrow> 'w \<Rightarrow>
    (node_error + ctx_error option) \<times> NodeSnapshot \<times> 'w" where
  "Node_RunSyncLoop client interval rounds s w =
     (case client of
        None \<Rightarrow> (Inl NodeClientRequired, s, w)
      | Some c \<Rightarrow>
          if interval \<le> 0 then (Inl NodeIntervalPositive, s, w)
          else (case node_rounds c rounds s w of (err, s, w) \<Rightarrow> (Inr err, s, w)))"

section \<open>What a configuration changes\<close>

definition same_node :: "NodeSnapshot \<Rightarrow> NodeSnapshot \<Rightarrow> bool" where
  "same_node s s' \<longleftrightarrow> node_TenantID s' = node_TenantID s \<and> node_NodeID s' = node_NodeID s \<and> node_Role s' = node_Role s"

lemma same_node_refl [simp]: "same_node s s"
  by (simp add: same_node_def)

lemma same_node_trans: "same_node s s1 \<Longrightarrow> same_node s1 s2 \<Longrightarrow> same_node s s2"
  by (simp add: same_node_def)

lemma trimmed_not_blank: "TrimSpace x \<noteq> [] \<Longrightarrow> \<not> is_blank (TrimSpace x)"
  by (simp add: is_blank_def)

lemma Node_ApplyConfig_keeps:
  assumes "Node_ApplyConfig now bundle s = (err, s')"
  shows "same_node s s' \<and> (NodeSnapshot_Validate s = Inr () \<longrightarrow> NodeSnapshot_Validate s' = Inr ())"
  using assms trimmed_not_blank
  by (auto simp: Node_ApplyConfig_def Let_def same_node_def NodeSnapshot_Validate_def split: sum.splits if_splits option.splits)

lemma observeControlNode_keeps:
  "same_node s (observeControlNode now updated s)"
  "NodeSnapshot_Validate s = Inr () \<Longrightarrow> NodeSnapshot_Validate (observeControlNode now updated s) = Inr ()"
  by (auto simp: observeControlNode_def Let_def same_node_def NodeSnapshot_Validate_def)

lemma apply_and_push_keeps:
  assumes "apply_and_push now now' c selected s w = (err, s', w')"
  shows "same_node s s' \<and> (NodeSnapshot_Validate s = Inr () \<longrightarrow> NodeSnapshot_Validate s' = Inr ())"
proof -
  obtain e1 s1 where a: "(case selected of None \<Rightarrow> (None, s) | Some bundle \<Rightarrow> Node_ApplyConfig now bundle s) = (e1, s1)" by (metis prod.exhaust)
  then have k: "same_node s s1 \<and> (NodeSnapshot_Validate s = Inr () \<longrightarrow> NodeSnapshot_Validate s1 = Inr ())"
    by (cases selected) (auto dest: Node_ApplyConfig_keeps)
  have "s' = s1 \<or> (\<exists>updated. s' = observeControlNode now' updated s1)"
    using assms a by (auto simp: apply_and_push_def split: option.splits sum.splits prod.splits)
  with k observeControlNode_keeps same_node_trans show ?thesis by metis
qed

lemma Node_SyncOnce_keeps:
  assumes "Node_SyncOnce now now' client s w = (err, s', w')"
  shows "same_node s s' \<and> (NodeSnapshot_Validate s = Inr () \<longrightarrow> NodeSnapshot_Validate s' = Inr ())"
  using assms by (auto simp: Node_SyncOnce_def dest!: apply_and_push_keeps split: option.splits sum.splits prod.splits)

lemma Node_WatchConfigOnce_keeps:
  assumes "Node_WatchConfigOnce now now' client s w = (err, s', w')"
  shows "same_node s s' \<and> (NodeSnapshot_Validate s = Inr () \<longrightarrow> NodeSnapshot_Validate s' = Inr ())"
  using assms by (auto simp: Node_WatchConfigOnce_def dest!: apply_and_push_keeps split: option.splits sum.splits prod.splits)

lemma node_rounds_keeps:
  "node_rounds client rs s w = (err, s', w') \<Longrightarrow> same_node s s' \<and> (NodeSnapshot_Validate s = Inr () \<longrightarrow> NodeSnapshot_Validate s' = Inr ())"
proof (induction rs arbitrary: s w)
  case (Cons r rs)
  obtain e1 s1 w1 where sync: "Node_SyncOnce (nr_now r) (nr_now' r) (Some client) s w = (e1, s1, w1)" by (metis prod.exhaust)
  note k = Node_SyncOnce_keeps [OF sync]
  show ?case
    using Cons.prems Cons.IH [of s1 w1] k same_node_trans
    by (auto simp: sync split: if_splits option.splits)
qed simp

text \<open>
  A configuration is not applied as a whole: when its value for healthy is not a boolean, the endpoint and
  the region have been taken over although the configuration is refused and its version is not.
\<close>

lemma refused_config_changes:
  assumes "Node_ApplyConfig now bundle s = (Some (NodeConfigHealthy raw), s')"
  shows "s' = s\<lparr>node_Endpoint := node_Endpoint s', node_Region := node_Region s'\<rparr> \<and>
         (TrimSpace (bundle_value bundle ''endpoint'') \<noteq> [] \<longrightarrow> node_Endpoint s' = TrimSpace (bundle_value bundle ''endpoint''))"
  using assms by (auto simp: Node_ApplyConfig_def Let_def split: sum.splits if_splits option.splits)

section \<open>A node and the repository\<close>

definition repository_client :: "time \<Rightarrow> time \<Rightarrow> Memory node_client" where
  \<comment> \<open>a client whose requests always reach the repository\<close>
  "repository_client clock clock' =
     \<lparr>nc_Configs = (\<lambda>t m. (case Memory_Configs None t m of Inl _ \<Rightarrow> Inl ''not found'' | Inr cs \<Rightarrow> Inr cs, m)),
      nc_WatchConfig = (\<lambda>t target since m. (Inr None, m)),
      nc_PushNodeHeartbeat = (\<lambda>t hb m. case RecordNodeHeartbeat None clock clock' (hb\<lparr>NodeHeartbeat_TenantID := t\<rparr>) m of
         Inl _ \<Rightarrow> (Inl ''refused'', m) | Inr (n, m) \<Rightarrow> (Inr n, m))\<rparr>"

definition stored_node :: "Memory \<Rightarrow> NodeSnapshot \<Rightarrow> Node option" where
  "stored_node m s = gm_get (inner (mem_nodes m) (node_TenantID s)) (node_NodeID s)"

lemma node_rounds_end:
  "node_rounds client rs s w = (None, s', w') \<Longrightarrow> r \<in> set rs \<Longrightarrow> nr_done r = None"
proof (induction rs arbitrary: s w)
  case (Cons r' rs)
  obtain e1 s1 w1 where sync: "Node_SyncOnce (nr_now r') (nr_now' r') (Some client) s w = (e1, s1, w1)" by (metis prod.exhaust)
  then have "nr_done r' = None \<and> node_rounds client rs s1 w1 = (None, s', w')"
    using Cons.prems(1) by (auto simp: sync split: if_splits option.splits)
  with Cons.prems(2) Cons.IH [of s1 w1] show ?case by auto
qed simp

text \<open>
  Whatever the control plane answers, the synchronisation loop of a node keeps its identity, which is its
  tenant, id and role, and a valid snapshot, through failed rounds as well, and it returns once
  its context is done.
\<close>

lemma node_loop_keeps_identity:
  assumes new: "NewNodeService now s0 = Inr s"
    and run: "Node_RunSyncLoop client interval rounds s w = (res, s', w')"
  shows "same_node s0 s' \<and> NodeSnapshot_Validate s' = Inr () \<and>
         (res = Inr None \<longrightarrow> (\<forall>r\<in>set rounds. nr_done r = None))"
proof -
  have s: "same_node s0 s" "NodeSnapshot_Validate s = Inr ()"
    using new by (cases "IsZero (node_UpdatedAt s0)"; auto simp: NewNodeService_def same_node_def NodeSnapshot_Validate_def)+
  show ?thesis
  proof (cases "client = None \<or> interval \<le> 0")
    case True
    then show ?thesis using run s by (auto simp: Node_RunSyncLoop_def split: option.splits)
  next
    case False
    then obtain c err where loop: "node_rounds c rounds s w = (err, s', w')" "res = Inr err"
      using run by (auto simp: Node_RunSyncLoop_def split: option.splits prod.splits)
    show ?thesis
      using node_rounds_keeps [OF loop(1)] node_rounds_end [of c rounds s w s' w'] loop s same_node_trans [of s0 s s'] by simp
  qed
qed

lemma heartbeat_recorded:
  assumes ok: "store_ok m" and beat: "RecordNodeHeartbeat ctx clock clock' hb m = Inr (n, m')"
  shows "Node_TenantID n = NodeHeartbeat_TenantID hb \<and> Node_ID n = NodeHeartbeat_NodeID hb \<and> Node_Healthy n = NodeHeartbeat_Healthy hb \<and>
         (NodeHeartbeat_Endpoint hb \<noteq> [] \<longrightarrow> Node_Endpoint n = NodeHeartbeat_Endpoint hb) \<and> Node_UpdatedAt n = clock \<and>
         gm_get (inner (mem_nodes m') (NodeHeartbeat_TenantID hb)) (NodeHeartbeat_NodeID hb) = Some n"
proof -
  obtain n0 where n0: "gm_get (inner (mem_nodes m) (NodeHeartbeat_TenantID hb)) (NodeHeartbeat_NodeID hb) = Some n0" "n = beat clock hb n0"
    and m': "mem_nodes m' = put_in (NodeHeartbeat_TenantID hb) (NodeHeartbeat_NodeID hb) n (mem_nodes m)"
    using beat by (rule RecordNodeHeartbeat_InrD) (simp add: auditLocked_def Let_def)
  have "table_ok (tenant_in m) node_at (mem_nodes m)" using ok by (rule store_okD)
  from table_okD [OF this n0(1)] n0(2) m' show ?thesis by (simp add: beat_def)
qed

text \<open>
  C40: After a successful synchronisation with the repository the node and the control plane agree: the
  repository's record of the node has the health and the endpoint of the node's snapshot, and the time of
  the heartbeat; the snapshot has the version of the configuration selected for the node.
\<close>

theorem node_sync_agrees:
  assumes ok: "store_ok m" and clock: "\<not> IsZero clock"
    and sync: "Node_SyncOnce now now' (Some (repository_client clock clock')) s m = (None, s', m')"
  shows "\<exists>n cs. stored_node m' s' = Some n \<and> Node_Healthy n = node_Healthy s' \<and> Node_UpdatedAt n = node_UpdatedAt s' \<and> node_UpdatedAt s' = clock \<and>
           Node_Endpoint n = node_Endpoint s' \<and>
           Memory_Configs None (node_TenantID s) m = Inr cs \<and>
           node_ConfigVersion s' = (case Node_selectConfig cs (node_NodeID s) of None \<Rightarrow> node_ConfigVersion s | Some b \<Rightarrow> ConfigBundle_Version b)"
proof -
  obtain cs where cs: "Memory_Configs None (node_TenantID s) m = Inr cs"
    and ap: "apply_and_push now now' (repository_client clock clock') (Node_selectConfig cs (node_NodeID s)) s m = (None, s', m')"
    using sync by (auto simp: Node_SyncOnce_def repository_client_def split: sum.splits)
  let ?sel = "Node_selectConfig cs (node_NodeID s)"
  obtain s1 n where s1: "(case ?sel of None \<Rightarrow> (None, s) | Some bundle \<Rightarrow> Node_ApplyConfig now bundle s) = (None, s1)"
    and beat: "RecordNodeHeartbeat None clock clock' (heartbeat_of s1) m = Inr (n, m')"
    and s': "s' = observeControlNode now' n s1"
    using ap by (auto simp: apply_and_push_def repository_client_def heartbeat_of_def split: option.splits sum.splits prod.splits)
  have version: "node_ConfigVersion s1 = (case ?sel of None \<Rightarrow> node_ConfigVersion s | Some b \<Rightarrow> ConfigBundle_Version b)"
    using s1 by (auto simp: Node_ApplyConfig_def Let_def split: option.splits sum.splits if_splits)
  note n = heartbeat_recorded [OF ok beat]
  show ?thesis
    using n clock cs version
    by (intro exI [of _ n] exI [of _ cs])
      (auto simp: s' observeControlNode_def heartbeat_of_def stored_node_def Let_def)
qed

definition sample_node_snapshot :: NodeSnapshot where
  "sample_node_snapshot = \<lparr>node_TenantID = ''t1'', node_NodeID = ''n1'', node_Role = NodeEgress, node_Region = ''hk'', node_Endpoint = ''1.2.3.4:443'',
     node_Healthy = True, node_ConfigVersion = [], node_UpdatedAt = 0\<rparr>"

definition failing_node_client :: "nat node_client" where
  "failing_node_client = \<lparr>nc_Configs = (\<lambda>_ n. (Inl ''down'', n + 1)), nc_WatchConfig = (\<lambda>_ _ _ n. (Inl ''down'', n)),
     nc_PushNodeHeartbeat = (\<lambda>_ _ n. (Inl ''down'', n))\<rparr>"

theorem node_sync_agrees_witness:
  "\<exists>s' m' n. Node_SyncOnce 20 21 (Some (repository_client 22 23)) sample_node_snapshot sample_m2 = (None, s', m') \<and>
     stored_node m' s' = Some n \<and> Node_Endpoint n = node_Endpoint s' \<and> node_UpdatedAt s' = 22"
proof -
  have "store_ok sample_m1" using sample_calls(1) store_ok_NewMemory by (rule op_keeps(1))
  with sample_calls(2) have ok: "store_ok sample_m2" by (rule op_keeps(3))
  have "fst (Node_SyncOnce 20 21 (Some (repository_client 22 23)) sample_node_snapshot sample_m2) = None" by code_simp
  then obtain s' m' where sync: "Node_SyncOnce 20 21 (Some (repository_client 22 23)) sample_node_snapshot sample_m2 = (None, s', m')"
    by (metis prod.collapse)
  have "\<not> IsZero 22" by (simp add: IsZero_def)
  from node_sync_agrees [OF ok this sync] sync show ?thesis by blast
qed

end
