(* ===== verification/Gateway.thy ===== *)
theory Gateway
  imports Policy Go_Text
begin

text \<open>
  The Linux gateway: internal/linuxgw/config.go, egress_plan.go, observation_plan.go, apply.go and observed_apply.go.

  A gateway configuration is rendered to nftables, dnsmasq and ip commands, which the apply functions write and run;
  plans turn policy rules and observed destinations into route rules. A runner takes a command and a state of the
  world to an error or none and the next state. \<open>uc\<close> is the case mapping of non-ASCII texts, \<open>uq\<close> the quoting of
  texts beyond ASCII.
\<close>

section \<open>Words of a command line and printed addresses\<close>

function fields_from :: "string \<Rightarrow> string \<Rightarrow> string list" where
  \<comment> \<open>the word being read, and what follows\<close>
  "fields_from cur s =
     (case strip_one space_encodings s of
        Some r \<Rightarrow> (if cur = [] then [] else [cur]) @ fields_from [] r
      | None \<Rightarrow> (case s of [] \<Rightarrow> (if cur = [] then [] else [cur]) | c # s' \<Rightarrow> fields_from (cur @ [c]) s'))"
  by pat_completeness auto
termination by (relation "measure (\<lambda>(_, s). length s)") (auto dest: strip_one_shorter)

declare fields_from.simps [simp del]

definition Fields :: "string \<Rightarrow> string list" where
  "Fields s = fields_from [] s"

definition ip_groups :: "ip \<Rightarrow> nat list" where
  "ip_groups p = map (\<lambda>i. 256 * unat (p ! (2 * i)) + unat (p ! (2 * i + 1))) [0..<8]"

fun show_hex :: "nat \<Rightarrow> string" where
  "show_hex n = (if n < 16 then [hex_digit n] else show_hex (n div 16) @ [hex_digit (n mod 16)])"

definition longest_zeros :: "nat list \<Rightarrow> (nat \<times> nat) option" where
  \<comment> \<open>the first longest run of at least two zero groups, as its start and end\<close>
  "longest_zeros gs =
     fold (\<lambda>i best. let l = length (takeWhile (\<lambda>g. g = 0) (drop i gs)) in
             if 2 \<le> l \<and> (case best of None \<Rightarrow> True | Some (a, b) \<Rightarrow> b - a < l) then Some (i, i + l) else best) [0..<length gs] None"

definition IP_String :: "ip \<Rightarrow> string" where
  "IP_String p =
     (case To4 p of
        Some q \<Rightarrow> join_char (CHR ''.'') (map (\<lambda>b. show_nat (unat b)) q)
      | None \<Rightarrow>
          (let gs = ip_groups p; hex = map show_hex gs in
           case longest_zeros gs of
             None \<Rightarrow> join_char (CHR '':'') hex
           | Some (a, b) \<Rightarrow> join_char (CHR '':'') (take a hex) @ ''::'' @ join_char (CHR '':'') (drop b hex)))"

section \<open>Route rules and configurations\<close>

record RouteRule =
  RouteRule_Name :: string
  RouteRule_Mark :: int
  RouteRule_MatchCIDR :: string
  RouteRule_Table :: int
  RouteRule_DestCIDR :: string
  RouteRule_Gateway :: string
  RouteRule_Interface :: string
  RouteRule_Preference :: int

record GatewayConfig =
  Gw_LANInterface :: string
  Gw_LANCIDR :: string
  Gw_DHCPRangeStart :: string
  Gw_DHCPRangeEnd :: string
  Gw_DNSListenAddress :: string
  Gw_DNSUpstreams :: "string list"
  Gw_TransparentProxyPort :: int
  Gw_RouteRules :: "RouteRule list"

datatype gateway_error =
    RouteRuleNameRequired
  | RouteRuleMark string | RouteRuleTable string | RouteRuleMatchCIDR string | RouteRuleDestination string
  | RouteRuleGateway string | RouteRuleInterface string
  | LANInterfaceRequired | LANCIDRInvalid | DHCPStartInvalid | DHCPEndInvalid | DNSListenInvalid
  | ProxyPortInvalid | DNSUpstreamInvalid string
  | EgressNodeRequired | EgressGatewayInvalid string | EgressInterfaceRequired string | EgressTableInvalid string
  | EgressDuplicate string
  | MarkBaseInvalid | PreferenceBaseInvalid | PlanDestinationInvalid
  | PolicyInvalid policy_error | EgressUnknown string string | ObservedIPRequired | DecisionEgressUnknown string string
  | GatewayRunnerRequired | GatewayWriterRequired | NftablesPathRequired | DNSMasqPathRequired
  | WriteNftables string | WriteDNSMasq string | ApplyNftables string | ApplyRoute string string | ReloadDNSMasq string
  | RollbackCommandFailed string string | RollbackAfter gateway_error gateway_error

definition RouteRule_Validate :: "RouteRule \<Rightarrow> gateway_error + unit" where
  "RouteRule_Validate r =
     check (RouteRule_Name r = []) RouteRuleNameRequired (
     check (RouteRule_Mark r \<le> 0) (RouteRuleMark (RouteRule_Name r)) (
     check (RouteRule_Table r \<le> 0) (RouteRuleTable (RouteRule_Name r)) (
     check (RouteRule_MatchCIDR r \<noteq> [] \<and> ParseCIDR (RouteRule_MatchCIDR r) = None) (RouteRuleMatchCIDR (RouteRule_Name r)) (
     check (ParseCIDR (RouteRule_DestCIDR r) = None) (RouteRuleDestination (RouteRule_Name r)) (
     check (RouteRule_Gateway r \<noteq> [] \<and> ParseIP (RouteRule_Gateway r) = None) (RouteRuleGateway (RouteRule_Name r)) (
     check (RouteRule_Interface r = []) (RouteRuleInterface (RouteRule_Name r)) (Inr ())))))))"

definition GatewayConfig_Validate :: "GatewayConfig \<Rightarrow> gateway_error + unit" where
  "GatewayConfig_Validate c =
     check (Gw_LANInterface c = []) LANInterfaceRequired (
     check (ParseCIDR (Gw_LANCIDR c) = None) LANCIDRInvalid (
     check (ParseIP (Gw_DHCPRangeStart c) = None) DHCPStartInvalid (
     check (ParseIP (Gw_DHCPRangeEnd c) = None) DHCPEndInvalid (
     check (ParseIP (Gw_DNSListenAddress c) = None) DNSListenInvalid (
     check (Gw_TransparentProxyPort c \<le> 0 \<or> Gw_TransparentProxyPort c > 65535) ProxyPortInvalid (
     bind (traverse (\<lambda>u. check (ParseIP u = None) (DNSUpstreamInvalid u) (Inr ())) (Gw_DNSUpstreams c)) (\<lambda>_.
     bind (traverse RouteRule_Validate (Gw_RouteRules c)) (\<lambda>_. Inr ()))))))))"

definition route_rule_less :: "bool \<Rightarrow> RouteRule \<Rightarrow> RouteRule \<Rightarrow> bool" where
  \<comment> \<open>the comparison of sortedRouteRules\<close>
  "route_rule_less reverse a b =
     (if RouteRule_Preference a = RouteRule_Preference b
      then (if reverse then RouteRule_Name a > RouteRule_Name b else RouteRule_Name a < RouteRule_Name b)
      else if reverse then RouteRule_Preference a > RouteRule_Preference b
      else RouteRule_Preference a < RouteRule_Preference b)"

definition sortedRouteRules :: "RouteRule list \<Rightarrow> bool \<Rightarrow> RouteRule list" where
  \<comment> \<open>sort.Slice may order rules with the same preference and name either way; a stable order is one of its answers\<close>
  "sortedRouteRules routeRules reverse = SliceStable (route_rule_less reverse) routeRules"

section \<open>Rendering\<close>

abbreviation nl :: string where "nl \<equiv> [char_of (10 :: nat)]"

definition hasPolicyMarkRules :: "RouteRule list \<Rightarrow> bool" where
  "hasPolicyMarkRules routeRules \<longleftrightarrow> list_ex (\<lambda>r. \<not> is_blank (RouteRule_MatchCIDR r)) routeRules"

definition nftCIDRSelector :: "string \<Rightarrow> string" where
  "nftCIDRSelector cidr =
     (case ParseCIDR cidr of
        Some (ip, _) \<Rightarrow> if To4 ip = None then ''ip6 daddr'' else ''ip daddr''
      | None \<Rightarrow> ''ip daddr'')"

definition mark_line :: "(string \<Rightarrow> string) \<Rightarrow> string \<Rightarrow> RouteRule \<Rightarrow> string" where
  \<comment> \<open>the body of the loop of RenderNftables\<close>
  "mark_line uq lan rule =
     (if RouteRule_MatchCIDR rule = [] then []
      else ''    iifname '' @ Quote uq lan @ '' '' @ nftCIDRSelector (RouteRule_MatchCIDR rule) @ '' '' @
           RouteRule_MatchCIDR rule @ '' meta mark set '' @ Itoa (RouteRule_Mark rule) @ nl)"

definition Gw_RenderNftables :: "(string \<Rightarrow> string) \<Rightarrow> GatewayConfig \<Rightarrow> gateway_error + string" where
  "Gw_RenderNftables uq c =
     bind (GatewayConfig_Validate c) (\<lambda>_.
     Inr (''table inet anixops {'' @ nl @
       (if hasPolicyMarkRules (Gw_RouteRules c) then
          ''  chain policy_mark {'' @ nl @
          ''    type filter hook prerouting priority mangle; policy accept;'' @ nl @
          concat (map (mark_line uq (Gw_LANInterface c)) (sortedRouteRules (Gw_RouteRules c) False)) @
          ''  }'' @ nl
        else []) @
       ''  chain prerouting {'' @ nl @
       ''    type nat hook prerouting priority dstnat; policy accept;'' @ nl @
       ''    iifname '' @ Quote uq (Gw_LANInterface c) @ '' tcp dport 1-65535 redirect to '' @ Itoa (Gw_TransparentProxyPort c) @ nl @
       ''    iifname '' @ Quote uq (Gw_LANInterface c) @ '' udp dport 1-65535 redirect to '' @ Itoa (Gw_TransparentProxyPort c) @ nl @
       ''  }'' @ nl @ ''}'' @ nl))"

definition RenderDNSMasq :: "GatewayConfig \<Rightarrow> gateway_error + string" where
  "RenderDNSMasq c =
     bind (GatewayConfig_Validate c) (\<lambda>_.
     Inr (''interface='' @ Gw_LANInterface c @ nl @ ''bind-interfaces'' @ nl @
          ''listen-address='' @ Gw_DNSListenAddress c @ nl @
          ''dhcp-range='' @ Gw_DHCPRangeStart c @ '','' @ Gw_DHCPRangeEnd c @ '',12h'' @ nl @
          concat (map (\<lambda>u. ''server='' @ u @ nl) (SliceStable (<) (Gw_DNSUpstreams c)))))"

definition rule_command :: "string \<Rightarrow> RouteRule \<Rightarrow> string" where
  "rule_command verb r = ''ip rule '' @ verb @ '' fwmark '' @ Itoa (RouteRule_Mark r) @ '' table '' @ Itoa (RouteRule_Table r) @
     '' priority '' @ Itoa (RouteRule_Preference r)"

definition route_command :: "string \<Rightarrow> RouteRule \<Rightarrow> string" where
  "route_command verb r = ''ip route '' @ verb @ '' '' @ RouteRule_DestCIDR r @
     (if RouteRule_Gateway r \<noteq> [] then '' via '' @ RouteRule_Gateway r else []) @
     '' dev '' @ RouteRule_Interface r @ '' table '' @ Itoa (RouteRule_Table r)"

definition Gw_RenderIPRouteCommands :: "GatewayConfig \<Rightarrow> gateway_error + string list" where
  "Gw_RenderIPRouteCommands c =
     bind (GatewayConfig_Validate c) (\<lambda>_.
     Inr (concat (map (\<lambda>r. [rule_command ''add'' r, route_command ''replace'' r]) (sortedRouteRules (Gw_RouteRules c) False))))"

definition RenderIPRouteRollbackCommands :: "GatewayConfig \<Rightarrow> gateway_error + string list" where
  "RenderIPRouteRollbackCommands c =
     bind (GatewayConfig_Validate c) (\<lambda>_.
     Inr (concat (map (\<lambda>r. [route_command ''del'' r, rule_command ''del'' r]) (sortedRouteRules (Gw_RouteRules c) True))))"

definition RenderRollbackCommands :: "GatewayConfig \<Rightarrow> gateway_error + string list" where
  "RenderRollbackCommands c =
     bind (GatewayConfig_Validate c) (\<lambda>_.
     bind (RenderIPRouteRollbackCommands c) (\<lambda>routeCommands.
     Inr ([''nft delete table inet anixops''] @ routeCommands @ [''systemctl reload dnsmasq''])))"

section \<open>Applying\<close>

type_synonym 'w runner = "string list \<Rightarrow> 'w \<Rightarrow> string option \<times> 'w" \<comment> \<open>the name of the program and its arguments\<close>
type_synonym 'w writer = "string \<Rightarrow> string \<Rightarrow> 'w \<Rightarrow> string option \<times> 'w"

record ApplyPaths =
  Paths_Nftables :: string
  Paths_DNSMasq :: string

definition runShellFields :: "'w runner \<Rightarrow> string \<Rightarrow> 'w \<Rightarrow> string option \<times> 'w" where
  "runShellFields run command w = (if Fields command = [] then (None, w) else run (Fields command) w)"

fun run_lines :: "(string \<Rightarrow> string \<Rightarrow> gateway_error) \<Rightarrow> 'w runner \<Rightarrow> string list \<Rightarrow> 'w \<Rightarrow> gateway_error option \<times> 'w" where
  \<comment> \<open>the loops of Rollback and apply over rendered commands\<close>
  "run_lines err run [] w = (None, w)"
| "run_lines err run (command # commands) w =
     (case runShellFields run command w of
        (Some e, w) \<Rightarrow> (Some (err command e), w)
      | (None, w) \<Rightarrow> run_lines err run commands w)"

definition Rollback :: "GatewayConfig \<Rightarrow> 'w runner option \<Rightarrow> 'w \<Rightarrow> gateway_error option \<times> 'w" where
  "Rollback c runner w =
     (case runner of
        None \<Rightarrow> (Some GatewayRunnerRequired, w)
      | Some run \<Rightarrow>
          (case RenderRollbackCommands c of
             Inl e \<Rightarrow> (Some e, w)
           | Inr commands \<Rightarrow> run_lines RollbackCommandFailed run commands w))"

definition maybeRollback :: "GatewayConfig \<Rightarrow> 'w runner option \<Rightarrow> bool \<Rightarrow> bool \<Rightarrow> gateway_error \<Rightarrow> 'w \<Rightarrow> gateway_error option \<times> 'w" where
  "maybeRollback c runner rollbackOnError applied applyErr w =
     (if \<not> rollbackOnError \<or> \<not> applied then (Some applyErr, w)
      else case Rollback c runner w of
             (Some rollbackErr, w) \<Rightarrow> (Some (RollbackAfter applyErr rollbackErr), w)
           | (None, w) \<Rightarrow> (Some applyErr, w))"

definition apply_config :: "(string \<Rightarrow> string) \<Rightarrow> GatewayConfig \<Rightarrow> ApplyPaths \<Rightarrow> 'w runner option \<Rightarrow> 'w writer option \<Rightarrow> bool \<Rightarrow> 'w \<Rightarrow>
    gateway_error option \<times> 'w" where
  "apply_config uq c paths runner writer rollbackOnError w =
     (case runner of None \<Rightarrow> (Some GatewayRunnerRequired, w) | Some run \<Rightarrow>
     (case writer of None \<Rightarrow> (Some GatewayWriterRequired, w) | Some write \<Rightarrow>
     if Paths_Nftables paths = [] then (Some NftablesPathRequired, w)
     else if Paths_DNSMasq paths = [] then (Some DNSMasqPathRequired, w)
     else
     (case Gw_RenderNftables uq c of Inl e \<Rightarrow> (Some e, w) | Inr nftables \<Rightarrow>
     (case RenderDNSMasq c of Inl e \<Rightarrow> (Some e, w) | Inr dnsmasq \<Rightarrow>
     (case Gw_RenderIPRouteCommands c of Inl e \<Rightarrow> (Some e, w) | Inr routeCommands \<Rightarrow>
     (case write (Paths_Nftables paths) nftables w of (Some e, w) \<Rightarrow> (Some (WriteNftables e), w) | (None, w) \<Rightarrow>
     (case write (Paths_DNSMasq paths) dnsmasq w of (Some e, w) \<Rightarrow> (Some (WriteDNSMasq e), w) | (None, w) \<Rightarrow>
     (case run [''nft'', ''-f'', Paths_Nftables paths] w of (Some e, w) \<Rightarrow> (Some (ApplyNftables e), w) | (None, w) \<Rightarrow>
     (case run_lines ApplyRoute run routeCommands w of
        (Some e, w) \<Rightarrow> maybeRollback c runner rollbackOnError True e w
      | (None, w) \<Rightarrow>
     (case run [''systemctl'', ''reload'', ''dnsmasq''] w of
        (Some e, w) \<Rightarrow> maybeRollback c runner rollbackOnError True (ReloadDNSMasq e) w
      | (None, w) \<Rightarrow> (None, w)))))))))))"

definition Apply :: "(string \<Rightarrow> string) \<Rightarrow> GatewayConfig \<Rightarrow> ApplyPaths \<Rightarrow> 'w runner option \<Rightarrow> 'w writer option \<Rightarrow> 'w \<Rightarrow> gateway_error option \<times> 'w" where
  "Apply uq c paths runner writer w = apply_config uq c paths runner writer False w"

definition ApplyWithRollback :: "(string \<Rightarrow> string) \<Rightarrow> GatewayConfig \<Rightarrow> ApplyPaths \<Rightarrow> 'w runner option \<Rightarrow> 'w writer option \<Rightarrow> 'w \<Rightarrow> gateway_error option \<times> 'w" where
  "ApplyWithRollback uq c paths runner writer w = apply_config uq c paths runner writer True w"

section \<open>Plans from policy rules\<close>

record EgressRouteTarget =
  Target_NodeID :: string
  Target_Gateway :: string
  Target_Interface :: string
  Target_Table :: int

record PolicyRoutePlanOptions =
  Plan_MarkBase :: int
  Plan_PreferenceBase :: int
  Plan_DestCIDR :: string

definition EgressRouteTarget_Validate :: "EgressRouteTarget \<Rightarrow> gateway_error + unit" where
  "EgressRouteTarget_Validate t =
     check (is_blank (Target_NodeID t)) EgressNodeRequired (
     check (Target_Gateway t \<noteq> [] \<and> ParseIP (Target_Gateway t) = None) (EgressGatewayInvalid (Target_NodeID t)) (
     check (is_blank (Target_Interface t)) (EgressInterfaceRequired (Target_NodeID t)) (
     check (Target_Table t \<le> 0) (EgressTableInvalid (Target_NodeID t)) (Inr ()))))"

fun targets_by_node :: "(string, EgressRouteTarget) gomap \<Rightarrow> EgressRouteTarget list \<Rightarrow> gateway_error + (string, EgressRouteTarget) gomap" where
  \<comment> \<open>the loop of egressRouteTargetsByNode\<close>
  "targets_by_node byNode [] = Inr byNode"
| "targets_by_node byNode (t # ts) =
     bind (EgressRouteTarget_Validate t) (\<lambda>_.
     let t = t\<lparr>Target_NodeID := TrimSpace (Target_NodeID t), Target_Interface := TrimSpace (Target_Interface t)\<rparr> in
     check (gm_has byNode (Target_NodeID t)) (EgressDuplicate (Target_NodeID t)) (
     targets_by_node (gm_set (Target_NodeID t) t byNode) ts))"

definition egressRouteTargetsByNode :: "EgressRouteTarget list \<Rightarrow> gateway_error + (string, EgressRouteTarget) gomap" where
  "egressRouteTargetsByNode targets = targets_by_node [] targets"

definition normalizePolicyRoutePlanOptions :: "PolicyRoutePlanOptions \<Rightarrow> gateway_error + PolicyRoutePlanOptions" where
  "normalizePolicyRoutePlanOptions o1 =
     (let o2 = (if Plan_MarkBase o1 = 0 then o1\<lparr>Plan_MarkBase := 1000\<rparr> else o1);
          o3 = (if Plan_PreferenceBase o2 = 0 then o2\<lparr>Plan_PreferenceBase := 10000\<rparr> else o2);
          o4 = (if Plan_DestCIDR o3 = [] then o3\<lparr>Plan_DestCIDR := ''0.0.0.0/0''\<rparr> else o3);
          o5 = o4\<lparr>Plan_DestCIDR := TrimSpace (Plan_DestCIDR o4)\<rparr> in
      check (Plan_MarkBase o5 \<le> 0) MarkBaseInvalid (
      check (Plan_PreferenceBase o5 \<le> 0) PreferenceBaseInvalid (
      check (ParseCIDR (Plan_DestCIDR o5) = None) PlanDestinationInvalid (Inr o5))))"

definition plan_rule :: "PolicyRoutePlanOptions \<Rightarrow> (string, EgressRouteTarget) gomap \<Rightarrow> nat \<Rightarrow> Rule \<Rightarrow> RouteRule" where
  \<comment> \<open>the body of the second loop of PlanPolicyRouteRules\<close>
  "plan_rule opts byNode index rule =
     (let target = gm_default \<lparr>Target_NodeID = [], Target_Gateway = [], Target_Interface = [], Target_Table = 0\<rparr> byNode
                     (TrimSpace (Rule_EgressNodeID rule)) in
      \<lparr>RouteRule_Name = ''policy-'' @ Rule_ID rule, RouteRule_Mark = wrap64 (Plan_MarkBase opts + int index),
       RouteRule_MatchCIDR = TrimSpace (Rule_IPCIDR rule), RouteRule_Table = Target_Table target,
       RouteRule_DestCIDR = Plan_DestCIDR opts, RouteRule_Gateway = Target_Gateway target,
       RouteRule_Interface = Target_Interface target, RouteRule_Preference = wrap64 (Plan_PreferenceBase opts + int index)\<rparr>)"

definition PlanPolicyRouteRules :: "Rule list \<Rightarrow> EgressRouteTarget list \<Rightarrow> PolicyRoutePlanOptions \<Rightarrow> gateway_error + RouteRule list" where
  "PlanPolicyRouteRules rules targets opts =
     bind (normalizePolicyRoutePlanOptions opts) (\<lambda>opts.
     bind (egressRouteTargetsByNode targets) (\<lambda>byNode.
     bind (traverse (\<lambda>rule. case Rule_Validate rule of
             Inl e \<Rightarrow> Inl (PolicyInvalid e)
           | Inr _ \<Rightarrow> check (\<not> gm_has byNode (TrimSpace (Rule_EgressNodeID rule))) (EgressUnknown (Rule_ID rule) (Rule_EgressNodeID rule)) (Inr ())) rules) (\<lambda>_.
     Inr (map2 (plan_rule opts byNode) [0..<length rules] (SliceStable rule_less rules)))))"

section \<open>Plans from observations\<close>

definition pad10 :: "int \<Rightarrow> string" where
  \<comment> \<open>the format \<open>%010d\<close>\<close>
  "pad10 n = (if n < 0 then CHR ''-'' # replicate (9 - length (show_nat (nat (- n)))) (CHR ''0'') @ show_nat (nat (- n))
              else replicate (10 - length (show_nat (nat n))) (CHR ''0'') @ show_nat (nat n))"

definition observedRequestSortKey :: "Request \<Rightarrow> string" where
  "observedRequestSortKey r =
     join_char (char_of (0 :: nat)) [TrimSpace (Request_TenantID r), TrimSpace (Request_IP r), TrimSpace (Request_Domain r),
       pad10 (Request_ASN r), Request_Class r]"

definition hostCIDR :: "ip \<Rightarrow> string" where
  "hostCIDR p = (case To4 p of Some v4 \<Rightarrow> IP_String v4 @ ''/32'' | None \<Rightarrow> IP_String p @ ''/128'')"

definition trim_dashes :: "string \<Rightarrow> string" where
  "trim_dashes s = rev (dropWhile (\<lambda>c. c = CHR ''-'') (rev (dropWhile (\<lambda>c. c = CHR ''-'') s)))"

definition routeRuleNamePart :: "string \<Rightarrow> string" where
  "routeRuleNamePart value =
     (let value = trim_dashes (map (\<lambda>c. if c \<in> set ''/.: '' then CHR ''-'' else c) (TrimSpace value)) in
      if value = [] then ''unnamed'' else value)"

fun observe_rules :: "(string \<Rightarrow> string) \<Rightarrow> string \<Rightarrow> PolicyRoutePlanOptions \<Rightarrow> (string, EgressRouteTarget) gomap \<Rightarrow> Engine \<Rightarrow> Classifier option \<Rightarrow>
    string list \<Rightarrow> RouteRule list \<Rightarrow> Request list \<Rightarrow> gateway_error + RouteRule list" where
  \<comment> \<open>the loop of PlanObservedPolicyRouteRules with the keys seen and the rules planned so far\<close>
  "observe_rules uc rawDestCIDR opts byNode engine classifier seen planned [] = Inr planned"
| "observe_rules uc rawDestCIDR opts byNode engine classifier seen planned (request # requests) =
     (case ParseIP (TrimSpace (Request_IP request)) of
        None \<Rightarrow> Inl ObservedIPRequired
      | Some ip \<Rightarrow>
          (let request = request\<lparr>Request_IP := IP_String ip\<rparr>;
               request = (case classifier of Some c \<Rightarrow> request\<lparr>Request_Class := Classify uc c request\<rparr> | None \<Rightarrow> request);
               decision = Evaluate uc engine request in
           if \<not> Decision_Matched decision then observe_rules uc rawDestCIDR opts byNode engine classifier seen planned requests
           else case gm_get byNode (TrimSpace (Decision_EgressNodeID decision)) of
                  None \<Rightarrow> Inl (DecisionEgressUnknown (Decision_RuleID decision) (Decision_EgressNodeID decision))
                | Some target \<Rightarrow>
                    (let matchCIDR = hostCIDR ip;
                         key = Decision_RuleID decision @ ''|'' @ matchCIDR @ ''|'' @ Target_NodeID target in
                     if key \<in> set seen then observe_rules uc rawDestCIDR opts byNode engine classifier seen planned requests
                     else
                     (let index = int (length planned);
                          destCIDR = (if rawDestCIDR = [] \<and> To4 ip = None then ''::/0'' else Plan_DestCIDR opts);
                          rule = \<lparr>RouteRule_Name = ''observed-'' @ routeRuleNamePart (Decision_RuleID decision) @ ''-'' @ routeRuleNamePart matchCIDR,
                                  RouteRule_Mark = wrap64 (Plan_MarkBase opts + index), RouteRule_MatchCIDR = matchCIDR,
                                  RouteRule_Table = Target_Table target, RouteRule_DestCIDR = destCIDR,
                                  RouteRule_Gateway = Target_Gateway target, RouteRule_Interface = Target_Interface target,
                                  RouteRule_Preference = wrap64 (Plan_PreferenceBase opts + index)\<rparr> in
                      observe_rules uc rawDestCIDR opts byNode engine classifier (key # seen) (planned @ [rule]) requests))))"

definition PlanObservedPolicyRouteRules :: "(string \<Rightarrow> string) \<Rightarrow> Request list \<Rightarrow> Classifier option \<Rightarrow> Rule list \<Rightarrow> EgressRouteTarget list \<Rightarrow>
    PolicyRoutePlanOptions \<Rightarrow> gateway_error + RouteRule list" where
  "PlanObservedPolicyRouteRules uc observations classifier rules targets opts =
     (let rawDestCIDR = TrimSpace (Plan_DestCIDR opts) in
      bind (normalizePolicyRoutePlanOptions opts) (\<lambda>opts.
      bind (egressRouteTargetsByNode targets) (\<lambda>byNode.
      case NewEngine rules of
        Inl e \<Rightarrow> Inl (PolicyInvalid e)
      | Inr engine \<Rightarrow>
          observe_rules uc rawDestCIDR opts byNode engine classifier [] [] (SliceStable (key_less observedRequestSortKey) observations))))"

definition ApplyObservedPolicyRoutes :: "(string \<Rightarrow> string) \<Rightarrow> (string \<Rightarrow> string) \<Rightarrow> GatewayConfig \<Rightarrow> Request list \<Rightarrow> Classifier option \<Rightarrow> Rule list \<Rightarrow>
    EgressRouteTarget list \<Rightarrow> PolicyRoutePlanOptions \<Rightarrow> ApplyPaths \<Rightarrow> 'w runner option \<Rightarrow> 'w writer option \<Rightarrow> 'w \<Rightarrow>
    (RouteRule list \<times> gateway_error option) \<times> 'w" where
  "ApplyObservedPolicyRoutes uc uq base observations classifier rules targets planOptions paths runner writer w =
     (case PlanObservedPolicyRouteRules uc observations classifier rules targets planOptions of
        Inl e \<Rightarrow> (([], Some e), w)
      | Inr planned \<Rightarrow>
          (let nxt = base\<lparr>Gw_RouteRules := Gw_RouteRules base @ planned\<rparr> in
           case ApplyWithRollback uq nxt paths runner writer w of (err, w) \<Rightarrow> ((planned, err), w)))"

section \<open>Rolling back\<close>

interpretation downward: strict_weak_order "\<lambda>a b. key_less f b a" for f
  by unfold_locales (auto simp: key_less_def)

lemma SliceStable_downward:
  assumes "distinct (map f xs)"
  shows "SliceStable (\<lambda>a b. key_less f b a) xs = rev (SliceStable (key_less f) xs)"
proof -
  let ?s = "SliceStable (\<lambda>a b. key_less f b a) xs"
  have "sorted_wrt (\<lambda>x y. \<not> key_less f y x) (rev ?s)"
    using downward.sorted_SliceStable [where f = f and xs = xs] by (simp add: sorted_wrt_rev)
  then have "SliceStable (key_less f) (rev ?s) = rev ?s" by (rule keyed.SliceStable_id)
  moreover have "SliceStable (key_less f) (rev ?s) = SliceStable (key_less f) xs"
    using assms by (intro SliceStable_key_cong) (simp_all add: distinct_map)
  ultimately show ?thesis by simp
qed

definition route_rule_key :: "RouteRule \<Rightarrow> int \<times> string" where
  "route_rule_key r = (RouteRule_Preference r, RouteRule_Name r)"

lemma route_rule_less_key:
  "route_rule_less False = key_less route_rule_key" "route_rule_less True = (\<lambda>a b. key_less route_rule_key b a)"
  by (auto simp: fun_eq_iff route_rule_less_def key_less_def route_rule_key_def less_prod_def)

lemma sorted_reverse:
  "distinct (map route_rule_key rules) \<Longrightarrow> sortedRouteRules rules True = rev (sortedRouteRules rules False)"
  by (simp add: sortedRouteRules_def route_rule_less_key SliceStable_downward)

text \<open>C26: The rollback undoes what applying a configuration does, in the reverse order: when no two rules agree in preference and name,
  the commands that install the rules are, for an ordering of the rules, the policy rule and then the route of each, and the
  rollback commands are exactly the deletions of those routes and rules from the last to the first.\<close>

theorem rollback_reverses_apply:
  assumes "GatewayConfig_Validate c = Inr ()" and "distinct (map route_rule_key (Gw_RouteRules c))"
  shows "\<exists>rs. mset rs = mset (Gw_RouteRules c) \<and>
    Gw_RenderIPRouteCommands c = Inr (concat (map (\<lambda>r. [rule_command ''add'' r, route_command ''replace'' r]) rs)) \<and>
    RenderIPRouteRollbackCommands c = Inr (rev (concat (map (\<lambda>r. [rule_command ''del'' r, route_command ''del'' r]) rs)))"
proof (intro exI [of _ "sortedRouteRules (Gw_RouteRules c) False"] conjI)
  show "mset (sortedRouteRules (Gw_RouteRules c) False) = mset (Gw_RouteRules c)" by (simp add: sortedRouteRules_def)
  show "Gw_RenderIPRouteCommands c = Inr (concat (map (\<lambda>r. [rule_command ''add'' r, route_command ''replace'' r])
      (sortedRouteRules (Gw_RouteRules c) False)))"
    using assms(1) by (simp add: Gw_RenderIPRouteCommands_def)
  show "RenderIPRouteRollbackCommands c = Inr (rev (concat (map (\<lambda>r. [rule_command ''del'' r, route_command ''del'' r])
      (sortedRouteRules (Gw_RouteRules c) False))))"
    using assms by (simp add: RenderIPRouteRollbackCommands_def sorted_reverse rev_concat rev_map comp_def)
qed

section \<open>Marking packets\<close>

text \<open>
  What the rendered chain \<open>policy_mark\<close> does to a packet for the address \<open>ip\<close>: nftables evaluates the rules in order,
  and a rule that only sets the packet mark is not final.
\<close>

definition rule_marks :: "string \<Rightarrow> RouteRule \<Rightarrow> bool" where
  "rule_marks ip r \<longleftrightarrow> RouteRule_MatchCIDR r \<noteq> [] \<and> ipMatches ip (RouteRule_MatchCIDR r)"

definition policy_mark :: "string \<Rightarrow> RouteRule list \<Rightarrow> int" where
  "policy_mark ip rules = fold (\<lambda>r mark. if rule_marks ip r then RouteRule_Mark r else mark) rules 0"

lemma policy_mark_find:
  "policy_mark ip rules = (case find (rule_marks ip) (rev rules) of None \<Rightarrow> 0 | Some r \<Rightarrow> RouteRule_Mark r)"
  unfolding policy_mark_def by (induction rules rule: rev_induct) auto

definition policy_marks :: "string \<Rightarrow> Rule \<Rightarrow> bool" where
  "policy_marks ip r \<longleftrightarrow> TrimSpace (Rule_IPCIDR r) \<noteq> [] \<and> ipMatches ip (TrimSpace (Rule_IPCIDR r))"

lemma planned_rules:
  assumes "PlanPolicyRouteRules rules targets opts = Inr planned"
  obtains opts' byNode where "normalizePolicyRoutePlanOptions opts = Inr opts'"
    "planned = map2 (plan_rule opts' byNode) [0..<length rules] (SliceStable rule_less rules)"
  using assms by (auto simp: PlanPolicyRouteRules_def)

lemma planned_nth:
  "i < length rules \<Longrightarrow> map2 (plan_rule opts byNode) [0..<length rules] (SliceStable rule_less rules) ! i =
     plan_rule opts byNode i (SliceStable rule_less rules ! i)"
  by simp

lemma normalized_plan_options:
  "normalizePolicyRoutePlanOptions opts = Inr opts' \<Longrightarrow>
     0 < Plan_MarkBase opts' \<and> 0 < Plan_PreferenceBase opts' \<and>
     Plan_PreferenceBase opts' = (if Plan_PreferenceBase opts = 0 then 10000 else Plan_PreferenceBase opts)"
  by (auto simp: normalizePolicyRoutePlanOptions_def Let_def split: if_splits)

lemma planned_sorted:
  assumes "0 < Plan_PreferenceBase opts" "Plan_PreferenceBase opts + int (length rules) \<le> max_int64"
  shows "sortedRouteRules (map2 (plan_rule opts byNode) [0..<length rules] (SliceStable rule_less rules)) False =
    map2 (plan_rule opts byNode) [0..<length rules] (SliceStable rule_less rules)"
proof -
  let ?p = "map2 (plan_rule opts byNode) [0..<length rules] (SliceStable rule_less rules)"
  have pref: "RouteRule_Preference (?p ! i) = Plan_PreferenceBase opts + int i" if "i < length rules" for i
    using that assms by (simp add: plan_rule_def Let_def wrap64_id int64_def)
  have "sorted_wrt (\<lambda>x y. \<not> key_less route_rule_key y x) ?p"
    unfolding sorted_wrt_iff_nth_less
  proof (intro allI impI)
    fix i j
    assume ij: "i < j" "j < length ?p"
    then have "i < length rules" "j < length rules" by simp_all
    from pref [OF this(1)] pref [OF this(2)] ij(1) show "\<not> key_less route_rule_key (?p ! j) (?p ! i)"
      by (simp only: key_less_def route_rule_key_def less_prod_def) simp
  qed
  then show ?thesis unfolding sortedRouteRules_def route_rule_less_key by (rule keyed.SliceStable_id)
qed


section \<open>A sample gateway\<close>

definition sample_policy :: "string \<Rightarrow> int \<Rightarrow> string \<Rightarrow> string \<Rightarrow> Rule" where
  "sample_policy i priority cidr egress = \<lparr>Rule_ID = i, Rule_TenantID = ''t'', Rule_Priority = priority, Rule_DomainSuffix = [],
     Rule_IPCIDR = cidr, Rule_ASN = 0, Rule_Class = [], Rule_EgressNodeID = egress\<rparr>"

definition sample_policies :: "Rule list" where
  "sample_policies = [sample_policy ''a'' 9 ''10.1.0.0/16'' ''n'', sample_policy ''b'' 1 ''10.0.0.0/8'' ''n'']"

definition sample_egress :: "EgressRouteTarget list" where
  "sample_egress = [\<lparr>Target_NodeID = ''n'', Target_Gateway = [], Target_Interface = ''wg0'', Target_Table = 100\<rparr>]"

definition sample_plan_options :: PolicyRoutePlanOptions where
  "sample_plan_options = \<lparr>Plan_MarkBase = 0, Plan_PreferenceBase = 0, Plan_DestCIDR = []\<rparr>"

definition sample_planned :: "RouteRule list" where
  "sample_planned = projr (PlanPolicyRouteRules sample_policies sample_egress sample_plan_options)"

lemma sample_planned_ok: "PlanPolicyRouteRules sample_policies sample_egress sample_plan_options = Inr sample_planned"
proof -
  have "\<not> isl (PlanPolicyRouteRules sample_policies sample_egress sample_plan_options)" by code_simp
  then show ?thesis by (simp add: sample_planned_def)
qed


definition sample_gateway :: GatewayConfig where
  "sample_gateway = \<lparr>Gw_LANInterface = ''lan0'', Gw_LANCIDR = ''10.0.0.0/24'', Gw_DHCPRangeStart = ''10.0.0.9'', Gw_DHCPRangeEnd = ''10.0.0.99'',
     Gw_DNSListenAddress = ''10.0.0.1'', Gw_DNSUpstreams = [], Gw_TransparentProxyPort = 80, Gw_RouteRules =
      [\<lparr>RouteRule_Name = ''a'', RouteRule_Mark = 1, RouteRule_MatchCIDR = [], RouteRule_Table = 7, RouteRule_DestCIDR = ''0.0.0.0/0'',
        RouteRule_Gateway = [], RouteRule_Interface = ''wg0'', RouteRule_Preference = 1\<rparr>,
       \<lparr>RouteRule_Name = ''b'', RouteRule_Mark = 2, RouteRule_MatchCIDR = [], RouteRule_Table = 8, RouteRule_DestCIDR = ''0.0.0.0/0'',
        RouteRule_Gateway = [], RouteRule_Interface = ''wg1'', RouteRule_Preference = 2\<rparr>]\<rparr>"

lemma sample_gateway_valid: "GatewayConfig_Validate sample_gateway = Inr ()"
  by code_simp

theorem rollback_reverses_apply_witness:
  "\<exists>rs. mset rs = mset (Gw_RouteRules sample_gateway) \<and>
    RenderIPRouteRollbackCommands sample_gateway = Inr (rev (concat (map (\<lambda>r. [rule_command ''del'' r, route_command ''del'' r]) rs)))"
proof -
  have "distinct (map route_rule_key (Gw_RouteRules sample_gateway))" by (simp add: sample_gateway_def route_rule_key_def)
  from rollback_reverses_apply [OF sample_gateway_valid this] show ?thesis by blast
qed

section \<open>A rollback that stops\<close>

text \<open>
  A kernel in which a route over the interface \<open>down\<close> cannot be installed and the deletion of what is not installed
  fails, as ip-route and ip-rule document. When the second route of the sample fails, the rollback begins with its deletion,
  fails there, and leaves the rule and the route of the first in place.
\<close>

definition kernel_run :: "string \<Rightarrow> string list list runner" where
  "kernel_run down args w =
     (case args of
        _ # object # verb # rest \<Rightarrow>
          if verb = ''add'' then (None, (object # rest) # w)
          else if verb = ''replace'' then (if down \<in> set rest then (Some ''Network is down'', w) else (None, (object # rest) # w))
          else if verb = ''del'' then (if object # rest \<in> set w then (None, removeAll (object # rest) w) else (Some ''No such process'', w))
          else (None, w)
      | _ \<Rightarrow> (None, w))"

lemma rollback_leaves_rules:
  "case ApplyWithRollback id sample_gateway \<lparr>Paths_Nftables = ''n'', Paths_DNSMasq = ''d''\<rparr> (Some (kernel_run ''wg1'')) (Some (\<lambda>_ _ w. (None, w))) [] of
     (e, w) \<Rightarrow> e \<noteq> None \<and> length w = 3 \<and> [''route'', ''0.0.0.0/0'', ''dev'', ''wg0'', ''table'', ''7''] \<in> set w"
  by code_simp

end
