(* ===== verification/Contract.thy ===== *)
theory Contract
  imports Config_Sign
begin

text \<open>
  The delivery contract between the control server and its targets: internal/controlcontract/profile.go and
  envelope.go.

  A profile says what a client or a point of presence is to do; an envelope carries the profile as its payload,
  with the identity of its target, a sequence number and a period of validity, and is signed. Sequence numbers
  and ports are words of their width. The record \<open>contract_lib\<close> holds the signature library, the rendering of
  times and the JSON codec; of a json.Decoder the code uses the decoding of one value, which also answers the
  input it leaves, and the look at what follows.
\<close>

section \<open>Profiles\<close>

abbreviation SchemaVersionV1 :: string where "SchemaVersionV1 \<equiv> ''anixops.sdwan.delivery/v1''"
abbreviation RequiredMetadataRetentionDays :: int where "RequiredMetadataRetentionDays \<equiv> 7"
abbreviation BundleKindClient :: string where "BundleKindClient \<equiv> ''client''"
abbreviation BundleKindPop :: string where "BundleKindPop \<equiv> ''pop''"
abbreviation TransportIKEv2 :: string where "TransportIKEv2 \<equiv> ''ikev2''"
abbreviation L4_TCP :: string where "L4_TCP \<equiv> ''tcp''"
abbreviation L4_UDP :: string where "L4_UDP \<equiv> ''udp''"

record PortRange =
  PortRange_Start :: "16 word"
  PortRange_End :: "16 word"

record RouteSelector =
  Selector_SourceCIDR :: string
  Selector_DestinationCIDR :: string
  Selector_DomainSuffix :: string
  Selector_TrafficClass :: string
  Selector_Protocol :: string
  Selector_Ports :: "PortRange option"

record ServiceChain =
  Chain_ID :: string
  Chain_Hops :: "string list"
  Chain_ReturnHops :: "string list"

record RoutePolicy =
  Route_ID :: string
  Route_Selector :: RouteSelector
  Route_Chain :: ServiceChain
  Route_DirectFallback :: bool

record PopProfile =
  PopProfile_ID :: string
  PopProfile_PrincipalID :: string
  PopProfile_Routes :: "RoutePolicy list"

record PopReference =
  PopRef_ID :: string
  PopRef_Endpoint :: string

record MITMProfile =
  MITM_AllowedDomainSuffixes :: "string list"
  MITM_RequireConsent :: bool
  MITM_BlockQUIC :: bool
  MITM_BlockPinnedTLS :: bool
  MITM_MetadataRetentionDays :: int

record ClientProfile =
  ClientProfile_ID :: string
  ClientProfile_PrincipalID :: string
  ClientProfile_Transport :: string
  ClientProfile_POPs :: "PopReference list"
  ClientProfile_MITM :: "MITMProfile option"

record Profile =
  Profile_SchemaVersion :: string
  Profile_Kind :: string
  Profile_Client :: "ClientProfile option"
  Profile_Pop :: "PopProfile option"

datatype contract_error =
    Refused string \<comment> \<open>a message without values\<close>
  | FieldRequired string | EndpointInvalid string | MITMDomainInvalid string contract_error | MITMDomainDuplicate string
  | ClientTransportUnsupported string | ClientPOP nat contract_error | ClientPOPDuplicate string | ClientMITM contract_error
  | PopRoute nat contract_error | PopRouteDuplicate string | RouteSelectorInvalid contract_error | RouteChainInvalid contract_error
  | SourceCIDRInvalid string | DestinationCIDRInvalid string | DomainSuffixInvalid string contract_error | L4Unsupported string
  | PortRangeInvalid "16 word" "16 word" | HopDuplicate string string | ProfileSchema string | ProfileKind string
  | EnvelopeSchema string | EnvelopeKind string | ParseProfilePayload contract_error | JSONError string | AlgorithmUnsupported string
  | EnvelopeExpired string

definition validateIdentifier :: "string \<Rightarrow> string \<Rightarrow> contract_error + unit" where
  "validateIdentifier field value = check (is_blank value) (FieldRequired field) (Inr ())"

definition domain_label_char :: "char \<Rightarrow> bool" where
  "domain_label_char c = (let n = (of_char c :: nat) in (97 \<le> n \<and> n \<le> 122) \<or> (48 \<le> n \<and> n \<le> 57) \<or> n = 45)"

definition domain_label_ok :: "string \<Rightarrow> bool" where
  \<comment> \<open>the loop over the labels in normalizeDomainSuffix; a byte above 127 belongs to a character out of range\<close>
  "domain_label_ok label \<longleftrightarrow>
     label \<noteq> [] \<and> \<not> HasPrefix label ''-'' \<and> \<not> HasSuffix label ''-'' \<and> list_all domain_label_char label"

definition normalizeDomainSuffix :: "(string \<Rightarrow> string) \<Rightarrow> string \<Rightarrow> contract_error + string" where
  "normalizeDomainSuffix uc value =
     (let normalized = TrimSuffix (ToLower uc (TrimSpace value)) ''.'' in
      check (normalized = []) (Refused ''domain is required'') (
      check (HasPrefix normalized ''.'' \<or> list_ex (\<lambda>c. c \<in> set ''/:@*'') normalized) (Refused ''domain contains unsupported characters'') (
      check (\<not> list_all domain_label_ok (split_char (CHR ''.'') normalized)) (Refused ''invalid domain label'') (
      Inr normalized))))"

definition PortRange_Validate :: "PortRange \<Rightarrow> contract_error + unit" where
  "PortRange_Validate p =
     check (PortRange_Start p = 0 \<or> PortRange_End p = 0 \<or> PortRange_Start p > PortRange_End p)
       (PortRangeInvalid (PortRange_Start p) (PortRange_End p)) (Inr ())"

definition RouteSelector_Validate :: "(string \<Rightarrow> string) \<Rightarrow> RouteSelector \<Rightarrow> contract_error + unit" where
  "RouteSelector_Validate uc s =
     check (\<not> is_blank (Selector_SourceCIDR s) \<and> ParseCIDR (Selector_SourceCIDR s) = None) (SourceCIDRInvalid (Selector_SourceCIDR s)) (
     check (\<not> is_blank (Selector_DestinationCIDR s) \<and> ParseCIDR (Selector_DestinationCIDR s) = None)
       (DestinationCIDRInvalid (Selector_DestinationCIDR s)) (
     bind (if is_blank (Selector_DomainSuffix s) then Inr ()
           else case normalizeDomainSuffix uc (Selector_DomainSuffix s) of
                  Inl e \<Rightarrow> Inl (DomainSuffixInvalid (Selector_DomainSuffix s) e) | Inr _ \<Rightarrow> Inr ()) (\<lambda>_.
     bind (if is_blank (Selector_TrafficClass s) then Inr () else validateIdentifier ''traffic class'' (Selector_TrafficClass s)) (\<lambda>_.
     check (Selector_Protocol s \<noteq> [] \<and> Selector_Protocol s \<noteq> L4_TCP \<and> Selector_Protocol s \<noteq> L4_UDP) (L4Unsupported (Selector_Protocol s)) (
     bind (case Selector_Ports s of
             None \<Rightarrow> Inr ()
           | Some p \<Rightarrow> check (Selector_Protocol s \<noteq> L4_TCP \<and> Selector_Protocol s \<noteq> L4_UDP) (Refused ''ports require TCP or UDP protocol'') (PortRange_Validate p)) (\<lambda>_.
     check (is_blank (Selector_SourceCIDR s) \<and> is_blank (Selector_DestinationCIDR s) \<and> is_blank (Selector_DomainSuffix s) \<and>
            is_blank (Selector_TrafficClass s) \<and> Selector_Protocol s = [] \<and> Selector_Ports s = None) (Refused ''route selector must define at least one match'') (
     Inr ())))))))"

fun hop_list_check :: "string \<Rightarrow> string list \<Rightarrow> string list \<Rightarrow> contract_error + unit" where
  \<comment> \<open>the loop of validateHopList with the hops seen so far\<close>
  "hop_list_check field seen [] = Inr ()"
| "hop_list_check field seen (hop # hops) =
     bind (validateIdentifier field hop) (\<lambda>_.
     check (TrimSpace hop \<in> set seen) (HopDuplicate field (TrimSpace hop)) (
     hop_list_check field (TrimSpace hop # seen) hops))"

definition validateHopList :: "string \<Rightarrow> string list \<Rightarrow> contract_error + unit" where
  "validateHopList field hops = hop_list_check field [] hops"

definition ServiceChain_Validate :: "ServiceChain \<Rightarrow> contract_error + unit" where
  "ServiceChain_Validate c =
     bind (validateIdentifier ''service chain id'' (Chain_ID c)) (\<lambda>_.
     check (Chain_Hops c = []) (Refused ''service chain must define at least one hop'') (
     bind (validateHopList ''service chain hop'' (Chain_Hops c)) (\<lambda>_.
     if Chain_ReturnHops c \<noteq> [] then validateHopList ''service chain return hop'' (Chain_ReturnHops c) else Inr ())))"

definition RoutePolicy_Validate :: "(string \<Rightarrow> string) \<Rightarrow> RoutePolicy \<Rightarrow> contract_error + unit" where
  "RoutePolicy_Validate uc p =
     bind (validateIdentifier ''route id'' (Route_ID p)) (\<lambda>_.
     check (Route_DirectFallback p) (Refused ''direct fallback is forbidden for a service-chain route'') (
     case RouteSelector_Validate uc (Route_Selector p) of
       Inl e \<Rightarrow> Inl (RouteSelectorInvalid e)
     | Inr _ \<Rightarrow> (case ServiceChain_Validate (Route_Chain p) of Inl e \<Rightarrow> Inl (RouteChainInvalid e) | Inr _ \<Rightarrow> Inr ())))"

fun routes_check :: "(string \<Rightarrow> string) \<Rightarrow> string list \<Rightarrow> nat \<Rightarrow> RoutePolicy list \<Rightarrow> contract_error + unit" where
  \<comment> \<open>the loop of PopProfile.Validate with the identifiers seen so far and the index\<close>
  "routes_check uc seen i [] = Inr ()"
| "routes_check uc seen i (r # rs) =
     (case RoutePolicy_Validate uc r of
        Inl e \<Rightarrow> Inl (PopRoute i e)
      | Inr _ \<Rightarrow> check (TrimSpace (Route_ID r) \<in> set seen) (PopRouteDuplicate (TrimSpace (Route_ID r))) (
                 routes_check uc (TrimSpace (Route_ID r) # seen) (Suc i) rs))"

definition PopProfile_Validate :: "(string \<Rightarrow> string) \<Rightarrow> PopProfile \<Rightarrow> contract_error + unit" where
  "PopProfile_Validate uc p =
     bind (validateIdentifier ''POP profile id'' (PopProfile_ID p)) (\<lambda>_.
     bind (validateIdentifier ''POP principal id'' (PopProfile_PrincipalID p)) (\<lambda>_.
     check (PopProfile_Routes p = []) (Refused ''POP profile must define at least one route'') (routes_check uc [] 0 (PopProfile_Routes p))))"

definition ParseUint16 :: "string \<Rightarrow> int option" where
  \<comment> \<open>strconv.ParseUint with base 10 and 16 bits\<close>
  "ParseUint16 s = (if s \<noteq> [] \<and> list_all is_digit s \<and> digits_value s 0 < 65536 then Some (digits_value s 0) else None)"

definition PopReference_Validate :: "PopReference \<Rightarrow> contract_error + unit" where
  "PopReference_Validate p =
     bind (validateIdentifier ''POP id'' (PopRef_ID p)) (\<lambda>_.
     case SplitHostPort (TrimSpace (PopRef_Endpoint p)) of
       Inl _ \<Rightarrow> Inl (EndpointInvalid (PopRef_Endpoint p))
     | Inr (host, portText) \<Rightarrow>
         check (is_blank host) (EndpointInvalid (PopRef_Endpoint p)) (
         check (ParseUint16 portText = None \<or> ParseUint16 portText = Some 0) (EndpointInvalid (PopRef_Endpoint p)) (Inr ())))"

fun mitm_domains_check :: "(string \<Rightarrow> string) \<Rightarrow> string list \<Rightarrow> string list \<Rightarrow> contract_error + unit" where
  \<comment> \<open>the loop of MITMProfile.Validate\<close>
  "mitm_domains_check uc seen [] = Inr ()"
| "mitm_domains_check uc seen (d # ds) =
     (case normalizeDomainSuffix uc d of
        Inl e \<Rightarrow> Inl (MITMDomainInvalid d e)
      | Inr normalized \<Rightarrow> check (normalized \<in> set seen) (MITMDomainDuplicate normalized) (mitm_domains_check uc (normalized # seen) ds))"

definition MITMProfile_Validate :: "(string \<Rightarrow> string) \<Rightarrow> MITMProfile \<Rightarrow> contract_error + unit" where
  "MITMProfile_Validate uc p =
     check (MITM_AllowedDomainSuffixes p = []) (Refused ''MITM policy must define at least one allowlisted domain'') (
     bind (mitm_domains_check uc [] (MITM_AllowedDomainSuffixes p)) (\<lambda>_.
     check (\<not> MITM_RequireConsent p) (Refused ''MITM policy must require consent'') (
     check (\<not> MITM_BlockQUIC p) (Refused ''MITM policy must block QUIC for selected traffic'') (
     check (\<not> MITM_BlockPinnedTLS p) (Refused ''MITM policy must block pinned TLS for selected traffic'') (
     check (MITM_MetadataRetentionDays p \<noteq> RequiredMetadataRetentionDays) (Refused ''MITM metadata retention must be 7 days'') (Inr ()))))))"

fun pops_check :: "string list \<Rightarrow> nat \<Rightarrow> PopReference list \<Rightarrow> contract_error + unit" where
  \<comment> \<open>the loop of ClientProfile.Validate\<close>
  "pops_check seen i [] = Inr ()"
| "pops_check seen i (p # ps) =
     (case PopReference_Validate p of
        Inl e \<Rightarrow> Inl (ClientPOP i e)
      | Inr _ \<Rightarrow> check (TrimSpace (PopRef_ID p) \<in> set seen) (ClientPOPDuplicate (TrimSpace (PopRef_ID p))) (
                 pops_check (TrimSpace (PopRef_ID p) # seen) (Suc i) ps))"

definition ClientProfile_Validate :: "(string \<Rightarrow> string) \<Rightarrow> ClientProfile \<Rightarrow> contract_error + unit" where
  "ClientProfile_Validate uc p =
     bind (validateIdentifier ''client profile id'' (ClientProfile_ID p)) (\<lambda>_.
     bind (validateIdentifier ''client principal id'' (ClientProfile_PrincipalID p)) (\<lambda>_.
     check (ClientProfile_Transport p \<noteq> TransportIKEv2) (ClientTransportUnsupported (ClientProfile_Transport p)) (
     check (ClientProfile_POPs p = []) (Refused ''client profile must define at least one POP'') (
     bind (pops_check [] 0 (ClientProfile_POPs p)) (\<lambda>_.
     case ClientProfile_MITM p of
       None \<Rightarrow> Inr ()
     | Some m \<Rightarrow> (case MITMProfile_Validate uc m of Inl e \<Rightarrow> Inl (ClientMITM e) | Inr _ \<Rightarrow> Inr ()))))))"

definition Profile_Validate :: "(string \<Rightarrow> string) \<Rightarrow> Profile \<Rightarrow> contract_error + unit" where
  "Profile_Validate uc p =
     check (Profile_SchemaVersion p \<noteq> SchemaVersionV1) (ProfileSchema (Profile_SchemaVersion p)) (
     if Profile_Kind p = BundleKindClient then
       (case (Profile_Client p, Profile_Pop p) of
          (Some c, None) \<Rightarrow> ClientProfile_Validate uc c
        | _ \<Rightarrow> Inl (Refused ''client profile must contain only client payload''))
     else if Profile_Kind p = BundleKindPop then
       (case (Profile_Pop p, Profile_Client p) of
          (Some c, None) \<Rightarrow> PopProfile_Validate uc c
        | _ \<Rightarrow> Inl (Refused ''pop profile must contain only pop payload''))
     else Inl (ProfileKind (Profile_Kind p)))"

definition profilePrincipalID :: "Profile \<Rightarrow> string" where
  "profilePrincipalID p =
     (if Profile_Kind p = BundleKindClient then (case Profile_Client p of Some c \<Rightarrow> ClientProfile_PrincipalID c | None \<Rightarrow> [])
      else if Profile_Kind p = BundleKindPop then (case Profile_Pop p of Some c \<Rightarrow> PopProfile_PrincipalID c | None \<Rightarrow> [])
      else [])"

section \<open>Envelopes\<close>

record UnsignedEnvelope =
  Env_SchemaVersion :: string
  Env_BundleKind :: string
  Env_BundleID :: string
  Env_TenantID :: string
  Env_TargetID :: string
  Env_Sequence :: "64 word"
  Env_IssuedAt :: time
  Env_ExpiresAt :: time
  Env_KeyID :: string
  Env_Payload :: "byte list"

record unsignedEnvelopeWire =
  Wire_SchemaVersion :: string
  Wire_BundleKind :: string
  Wire_BundleID :: string
  Wire_TenantID :: string
  Wire_TargetID :: string
  Wire_Sequence :: "64 word"
  Wire_IssuedAt :: time
  Wire_ExpiresAt :: time
  Wire_KeyID :: string
  Wire_PayloadBase64 :: string

record SignedEnvelope =
  Signed_Unsigned :: UnsignedEnvelope \<comment> \<open>the embedded envelope\<close>
  Signed_EnvAlgorithm :: string
  Signed_PayloadSHA256 :: string
  Signed_EnvSignature :: string

record signedEnvelopeWire = unsignedEnvelopeWire +
  Wire_Algorithm :: string
  Wire_PayloadSHA256 :: string
  Wire_Signature :: string

datatype json_end = EndOfInput | AnotherValue | NotAValue string

record contract_lib =
  cl_ed :: sign_lib
  cl_format :: "time \<Rightarrow> string" \<comment> \<open>Format(time.RFC3339Nano) in UTC\<close>
  cl_json_valid :: "byte list \<Rightarrow> bool"
  cl_decode_profile :: "byte list \<Rightarrow> string + Profile \<times> byte list"
  cl_decode_unsigned :: "byte list \<Rightarrow> string + unsignedEnvelopeWire \<times> byte list"
  cl_decode_signed :: "byte list \<Rightarrow> string + signedEnvelopeWire \<times> byte list"
  cl_trailing :: "byte list \<Rightarrow> json_end"
  cl_marshal_unsigned :: "unsignedEnvelopeWire \<Rightarrow> string + byte list"
  cl_marshal_signed :: "signedEnvelopeWire \<Rightarrow> string + byte list"

abbreviation cl_lower :: "contract_lib \<Rightarrow> string \<Rightarrow> string" where "cl_lower L \<equiv> lower_uc (cl_ed L)"
abbreviation cl_sum256 :: "contract_lib \<Rightarrow> byte list \<Rightarrow> byte list" where "cl_sum256 L \<equiv> lib_sum256 (cl_ed L)"

definition decodeStrictJSON :: "contract_lib \<Rightarrow> (byte list \<Rightarrow> string + 'a \<times> byte list) \<Rightarrow> byte list \<Rightarrow> contract_error + 'a" where
  "decodeStrictJSON L decode data =
     (case decode data of
        Inl e \<Rightarrow> Inl (JSONError e)
      | Inr (v, rest) \<Rightarrow>
          (case cl_trailing L rest of
             EndOfInput \<Rightarrow> Inr v
           | AnotherValue \<Rightarrow> Inl (Refused ''JSON contains multiple values'')
           | NotAValue e \<Rightarrow> Inl (JSONError e)))"

definition ParseProfile :: "contract_lib \<Rightarrow> byte list \<Rightarrow> contract_error + Profile" where
  "ParseProfile L payload =
     bind (decodeStrictJSON L (cl_decode_profile L) payload) (\<lambda>profile.
     bind (Profile_Validate (cl_lower L) profile) (\<lambda>_. Inr profile))"

definition newUnsignedEnvelopeWire :: "UnsignedEnvelope \<Rightarrow> unsignedEnvelopeWire" where
  "newUnsignedEnvelopeWire e =
     \<lparr>Wire_SchemaVersion = Env_SchemaVersion e, Wire_BundleKind = Env_BundleKind e, Wire_BundleID = Env_BundleID e,
      Wire_TenantID = Env_TenantID e, Wire_TargetID = Env_TargetID e, Wire_Sequence = Env_Sequence e,
      Wire_IssuedAt = Env_IssuedAt e, Wire_ExpiresAt = Env_ExpiresAt e, Wire_KeyID = Env_KeyID e,
      Wire_PayloadBase64 = b64_encode StdEncoding (Env_Payload e)\<rparr>"

definition unsignedEnvelope :: "unsignedEnvelopeWire \<Rightarrow> contract_error + UnsignedEnvelope" where
  "unsignedEnvelope w =
     (case b64_decode StdEncoding (Wire_PayloadBase64 w) of
        None \<Rightarrow> Inl (Refused ''decode payload base64'')
      | Some payload \<Rightarrow>
          Inr \<lparr>Env_SchemaVersion = Wire_SchemaVersion w, Env_BundleKind = Wire_BundleKind w, Env_BundleID = Wire_BundleID w,
               Env_TenantID = Wire_TenantID w, Env_TargetID = Wire_TargetID w, Env_Sequence = Wire_Sequence w,
               Env_IssuedAt = Wire_IssuedAt w, Env_ExpiresAt = Wire_ExpiresAt w, Env_KeyID = Wire_KeyID w, Env_Payload = payload\<rparr>)"

definition Unsigned_MarshalJSON :: "contract_lib \<Rightarrow> UnsignedEnvelope \<Rightarrow> string + byte list" where
  "Unsigned_MarshalJSON L e = cl_marshal_unsigned L (newUnsignedEnvelopeWire e)"

definition Unsigned_UnmarshalJSON :: "contract_lib \<Rightarrow> byte list \<Rightarrow> contract_error + UnsignedEnvelope" where
  "Unsigned_UnmarshalJSON L data = bind (decodeStrictJSON L (cl_decode_unsigned L) data) unsignedEnvelope"

definition Signed_MarshalJSON :: "contract_lib \<Rightarrow> SignedEnvelope \<Rightarrow> string + byte list" where
  "Signed_MarshalJSON L s =
     (let e = Signed_Unsigned s in
      cl_marshal_signed L
       \<lparr>Wire_SchemaVersion = Env_SchemaVersion e, Wire_BundleKind = Env_BundleKind e, Wire_BundleID = Env_BundleID e,
        Wire_TenantID = Env_TenantID e, Wire_TargetID = Env_TargetID e, Wire_Sequence = Env_Sequence e,
        Wire_IssuedAt = Env_IssuedAt e, Wire_ExpiresAt = Env_ExpiresAt e, Wire_KeyID = Env_KeyID e,
        Wire_PayloadBase64 = b64_encode StdEncoding (Env_Payload e), Wire_Algorithm = Signed_EnvAlgorithm s,
        Wire_PayloadSHA256 = Signed_PayloadSHA256 s, Wire_Signature = Signed_EnvSignature s\<rparr>)"

definition Signed_UnmarshalJSON :: "contract_lib \<Rightarrow> byte list \<Rightarrow> contract_error + SignedEnvelope" where
  "Signed_UnmarshalJSON L data =
     bind (decodeStrictJSON L (cl_decode_signed L) data) (\<lambda>w.
     bind (unsignedEnvelope
        \<lparr>Wire_SchemaVersion = Wire_SchemaVersion w, Wire_BundleKind = Wire_BundleKind w, Wire_BundleID = Wire_BundleID w,
         Wire_TenantID = Wire_TenantID w, Wire_TargetID = Wire_TargetID w, Wire_Sequence = Wire_Sequence w,
         Wire_IssuedAt = Wire_IssuedAt w, Wire_ExpiresAt = Wire_ExpiresAt w, Wire_KeyID = Wire_KeyID w,
         Wire_PayloadBase64 = Wire_PayloadBase64 w\<rparr>) (\<lambda>e.
     Inr \<lparr>Signed_Unsigned = e, Signed_EnvAlgorithm = Wire_Algorithm w, Signed_PayloadSHA256 = Wire_PayloadSHA256 w,
          Signed_EnvSignature = Wire_Signature w\<rparr>))"

definition text_of :: "byte list \<Rightarrow> string" where
  "text_of bs = map (\<lambda>b. char_of (unat b)) bs"

definition ValidateMetadata :: "contract_lib \<Rightarrow> UnsignedEnvelope \<Rightarrow> contract_error + unit" where
  "ValidateMetadata L e =
     check (Env_SchemaVersion e \<noteq> SchemaVersionV1) (EnvelopeSchema (Env_SchemaVersion e)) (
     check (Env_BundleKind e \<noteq> BundleKindClient \<and> Env_BundleKind e \<noteq> BundleKindPop) (EnvelopeKind (Env_BundleKind e)) (
     bind (validateIdentifier ''bundle id'' (Env_BundleID e)) (\<lambda>_.
     bind (validateIdentifier ''tenant id'' (Env_TenantID e)) (\<lambda>_.
     bind (validateIdentifier ''target ID'' (Env_TargetID e)) (\<lambda>_.
     check (Env_Sequence e = 0) (Refused ''sequence must be positive'') (
     check (IsZero (Env_IssuedAt e)) (Refused ''issued at is required'') (
     check (IsZero (Env_ExpiresAt e)) (Refused ''expires at is required'') (
     check (\<not> Env_ExpiresAt e > Env_IssuedAt e) (Refused ''expires at must be after issued at'') (
     bind (validateIdentifier ''signing key id'' (Env_KeyID e)) (\<lambda>_.
     check (is_blank (text_of (Env_Payload e))) (Refused ''payload is required'') (
     check (\<not> cl_json_valid L (Env_Payload e)) (Refused ''payload must be valid JSON'') (Inr ()))))))))))))"

definition validateProfileBinding :: "contract_lib \<Rightarrow> UnsignedEnvelope \<Rightarrow> contract_error + unit" where
  "validateProfileBinding L e =
     (case ParseProfile L (Env_Payload e) of
        Inl err \<Rightarrow> Inl (ParseProfilePayload err)
      | Inr profile \<Rightarrow>
          check (Profile_SchemaVersion profile \<noteq> Env_SchemaVersion e) (Refused ''profile schema does not match envelope schema'') (
          check (Profile_Kind profile \<noteq> Env_BundleKind e) (Refused ''profile kind does not match envelope bundle kind'') (
          check (profilePrincipalID profile \<noteq> Env_TargetID e) (Refused ''profile principal id does not match envelope target ID'') (Inr ()))))"

definition Envelope_Validate :: "contract_lib \<Rightarrow> UnsignedEnvelope \<Rightarrow> contract_error + unit" where
  "Envelope_Validate L e = bind (ValidateMetadata L e) (\<lambda>_. validateProfileBinding L e)"

section \<open>Signing\<close>

abbreviation SignatureAlgorithm :: string where "SignatureAlgorithm \<equiv> ''ed25519''"
abbreviation signingDomainV1 :: string where "signingDomainV1 \<equiv> ''anixops.sdwan.delivery-signature/v1''"
abbreviation SignatureSize :: nat where "SignatureSize \<equiv> 64"

record Signer =
  Signer_publicKey :: "byte list"
  Signer_privateKey :: "byte list"

definition NewSigner :: "byte list \<Rightarrow> contract_error + Signer" where
  "NewSigner privateKey =
     check (length privateKey \<noteq> PrivateKeySize) (Refused ''signing private key must be 64 bytes'') (
     let publicKey = ed_Public privateKey in
     check (length publicKey \<noteq> PublicKeySize) (Refused ''derive signing public key'') (
     Inr \<lparr>Signer_publicKey = publicKey, Signer_privateKey = privateKey\<rparr>))"

definition NewVerifier :: "byte list \<Rightarrow> contract_error + Signer" where
  "NewVerifier publicKey =
     check (length publicKey \<noteq> PublicKeySize) (Refused ''signing public key must be 32 bytes'') (
     Inr \<lparr>Signer_publicKey = publicKey, Signer_privateKey = []\<rparr>)"

definition writeLengthPrefixed :: "byte list \<Rightarrow> byte list \<Rightarrow> contract_error + byte list" where
  "writeLengthPrefixed output field =
     check (length field > 4294967295) (Refused ''signing field exceeds maximum length'') (Inr (output @ be32 (length field) @ field))"

fun write_fields :: "byte list \<Rightarrow> byte list list \<Rightarrow> contract_error + byte list" where
  \<comment> \<open>the loop of SigningInputV1\<close>
  "write_fields output [] = Inr output"
| "write_fields output (field # rest) = bind (writeLengthPrefixed output field) (\<lambda>output. write_fields output rest)"

definition signing_fields :: "contract_lib \<Rightarrow> UnsignedEnvelope \<Rightarrow> byte list list" where
  "signing_fields L e =
     [bytes_of signingDomainV1, bytes_of (Env_SchemaVersion e), bytes_of (Env_BundleKind e), bytes_of (Env_BundleID e),
      bytes_of (Env_TenantID e), bytes_of (Env_TargetID e), bytes_of (show_nat (unat (Env_Sequence e))),
      bytes_of (cl_format L (Env_IssuedAt e)), bytes_of (cl_format L (Env_ExpiresAt e)), bytes_of (Env_KeyID e),
      cl_sum256 L (Env_Payload e)]"

definition SigningInputV1 :: "contract_lib \<Rightarrow> UnsignedEnvelope \<Rightarrow> contract_error + byte list" where
  "SigningInputV1 L e = bind (ValidateMetadata L e) (\<lambda>_. write_fields [] (signing_fields L e))"

definition Envelope_Sign :: "contract_lib \<Rightarrow> Signer \<Rightarrow> UnsignedEnvelope \<Rightarrow> contract_error + SignedEnvelope" where
  "Envelope_Sign L s e =
     check (length (Signer_privateKey s) \<noteq> PrivateKeySize) (Refused ''signing private key is required'') (
     bind (Envelope_Validate L e) (\<lambda>_.
     bind (SigningInputV1 L e) (\<lambda>input.
     Inr \<lparr>Signed_Unsigned = e, Signed_EnvAlgorithm = SignatureAlgorithm,
          Signed_PayloadSHA256 = hex_Encode (cl_sum256 L (Env_Payload e)),
          Signed_EnvSignature = b64_encode StdEncoding (ed_sign (cl_ed L) (Signer_privateKey s) input)\<rparr>)))"

definition validateIntegrity :: "contract_lib \<Rightarrow> SignedEnvelope \<Rightarrow> contract_error + byte list" where
  "validateIntegrity L s =
     check (Signed_EnvAlgorithm s \<noteq> SignatureAlgorithm) (AlgorithmUnsupported (Signed_EnvAlgorithm s)) (
     bind (ValidateMetadata L (Signed_Unsigned s)) (\<lambda>_.
     check (Signed_PayloadSHA256 s \<noteq> hex_Encode (cl_sum256 L (Env_Payload (Signed_Unsigned s)))) (Refused ''payload hash does not match payload'') (
     case b64_decode StdEncoding (Signed_EnvSignature s) of
       None \<Rightarrow> Inl (Refused ''decode signature'')
     | Some signature \<Rightarrow> check (length signature \<noteq> SignatureSize) (Refused ''signature must be 64 bytes'') (Inr signature))))"

definition Envelope_Verify :: "contract_lib \<Rightarrow> time \<Rightarrow> Signer \<Rightarrow> SignedEnvelope \<Rightarrow> time \<Rightarrow> contract_error + unit" where
  \<comment> \<open>the second argument is the clock read when no time is given\<close>
  "Envelope_Verify L clock v s now =
     check (length (Signer_publicKey v) \<noteq> PublicKeySize) (Refused ''signing public key is required'') (
     bind (validateIntegrity L s) (\<lambda>signature.
     bind (SigningInputV1 L (Signed_Unsigned s)) (\<lambda>input.
     check (\<not> ed_verify (cl_ed L) (Signer_publicKey v) input signature) (Refused ''signature verification failed'') (
     let now = (if IsZero now then clock else now) in
     check (\<not> Env_ExpiresAt (Signed_Unsigned s) > now) (EnvelopeExpired (cl_format L (Env_ExpiresAt (Signed_Unsigned s)))) (
     validateProfileBinding L (Signed_Unsigned s))))))"

section \<open>The signing input determines the envelope\<close>

lemma div_step: "m div (k * 256) = n div (k * 256) \<Longrightarrow> m div k mod 256 = n div k mod 256 \<Longrightarrow> m div k = n div (k :: nat)"
  by (metis div_mult2_eq div_mult_mod_eq)

lemma be32_inj:
  assumes "be32 m = be32 n" "m < 4294967296" "n < 4294967296"
  shows "m = n"
proof -
  have d: "m div k mod 256 = n div k mod 256" if "k \<in> {1, 256, 65536, 16777216}" for k
  proof -
    have "(word_of_int (int m div int k) :: byte) = word_of_int (int n div int k)" using assms(1) that by (auto simp: be32_def)
    then have "uint (word_of_int (int m div int k) :: byte) = uint (word_of_int (int n div int k) :: byte)" by simp
    then have "(int m div int k) mod 256 = (int n div int k) mod 256" by (simp add: uint_word_of_int)
    then have "int (m div k mod 256) = int (n div k mod 256)" by (simp add: zdiv_int zmod_int)
    then show ?thesis by (simp only: of_nat_eq_iff)
  qed
  have top: "m div 16777216 = n div 16777216"
    using d [of 16777216] assms(2,3) by (simp add: less_mult_imp_div_less)
  have "m div 65536 = n div 65536" using div_step [of m 65536 n] d [of 65536] top by simp
  then have "m div 256 = n div 256" using div_step [of m 256 n] d [of 256] by simp
  then show ?thesis using div_step [of m 1 n] d [of 1] by simp
qed

definition prefixed :: "byte list \<Rightarrow> byte list" where
  "prefixed f = be32 (length f) @ f"

lemma write_fields_iff:
  "write_fields out fs = Inr r \<longleftrightarrow> (\<forall>f\<in>set fs. length f < 4294967296) \<and> r = out @ concat (map prefixed fs)"
  by (induction out fs rule: write_fields.induct) (auto simp: writeLengthPrefixed_def prefixed_def check_def bind_def)

lemma length_be32 [simp]: "length (be32 n) = 4"
  by (simp add: be32_def)

lemma prefixed_inj:
  assumes "concat (map prefixed fs) = concat (map prefixed gs)"
    and "\<forall>f\<in>set fs. length f < 4294967296" "\<forall>g\<in>set gs. length g < 4294967296"
  shows "fs = gs"
  using assms
proof (induction fs arbitrary: gs)
  case Nil
  then show ?case by (cases gs) (auto simp: prefixed_def be32_def)
next
  case (Cons f fs)
  then obtain g gs' where gs: "gs = g # gs'" by (cases gs) (auto simp: prefixed_def be32_def)
  have eq: "be32 (length f) @ f @ concat (map prefixed fs) = be32 (length g) @ g @ concat (map prefixed gs')"
    using Cons.prems(1) by (simp add: gs prefixed_def [of f] prefixed_def [of g])
  then have b: "be32 (length f) = be32 (length g)" "f @ concat (map prefixed fs) = g @ concat (map prefixed gs')"
    using append_eq_append_conv [of "be32 (length f)" "be32 (length g)"] by (metis length_be32)+
  have "length f = length g" using be32_inj [OF b(1)] Cons.prems gs by simp
  with b(2) have "f = g" "concat (map prefixed fs) = concat (map prefixed gs')" by simp_all
  with Cons.IH [of gs'] Cons.prems gs show ?case by simp
qed

lemma bytes_of_inject [simp]: "bytes_of s = bytes_of t \<longleftrightarrow> s = t"
proof -
  have "inj (\<lambda>c. word_of_nat (of_char c) :: byte)"
  proof (rule injI)
    fix c d :: char
    assume "(word_of_nat (of_char c) :: byte) = word_of_nat (of_char d)"
    then have "unat (word_of_nat (of_char c) :: byte) = unat (word_of_nat (of_char d) :: byte)" by simp
    then have "(of_char c :: nat) = of_char d" by (simp add: unat_of_nat nat_of_char_less_256)
    then show "c = d" by simp
  qed
  then show ?thesis by (simp add: bytes_of_def inj_map_eq_map)
qed

lemma show_nat_inject [simp]: "show_nat m = show_nat n \<longleftrightarrow> m = n"
  by (metis nat_of_digits_show_nat)

definition same_metadata :: "contract_lib \<Rightarrow> UnsignedEnvelope \<Rightarrow> UnsignedEnvelope \<Rightarrow> bool" where
  \<comment> \<open>what two envelopes with one signing input have in common: everything but the payload, and the hash of that\<close>
  "same_metadata L a b \<longleftrightarrow>
     a\<lparr>Env_Payload := []\<rparr> = b\<lparr>Env_Payload := []\<rparr> \<and> cl_sum256 L (Env_Payload a) = cl_sum256 L (Env_Payload b)"

lemma same_metadata_fields:
  "same_metadata L a b \<Longrightarrow>
     Env_SchemaVersion a = Env_SchemaVersion b \<and> Env_BundleKind a = Env_BundleKind b \<and> Env_BundleID a = Env_BundleID b \<and>
     Env_TenantID a = Env_TenantID b \<and> Env_TargetID a = Env_TargetID b \<and> Env_Sequence a = Env_Sequence b \<and>
     Env_IssuedAt a = Env_IssuedAt b \<and> Env_ExpiresAt a = Env_ExpiresAt b \<and> Env_KeyID a = Env_KeyID b \<and>
     cl_sum256 L (Env_Payload a) = cl_sum256 L (Env_Payload b)"
  by (cases a; cases b) (simp add: same_metadata_def)

lemma SigningInputV1_inj:
  assumes "SigningInputV1 L a = Inr m" "SigningInputV1 L b = Inr m" and "inj (cl_format L)"
  shows "same_metadata L a b"
proof -
  have "signing_fields L a = signing_fields L b"
    using assms(1,2) prefixed_inj [of "signing_fields L a" "signing_fields L b"]
    by (auto simp: SigningInputV1_def write_fields_iff)
  then show ?thesis
    using injD [OF assms(3)] word_unat_eq_iff [of "Env_Sequence a" "Env_Sequence b"]
    by (cases a; cases b) (auto simp: signing_fields_def same_metadata_def)
qed

section \<open>Signed deliveries\<close>

definition wire_plain :: "signedEnvelopeWire \<Rightarrow> bool" where
  \<comment> \<open>ASCII texts survive JSON; other byte strings may not be UTF-8\<close>
  "wire_plain w \<longleftrightarrow> list_all (list_all is_ascii)
     [Wire_SchemaVersion w, Wire_BundleKind w, Wire_BundleID w, Wire_TenantID w, Wire_TargetID w, Wire_KeyID w,
      Wire_PayloadBase64 w, Wire_Algorithm w, Wire_PayloadSHA256 w, Wire_Signature w]"

definition contract_laws :: "contract_lib \<Rightarrow> bool" where
  "contract_laws L \<longleftrightarrow>
     sign_laws (cl_ed L) \<and> (\<forall>k m. length k = PrivateKeySize \<longrightarrow> length (ed_sign (cl_ed L) k m) = SignatureSize) \<and>
     (\<forall>w data. wire_plain w \<longrightarrow> cl_marshal_signed L w = Inr data \<longrightarrow> cl_decode_signed L data = Inr (w, [])) \<and>
     cl_trailing L [] = EndOfInput"

definition env_plain :: "UnsignedEnvelope \<Rightarrow> bool" where
  "env_plain e \<longleftrightarrow> list_all (list_all is_ascii)
     [Env_SchemaVersion e, Env_BundleKind e, Env_BundleID e, Env_TenantID e, Env_TargetID e, Env_KeyID e]"

lemma NewVerifier_iff: "NewVerifier pk = Inr v \<longleftrightarrow> length pk = PublicKeySize \<and> v = \<lparr>Signer_publicKey = pk, Signer_privateKey = []\<rparr>"
  by (auto simp: NewVerifier_def)

lemma NewSigner_iff:
  "NewSigner k = Inr s \<longleftrightarrow> length k = PrivateKeySize \<and> s = \<lparr>Signer_publicKey = ed_Public k, Signer_privateKey = k\<rparr>"
  by (auto simp: NewSigner_def ed_Public_def Let_def)

lemma Envelope_Sign_iff:
  "Envelope_Sign L s e = Inr se \<longleftrightarrow>
     length (Signer_privateKey s) = PrivateKeySize \<and> Envelope_Validate L e = Inr () \<and>
     (\<exists>input. SigningInputV1 L e = Inr input \<and>
        se = \<lparr>Signed_Unsigned = e, Signed_EnvAlgorithm = SignatureAlgorithm,
          Signed_PayloadSHA256 = hex_Encode (cl_sum256 L (Env_Payload e)),
          Signed_EnvSignature = b64_encode StdEncoding (ed_sign (cl_ed L) (Signer_privateKey s) input)\<rparr>)"
  by (auto simp: Envelope_Sign_def)

lemma Envelope_Verify_iff:
  "Envelope_Verify L clock v se now = Inr () \<longleftrightarrow>
     length (Signer_publicKey v) = PublicKeySize \<and>
     (\<exists>sig input. validateIntegrity L se = Inr sig \<and> SigningInputV1 L (Signed_Unsigned se) = Inr input \<and>
        ed_verify (cl_ed L) (Signer_publicKey v) input sig) \<and>
     (if IsZero now then clock else now) < Env_ExpiresAt (Signed_Unsigned se) \<and>
     validateProfileBinding L (Signed_Unsigned se) = Inr ()"
  by (auto simp: Envelope_Verify_def Let_def check_def bind_def split: sum.splits if_splits)

lemma sign_integrity:
  assumes laws: "contract_laws L" and "Envelope_Sign L s e = Inr se"
  obtains input where "SigningInputV1 L e = Inr input"
    "validateIntegrity L se = Inr (ed_sign (cl_ed L) (Signer_privateKey s) input)" "Signed_Unsigned se = e"
proof -
  obtain input where k: "length (Signer_privateKey s) = PrivateKeySize" and v: "Envelope_Validate L e = Inr ()"
    and i: "SigningInputV1 L e = Inr input" and se: "se = \<lparr>Signed_Unsigned = e, Signed_EnvAlgorithm = SignatureAlgorithm,
          Signed_PayloadSHA256 = hex_Encode (cl_sum256 L (Env_Payload e)),
          Signed_EnvSignature = b64_encode StdEncoding (ed_sign (cl_ed L) (Signer_privateKey s) input)\<rparr>"
    using assms(2) by (auto simp: Envelope_Sign_iff)
  have "ValidateMetadata L e = Inr ()" using v by (simp add: Envelope_Validate_def)
  moreover have "length (ed_sign (cl_ed L) (Signer_privateKey s) input) = SignatureSize" using laws k by (simp add: contract_laws_def)
  ultimately show thesis using that i se by (simp add: validateIntegrity_def)
qed

lemma Signed_wire_roundtrip:
  assumes laws: "contract_laws L" and "Envelope_Sign L s e = Inr se" and "env_plain e"
    and m: "Signed_MarshalJSON L se = Inr data"
  shows "Signed_UnmarshalJSON L data = Inr se"
proof -
  have ascii: "list_all is_ascii (hex_Encode bs)" for bs
    using hex_Encode_chars [of bs] plain_hex_chars by (auto simp: list_all_iff)
  let ?w = "\<lparr>Wire_SchemaVersion = Env_SchemaVersion e, Wire_BundleKind = Env_BundleKind e, Wire_BundleID = Env_BundleID e,
        Wire_TenantID = Env_TenantID e, Wire_TargetID = Env_TargetID e, Wire_Sequence = Env_Sequence e,
        Wire_IssuedAt = Env_IssuedAt e, Wire_ExpiresAt = Env_ExpiresAt e, Wire_KeyID = Env_KeyID e,
        Wire_PayloadBase64 = b64_encode StdEncoding (Env_Payload e), Wire_Algorithm = Signed_EnvAlgorithm se,
        Wire_PayloadSHA256 = Signed_PayloadSHA256 se, Wire_Signature = Signed_EnvSignature se\<rparr>"
  have e: "Signed_Unsigned se = e" using assms(2) by (auto simp: Envelope_Sign_iff)
  have "list_all is_ascii SignatureAlgorithm" by code_simp
  then have "wire_plain ?w"
    using assms(2,3) b64_encode_ascii ascii by (auto simp: wire_plain_def env_plain_def Envelope_Sign_iff)
  moreover have "cl_marshal_signed L ?w = Inr data" using m e by (simp add: Signed_MarshalJSON_def Let_def)
  ultimately have "cl_decode_signed L data = Inr (?w, [])" using laws by (auto simp: contract_laws_def)
  then show ?thesis
    using laws e by (simp add: Signed_UnmarshalJSON_def decodeStrictJSON_def contract_laws_def unsignedEnvelope_def)
qed


lemma verified_issued:
  assumes "Envelope_Verify L clock v se now = Inr ()" and "inj (cl_format L)"
    and forge: "\<And>m sig. ed_verify (cl_ed L) (Signer_publicKey v) m sig \<Longrightarrow> \<exists>e\<in>issued. SigningInputV1 L e = Inr m"
  shows "\<exists>e\<in>issued. same_metadata L e (Signed_Unsigned se)"
proof -
  obtain sig input where v: "SigningInputV1 L (Signed_Unsigned se) = Inr input" "ed_verify (cl_ed L) (Signer_publicKey v) input sig"
    using assms(1) by (auto simp: Envelope_Verify_iff)
  obtain e where "e \<in> issued" "SigningInputV1 L e = Inr input" using forge [OF v(2)] by blast
  with SigningInputV1_inj [OF _ v(1) assms(2)] show ?thesis by blast
qed

text \<open>A verifier accepts only what the holder of the key signed. When every message whose signature the scheme accepts
  is the signing input of one of the envelopes \<open>issued\<close> (the signatures cannot be forged) and times are written
  injectively, an accepted envelope has the metadata of an issued one (schema, kind, identifiers, target, sequence
  number, validity, key) and a payload with the same hash, it has not expired, and its payload is a valid profile of
  that kind for that target.\<close>

lemma delivery_authentic:
  assumes "Envelope_Verify L clock v se now = Inr ()" and "inj (cl_format L)"
    and forge: "\<And>m sig. ed_verify (cl_ed L) (Signer_publicKey v) m sig \<Longrightarrow> \<exists>e\<in>issued. SigningInputV1 L e = Inr m"
  shows "(\<exists>e\<in>issued. same_metadata L e (Signed_Unsigned se)) \<and>
    (if IsZero now then clock else now) < Env_ExpiresAt (Signed_Unsigned se) \<and>
    (\<exists>profile. ParseProfile L (Env_Payload (Signed_Unsigned se)) = Inr profile \<and> Profile_Validate (cl_lower L) profile = Inr () \<and>
       Profile_Kind profile = Env_BundleKind (Signed_Unsigned se) \<and> profilePrincipalID profile = Env_TargetID (Signed_Unsigned se))"
proof (intro conjI)
  have v: "(if IsZero now then clock else now) < Env_ExpiresAt (Signed_Unsigned se)" "validateProfileBinding L (Signed_Unsigned se) = Inr ()"
    using assms(1) by (simp_all add: Envelope_Verify_iff)
  show "\<exists>e\<in>issued. same_metadata L e (Signed_Unsigned se)" using assms by (rule verified_issued)
  show "(if IsZero now then clock else now) < Env_ExpiresAt (Signed_Unsigned se)" by (rule v(1))
  show "\<exists>profile. ParseProfile L (Env_Payload (Signed_Unsigned se)) = Inr profile \<and> Profile_Validate (cl_lower L) profile = Inr () \<and>
       Profile_Kind profile = Env_BundleKind (Signed_Unsigned se) \<and> profilePrincipalID profile = Env_TargetID (Signed_Unsigned se)"
    using v(2) by (auto simp: validateProfileBinding_def ParseProfile_def check_def split: sum.splits if_splits)
qed

section \<open>A sample delivery\<close>

definition sample_pop :: PopProfile where
  "sample_pop = \<lparr>PopProfile_ID = ''pp'', PopProfile_PrincipalID = ''pop-a'', PopProfile_Routes =
     [\<lparr>Route_ID = ''r1'', Route_Selector = \<lparr>Selector_SourceCIDR = ''10.0.0.0/8'', Selector_DestinationCIDR = [], Selector_DomainSuffix = [],
         Selector_TrafficClass = [], Selector_Protocol = ''tcp'', Selector_Ports = Some \<lparr>PortRange_Start = 80, PortRange_End = 90\<rparr>\<rparr>,
       Route_Chain = \<lparr>Chain_ID = ''c1'', Chain_Hops = [''pop-b''], Chain_ReturnHops = [''pop-c'']\<rparr>, Route_DirectFallback = False\<rparr>,
      \<lparr>Route_ID = ''r2'', Route_Selector = \<lparr>Selector_SourceCIDR = ''10.0.0.0/8'', Selector_DestinationCIDR = [], Selector_DomainSuffix = [],
         Selector_TrafficClass = [], Selector_Protocol = [], Selector_Ports = None\<rparr>,
       Route_Chain = \<lparr>Chain_ID = ''c2'', Chain_Hops = [''pop-c''], Chain_ReturnHops = []\<rparr>, Route_DirectFallback = False\<rparr>]\<rparr>"

definition sample_env :: UnsignedEnvelope where
  "sample_env = \<lparr>Env_SchemaVersion = SchemaVersionV1, Env_BundleKind = ''pop'', Env_BundleID = ''b'', Env_TenantID = ''t'',
     Env_TargetID = ''pop-a'', Env_Sequence = 7, Env_IssuedAt = 5, Env_ExpiresAt = 9, Env_KeyID = ''k'', Env_Payload = [123, 125]\<rparr>"

definition sample_signature :: "byte list" where "sample_signature = replicate 64 1"

definition sample_wire :: signedEnvelopeWire where
  "sample_wire = \<lparr>Wire_SchemaVersion = SchemaVersionV1, Wire_BundleKind = ''pop'', Wire_BundleID = ''b'', Wire_TenantID = ''t'',
     Wire_TargetID = ''pop-a'', Wire_Sequence = 7, Wire_IssuedAt = 5, Wire_ExpiresAt = 9, Wire_KeyID = ''k'',
     Wire_PayloadBase64 = b64_encode StdEncoding [123, 125], Wire_Algorithm = SignatureAlgorithm,
     Wire_PayloadSHA256 = hex_Encode (replicate 32 7), Wire_Signature = b64_encode StdEncoding sample_signature\<rparr>"

definition sample_format :: "time \<Rightarrow> string" where
  "sample_format t = replicate (nat (if t < 0 then - 2 * t - 1 else 2 * t)) (CHR ''x'')"

lemma sample_format_inj: "inj sample_format"
proof (rule injI)
  fix s t :: int
  assume "sample_format s = sample_format t"
  then have "length (sample_format s) = length (sample_format t)" by simp
  then have "nat (if s < 0 then - 2 * s - 1 else 2 * s) = nat (if t < 0 then - 2 * t - 1 else 2 * t)"
    by (simp only: sample_format_def length_replicate)
  then show "s = t" by (cases "s < 0"; cases "t < 0"; simp add: eq_nat_nat_iff) presburger+
qed

definition sample_contract :: "(byte list \<Rightarrow> byte list \<Rightarrow> bool) \<Rightarrow> contract_lib" where
  \<comment> \<open>the argument says which messages verify under which signatures\<close>
  "sample_contract accepts =
     \<lparr>cl_ed = sample_lib\<lparr>ed_sign := \<lambda>k m. sample_signature, ed_verify := \<lambda>pk. accepts\<rparr>, cl_format = sample_format,
      cl_json_valid = (\<lambda>_. True),
      cl_decode_profile = (\<lambda>_. Inr (\<lparr>Profile_SchemaVersion = SchemaVersionV1, Profile_Kind = ''pop'', Profile_Client = None,
         Profile_Pop = Some sample_pop\<rparr>, [])),
      cl_decode_unsigned = (\<lambda>_. Inl []), cl_decode_signed = (\<lambda>_. Inr (sample_wire, [])), cl_trailing = (\<lambda>_. EndOfInput),
      cl_marshal_unsigned = (\<lambda>_. Inl []), cl_marshal_signed = (\<lambda>w. if w = sample_wire then Inr [1] else Inl [])\<rparr>"

lemma sample_contract_laws: "contract_laws (sample_contract (\<lambda>m sig. sig = sample_signature))"
  using sample_lib_laws by (auto simp: contract_laws_def sample_contract_def sign_laws_def sample_signature_def split: if_splits)

definition sample_signed :: SignedEnvelope where
  "sample_signed = \<lparr>Signed_Unsigned = sample_env, Signed_EnvAlgorithm = SignatureAlgorithm,
     Signed_PayloadSHA256 = hex_Encode (replicate 32 7), Signed_EnvSignature = b64_encode StdEncoding sample_signature\<rparr>"

definition sample_key :: "byte list" where "sample_key = replicate 64 3"

definition sample_verifier :: Signer where
  "sample_verifier = \<lparr>Signer_publicKey = replicate 32 3, Signer_privateKey = []\<rparr>"

definition sample_input :: "byte list" where
  "sample_input = concat (map prefixed (signing_fields (sample_contract (\<lambda>m sig. True)) sample_env))"

lemma sample_valid: "ValidateMetadata (sample_contract accepts) sample_env = Inr ()"
  "validateProfileBinding (sample_contract accepts) sample_env = Inr ()"
proof -
  have "ValidateMetadata (sample_contract (\<lambda>m sig. True)) sample_env = Inr ()" by code_simp
  then show "ValidateMetadata (sample_contract accepts) sample_env = Inr ()" by (simp add: ValidateMetadata_def sample_contract_def)
  have "validateProfileBinding (sample_contract (\<lambda>m sig. True)) sample_env = Inr ()" by code_simp
  then show "validateProfileBinding (sample_contract accepts) sample_env = Inr ()"
    by (simp add: validateProfileBinding_def ParseProfile_def decodeStrictJSON_def sample_contract_def)
qed

lemma sample_signing_input: "SigningInputV1 (sample_contract accepts) sample_env = Inr sample_input"
proof -
  have f: "signing_fields (sample_contract accepts) sample_env = signing_fields (sample_contract (\<lambda>m sig. True)) sample_env"
    by (simp add: signing_fields_def sample_contract_def)
  have "length (show_nat 7) = 1" by code_simp
  moreover have "length (bytes_of s) = length s" for s by (simp add: bytes_of_def)
  ultimately have "\<forall>f\<in>set (signing_fields (sample_contract accepts) sample_env). length f < 4294967296"
    by (simp add: signing_fields_def sample_contract_def sample_env_def sample_format_def sample_lib_def)
  then show ?thesis using f by (simp add: SigningInputV1_def sample_valid write_fields_iff sample_input_def)
qed

lemma sample_envelope_signed:
  "Envelope_Sign (sample_contract accepts) \<lparr>Signer_publicKey = ed_Public sample_key, Signer_privateKey = sample_key\<rparr> sample_env =
     Inr sample_signed"
  using sample_valid sample_signing_input
  by (simp add: Envelope_Sign_iff Envelope_Validate_def sample_signed_def sample_key_def)
    (simp add: sample_contract_def sample_lib_def)


definition sample_strict :: contract_lib where
  \<comment> \<open>a library that accepts one message only\<close>
  "sample_strict = sample_contract (\<lambda>m sig. m = sample_input)"

lemma sample_verified: "Envelope_Verify sample_strict 0 sample_verifier sample_signed 6 = Inr ()"
proof -
  have "validateIntegrity sample_strict sample_signed = Inr sample_signature"
    using sample_valid(1) by (simp add: validateIntegrity_def sample_signed_def sample_strict_def)
      (simp add: sample_contract_def sample_lib_def sample_signature_def)
  moreover have "ed_verify (cl_ed sample_strict) pk sample_input sig" for pk sig by (simp add: sample_strict_def sample_contract_def)
  ultimately show ?thesis
    using sample_valid(2) sample_signing_input
    by (auto simp: Envelope_Verify_iff sample_verifier_def sample_strict_def sample_signed_def IsZero_def sample_env_def)
qed

end
