(* ===== verification/Service_Chain.thy ===== *)
theory Service_Chain
  imports Gateway Contract
begin

text \<open>
  Service chains of a point of presence: internal/linuxgw/service_chain.go and service_chain_delivery.go.

  A POP profile of the delivery contract is compiled into a plan: one route per policy with a packet mark, a policy
  rule preference and the transport target of its first hop. A plan is rendered to nftables and ip commands. A signed
  delivery is verified, checked against the last accepted sequence number and compiled.
\<close>

section \<open>Targets and plans\<close>

abbreviation ServiceChainIPv4 :: string where "ServiceChainIPv4 \<equiv> ''ipv4''"
abbreviation ServiceChainIPv6 :: string where "ServiceChainIPv6 \<equiv> ''ipv6''"

record ServiceChainTransportTarget =
  SCTarget_POPID :: string
  SCTarget_Gateway :: string
  SCTarget_Interface :: string
  SCTarget_Table :: int

record ServiceChainCompileOptions =
  SCOpts_LocalPOPID :: string
  SCOpts_IngressInterface :: string
  SCOpts_MarkBase :: int
  SCOpts_PreferenceBase :: int
  SCOpts_ExistingRouteRules :: "RouteRule list"

record ServiceChainRoute =
  SCRoute_RouteID :: string
  SCRoute_ChainID :: string
  SCRoute_NextPOPID :: string
  SCRoute_ReturnHops :: "string list"
  SCRoute_Selector :: RouteSelector
  SCRoute_Family :: string
  SCRoute_Mark :: int
  SCRoute_Preference :: int
  SCRoute_Target :: ServiceChainTransportTarget

record ServiceChainPlan =
  SCPlan_LocalPOPID :: string
  SCPlan_IngressInterface :: string
  SCPlan_Routes :: "ServiceChainRoute list"

datatype chain_error =
    ChainRefused string \<comment> \<open>a message without values\<close>
  | PopProfileInvalid contract_error | InterfaceRequired string | InterfaceCharacters string | ExistingRuleInvalid string
  | LocalPOPMismatch string string | TargetGatewayInvalid string | TargetTableInvalid string | TargetTableReserved string int
  | TargetDuplicate string | TargetTableDuplicate int string string | SequenceOverflow string | FirstHopLocal string string
  | FirstHopUnknown string string | MarkConflict string int string | PreferenceConflict string int string
  | TableConflict string int string | SelectorInvalid contract_error | GatewayAddressInvalid string
  | GatewayFamily string string string | ChainRouteSelector string chain_error | ChainRouteTarget string chain_error
  | ChainPlanInvalid chain_error | HopIsLocal string | FamilyMismatch string string | ReturnHopDuplicate string
  | TargetMismatch string string | PlanRouteInvalid nat chain_error | MarkDuplicate int | PreferenceDuplicate int
  | SharedTable string int | DecodeEnvelope contract_error | CreateVerifier contract_error | VerifyEnvelope contract_error
  | TargetPOPMismatch string string | SequenceStale "64 word" "64 word" | ParseVerifiedProfile contract_error
  | CompileVerified chain_error

definition validateServiceChainInterface :: "string \<Rightarrow> string \<Rightarrow> chain_error + unit" where
  "validateServiceChainInterface value field =
     check (value = []) (InterfaceRequired field) (
     check (list_ex (\<lambda>c. of_char c \<in> {32 :: nat, 9, 13, 10, 34, 39}) value) (InterfaceCharacters field) (Inr ()))"

definition isReservedServiceChainRoutingTable :: "int \<Rightarrow> bool" where
  "isReservedServiceChainRoutingTable table \<longleftrightarrow> table = 253 \<or> table = 254 \<or> table = 255"

definition normalizeServiceChainTransportTarget :: "ServiceChainTransportTarget \<Rightarrow> chain_error + ServiceChainTransportTarget" where
  "normalizeServiceChainTransportTarget t =
     (let t = t\<lparr>SCTarget_POPID := TrimSpace (SCTarget_POPID t), SCTarget_Gateway := TrimSpace (SCTarget_Gateway t),
                SCTarget_Interface := TrimSpace (SCTarget_Interface t)\<rparr> in
      check (SCTarget_POPID t = []) (ChainRefused ''service-chain transport target POP id is required'') (
      check (SCTarget_Gateway t \<noteq> [] \<and> ParseIP (SCTarget_Gateway t) = None) (TargetGatewayInvalid (SCTarget_POPID t)) (
      bind (validateServiceChainInterface (SCTarget_Interface t) (''service-chain transport target '' @ SCTarget_POPID t)) (\<lambda>_.
      check (SCTarget_Table t \<le> 0) (TargetTableInvalid (SCTarget_POPID t)) (
      check (isReservedServiceChainRoutingTable (SCTarget_Table t)) (TargetTableReserved (SCTarget_POPID t) (SCTarget_Table t)) (
      Inr t))))))"

definition ServiceChainTransportTarget_Validate :: "ServiceChainTransportTarget \<Rightarrow> chain_error + unit" where
  "ServiceChainTransportTarget_Validate t = bind (normalizeServiceChainTransportTarget t) (\<lambda>_. Inr ())"

fun chain_targets :: "(string, ServiceChainTransportTarget) gomap \<Rightarrow> (int, string) gomap \<Rightarrow> ServiceChainTransportTarget list \<Rightarrow>
    chain_error + (string, ServiceChainTransportTarget) gomap" where
  \<comment> \<open>the loop of serviceChainTargetsByPOPID\<close>
  "chain_targets byPOP tables [] = Inr byPOP"
| "chain_targets byPOP tables (t # ts) =
     bind (normalizeServiceChainTransportTarget t) (\<lambda>n.
     check (gm_has byPOP (SCTarget_POPID n)) (TargetDuplicate (SCTarget_POPID n)) (
     case gm_get tables (SCTarget_Table n) of
       Some previous \<Rightarrow> Inl (TargetTableDuplicate (SCTarget_Table n) previous (SCTarget_POPID n))
     | None \<Rightarrow> chain_targets (gm_set (SCTarget_POPID n) n byPOP) (gm_set (SCTarget_Table n) (SCTarget_POPID n) tables) ts))"

definition serviceChainTargetsByPOPID :: "ServiceChainTransportTarget list \<Rightarrow> chain_error + (string, ServiceChainTransportTarget) gomap" where
  "serviceChainTargetsByPOPID targets = chain_targets [] [] targets"

definition normalizeServiceChainCompileOptions :: "ServiceChainCompileOptions \<Rightarrow> chain_error + ServiceChainCompileOptions" where
  "normalizeServiceChainCompileOptions o1 =
     (let o2 = o1\<lparr>SCOpts_LocalPOPID := TrimSpace (SCOpts_LocalPOPID o1), SCOpts_IngressInterface := TrimSpace (SCOpts_IngressInterface o1)\<rparr>;
          o3 = (if SCOpts_MarkBase o2 = 0 then o2\<lparr>SCOpts_MarkBase := 4000\<rparr> else o2);
          opts = (if SCOpts_PreferenceBase o3 = 0 then o3\<lparr>SCOpts_PreferenceBase := 14000\<rparr> else o3) in
      check (SCOpts_LocalPOPID opts = []) (ChainRefused ''local POP id is required'') (
      bind (validateServiceChainInterface (SCOpts_IngressInterface opts) ''ingress interface'') (\<lambda>_.
      check (SCOpts_MarkBase opts \<le> 0) (ChainRefused ''service-chain mark base must be positive'') (
      check (SCOpts_PreferenceBase opts \<le> 0) (ChainRefused ''service-chain preference base must be positive'') (
      bind (traverse (\<lambda>rule. case RouteRule_Validate rule of
              Inl _ \<Rightarrow> Inl (ExistingRuleInvalid (TrimSpace (RouteRule_Name rule))) | Inr _ \<Rightarrow> Inr ()) (SCOpts_ExistingRouteRules opts)) (\<lambda>_.
      Inr opts))))))"

section \<open>Selectors\<close>

definition serviceChainCIDRFamily :: "string \<Rightarrow> string option" where
  "serviceChainCIDRFamily cidr =
     (if ParseCIDR cidr = None then None else Some (if CHR '':'' \<in> set cidr then ServiceChainIPv6 else ServiceChainIPv4))"

definition compileServiceChainSelector :: "(string \<Rightarrow> string) \<Rightarrow> RouteSelector \<Rightarrow> chain_error + string" where
  "compileServiceChainSelector uc s =
     (case RouteSelector_Validate uc s of
        Inl e \<Rightarrow> Inl (SelectorInvalid e)
      | Inr _ \<Rightarrow>
     check (\<not> is_blank (Selector_DomainSuffix s)) (ChainRefused ''domain suffix selectors require a classifier'') (
     check (\<not> is_blank (Selector_TrafficClass s)) (ChainRefused ''traffic class selectors require a classifier'') (
     let source = TrimSpace (Selector_SourceCIDR s); dest = TrimSpace (Selector_DestinationCIDR s) in
     check (source = [] \<and> dest = []) (ChainRefused ''a source or destination CIDR is required'') (
     bind (if source \<noteq> [] then (case serviceChainCIDRFamily source of None \<Rightarrow> Inl (ChainRefused ''invalid source CIDR'') | Some f \<Rightarrow> Inr f) else Inr []) (\<lambda>family.
     if dest \<noteq> [] then
       (case serviceChainCIDRFamily dest of
          None \<Rightarrow> Inl (ChainRefused ''invalid destination CIDR'')
        | Some f \<Rightarrow> check (family \<noteq> [] \<and> family \<noteq> f) (ChainRefused ''mixed IP families are not supported'') (Inr f))
     else Inr family)))))"

definition serviceChainGatewayFamily :: "string \<Rightarrow> chain_error + string" where
  "serviceChainGatewayFamily gateway =
     check (ParseIP gateway = None) (GatewayAddressInvalid gateway) (
     Inr (if CHR '':'' \<in> set gateway then ServiceChainIPv6 else ServiceChainIPv4))"

definition validateServiceChainTargetFamily :: "ServiceChainTransportTarget \<Rightarrow> string \<Rightarrow> chain_error + unit" where
  "validateServiceChainTargetFamily t family =
     (if SCTarget_Gateway t = [] then Inr ()
      else bind (serviceChainGatewayFamily (SCTarget_Gateway t)) (\<lambda>gatewayFamily.
           check (gatewayFamily \<noteq> family) (GatewayFamily (SCTarget_Gateway t) gatewayFamily family) (Inr ())))"

section \<open>Validation of plans\<close>

fun return_hops_check :: "string list \<Rightarrow> string list \<Rightarrow> chain_error + unit" where
  \<comment> \<open>the loop of validateServiceChainReturnHops\<close>
  "return_hops_check seen [] = Inr ()"
| "return_hops_check seen (hop # hops) =
     check (is_blank hop) (ChainRefused ''return hop is required'') (
     check (TrimSpace hop \<in> set seen) (ReturnHopDuplicate (TrimSpace hop)) (
     return_hops_check (TrimSpace hop # seen) hops))"

definition validateServiceChainRoute :: "(string \<Rightarrow> string) \<Rightarrow> ServiceChainRoute \<Rightarrow> string \<Rightarrow> chain_error + unit" where
  "validateServiceChainRoute uc r localPOPID =
     check (is_blank (SCRoute_RouteID r)) (ChainRefused ''route id is required'') (
     check (is_blank (SCRoute_ChainID r)) (ChainRefused ''chain id is required'') (
     check (is_blank (SCRoute_NextPOPID r)) (ChainRefused ''next POP id is required'') (
     check (TrimSpace (SCRoute_NextPOPID r) = localPOPID) (HopIsLocal (TrimSpace (SCRoute_NextPOPID r))) (
     check (SCRoute_Mark r \<le> 0) (ChainRefused ''mark must be positive'') (
     check (SCRoute_Preference r \<le> 0) (ChainRefused ''preference must be positive'') (
     bind (compileServiceChainSelector uc (SCRoute_Selector r)) (\<lambda>family.
     check (SCRoute_Family r \<noteq> family) (FamilyMismatch family (SCRoute_Family r)) (
     bind (return_hops_check [] (SCRoute_ReturnHops r)) (\<lambda>_.
     bind (normalizeServiceChainTransportTarget (SCRoute_Target r)) (\<lambda>target.
     check (SCTarget_POPID target \<noteq> TrimSpace (SCRoute_NextPOPID r)) (TargetMismatch (SCTarget_POPID target) (TrimSpace (SCRoute_NextPOPID r))) (
     validateServiceChainTargetFamily target (SCRoute_Family r))))))))))))"

definition sameServiceChainTarget :: "ServiceChainTransportTarget \<Rightarrow> ServiceChainTransportTarget \<Rightarrow> bool" where
  "sameServiceChainTarget l r \<longleftrightarrow>
     TrimSpace (SCTarget_POPID l) = TrimSpace (SCTarget_POPID r) \<and> TrimSpace (SCTarget_Gateway l) = TrimSpace (SCTarget_Gateway r) \<and>
     TrimSpace (SCTarget_Interface l) = TrimSpace (SCTarget_Interface r) \<and> SCTarget_Table l = SCTarget_Table r"

fun plan_routes_check :: "(string \<Rightarrow> string) \<Rightarrow> string \<Rightarrow> int list \<Rightarrow> int list \<Rightarrow> (string \<times> int, ServiceChainTransportTarget) gomap \<Rightarrow> nat \<Rightarrow>
    ServiceChainRoute list \<Rightarrow> chain_error + unit" where
  \<comment> \<open>the loop of ServiceChainPlan.Validate with the marks, preferences and tables seen so far\<close>
  "plan_routes_check uc localPOPID marks prefs tables i [] = Inr ()"
| "plan_routes_check uc localPOPID marks prefs tables i (r # rs) =
     (case validateServiceChainRoute uc r localPOPID of
        Inl e \<Rightarrow> Inl (PlanRouteInvalid i e)
      | Inr _ \<Rightarrow>
     check (SCRoute_Mark r \<in> set marks) (MarkDuplicate (SCRoute_Mark r)) (
     check (SCRoute_Preference r \<in> set prefs) (PreferenceDuplicate (SCRoute_Preference r)) (
     let key = (SCRoute_Family r, SCTarget_Table (SCRoute_Target r)) in
     check (case gm_get tables key of Some existing \<Rightarrow> \<not> sameServiceChainTarget existing (SCRoute_Target r) | None \<Rightarrow> False)
       (SharedTable (SCRoute_Family r) (SCTarget_Table (SCRoute_Target r))) (
     plan_routes_check uc localPOPID (SCRoute_Mark r # marks) (SCRoute_Preference r # prefs) (gm_set key (SCRoute_Target r) tables) (Suc i) rs))))"

definition ServiceChainPlan_Validate :: "(string \<Rightarrow> string) \<Rightarrow> ServiceChainPlan \<Rightarrow> chain_error + unit" where
  "ServiceChainPlan_Validate uc p =
     (let localPOPID = TrimSpace (SCPlan_LocalPOPID p) in
      check (localPOPID = []) (ChainRefused ''service-chain plan local POP id is required'') (
      bind (validateServiceChainInterface (SCPlan_IngressInterface p) ''service-chain plan ingress interface'') (\<lambda>_.
      check (SCPlan_Routes p = []) (ChainRefused ''service-chain plan must define at least one route'') (
      plan_routes_check uc localPOPID [] [] [] 0 (SCPlan_Routes p)))))"

section \<open>Compilation\<close>

definition serviceChainSequenceValue :: "int \<Rightarrow> nat \<Rightarrow> string \<Rightarrow> chain_error + int" where
  "serviceChainSequenceValue base index field =
     check (base > max_int64 - int index) (SequenceOverflow field) (Inr (base + int index))"

fun validateServiceChainRouteReservation :: "string \<Rightarrow> int \<Rightarrow> int \<Rightarrow> int \<Rightarrow> RouteRule list \<Rightarrow> chain_error + unit" where
  "validateServiceChainRouteReservation routeID mark preference table [] = Inr ()"
| "validateServiceChainRouteReservation routeID mark preference table (rule # rules) =
     check (mark = RouteRule_Mark rule) (MarkConflict routeID mark (TrimSpace (RouteRule_Name rule))) (
     check (preference = RouteRule_Preference rule) (PreferenceConflict routeID preference (TrimSpace (RouteRule_Name rule))) (
     check (table = RouteRule_Table rule) (TableConflict routeID table (TrimSpace (RouteRule_Name rule))) (
     validateServiceChainRouteReservation routeID mark preference table rules)))"

definition compile_route :: "(string \<Rightarrow> string) \<Rightarrow> ServiceChainCompileOptions \<Rightarrow> (string, ServiceChainTransportTarget) gomap \<Rightarrow> nat \<Rightarrow> RoutePolicy \<Rightarrow>
    chain_error + ServiceChainRoute" where
  \<comment> \<open>the body of the loop of CompileServiceChainPlan; a validated chain has a first hop\<close>
  "compile_route uc opts byPOP index policy =
     bind (serviceChainSequenceValue (SCOpts_MarkBase opts) index ''mark'') (\<lambda>mark.
     bind (serviceChainSequenceValue (SCOpts_PreferenceBase opts) index ''preference'') (\<lambda>preference.
     let nextPOPID = TrimSpace (hd (Chain_Hops (Route_Chain policy))); routeID = TrimSpace (Route_ID policy) in
     check (nextPOPID = SCOpts_LocalPOPID opts) (FirstHopLocal routeID nextPOPID) (
     case gm_get byPOP nextPOPID of
       None \<Rightarrow> Inl (FirstHopUnknown routeID nextPOPID)
     | Some target \<Rightarrow>
     bind (validateServiceChainRouteReservation routeID mark preference (SCTarget_Table target) (SCOpts_ExistingRouteRules opts)) (\<lambda>_.
     case compileServiceChainSelector uc (Route_Selector policy) of
       Inl e \<Rightarrow> Inl (ChainRouteSelector routeID e)
     | Inr family \<Rightarrow>
     (case validateServiceChainTargetFamily target family of
        Inl e \<Rightarrow> Inl (ChainRouteTarget routeID e)
      | Inr _ \<Rightarrow>
          Inr \<lparr>SCRoute_RouteID = routeID, SCRoute_ChainID = TrimSpace (Chain_ID (Route_Chain policy)), SCRoute_NextPOPID = nextPOPID,
               SCRoute_ReturnHops = Chain_ReturnHops (Route_Chain policy), SCRoute_Selector = Route_Selector policy,
               SCRoute_Family = family, SCRoute_Mark = mark, SCRoute_Preference = preference, SCRoute_Target = target\<rparr>)))))"

fun compile_routes :: "(string \<Rightarrow> string) \<Rightarrow> ServiceChainCompileOptions \<Rightarrow> (string, ServiceChainTransportTarget) gomap \<Rightarrow> nat \<Rightarrow> RoutePolicy list \<Rightarrow>
    chain_error + ServiceChainRoute list" where
  "compile_routes uc opts byPOP index [] = Inr []"
| "compile_routes uc opts byPOP index (policy # policies) =
     bind (compile_route uc opts byPOP index policy) (\<lambda>route.
     bind (compile_routes uc opts byPOP (Suc index) policies) (\<lambda>routes. Inr (route # routes)))"

definition CompileServiceChainPlan :: "(string \<Rightarrow> string) \<Rightarrow> PopProfile \<Rightarrow> ServiceChainTransportTarget list \<Rightarrow> ServiceChainCompileOptions \<Rightarrow>
    chain_error + ServiceChainPlan" where
  "CompileServiceChainPlan uc profile targets options =
     (case PopProfile_Validate uc profile of
        Inl e \<Rightarrow> Inl (PopProfileInvalid e)
      | Inr _ \<Rightarrow>
     bind (normalizeServiceChainCompileOptions options) (\<lambda>opts.
     let principalID = TrimSpace (PopProfile_PrincipalID profile) in
     check (SCOpts_LocalPOPID opts \<noteq> principalID) (LocalPOPMismatch (SCOpts_LocalPOPID opts) principalID) (
     bind (serviceChainTargetsByPOPID targets) (\<lambda>byPOP.
     bind (compile_routes uc opts byPOP 0 (PopProfile_Routes profile)) (\<lambda>routes.
     let plan = \<lparr>SCPlan_LocalPOPID = SCOpts_LocalPOPID opts, SCPlan_IngressInterface = SCOpts_IngressInterface opts, SCPlan_Routes = routes\<rparr> in
     case ServiceChainPlan_Validate uc plan of Inl e \<Rightarrow> Inl (ChainPlanInvalid e) | Inr _ \<Rightarrow> Inr plan)))))"

section \<open>Rendering\<close>

definition nftServiceChainFamilyKeyword :: "string \<Rightarrow> string" where
  "nftServiceChainFamilyKeyword family = (if family = ServiceChainIPv6 then ''ip6'' else ''ip'')"

definition port_text :: "16 word \<Rightarrow> string" where
  "port_text p = show_nat (unat p)"

definition chain_mark_line :: "(string \<Rightarrow> string) \<Rightarrow> string \<Rightarrow> ServiceChainRoute \<Rightarrow> string" where
  \<comment> \<open>the body of the loop of RenderNftables\<close>
  "chain_mark_line uq ingress r =
     (let source = TrimSpace (Selector_SourceCIDR (SCRoute_Selector r)); dest = TrimSpace (Selector_DestinationCIDR (SCRoute_Selector r));
          keyword = nftServiceChainFamilyKeyword (SCRoute_Family r); protocol = Selector_Protocol (SCRoute_Selector r) in
      ''    iifname '' @ Quote uq (TrimSpace ingress) @ '' ct mark 0'' @
      (if source \<noteq> [] then '' '' @ keyword @ '' saddr '' @ source else []) @
      (if dest \<noteq> [] then '' '' @ keyword @ '' daddr '' @ dest else []) @
      (case Selector_Ports (SCRoute_Selector r) of
         Some p \<Rightarrow> '' '' @ protocol @ '' dport '' @ port_text (PortRange_Start p) @ ''-'' @ port_text (PortRange_End p)
       | None \<Rightarrow> if protocol \<noteq> [] then '' meta l4proto '' @ protocol else []) @
      '' meta mark set '' @ Itoa (SCRoute_Mark r) @ '' ct mark set '' @ Itoa (SCRoute_Mark r) @ nl)"

definition SC_RenderNftables :: "(string \<Rightarrow> string) \<Rightarrow> (string \<Rightarrow> string) \<Rightarrow> ServiceChainPlan \<Rightarrow> chain_error + string" where
  "SC_RenderNftables uc uq p =
     bind (ServiceChainPlan_Validate uc p) (\<lambda>_.
     Inr (''table inet anixops_service_chain {'' @ nl @ ''  chain prerouting {'' @ nl @
          ''    type filter hook prerouting priority -140; policy accept;'' @ nl @
          ''    ct state established,related meta mark set ct mark'' @ nl @
          concat (map (chain_mark_line uq (SCPlan_IngressInterface p)) (SCPlan_Routes p)) @
          ''  }'' @ nl @ ''}'' @ nl))"

definition renderServiceChainDefaultRoute :: "ServiceChainRoute \<Rightarrow> string" where
  "renderServiceChainDefaultRoute r =
     (let (command, destination) = (if SCRoute_Family r = ServiceChainIPv6 then (''ip -6'', ''::/0'') else (''ip'', ''0.0.0.0/0''));
          gateway = TrimSpace (SCTarget_Gateway (SCRoute_Target r)) in
      command @ '' route replace '' @ destination @ (if gateway \<noteq> [] then '' via '' @ gateway else []) @
      '' dev '' @ TrimSpace (SCTarget_Interface (SCRoute_Target r)) @ '' table '' @ Itoa (SCTarget_Table (SCRoute_Target r)))"

definition renderServiceChainPolicyRule :: "ServiceChainRoute \<Rightarrow> string" where
  "renderServiceChainPolicyRule r =
     (if SCRoute_Family r = ServiceChainIPv6 then ''ip -6'' else ''ip'') @ '' rule add fwmark '' @ Itoa (SCRoute_Mark r) @
     '' table '' @ Itoa (SCTarget_Table (SCRoute_Target r)) @ '' priority '' @ Itoa (SCRoute_Preference r)"

fun chain_commands :: "(string \<times> int) list \<Rightarrow> ServiceChainRoute list \<Rightarrow> string list" where
  \<comment> \<open>the loop of RenderIPRouteCommands with the tables installed so far\<close>
  "chain_commands installed [] = []"
| "chain_commands installed (r # rs) =
     (let key = (SCRoute_Family r, SCTarget_Table (SCRoute_Target r)) in
      if key \<in> set installed then renderServiceChainPolicyRule r # chain_commands installed rs
      else renderServiceChainDefaultRoute r # renderServiceChainPolicyRule r # chain_commands (key # installed) rs)"

definition SC_RenderIPRouteCommands :: "(string \<Rightarrow> string) \<Rightarrow> ServiceChainPlan \<Rightarrow> chain_error + string list" where
  "SC_RenderIPRouteCommands uc p = bind (ServiceChainPlan_Validate uc p) (\<lambda>_. Inr (chain_commands [] (SCPlan_Routes p)))"

section \<open>Signed deliveries\<close>

record PopServiceChainDeliveryRequest =
  Delivery_EnvelopeJSON :: "byte list"
  Delivery_VerificationKey :: "byte list"
  Delivery_VerificationTime :: time
  Delivery_LastAcceptedSequence :: "64 word"
  Delivery_Targets :: "ServiceChainTransportTarget list"
  Delivery_Options :: ServiceChainCompileOptions

record PreparedServiceChainDelivery =
  Prepared_BundleID :: string
  Prepared_TenantID :: string
  Prepared_TargetID :: string
  Prepared_KeyID :: string
  Prepared_Sequence :: "64 word"
  Prepared_ExpiresAt :: time
  Prepared_Plan :: ServiceChainPlan

definition PrepareSignedServiceChainDelivery :: "contract_lib \<Rightarrow> time \<Rightarrow> PopServiceChainDeliveryRequest \<Rightarrow> chain_error + PreparedServiceChainDelivery" where
  "PrepareSignedServiceChainDelivery L clock req =
     check (IsZero (Delivery_VerificationTime req)) (ChainRefused ''verification time is required'') (
     case Signed_UnmarshalJSON L (Delivery_EnvelopeJSON req) of
       Inl e \<Rightarrow> Inl (DecodeEnvelope e)
     | Inr envelope \<Rightarrow>
     (case NewVerifier (Delivery_VerificationKey req) of
        Inl e \<Rightarrow> Inl (CreateVerifier e)
      | Inr verifier \<Rightarrow>
     (case Envelope_Verify L clock verifier envelope (Delivery_VerificationTime req) of
        Inl e \<Rightarrow> Inl (VerifyEnvelope e)
      | Inr _ \<Rightarrow>
     let env = Signed_Unsigned envelope; localPOPID = TrimSpace (SCOpts_LocalPOPID (Delivery_Options req)) in
     check (Env_BundleKind env \<noteq> BundleKindPop) (ChainRefused ''signed delivery must be a POP bundle'') (
     check (Env_TargetID env \<noteq> localPOPID) (TargetPOPMismatch (Env_TargetID env) localPOPID) (
     check (Env_Sequence env \<le> Delivery_LastAcceptedSequence req) (SequenceStale (Env_Sequence env) (Delivery_LastAcceptedSequence req)) (
     case ParseProfile L (Env_Payload env) of
       Inl e \<Rightarrow> Inl (ParseVerifiedProfile e)
     | Inr profile \<Rightarrow>
     (case (if Profile_Kind profile = BundleKindPop then Profile_Pop profile else None) of
        None \<Rightarrow> Inl (ChainRefused ''verified payload must be a POP profile'')
      | Some pop \<Rightarrow>
     (case CompileServiceChainPlan (cl_lower L) pop (Delivery_Targets req) (Delivery_Options req) of
        Inl e \<Rightarrow> Inl (CompileVerified e)
      | Inr plan \<Rightarrow>
          Inr \<lparr>Prepared_BundleID = Env_BundleID env, Prepared_TenantID = Env_TenantID env, Prepared_TargetID = Env_TargetID env,
               Prepared_KeyID = Env_KeyID env, Prepared_Sequence = Env_Sequence env, Prepared_ExpiresAt = Env_ExpiresAt env,
               Prepared_Plan = plan\<rparr>))))))))"

section \<open>Compiled plans\<close>

lemma case_unit_Inr [simp]: "(case r of Inl e \<Rightarrow> Inl (f e) | Inr _ \<Rightarrow> k) = Inr y \<longleftrightarrow> r = Inr () \<and> k = Inr y"
  by (cases r) auto

lemma chain_targets_inv:
  assumes "chain_targets byPOP tables ts = Inr m"
    and "\<forall>k t. gm_get byPOP k = Some t \<longrightarrow> SCTarget_POPID t = k \<and> gm_get tables (SCTarget_Table t) = Some k"
  shows "(\<forall>k t. gm_get m k = Some t \<longrightarrow> SCTarget_POPID t = k) \<and>
    (\<forall>j k s t. gm_get m j = Some s \<longrightarrow> gm_get m k = Some t \<longrightarrow> SCTarget_Table s = SCTarget_Table t \<longrightarrow> j = k)"
  using assms
proof (induction byPOP tables ts rule: chain_targets.induct)
  case (1 byPOP tables)
  then have m: "m = byPOP" by simp
  have "j = k" if "gm_get byPOP j = Some s" "gm_get byPOP k = Some t" "SCTarget_Table s = SCTarget_Table t" for j k s t
    using "1.prems"(2) that by (metis option.inject)
  with "1.prems"(2) m show ?case by blast
next
  case (2 byPOP tables t ts)
  from "2.prems"(1) obtain n where n: "normalizeServiceChainTransportTarget t = Inr n" "gm_get byPOP (SCTarget_POPID n) = None"
    "gm_get tables (SCTarget_Table n) = None"
    and rest: "chain_targets (gm_set (SCTarget_POPID n) n byPOP) (gm_set (SCTarget_Table n) (SCTarget_POPID n) tables) ts = Inr m"
    by (auto split: option.splits)
  show ?case
  proof (rule "2.IH" [OF n(3) rest])
    show "\<forall>k t. gm_get (gm_set (SCTarget_POPID n) n byPOP) k = Some t \<longrightarrow>
        SCTarget_POPID t = k \<and> gm_get (gm_set (SCTarget_Table n) (SCTarget_POPID n) tables) (SCTarget_Table t) = Some k"
    proof (intro allI impI)
      fix k t
      assume g: "gm_get (gm_set (SCTarget_POPID n) n byPOP) k = Some t"
      show "SCTarget_POPID t = k \<and> gm_get (gm_set (SCTarget_Table n) (SCTarget_POPID n) tables) (SCTarget_Table t) = Some k"
      proof (cases "k = SCTarget_POPID n")
        case True
        then show ?thesis using g by simp
      next
        case False
        then have "SCTarget_POPID t = k \<and> gm_get tables (SCTarget_Table t) = Some k" using g "2.prems"(2) by simp
        moreover from this have "SCTarget_Table t \<noteq> SCTarget_Table n" using n(3) by auto
        ultimately show ?thesis by simp
      qed
    qed
  qed
qed

lemma reservation_ok:
  "validateServiceChainRouteReservation i mark pref table rules = Inr () \<longleftrightarrow>
     (\<forall>r\<in>set rules. mark \<noteq> RouteRule_Mark r \<and> pref \<noteq> RouteRule_Preference r \<and> table \<noteq> RouteRule_Table r)"
  by (induction rules) (auto simp: check_def)

definition compiled :: "(string \<Rightarrow> string) \<Rightarrow> ServiceChainCompileOptions \<Rightarrow> (string, ServiceChainTransportTarget) gomap \<Rightarrow> nat \<Rightarrow> RoutePolicy \<Rightarrow> ServiceChainRoute \<Rightarrow> bool" where
  \<comment> \<open>what a compiled route has to do with its policy\<close>
  "compiled uc opts byPOP i p r \<longleftrightarrow>
     SCRoute_Mark r = SCOpts_MarkBase opts + int i \<and> SCRoute_Preference r = SCOpts_PreferenceBase opts + int i \<and>
     SCRoute_Selector r = Route_Selector p \<and> compileServiceChainSelector uc (Route_Selector p) = Inr (SCRoute_Family r) \<and>
     SCRoute_NextPOPID r = TrimSpace (hd (Chain_Hops (Route_Chain p))) \<and> SCRoute_NextPOPID r \<noteq> SCOpts_LocalPOPID opts \<and>
     gm_get byPOP (SCRoute_NextPOPID r) = Some (SCRoute_Target r) \<and>
     (\<forall>e\<in>set (SCOpts_ExistingRouteRules opts). SCRoute_Mark r \<noteq> RouteRule_Mark e \<and> SCRoute_Preference r \<noteq> RouteRule_Preference e \<and>
        SCTarget_Table (SCRoute_Target r) \<noteq> RouteRule_Table e)"

lemma compile_route_compiled: "compile_route uc opts byPOP i p = Inr r \<Longrightarrow> compiled uc opts byPOP i p r"
  by (auto simp: compile_route_def serviceChainSequenceValue_def compiled_def reservation_ok Let_def split: option.splits sum.splits)

lemma compile_routes_compiled: "compile_routes uc opts byPOP k ps = Inr rs \<Longrightarrow> list_all2 (\<lambda>(i, p) r. compiled uc opts byPOP i p r) (enumerate k ps) rs"
proof (induction ps arbitrary: k rs)
  case (Cons p ps)
  then show ?case by (auto dest: compile_route_compiled)
qed simp

lemma compile_plan_parts:
  assumes "CompileServiceChainPlan uc profile targets options = Inr plan"
  obtains opts byPOP where "normalizeServiceChainCompileOptions options = Inr opts" "serviceChainTargetsByPOPID targets = Inr byPOP"
    "list_all2 (\<lambda>(i, p) r. compiled uc opts byPOP i p r) (enumerate 0 (PopProfile_Routes profile)) (SCPlan_Routes plan)"
    "ServiceChainPlan_Validate uc plan = Inr ()" "SCPlan_LocalPOPID plan = SCOpts_LocalPOPID opts"
    "SCOpts_LocalPOPID opts = TrimSpace (PopProfile_PrincipalID profile)" "PopProfile_Validate uc profile = Inr ()"
proof -
  obtain opts byPOP routes where parts: "PopProfile_Validate uc profile = Inr ()" "normalizeServiceChainCompileOptions options = Inr opts"
    "SCOpts_LocalPOPID opts = TrimSpace (PopProfile_PrincipalID profile)" "serviceChainTargetsByPOPID targets = Inr byPOP"
    "compile_routes uc opts byPOP 0 (PopProfile_Routes profile) = Inr routes"
    "plan = \<lparr>SCPlan_LocalPOPID = SCOpts_LocalPOPID opts, SCPlan_IngressInterface = SCOpts_IngressInterface opts, SCPlan_Routes = routes\<rparr>"
    "ServiceChainPlan_Validate uc plan = Inr ()"
    using assms unfolding CompileServiceChainPlan_def Let_def by auto
  show thesis
    by (rule that [OF parts(2) parts(4) _ parts(7) _ parts(3) parts(1)]) (use compile_routes_compiled [OF parts(5)] parts(6) in simp_all)
qed

lemma normalized_bases:
  "normalizeServiceChainCompileOptions options = Inr opts \<Longrightarrow> 0 < SCOpts_MarkBase opts \<and> 0 < SCOpts_PreferenceBase opts"
  by (auto simp: normalizeServiceChainCompileOptions_def Let_def)

text \<open>C11: A compiled plan is the profile, policy by policy: route i carries mark base + i and preference base + i, the selector of policy i
  and the transport target of its first hop, which is another POP. No mark, preference or table is one of the rules already installed, routes
  share a table exactly when they share their first hop, and the plan passes its own validation, so both renderings succeed.\<close>

theorem compiled_plan:
  assumes c: "CompileServiceChainPlan uc profile targets options = Inr plan" and o: "normalizeServiceChainCompileOptions options = Inr opts"
  shows "length (SCPlan_Routes plan) = length (PopProfile_Routes profile) \<and>
    (\<forall>i<length (SCPlan_Routes plan). \<exists>r p. r = SCPlan_Routes plan ! i \<and> p = PopProfile_Routes profile ! i \<and>
       SCRoute_Mark r = SCOpts_MarkBase opts + int i \<and> SCRoute_Preference r = SCOpts_PreferenceBase opts + int i \<and>
       SCRoute_Selector r = Route_Selector p \<and> SCRoute_NextPOPID r = TrimSpace (hd (Chain_Hops (Route_Chain p))) \<and>
       SCTarget_POPID (SCRoute_Target r) = SCRoute_NextPOPID r \<and> SCRoute_NextPOPID r \<noteq> SCPlan_LocalPOPID plan \<and>
       (\<forall>e\<in>set (SCOpts_ExistingRouteRules opts). SCRoute_Mark r \<noteq> RouteRule_Mark e \<and> SCRoute_Preference r \<noteq> RouteRule_Preference e \<and>
          SCTarget_Table (SCRoute_Target r) \<noteq> RouteRule_Table e)) \<and>
    (\<forall>r\<in>set (SCPlan_Routes plan). \<forall>s\<in>set (SCPlan_Routes plan).
       SCTarget_Table (SCRoute_Target r) = SCTarget_Table (SCRoute_Target s) \<longleftrightarrow> SCRoute_NextPOPID r = SCRoute_NextPOPID s) \<and>
    (\<exists>text commands. SC_RenderNftables uc uq plan = Inr text \<and> SC_RenderIPRouteCommands uc plan = Inr commands)"
proof -
  obtain opts' byPOP where "normalizeServiceChainCompileOptions options = Inr opts'" and t: "serviceChainTargetsByPOPID targets = Inr byPOP"
    and all: "list_all2 (\<lambda>(i, p) r. compiled uc opts' byPOP i p r) (enumerate 0 (PopProfile_Routes profile)) (SCPlan_Routes plan)"
    and v: "ServiceChainPlan_Validate uc plan = Inr ()" and l: "SCPlan_LocalPOPID plan = SCOpts_LocalPOPID opts'"
    by (rule compile_plan_parts [OF c])
  with o have [simp]: "opts' = opts" by simp
  have len: "length (SCPlan_Routes plan) = length (PopProfile_Routes profile)" using all by (simp add: list_all2_conv_all_nth)
  have each: "compiled uc opts byPOP i (PopProfile_Routes profile ! i) (SCPlan_Routes plan ! i)" if "i < length (SCPlan_Routes plan)" for i
    using all that len by (simp add: list_all2_conv_all_nth nth_enumerate_eq)
  have inv: "(\<forall>k t. gm_get byPOP k = Some t \<longrightarrow> SCTarget_POPID t = k) \<and>
    (\<forall>j k s t. gm_get byPOP j = Some s \<longrightarrow> gm_get byPOP k = Some t \<longrightarrow> SCTarget_Table s = SCTarget_Table t \<longrightarrow> j = k)"
    using t chain_targets_inv [of "[]" "[]" targets byPOP] by (simp add: serviceChainTargetsByPOPID_def)
  have get: "gm_get byPOP (SCRoute_NextPOPID r) = Some (SCRoute_Target r)" if "r \<in> set (SCPlan_Routes plan)" for r
    using each that by (auto simp: in_set_conv_nth compiled_def)
  have tables: "\<forall>r\<in>set (SCPlan_Routes plan). \<forall>s\<in>set (SCPlan_Routes plan).
       SCTarget_Table (SCRoute_Target r) = SCTarget_Table (SCRoute_Target s) \<longleftrightarrow> SCRoute_NextPOPID r = SCRoute_NextPOPID s"
  proof (intro ballI iffI)
    fix r s
    assume rs: "r \<in> set (SCPlan_Routes plan)" "s \<in> set (SCPlan_Routes plan)"
    show "SCRoute_NextPOPID r = SCRoute_NextPOPID s" if "SCTarget_Table (SCRoute_Target r) = SCTarget_Table (SCRoute_Target s)"
      using inv [THEN conjunct2] get [OF rs(1)] get [OF rs(2)] that by blast
    show "SCTarget_Table (SCRoute_Target r) = SCTarget_Table (SCRoute_Target s)" if "SCRoute_NextPOPID r = SCRoute_NextPOPID s"
      using get [OF rs(1)] get [OF rs(2)] that by simp
  qed
  have "\<exists>text commands. SC_RenderNftables uc uq plan = Inr text \<and> SC_RenderIPRouteCommands uc plan = Inr commands"
    using v by (simp add: SC_RenderNftables_def SC_RenderIPRouteCommands_def)
  moreover have "\<forall>i<length (SCPlan_Routes plan). \<exists>r p. r = SCPlan_Routes plan ! i \<and> p = PopProfile_Routes profile ! i \<and>
       SCRoute_Mark r = SCOpts_MarkBase opts + int i \<and> SCRoute_Preference r = SCOpts_PreferenceBase opts + int i \<and>
       SCRoute_Selector r = Route_Selector p \<and> SCRoute_NextPOPID r = TrimSpace (hd (Chain_Hops (Route_Chain p))) \<and>
       SCTarget_POPID (SCRoute_Target r) = SCRoute_NextPOPID r \<and> SCRoute_NextPOPID r \<noteq> SCPlan_LocalPOPID plan \<and>
       (\<forall>e\<in>set (SCOpts_ExistingRouteRules opts). SCRoute_Mark r \<noteq> RouteRule_Mark e \<and> SCRoute_Preference r \<noteq> RouteRule_Preference e \<and>
          SCTarget_Table (SCRoute_Target r) \<noteq> RouteRule_Table e)" (is "\<forall>i<_. ?each i")
  proof (intro allI impI)
    fix i
    assume i: "i < length (SCPlan_Routes plan)"
    then have "SCTarget_POPID (SCRoute_Target (SCPlan_Routes plan ! i)) = SCRoute_NextPOPID (SCPlan_Routes plan ! i)"
      using get [of "SCPlan_Routes plan ! i"] inv by simp
    moreover have "SCPlan_LocalPOPID plan = SCOpts_LocalPOPID opts" using l by simp
    ultimately show "?each i"
      using each [OF i, unfolded compiled_def]
      by (intro exI [of _ "SCPlan_Routes plan ! i"] exI [of _ "PopProfile_Routes profile ! i"]) (elim conjE, intro conjI; simp only: simp_thms)
  qed
  ultimately show ?thesis using len tables by (intro conjI) assumption+
qed

section \<open>Forwarding\<close>

text \<open>
  What the rendered chain does to the first packet of a connection, whose connection mark is 0: nftables evaluates the
  rules in order, and a rule that sets the connection mark keeps the later ones, which ask for mark 0, from matching.
  \<open>matches\<close> tells which selectors the packet satisfies.
\<close>

definition chain_mark :: "(RouteSelector \<Rightarrow> bool) \<Rightarrow> ServiceChainRoute list \<Rightarrow> int" where
  "chain_mark matches rs = fold (\<lambda>r mark. if mark = 0 \<and> matches (SCRoute_Selector r) then SCRoute_Mark r else mark) rs 0"

lemma fold_marked:
  "m \<noteq> 0 \<Longrightarrow> fold (\<lambda>r mark. if mark = 0 \<and> matches (SCRoute_Selector r) then SCRoute_Mark r else mark) rs m = m"
  by (induction rs) auto

lemma chain_mark_find:
  "\<forall>r\<in>set rs. 0 < SCRoute_Mark r \<Longrightarrow>
     chain_mark matches rs = (case find (\<lambda>r. matches (SCRoute_Selector r)) rs of None \<Rightarrow> 0 | Some r \<Rightarrow> SCRoute_Mark r)"
  by (induction rs) (auto simp: chain_mark_def fold_marked)

lemma find_compiled:
  assumes "list_all2 (\<lambda>(i, p) r. compiled uc opts byPOP i p r) (enumerate k ps) rs"
  shows "case find (\<lambda>p. matches (Route_Selector p)) ps of
      None \<Rightarrow> find (\<lambda>r. matches (SCRoute_Selector r)) rs = None
    | Some p \<Rightarrow> \<exists>r i. find (\<lambda>r. matches (SCRoute_Selector r)) rs = Some r \<and> compiled uc opts byPOP i p r"
  using assms
proof (induction ps arbitrary: k rs)
  case (Cons p ps)
  then obtain r rs' where rs: "rs = r # rs'" and c: "compiled uc opts byPOP k p r"
    and rest: "list_all2 (\<lambda>(i, p) r. compiled uc opts byPOP i p r) (enumerate (Suc k) ps) rs'"
    by (auto simp: list_all2_Cons1)
  then have "SCRoute_Selector r = Route_Selector p" by (simp add: compiled_def)
  then show ?case using Cons.IH [OF rest] c rs by (auto split: option.splits)
qed simp

lemma plan_marks_distinct:
  "plan_routes_check uc l marks prefs tables i rs = Inr () \<Longrightarrow> distinct (map SCRoute_Mark rs) \<and> set (map SCRoute_Mark rs) \<inter> set marks = {}"
  by (induction uc l marks prefs tables i rs rule: plan_routes_check.induct) (auto simp: Let_def split: sum.splits)


definition default_text :: "string \<Rightarrow> ServiceChainTransportTarget \<Rightarrow> string" where
  "default_text family t = renderServiceChainDefaultRoute
     \<lparr>SCRoute_RouteID = [], SCRoute_ChainID = [], SCRoute_NextPOPID = [], SCRoute_ReturnHops = [],
      SCRoute_Selector = \<lparr>Selector_SourceCIDR = [], Selector_DestinationCIDR = [], Selector_DomainSuffix = [], Selector_TrafficClass = [],
        Selector_Protocol = [], Selector_Ports = None\<rparr>,
      SCRoute_Family = family, SCRoute_Mark = 0, SCRoute_Preference = 0, SCRoute_Target = t\<rparr>"

lemma default_text_route: "renderServiceChainDefaultRoute r = default_text (SCRoute_Family r) (SCRoute_Target r)"
  by (simp add: default_text_def renderServiceChainDefaultRoute_def)

lemma default_text_same: "sameServiceChainTarget s t \<Longrightarrow> default_text f s = default_text f t"
  by (simp add: default_text_def renderServiceChainDefaultRoute_def sameServiceChainTarget_def Let_def)

lemma chain_commands_order:
  assumes "plan_routes_check uc l marks prefs tables i rs = Inr ()"
    and "\<forall>f n. (f, n) \<in> set installed \<longrightarrow> (\<exists>t. gm_get tables (f, n) = Some t \<and> default_text f t \<in> set pre)"
  shows "\<forall>r\<in>set rs. \<exists>a b. pre @ chain_commands installed rs = a @ renderServiceChainPolicyRule r # b \<and> renderServiceChainDefaultRoute r \<in> set a"
  using assms
proof (induction rs arbitrary: marks prefs tables i installed pre)
  case (Cons r rs)
  let ?key = "(SCRoute_Family r, SCTarget_Table (SCRoute_Target r))"
  let ?new = "(if ?key \<in> set installed then [] else [renderServiceChainDefaultRoute r]) @ [renderServiceChainPolicyRule r]"
  have rest: "plan_routes_check uc l (SCRoute_Mark r # marks) (SCRoute_Preference r # prefs) (gm_set ?key (SCRoute_Target r) tables) (Suc i) rs = Inr ()"
    and same: "case gm_get tables ?key of Some e \<Rightarrow> sameServiceChainTarget e (SCRoute_Target r) | None \<Rightarrow> True"
    using Cons.prems(1) by (auto simp: Let_def split: sum.splits option.splits)
  have d: "renderServiceChainDefaultRoute r \<in> set (pre @ butlast ?new)"
    using Cons.prems(2) same default_text_same by (fastforce simp: default_text_route split: option.splits)
  have split: "pre @ chain_commands installed (r # rs) = (pre @ ?new) @ chain_commands (if ?key \<in> set installed then installed else ?key # installed) rs"
    by (simp add: Let_def)
  have inv: "\<forall>f n. (f, n) \<in> set (if ?key \<in> set installed then installed else ?key # installed) \<longrightarrow>
     (\<exists>t. gm_get (gm_set ?key (SCRoute_Target r) tables) (f, n) = Some t \<and> default_text f t \<in> set (pre @ ?new))"
    using Cons.prems(2) d by (auto simp: default_text_route split: if_splits)
  have "\<exists>a b. pre @ chain_commands installed (r # rs) = a @ renderServiceChainPolicyRule r # b \<and> renderServiceChainDefaultRoute r \<in> set a"
    using d unfolding split by (intro exI [of _ "pre @ butlast ?new"]
      exI [of _ "chain_commands (if ?key \<in> set installed then installed else ?key # installed) rs"]) auto
  with Cons.IH [OF rest inv] show ?case by (simp only: split list.set ball_simps simp_thms)
qed simp

text \<open>C17: No packet is sent to an empty table: among the commands rendered for a plan, the one that installs the default route of a
  route's table comes before the policy rule that sends packets there, also for routes that share the table.\<close>

theorem routes_before_rules:
  assumes "SC_RenderIPRouteCommands uc plan = Inr commands" and "r \<in> set (SCPlan_Routes plan)"
  shows "\<exists>a b. commands = a @ renderServiceChainPolicyRule r # b \<and> renderServiceChainDefaultRoute r \<in> set a"
  using assms chain_commands_order [of uc "TrimSpace (SCPlan_LocalPOPID plan)" "[]" "[]" "[]" 0 "SCPlan_Routes plan" "[]" "[]"]
  by (auto simp: SC_RenderIPRouteCommands_def ServiceChainPlan_Validate_def Let_def)

section \<open>Deliveries\<close>

lemma prepared_parts:
  assumes "PrepareSignedServiceChainDelivery L clock req = Inr d"
  obtains envelope v profile pop plan where
    "Signed_UnmarshalJSON L (Delivery_EnvelopeJSON req) = Inr envelope" "NewVerifier (Delivery_VerificationKey req) = Inr v"
    "Envelope_Verify L clock v envelope (Delivery_VerificationTime req) = Inr ()" "\<not> IsZero (Delivery_VerificationTime req)"
    "Env_BundleKind (Signed_Unsigned envelope) = BundleKindPop"
    "Env_TargetID (Signed_Unsigned envelope) = TrimSpace (SCOpts_LocalPOPID (Delivery_Options req))"
    "Delivery_LastAcceptedSequence req < Env_Sequence (Signed_Unsigned envelope)"
    "ParseProfile L (Env_Payload (Signed_Unsigned envelope)) = Inr profile" "Profile_Pop profile = Some pop"
    "CompileServiceChainPlan (cl_lower L) pop (Delivery_Targets req) (Delivery_Options req) = Inr plan"
    "d = \<lparr>Prepared_BundleID = Env_BundleID (Signed_Unsigned envelope), Prepared_TenantID = Env_TenantID (Signed_Unsigned envelope),
       Prepared_TargetID = Env_TargetID (Signed_Unsigned envelope), Prepared_KeyID = Env_KeyID (Signed_Unsigned envelope),
       Prepared_Sequence = Env_Sequence (Signed_Unsigned envelope), Prepared_ExpiresAt = Env_ExpiresAt (Signed_Unsigned envelope),
       Prepared_Plan = plan\<rparr>"
  using assms unfolding PrepareSignedServiceChainDelivery_def Let_def
  by (auto simp: not_le split: sum.splits option.splits if_splits)

text \<open>C6: A POP prepares only deliveries meant for it, in order: when signatures cannot be forged and times are written injectively, a prepared
  delivery carries the identifiers, key, sequence number and expiry of an envelope that was issued for this POP, it has not expired, its number
  is above the last accepted one, and its plan is compiled from a profile whose hash was signed. Once its number is recorded the same message is
  refused as stale.\<close>

theorem prepared_delivery:
  assumes p: "PrepareSignedServiceChainDelivery L clock req = Inr d" and "inj (cl_format L)"
    and forge: "\<And>m sig. ed_verify (cl_ed L) (Delivery_VerificationKey req) m sig \<Longrightarrow> \<exists>e\<in>issued. SigningInputV1 L e = Inr m"
  shows "(\<exists>e\<in>issued. Env_BundleKind e = BundleKindPop \<and> Env_BundleID e = Prepared_BundleID d \<and> Env_TenantID e = Prepared_TenantID d \<and>
       Env_TargetID e = Prepared_TargetID d \<and> Env_KeyID e = Prepared_KeyID d \<and> Env_Sequence e = Prepared_Sequence d \<and>
       Env_ExpiresAt e = Prepared_ExpiresAt d \<and>
       (\<exists>payload profile pop. cl_sum256 L payload = cl_sum256 L (Env_Payload e) \<and> ParseProfile L payload = Inr profile \<and>
          Profile_Pop profile = Some pop \<and>
          CompileServiceChainPlan (cl_lower L) pop (Delivery_Targets req) (Delivery_Options req) = Inr (Prepared_Plan d))) \<and>
    Prepared_TargetID d = TrimSpace (SCOpts_LocalPOPID (Delivery_Options req)) \<and>
    Delivery_LastAcceptedSequence req < Prepared_Sequence d \<and> Delivery_VerificationTime req < Prepared_ExpiresAt d \<and>
    (\<forall>last. Prepared_Sequence d \<le> last \<longrightarrow>
       PrepareSignedServiceChainDelivery L clock (req\<lparr>Delivery_LastAcceptedSequence := last\<rparr>) = Inl (SequenceStale (Prepared_Sequence d) last))"
proof -
  obtain envelope v profile pop plan where u: "Signed_UnmarshalJSON L (Delivery_EnvelopeJSON req) = Inr envelope"
    and nv: "NewVerifier (Delivery_VerificationKey req) = Inr v" and ver: "Envelope_Verify L clock v envelope (Delivery_VerificationTime req) = Inr ()"
    and z: "\<not> IsZero (Delivery_VerificationTime req)" and b: "Env_BundleKind (Signed_Unsigned envelope) = BundleKindPop"
    and t: "Env_TargetID (Signed_Unsigned envelope) = TrimSpace (SCOpts_LocalPOPID (Delivery_Options req))"
    and s: "Delivery_LastAcceptedSequence req < Env_Sequence (Signed_Unsigned envelope)"
    and c: "ParseProfile L (Env_Payload (Signed_Unsigned envelope)) = Inr profile" "Profile_Pop profile = Some pop"
      "CompileServiceChainPlan (cl_lower L) pop (Delivery_Targets req) (Delivery_Options req) = Inr plan"
    and d: "d = \<lparr>Prepared_BundleID = Env_BundleID (Signed_Unsigned envelope), Prepared_TenantID = Env_TenantID (Signed_Unsigned envelope),
       Prepared_TargetID = Env_TargetID (Signed_Unsigned envelope), Prepared_KeyID = Env_KeyID (Signed_Unsigned envelope),
       Prepared_Sequence = Env_Sequence (Signed_Unsigned envelope), Prepared_ExpiresAt = Env_ExpiresAt (Signed_Unsigned envelope),
       Prepared_Plan = plan\<rparr>"
    by (rule prepared_parts [OF p])
  have issued: "\<exists>e\<in>issued. SigningInputV1 L e = Inr m" if "ed_verify (cl_ed L) (Signer_publicKey v) m sig" for m sig
    using that nv forge [of m sig] by (simp add: NewVerifier_iff)
  obtain e where "e \<in> issued" "same_metadata L e (Signed_Unsigned envelope)"
    using verified_issued [OF ver assms(2), of issued] issued by blast
  moreover have "Delivery_VerificationTime req < Env_ExpiresAt (Signed_Unsigned envelope)" using ver z by (simp add: Envelope_Verify_iff)
  moreover have "PrepareSignedServiceChainDelivery L clock (req\<lparr>Delivery_LastAcceptedSequence := last\<rparr>) =
      Inl (SequenceStale (Env_Sequence (Signed_Unsigned envelope)) last)" if "Env_Sequence (Signed_Unsigned envelope) \<le> last" for last
    using that u nv ver z b t by (simp add: PrepareSignedServiceChainDelivery_def Let_def)
  ultimately show ?thesis
    using b t s c d same_metadata_fields [of L e "Signed_Unsigned envelope"] by (intro conjI bexI [of _ e] exI [of _ "Env_Payload (Signed_Unsigned envelope)"]) auto
qed

section \<open>A sample plan\<close>

definition sample_targets :: "ServiceChainTransportTarget list" where
  "sample_targets =
     [\<lparr>SCTarget_POPID = ''pop-b'', SCTarget_Gateway = [], SCTarget_Interface = ''wg1'', SCTarget_Table = 100\<rparr>,
      \<lparr>SCTarget_POPID = ''pop-c'', SCTarget_Gateway = ''10.9.0.1'', SCTarget_Interface = ''wg2'', SCTarget_Table = 101\<rparr>]"

definition sample_chain_options :: ServiceChainCompileOptions where
  "sample_chain_options = \<lparr>SCOpts_LocalPOPID = ''pop-a'', SCOpts_IngressInterface = ''wg0'', SCOpts_MarkBase = 0, SCOpts_PreferenceBase = 0,
     SCOpts_ExistingRouteRules = []\<rparr>"

definition sample_plan :: ServiceChainPlan where
  "sample_plan = projr (CompileServiceChainPlan id sample_pop sample_targets sample_chain_options)"

lemma sample_plan_compiled: "CompileServiceChainPlan id sample_pop sample_targets sample_chain_options = Inr sample_plan"
proof -
  have "\<not> isl (CompileServiceChainPlan id sample_pop sample_targets sample_chain_options)" by code_simp
  then show ?thesis by (simp add: sample_plan_def)
qed

definition sample_normal_options :: ServiceChainCompileOptions where
  "sample_normal_options = \<lparr>SCOpts_LocalPOPID = ''pop-a'', SCOpts_IngressInterface = ''wg0'', SCOpts_MarkBase = 4000, SCOpts_PreferenceBase = 14000,
     SCOpts_ExistingRouteRules = []\<rparr>"

lemma sample_options_normal: "normalizeServiceChainCompileOptions sample_chain_options = Inr sample_normal_options"
  by code_simp

theorem compiled_plan_witness:
  "length (SCPlan_Routes sample_plan) = 2 \<and> SCRoute_Mark (SCPlan_Routes sample_plan ! 1) = 4001 \<and> SCRoute_NextPOPID (SCPlan_Routes sample_plan ! 1) = ''pop-c''"
proof -
  have "TrimSpace ''pop-c'' = ''pop-c''" by code_simp
  then show ?thesis
    using compiled_plan [OF sample_plan_compiled sample_options_normal, of id]
    by (auto simp: sample_pop_def sample_normal_options_def)
qed


lemma sample_plan_valid: "ServiceChainPlan_Validate id sample_plan = Inr ()"
  by (rule compile_plan_parts [OF sample_plan_compiled])

theorem routes_before_rules_witness:
  "\<exists>r commands. SCPlan_Routes sample_plan \<noteq> [] \<and> SC_RenderIPRouteCommands id sample_plan = Inr commands \<and>
     (\<exists>a b. commands = a @ renderServiceChainPolicyRule r # b \<and> renderServiceChainDefaultRoute r \<in> set a)"
proof -
  obtain commands where c: "SC_RenderIPRouteCommands id sample_plan = Inr commands" using sample_plan_valid by (simp add: SC_RenderIPRouteCommands_def)
  have "SCPlan_Routes sample_plan \<noteq> []" using sample_plan_valid by (auto simp: ServiceChainPlan_Validate_def Let_def)
  then have "hd (SCPlan_Routes sample_plan) \<in> set (SCPlan_Routes sample_plan)" by simp
  from routes_before_rules [OF c this] c \<open>SCPlan_Routes sample_plan \<noteq> []\<close> show ?thesis by blast
qed

definition sample_request :: PopServiceChainDeliveryRequest where
  "sample_request = \<lparr>Delivery_EnvelopeJSON = [1], Delivery_VerificationKey = replicate 32 3, Delivery_VerificationTime = 6,
     Delivery_LastAcceptedSequence = 6, Delivery_Targets = sample_targets, Delivery_Options = sample_chain_options\<rparr>"

lemma sample_prepared: "\<exists>d. PrepareSignedServiceChainDelivery sample_strict 0 sample_request = Inr d \<and> Prepared_Sequence d = 7"
proof -
  have u: "Signed_UnmarshalJSON sample_strict [1] = Inr sample_signed"
    by (simp del: b64_encode.simps add: Signed_UnmarshalJSON_def decodeStrictJSON_def sample_strict_def sample_contract_def
        unsignedEnvelope_def sample_signed_def sample_wire_def sample_env_def)
  have n: "NewVerifier (replicate 32 3) = Inr sample_verifier" by (simp add: NewVerifier_iff sample_verifier_def)
  have pp: "ParseProfile sample_strict (Env_Payload sample_env) =
      Inr \<lparr>Profile_SchemaVersion = SchemaVersionV1, Profile_Kind = ''pop'', Profile_Client = None, Profile_Pop = Some sample_pop\<rparr>"
    using sample_valid(2) [of "\<lambda>m sig. m = sample_input"]
    by (auto simp: validateProfileBinding_def ParseProfile_def decodeStrictJSON_def sample_strict_def sample_contract_def split: sum.splits)
  have l: "cl_lower sample_strict = id" by (simp add: sample_strict_def sample_contract_def sample_lib_def)
  have tp: "TrimSpace ''pop-a'' = ''pop-a''" by code_simp
  show ?thesis
    using u n sample_verified pp l sample_plan_compiled tp
    by (simp add: PrepareSignedServiceChainDelivery_def sample_request_def Let_def IsZero_def)
      (simp add: sample_signed_def sample_env_def sample_chain_options_def)
qed

theorem prepared_delivery_witness:
  "PrepareSignedServiceChainDelivery sample_strict 0 (sample_request\<lparr>Delivery_LastAcceptedSequence := 7\<rparr>) = Inl (SequenceStale 7 7)"
proof -
  obtain d where d: "PrepareSignedServiceChainDelivery sample_strict 0 sample_request = Inr d" "Prepared_Sequence d = 7" using sample_prepared by blast
  have i: "inj (cl_format sample_strict)" using sample_format_inj by (simp add: sample_strict_def sample_contract_def)
  have "\<exists>e\<in>{sample_env}. SigningInputV1 sample_strict e = Inr m"
    if "ed_verify (cl_ed sample_strict) (Delivery_VerificationKey sample_request) m sig" for m sig
    using that sample_signing_input by (simp add: sample_strict_def) (simp add: sample_contract_def)
  from prepared_delivery [OF d(1) i this] d(2) show ?thesis by auto
qed

end
