(* ===== verification/Observers.thy ===== *)
theory Observers
  imports Gateway
begin

text \<open>
  Observing traffic: internal/linuxgw/dns_observer.go, packet_observer.go, dns_journal_tail.go, packet_command.go, dns_log_tail.go,
  dns_observed_apply.go and conntrack_observed_apply.go. The readers are closed by a deferred call, which has no effect here.

  Lines of dnsmasq and conntrack output are parsed to requests for the policy engine. A reader is the list of its lines and
  the error that ends it; a stream pairs each line with the answer of the context's Err before it. A handler takes a request
  and a state of the world to an error or none and the next state.
\<close>

datatype observe_error =
    ObsTenantRequired | ReaderRequired | HandlerRequired | LogPathRequired
  | ObsScan string | ObsHandler string | ObsContext ctx_error | SourceCIDRRefused string
  | CreateObsCommand string | OpenObsStdout string | StartObsCommand string | WaitObsCommand string
  | OpenLog string | ReadLog string | LogOffset string | StatLog string | ResetLog string
  | ObsGateway gateway_error

type_synonym reader = "string list \<times> string option" \<comment> \<open>the lines, and the error after them\<close>

section \<open>Lines\<close>

fun after_colon :: "string \<Rightarrow> string option" where
  \<comment> \<open>what follows the first colon and space\<close>
  "after_colon (c # d # s) = (if c = CHR '':'' \<and> d = CHR '' '' then Some s else after_colon (d # s))"
| "after_colon _ = None"

definition ParseDNSMasqLogLine :: "string \<Rightarrow> string \<Rightarrow> observe_error + Request option" where
  \<comment> \<open>None when the line is no observation\<close>
  "ParseDNSMasqLogLine tenantID line =
     (let tenantID = TrimSpace tenantID in
      check (tenantID = []) ObsTenantRequired (
      let payload = TrimSpace line;
          payload = (case after_colon payload of Some rest \<Rightarrow> TrimSpace rest | None \<Rightarrow> payload);
          fields = Fields payload in
      Inr (if length fields < 4 then None
           else if fields ! 0 \<notin> {''reply'', ''cached'', ''config''} then None
           else if fields ! 2 \<noteq> ''is'' then None
           else case ParseIP (fields ! 3) of
                  None \<Rightarrow> None
                | Some ip \<Rightarrow>
                    (let domain = TrimSuffix (TrimSpace (fields ! 1)) ''.'' in
                     if domain = [] then None
                     else Some \<lparr>Request_TenantID = tenantID, Request_Domain = domain, Request_IP = IP_String ip,
                                Request_ASN = 0, Request_Class = []\<rparr>))))"

definition trim_brackets :: "string \<Rightarrow> string" where
  \<comment> \<open>strings.Trim with the characters of brackets and comma\<close>
  "trim_brackets s = rev (dropWhile (\<lambda>c. c \<in> set ''[],'') (rev (dropWhile (\<lambda>c. c \<in> set ''[],'') s)))"

fun conntrack_fields :: "ip option \<Rightarrow> ip option \<Rightarrow> string list \<Rightarrow> ip option \<times> ip option" where
  \<comment> \<open>the loop of parseConntrackLineWithSources: the first source and destination\<close>
  "conntrack_fields src dst [] = (src, dst)"
| "conntrack_fields src dst (field # rest) =
     (if CHR ''='' \<notin> set field then conntrack_fields src dst rest
      else
        (let key = takeWhile (\<lambda>c. c \<noteq> CHR ''='') field;
             val = trim_brackets (drop 1 (dropWhile (\<lambda>c. c \<noteq> CHR ''='') field));
             src = (if key = ''src'' \<and> src = None then ParseIP val else src);
             dst = (if key = ''dst'' \<and> dst = None then ParseIP val else dst) in
         if src \<noteq> None \<and> dst \<noteq> None then (src, dst) else conntrack_fields src dst rest))"

definition ipInAnyNetwork :: "ip \<Rightarrow> ipnet list \<Rightarrow> bool" where
  "ipInAnyNetwork ip networks \<longleftrightarrow> list_ex (\<lambda>n. IPNet_Contains n ip) networks"

definition parseConntrackLineWithSources :: "string \<Rightarrow> string \<Rightarrow> ipnet list \<Rightarrow> Request option" where
  "parseConntrackLineWithSources tenantID line networks =
     (let fields = Fields (TrimSpace line) in
      if fields = [] then None
      else case conntrack_fields None None fields of
             (Some src, Some dst) \<Rightarrow>
               if networks \<noteq> [] \<and> \<not> ipInAnyNetwork src networks then None
               else Some \<lparr>Request_TenantID = TrimSpace tenantID, Request_Domain = [], Request_IP = IP_String dst,
                          Request_ASN = 0, Request_Class = []\<rparr>
           | _ \<Rightarrow> None)"

fun parsePacketObservationSourceNetworks :: "string list \<Rightarrow> observe_error + ipnet list" where
  "parsePacketObservationSourceNetworks [] = Inr []"
| "parsePacketObservationSourceNetworks (raw # rest) =
     (let raw = TrimSpace raw in
      if raw = [] then parsePacketObservationSourceNetworks rest
      else case ParseCIDR raw of
             None \<Rightarrow> Inl (SourceCIDRRefused raw)
           | Some (_, network) \<Rightarrow> bind (parsePacketObservationSourceNetworks rest) (\<lambda>ns. Inr (network # ns)))"

definition ParseConntrackLine :: "string \<Rightarrow> string \<Rightarrow> string list \<Rightarrow> observe_error + Request option" where
  "ParseConntrackLine tenantID line sourceCIDRs =
     (let tenantID = TrimSpace tenantID in
      check (tenantID = []) ObsTenantRequired (
      bind (parsePacketObservationSourceNetworks sourceCIDRs) (\<lambda>networks.
      Inr (parseConntrackLineWithSources tenantID line networks))))"

section \<open>Readers\<close>

fun parse_lines :: "(string \<Rightarrow> observe_error + Request option) \<Rightarrow> string list \<Rightarrow> observe_error + Request list" where
  \<comment> \<open>the scanning loops of ParseDNSMasqLogObservations and ParseConntrackObservations\<close>
  "parse_lines parse [] = Inr []"
| "parse_lines parse (line # lines) =
     bind (parse line) (\<lambda>r. bind (parse_lines parse lines) (\<lambda>rs. Inr (case r of Some q \<Rightarrow> q # rs | None \<Rightarrow> rs)))"

definition ParseDNSMasqLogObservations :: "string \<Rightarrow> reader option \<Rightarrow> observe_error + Request list" where
  "ParseDNSMasqLogObservations tenantID reader =
     (let tenantID = TrimSpace tenantID in
      check (tenantID = []) ObsTenantRequired (
      case reader of
        None \<Rightarrow> Inl ReaderRequired
      | Some (lines, err) \<Rightarrow>
          bind (parse_lines (ParseDNSMasqLogLine tenantID) lines) (\<lambda>observations.
          case err of Some e \<Rightarrow> Inl (ObsScan e) | None \<Rightarrow> Inr observations)))"

definition ParseConntrackObservations :: "string \<Rightarrow> reader option \<Rightarrow> string list \<Rightarrow> observe_error + Request list" where
  "ParseConntrackObservations tenantID reader sourceCIDRs =
     (let tenantID = TrimSpace tenantID in
      check (tenantID = []) ObsTenantRequired (
      case reader of
        None \<Rightarrow> Inl ReaderRequired
      | Some (lines, err) \<Rightarrow>
          bind (parsePacketObservationSourceNetworks sourceCIDRs) (\<lambda>networks.
          bind (parse_lines (\<lambda>line. Inr (parseConntrackLineWithSources tenantID line networks)) lines) (\<lambda>observations.
          case err of Some e \<Rightarrow> Inl (ObsScan e) | None \<Rightarrow> Inr observations))))"

section \<open>Streams\<close>

record stream =
  stream_lines :: "(ctx_error option \<times> string) list"
  stream_error :: "string option"
  stream_ctx :: "ctx_error option" \<comment> \<open>the context's error at the end\<close>

type_synonym 'w handler = "Request \<Rightarrow> 'w \<Rightarrow> string option \<times> 'w"

fun handle_lines :: "(string \<Rightarrow> observe_error + Request option) \<Rightarrow> 'w handler \<Rightarrow> (ctx_error option \<times> string) list \<Rightarrow> 'w \<Rightarrow> observe_error option \<times> 'w" where
  \<comment> \<open>the scanning loops of both stream functions\<close>
  "handle_lines parse handler [] w = (None, w)"
| "handle_lines parse handler ((ctx, line) # rest) w =
     (case ctx of
        Some e \<Rightarrow> (Some (ObsContext e), w)
      | None \<Rightarrow>
     (case parse line of
        Inl e \<Rightarrow> (Some e, w)
      | Inr None \<Rightarrow> handle_lines parse handler rest w
      | Inr (Some request) \<Rightarrow>
     (case handler request w of
        (Some e, w) \<Rightarrow> (Some (ObsHandler e), w)
      | (None, w) \<Rightarrow> handle_lines parse handler rest w)))"

definition stream_end :: "stream \<Rightarrow> observe_error option" where
  "stream_end s = (case stream_error s of Some e \<Rightarrow> Some (ObsScan e) | None \<Rightarrow> map_option ObsContext (stream_ctx s))"

definition StreamDNSMasqLogObservations :: "string \<Rightarrow> stream option \<Rightarrow> 'w handler option \<Rightarrow> 'w \<Rightarrow> observe_error option \<times> 'w" where
  "StreamDNSMasqLogObservations tenantID reader handler w =
     (let tenantID = TrimSpace tenantID in
      if tenantID = [] then (Some ObsTenantRequired, w)
      else case reader of None \<Rightarrow> (Some ReaderRequired, w) | Some s \<Rightarrow>
     (case handler of None \<Rightarrow> (Some HandlerRequired, w) | Some h \<Rightarrow>
     (case handle_lines (ParseDNSMasqLogLine tenantID) h (stream_lines s) w of
        (Some e, w) \<Rightarrow> (Some e, w)
      | (None, w) \<Rightarrow> (stream_end s, w))))"

definition StreamConntrackObservations :: "string \<Rightarrow> stream option \<Rightarrow> string list \<Rightarrow> 'w handler option \<Rightarrow> 'w \<Rightarrow> observe_error option \<times> 'w" where
  "StreamConntrackObservations tenantID reader sourceCIDRs handler w =
     (let tenantID = TrimSpace tenantID in
      if tenantID = [] then (Some ObsTenantRequired, w)
      else case reader of None \<Rightarrow> (Some ReaderRequired, w) | Some s \<Rightarrow>
     (case handler of None \<Rightarrow> (Some HandlerRequired, w) | Some h \<Rightarrow>
     (case parsePacketObservationSourceNetworks sourceCIDRs of Inl e \<Rightarrow> (Some e, w) | Inr networks \<Rightarrow>
     (case handle_lines (\<lambda>line. Inr (parseConntrackLineWithSources tenantID line networks)) h (stream_lines s) w of
        (Some e, w) \<Rightarrow> (Some e, w)
      | (None, w) \<Rightarrow> (stream_end s, w)))))"

section \<open>Commands\<close>

record 'w command_os =
  co_factory :: "string \<Rightarrow> string list \<Rightarrow> string option" \<comment> \<open>the error of the factory for a program and its arguments\<close>
  co_stdout :: "string + stream"
  co_start :: "string option"
  co_wait :: "string option"
  co_ctx :: "ctx_error option" \<comment> \<open>the context's error after the command has ended\<close>
  co_stop :: "'w \<Rightarrow> 'w" \<comment> \<open>what stopping the command does\<close>

definition run_command :: "'w command_os \<Rightarrow> string \<Rightarrow> string list \<Rightarrow> (stream \<Rightarrow> 'w \<Rightarrow> observe_error option \<times> 'w) \<Rightarrow> 'w \<Rightarrow> observe_error option \<times> 'w" where
  \<comment> \<open>the common part of StreamDNSMasqJournalObservations and StreamConntrackCommandObservations\<close>
  "run_command os name args stream w =
     (case co_factory os name args of Some e \<Rightarrow> (Some (CreateObsCommand e), w) | None \<Rightarrow>
     (case co_stdout os of Inl e \<Rightarrow> (Some (OpenObsStdout e), w) | Inr s \<Rightarrow>
     (case co_start os of Some e \<Rightarrow> (Some (StartObsCommand e), w) | None \<Rightarrow>
     (case stream s w of
        (Some e, w) \<Rightarrow> (Some e, co_stop os w)
      | (None, w) \<Rightarrow>
          (case co_wait os of
             None \<Rightarrow> (None, w)
           | Some e \<Rightarrow> (case co_ctx os of Some c \<Rightarrow> (Some (ObsContext c), w) | None \<Rightarrow> (Some (WaitObsCommand e), w)))))))"

definition StreamDNSMasqJournalObservations :: "'w command_os \<Rightarrow> string \<Rightarrow> 'w handler option \<Rightarrow> string \<Rightarrow> string \<Rightarrow> 'w \<Rightarrow> observe_error option \<times> 'w" where
  "StreamDNSMasqJournalObservations os tenantID handler unitName commandName w =
     (let tenantID = TrimSpace tenantID in
      if tenantID = [] then (Some ObsTenantRequired, w)
      else if Option.is_none handler then (Some HandlerRequired, w)
      else (let commandName = (if TrimSpace commandName = [] then ''journalctl'' else TrimSpace commandName);
                unitName = (if TrimSpace unitName = [] then ''dnsmasq'' else TrimSpace unitName) in
            run_command os commandName [''-f'', ''-u'', unitName, ''-o'', ''cat'', ''-n'', ''0'']
              (\<lambda>s. StreamDNSMasqLogObservations tenantID (Some s) handler) w))"

definition StreamConntrackCommandObservations :: "'w command_os \<Rightarrow> string \<Rightarrow> 'w handler option \<Rightarrow> string list \<Rightarrow> string \<Rightarrow> string list \<Rightarrow> 'w \<Rightarrow> observe_error option \<times> 'w" where
  "StreamConntrackCommandObservations os tenantID handler sourceCIDRs commandName args w =
     (let tenantID = TrimSpace tenantID in
      if tenantID = [] then (Some ObsTenantRequired, w)
      else if Option.is_none handler then (Some HandlerRequired, w)
      else (let commandName = (if TrimSpace commandName = [] then ''conntrack'' else TrimSpace commandName);
                args = (if args = [] then [''-E'', ''-o'', ''extended''] else args) in
            run_command os commandName args (\<lambda>s. StreamConntrackObservations tenantID (Some s) sourceCIDRs handler) w))"

section \<open>Following a log file\<close>

datatype read_end = ReadMore | ReadEOF | ReadFailed string

record tail_step =
  ts_ctx :: "ctx_error option" \<comment> \<open>the context's error before the reading\<close>
  ts_line :: string \<comment> \<open>what ReadString returned, with its newline unless the file ended\<close>
  ts_end :: read_end
  ts_seek :: "string + int" \<comment> \<open>the offset\<close>
  ts_size :: "string + int"
  ts_reset :: "string option"
  ts_wait :: "ctx_error option" \<comment> \<open>the context's error if it was done before the timer\<close>

definition handleDNSMasqLogTailLine :: "string \<Rightarrow> string \<Rightarrow> 'w handler \<Rightarrow> 'w \<Rightarrow> observe_error option \<times> 'w" where
  "handleDNSMasqLogTailLine tenantID line handler w =
     (case ParseDNSMasqLogLine tenantID line of
        Inl e \<Rightarrow> (Some e, w)
      | Inr None \<Rightarrow> (None, w)
      | Inr (Some request) \<Rightarrow> (case handler request w of (Some e, w) \<Rightarrow> (Some (ObsHandler e), w) | (None, w) \<Rightarrow> (None, w)))"

definition resetDNSMasqLogTailAfterTruncate :: "tail_step \<Rightarrow> observe_error option" where
  \<comment> \<open>whether the reading starts again at the beginning of the file shows in what the next steps read\<close>
  "resetDNSMasqLogTailAfterTruncate st =
     (case ts_seek st of Inl e \<Rightarrow> Some (LogOffset e) | Inr position \<Rightarrow>
     (case ts_size st of Inl e \<Rightarrow> Some (StatLog e) | Inr filesize \<Rightarrow>
      if filesize \<ge> position then None else map_option ResetLog (ts_reset st)))"

fun tail_loop :: "string \<Rightarrow> 'w handler \<Rightarrow> tail_step list \<Rightarrow> 'w \<Rightarrow> observe_error option \<times> 'w" where
  \<comment> \<open>the loop of StreamDNSMasqLogFileObservations over its rounds; None: it is still running after them\<close>
  "tail_loop tenantID handler [] w = (None, w)"
| "tail_loop tenantID handler (st # sts) w =
     (case ts_ctx st of Some e \<Rightarrow> (Some (ObsContext e), w) | None \<Rightarrow>
     (case (if ts_line st \<noteq> [] then handleDNSMasqLogTailLine tenantID (ts_line st) handler w else (None, w)) of
        (Some e, w) \<Rightarrow> (Some e, w)
      | (None, w) \<Rightarrow>
          (case ts_end st of
             ReadMore \<Rightarrow> tail_loop tenantID handler sts w
           | ReadFailed e \<Rightarrow> (Some (ReadLog e), w)
           | ReadEOF \<Rightarrow>
               (case resetDNSMasqLogTailAfterTruncate st of Some e \<Rightarrow> (Some e, w) | None \<Rightarrow>
               (case ts_wait st of Some e \<Rightarrow> (Some (ObsContext e), w) | None \<Rightarrow> tail_loop tenantID handler sts w)))))"

definition StreamDNSMasqLogFileObservations :: "string \<Rightarrow> string \<Rightarrow> 'w handler option \<Rightarrow> (string \<Rightarrow> string option) \<Rightarrow> tail_step list \<Rightarrow> 'w \<Rightarrow>
    observe_error option \<times> 'w" where
  \<comment> \<open>\<open>open_file\<close> answers os.Open\<close>
  "StreamDNSMasqLogFileObservations tenantID logPath handler open_file sts w =
     (let tenantID = TrimSpace tenantID; logPath = TrimSpace logPath in
      if tenantID = [] then (Some ObsTenantRequired, w)
      else if logPath = [] then (Some LogPathRequired, w)
      else case handler of None \<Rightarrow> (Some HandlerRequired, w) | Some h \<Rightarrow>
     (case open_file logPath of Some e \<Rightarrow> (Some (OpenLog e), w) | None \<Rightarrow> tail_loop tenantID h sts w))"

section \<open>Applying observations\<close>

definition lift_apply :: "(RouteRule list \<times> gateway_error option) \<times> 'w \<Rightarrow> (RouteRule list \<times> observe_error option) \<times> 'w" where
  "lift_apply r = (case r of ((rules, err), w) \<Rightarrow> ((rules, map_option ObsGateway err), w))"

definition ApplyConntrackObservedPolicyRoutes :: "(string \<Rightarrow> string) \<Rightarrow> (string \<Rightarrow> string) \<Rightarrow> GatewayConfig \<Rightarrow> string \<Rightarrow> reader option \<Rightarrow> string list \<Rightarrow>
    Classifier option \<Rightarrow> Rule list \<Rightarrow> EgressRouteTarget list \<Rightarrow> PolicyRoutePlanOptions \<Rightarrow> ApplyPaths \<Rightarrow> 'w runner option \<Rightarrow> 'w writer option \<Rightarrow> 'w \<Rightarrow>
    (RouteRule list \<times> observe_error option) \<times> 'w" where
  "ApplyConntrackObservedPolicyRoutes uc uq base tenantID reader sourceCIDRs classifier rules targets planOptions paths runner writer w =
     (case ParseConntrackObservations tenantID reader sourceCIDRs of
        Inl e \<Rightarrow> (([], Some e), w)
      | Inr observations \<Rightarrow> lift_apply (ApplyObservedPolicyRoutes uc uq base observations classifier rules targets planOptions paths runner writer w))"

definition ApplyDNSMasqObservedPolicyRoutes :: "(string \<Rightarrow> string) \<Rightarrow> (string \<Rightarrow> string) \<Rightarrow> GatewayConfig \<Rightarrow> string \<Rightarrow> reader option \<Rightarrow>
    Classifier option \<Rightarrow> Rule list \<Rightarrow> EgressRouteTarget list \<Rightarrow> PolicyRoutePlanOptions \<Rightarrow> ApplyPaths \<Rightarrow> 'w runner option \<Rightarrow> 'w writer option \<Rightarrow> 'w \<Rightarrow>
    (RouteRule list \<times> observe_error option) \<times> 'w" where
  "ApplyDNSMasqObservedPolicyRoutes uc uq base tenantID reader classifier rules targets planOptions paths runner writer w =
     (case ParseDNSMasqLogObservations tenantID reader of
        Inl e \<Rightarrow> (([], Some e), w)
      | Inr observations \<Rightarrow> lift_apply (ApplyObservedPolicyRoutes uc uq base observations classifier rules targets planOptions paths runner writer w))"

section \<open>Streaming is parsing\<close>

definition record_request :: "Request list handler" where
  \<comment> \<open>a handler that keeps what it is given\<close>
  "record_request r rs = (None, rs @ [r])"

lemma record_request_apply: "record_request r rs = (None, rs @ [r])"
  by (simp add: record_request_def)

lemma handle_lines_record:
  assumes "\<forall>l\<in>set lines. \<exists>r. parse l = Inr r"
  shows "\<exists>rs. parse_lines parse lines = Inr rs \<and> handle_lines parse record_request (map (Pair None) lines) w = (None, w @ rs)"
  using assms
proof (induction lines arbitrary: w)
  case (Cons l lines)
  obtain r where r: "parse l = Inr r" using Cons.prems by auto
  obtain rs where rs: "parse_lines parse lines = Inr rs" "\<And>w. handle_lines parse record_request (map (Pair None) lines) w = (None, w @ rs)"
    using Cons by (metis list.set_intros(2) sum.inject(2))
  have "record_request a w = (None, w @ [a])" for a by (rule record_request_apply)
  with rs r show ?case by (cases r) simp_all
qed simp

text \<open>
  As long as the context is not done, a stream hands the handler exactly the requests that parsing the same lines gives, in
  their order; the follower of a log file does so too when every reading ends with a line.
\<close>

lemma conntrack_stream_parses:
  assumes "ParseConntrackObservations t (Some (lines, None)) cidrs = Inr rs"
  shows "StreamConntrackObservations t (Some \<lparr>stream_lines = map (Pair None) lines, stream_error = None, stream_ctx = None\<rparr>) cidrs (Some record_request) [] =
    (None, rs)"
proof -
  obtain networks where n: "TrimSpace t \<noteq> []" "parsePacketObservationSourceNetworks cidrs = Inr networks"
    "parse_lines (\<lambda>line. Inr (parseConntrackLineWithSources (TrimSpace t) line networks)) lines = Inr rs"
    using assms by (auto simp: ParseConntrackObservations_def Let_def)
  obtain rs' where "parse_lines (\<lambda>line. Inr (parseConntrackLineWithSources (TrimSpace t) line networks)) lines = Inr rs'"
    "handle_lines (\<lambda>line. Inr (parseConntrackLineWithSources (TrimSpace t) line networks)) record_request (map (Pair None) lines) [] = (None, [] @ rs')"
    using handle_lines_record [of lines "\<lambda>line. Inr (parseConntrackLineWithSources (TrimSpace t) line networks)" "[]"] by auto
  with n show ?thesis by (simp add: StreamConntrackObservations_def Let_def stream_end_def)
qed

lemma ParseDNSMasqLogLine_total: "TrimSpace t \<noteq> [] \<Longrightarrow> \<exists>r. ParseDNSMasqLogLine t line = Inr r"
  by (simp add: ParseDNSMasqLogLine_def Let_def)

lemma dns_stream_parses:
  assumes "ParseDNSMasqLogObservations t (Some (lines, None)) = Inr rs"
  shows "StreamDNSMasqLogObservations t (Some \<lparr>stream_lines = map (Pair None) lines, stream_error = None, stream_ctx = None\<rparr>) (Some record_request) [] =
    (None, rs)"
proof -
  have n: "TrimSpace t \<noteq> []" "parse_lines (ParseDNSMasqLogLine (TrimSpace t)) lines = Inr rs"
    using assms by (auto simp: ParseDNSMasqLogObservations_def Let_def)
  have "\<forall>l\<in>set lines. \<exists>r. ParseDNSMasqLogLine (TrimSpace t) l = Inr r" using ParseDNSMasqLogLine_total [of "TrimSpace t"] n(1) by simp
  from handle_lines_record [OF this, of "[]"] n show ?thesis by (auto simp: StreamDNSMasqLogObservations_def Let_def stream_end_def)
qed

definition tail_read :: "string \<Rightarrow> read_end \<Rightarrow> tail_step" where
  \<comment> \<open>a round of a running follower on a growing file\<close>
  "tail_read line e = \<lparr>ts_ctx = None, ts_line = line, ts_end = e, ts_seek = Inr 0, ts_size = Inr 0, ts_reset = None, ts_wait = None\<rparr>"

lemma tail_read_simps [simp]:
  "ts_ctx (tail_read l e) = None" "ts_line (tail_read l e) = l" "ts_end (tail_read l e) = e"
  by (simp_all add: tail_read_def)

lemma handle_tail_record:
  "handleDNSMasqLogTailLine t l record_request w =
     (case ParseDNSMasqLogLine t l of Inl e \<Rightarrow> (Some e, w) | Inr None \<Rightarrow> (None, w) | Inr (Some r) \<Rightarrow> (None, w @ [r]))"
proof -
  have "record_request a w = (None, w @ [a])" for a by (rule record_request_apply)
  then show ?thesis by (simp add: handleDNSMasqLogTailLine_def split: sum.split option.split)
qed

lemma tail_lines:
  "tail_loop t record_request (map (\<lambda>l. tail_read l ReadMore) lines) w = handle_lines (ParseDNSMasqLogLine t) record_request
     (map (Pair None) (filter (\<lambda>l. l \<noteq> []) lines)) w"
proof (induction lines arbitrary: w)
  case (Cons l lines)
  have "record_request a w = (None, w @ [a])" for a by (rule record_request_apply)
  then show ?case using Cons by (simp add: handle_tail_record split: sum.split option.split)
qed simp

lemma tail_runs:
  \<comment> \<open>the follower ends with an error only, never because the file does\<close>
  "\<forall>st\<in>set sts. ts_ctx st = None \<and> (\<forall>e. ts_end st \<noteq> ReadFailed e) \<and> resetDNSMasqLogTailAfterTruncate st = None \<and> ts_wait st = None \<Longrightarrow>
     TrimSpace t \<noteq> [] \<Longrightarrow> fst (tail_loop t record_request sts w) = None"
proof (induction sts arbitrary: w)
  case (Cons st sts)
  obtain r where "ParseDNSMasqLogLine t (ts_line st) = Inr r" using ParseDNSMasqLogLine_total [OF Cons.prems(2)] by blast
  then obtain v where "(if ts_line st \<noteq> [] then handleDNSMasqLogTailLine t (ts_line st) record_request w else (None, w)) = (None, v)"
    by (cases r; cases "ts_line st") (simp_all add: handle_tail_record)
  then show ?case using Cons by (cases "ts_end st") simp_all
qed simp

text \<open>A request from a line of conntrack is about its destination, and its source lies in one of the networks when any are given.\<close>

lemma conntrack_request:
  assumes "ParseConntrackLine t line cidrs = Inr (Some r)"
  shows "Request_TenantID r = TrimSpace t \<and> Request_TenantID r \<noteq> [] \<and>
    (\<exists>networks src dst. parsePacketObservationSourceNetworks cidrs = Inr networks \<and>
       conntrack_fields None None (Fields (TrimSpace line)) = (Some src, Some dst) \<and>
       Request_IP r = IP_String dst \<and> (networks = [] \<or> ipInAnyNetwork src networks))"
proof -
  obtain networks where n: "TrimSpace t \<noteq> []" "parsePacketObservationSourceNetworks cidrs = Inr networks"
    "parseConntrackLineWithSources (TrimSpace t) line networks = Some r"
    using assms by (auto simp: ParseConntrackLine_def Let_def)
  then show ?thesis
    by (auto simp: parseConntrackLineWithSources_def Let_def split: option.splits if_splits prod.splits)
qed

text \<open>A line that is only partly written when the follower reaches the end of the file is parsed in two pieces: here the
  address 10.0.0.12 is reported as 10.0.0.1.\<close>

lemma partial_line_observed:
  "case tail_loop ''t'' record_request [tail_read ''reply a.b is 10.0.0.1'' ReadEOF, tail_read ''2'' ReadMore] [] of
     (e, rs) \<Rightarrow> e = None \<and> map Request_IP rs = [''10.0.0.1'']"
  "case tail_loop ''t'' record_request [tail_read ''reply a.b is 10.0.0.12'' ReadMore] [] of
     (e, rs) \<Rightarrow> e = None \<and> map Request_IP rs = [''10.0.0.12'']"
  by code_simp+

end
