(* ===== verification/Release.thy ===== *)
theory Release
  imports Private_File Go_Url
begin

text \<open>
  Release manifests: internal/release/manifest.go and rollback.go.

  A manifest lists the artifacts of a release with their sizes and hashes and the plan of its rollback. The
  answers of the operating system about the artifacts are the record \<open>artifact_os\<close>: a file may change between
  the call of os.Stat and the reading, so its size and its content are separate answers. The hash is a
  parameter, the JSON codec too. Paths are those of Linux.
\<close>

section \<open>Manifests\<close>

record Artifact =
  Artifact_Path :: string
  Artifact_Size :: int
  Artifact_SHA256 :: string

record Command =
  Command_Name :: string
  Command_Args :: "string list"

record RollbackPlan =
  Plan_PreviousVersion :: string
  Plan_RestoreState :: "string list"
  Plan_Commands :: "Command list"
  Plan_Verification :: "string list"

record ChangeRecord =
  Change_ID :: string
  Change_Impact :: "string list"
  Change_Verification :: "string list"

record Manifest =
  Manifest_Version :: int
  Manifest_Product :: string
  Manifest_ReleaseVersion :: string
  Manifest_Commit :: string
  Manifest_BuildDate :: time
  Manifest_GeneratedAt :: time
  Manifest_Change :: ChangeRecord
  Manifest_Artifacts :: "Artifact list"
  Manifest_Rollback :: RollbackPlan

record ManifestOptions =
  Opts_Product :: string
  Opts_ReleaseVersion :: string
  Opts_Commit :: string
  Opts_BuildDate :: time
  Opts_GeneratedAt :: time
  Opts_Change :: ChangeRecord
  Opts_Rollback :: RollbackPlan

abbreviation ManifestVersion :: int where "ManifestVersion \<equiv> 1"

datatype release_error =
    ManifestVersionUnsupported int
  | ProductRequired
  | ReleaseVersionRequired
  | CommitRequired
  | BuildDateRequired
  | GeneratedAtRequired
  | ArtifactsRequired
  | ArtifactPathRequired
  | ArtifactOutside string
  | ArtifactUnsafe string
  | ArtifactNotNormalized string
  | ArtifactNegativeSize string
  | ArtifactSHALength string
  | ArtifactSHAHex string
  | ArtifactDuplicate string
  | ChangeImpactRequired
  | ChangeVerificationRequired
  | ChangeImpactItem
  | ChangeVerificationItem
  | RollbackVersionRequired
  | RestoreStateRequired
  | RollbackCommandsRequired
  | RollbackVerificationRequired
  | RestoreStatePath
  | RollbackStep
  | CommandNameRequired
  | CommandNameUnsafe
  | CommandArgUnsafe
  | ResolveBase string
  | ResolveArtifact string
  | StatArtifact string string
  | ArtifactIsDirectory string
  | OpenArtifact string string
  | HashArtifact string string
  | SizeMismatch string int int
  | SHAMismatch string
  | ReadManifest string
  | DecodeManifest string
  | EncodeManifest string
  | ManifestDirectory string
  | WriteReleaseManifest string
  | RunnerRequired
  | RollbackCommand string string

definition unsafe_chars :: "string \<Rightarrow> bool" where
  \<comment> \<open>strings.ContainsAny for NUL, carriage return and line feed\<close>
  "unsafe_chars s \<longleftrightarrow> list_ex (\<lambda>c. of_char c \<in> {0 :: nat, 10, 13}) s"

section \<open>Paths of artifacts\<close>

definition cleanRelativeArtifactPath :: "string \<Rightarrow> release_error + string" where
  "cleanRelativeArtifactPath rawPath =
     (let normalizedInput = map (\<lambda>c. if of_char c = (92 :: nat) then CHR ''/'' else c) (TrimSpace rawPath);
          path = path_Clean normalizedInput in
      check (path = ''.'' \<or> path = []) ArtifactPathRequired (
      check (HasPrefix path ''/'' \<or> path = ''..'' \<or> HasPrefix path ''../'' \<or> Contains_str path ''/../'') (ArtifactOutside rawPath) (
      check (unsafe_chars path) (ArtifactUnsafe rawPath) (Inr path))))"

definition path_elems :: "string \<Rightarrow> string list" where
  "path_elems p = filter (\<lambda>e. e \<noteq> []) (split_char (CHR ''/'') p)"

fun strip_common :: "string list \<Rightarrow> string list \<Rightarrow> string list \<times> string list" where
  "strip_common (b # bs) (t # ts) = (if b = t then strip_common bs ts else (b # bs, t # ts))"
| "strip_common bs ts = (bs, ts)"

definition path_Rel :: "string \<Rightarrow> string \<Rightarrow> string" where
  \<comment> \<open>filepath.Rel for two absolute paths\<close>
  "path_Rel base target =
     (case strip_common (path_elems (path_Clean base)) (path_elems (path_Clean target)) of
        (bs, ts) \<Rightarrow> (let es = replicate (length bs) ''..'' @ ts in if es = [] then ''.'' else join_char (CHR ''/'') es))"

definition path_Abs :: "string + string \<Rightarrow> string \<Rightarrow> string + string" where
  \<comment> \<open>filepath.Abs; the first argument is the answer of os.Getwd\<close>
  "path_Abs cwd path =
     (if HasPrefix path ''/'' then Inr (path_Clean path)
      else case cwd of Inl e \<Rightarrow> Inl e | Inr wd \<Rightarrow> Inr (path_Join [wd, path]))"

definition normalizeArtifactPath :: "string \<Rightarrow> string \<Rightarrow> release_error + string" where
  "normalizeArtifactPath baseDir rawPath =
     (let rawPath = TrimSpace rawPath in
      check (rawPath = []) ArtifactPathRequired (
      cleanRelativeArtifactPath (if HasPrefix rawPath ''/'' then path_Rel baseDir rawPath else rawPath)))"

section \<open>Validation\<close>

definition Artifact_Validate :: "Artifact \<Rightarrow> release_error + unit" where
  "Artifact_Validate a =
     bind (cleanRelativeArtifactPath (Artifact_Path a)) (\<lambda>path.
     check (path \<noteq> Artifact_Path a) (ArtifactNotNormalized (Artifact_Path a)) (
     check (Artifact_Size a < 0) (ArtifactNegativeSize (Artifact_Path a)) (
     check (length (Artifact_SHA256 a) \<noteq> 64) (ArtifactSHALength (Artifact_Path a)) (
     check (hex_Decode (Artifact_SHA256 a) = None) (ArtifactSHAHex (Artifact_Path a)) (Inr ())))))"

definition ChangeRecord_Validate :: "ChangeRecord \<Rightarrow> release_error + unit" where
  "ChangeRecord_Validate c =
     check (Change_Impact c = []) ChangeImpactRequired (
     check (Change_Verification c = []) ChangeVerificationRequired (
     check (list_ex is_blank (Change_Impact c)) ChangeImpactItem (
     check (list_ex is_blank (Change_Verification c)) ChangeVerificationItem (Inr ()))))"

definition Command_Validate :: "Command \<Rightarrow> release_error + unit" where
  "Command_Validate c =
     check (is_blank (Command_Name c)) CommandNameRequired (
     check (unsafe_chars (Command_Name c)) CommandNameUnsafe (
     check (list_ex unsafe_chars (Command_Args c)) CommandArgUnsafe (Inr ())))"

definition RollbackPlan_Validate :: "RollbackPlan \<Rightarrow> release_error + unit" where
  "RollbackPlan_Validate p =
     check (is_blank (Plan_PreviousVersion p)) RollbackVersionRequired (
     check (Plan_RestoreState p = []) RestoreStateRequired (
     check (Plan_Commands p = []) RollbackCommandsRequired (
     check (Plan_Verification p = []) RollbackVerificationRequired (
     check (list_ex is_blank (Plan_RestoreState p)) RestoreStatePath (
     bind (traverse Command_Validate (Plan_Commands p)) (\<lambda>_.
     check (list_ex is_blank (Plan_Verification p)) RollbackStep (Inr ())))))))"

fun artifacts_check :: "string list \<Rightarrow> Artifact list \<Rightarrow> release_error + unit" where
  \<comment> \<open>the loop over the artifacts in Manifest.Validate with the paths seen so far\<close>
  "artifacts_check seen [] = Inr ()"
| "artifacts_check seen (a # as) =
     bind (Artifact_Validate a) (\<lambda>_.
     check (Artifact_Path a \<in> set seen) (ArtifactDuplicate (Artifact_Path a)) (
     artifacts_check (Artifact_Path a # seen) as))"

definition Manifest_Validate :: "Manifest \<Rightarrow> release_error + unit" where
  "Manifest_Validate m =
     check (Manifest_Version m \<noteq> ManifestVersion) (ManifestVersionUnsupported (Manifest_Version m)) (
     check (is_blank (Manifest_Product m)) ProductRequired (
     check (is_blank (Manifest_ReleaseVersion m)) ReleaseVersionRequired (
     check (is_blank (Manifest_Commit m)) CommitRequired (
     check (IsZero (Manifest_BuildDate m)) BuildDateRequired (
     check (IsZero (Manifest_GeneratedAt m)) GeneratedAtRequired (
     check (Manifest_Artifacts m = []) ArtifactsRequired (
     bind (ChangeRecord_Validate (Manifest_Change m)) (\<lambda>_.
     bind (artifacts_check [] (Manifest_Artifacts m)) (\<lambda>_.
     RollbackPlan_Validate (Manifest_Rollback m))))))))))"

section \<open>Building and verifying\<close>

definition trimNonEmpty :: "string list \<Rightarrow> string list" where
  "trimNonEmpty values = filter (\<lambda>v. v \<noteq> []) (map TrimSpace values)"

definition normalizeChangeRecord :: "ChangeRecord \<Rightarrow> ChangeRecord" where
  "normalizeChangeRecord c = c\<lparr>Change_ID := TrimSpace (Change_ID c), Change_Impact := trimNonEmpty (Change_Impact c),
     Change_Verification := trimNonEmpty (Change_Verification c)\<rparr>"

definition normalizeRollbackPlan :: "RollbackPlan \<Rightarrow> RollbackPlan" where
  "normalizeRollbackPlan p = p\<lparr>Plan_PreviousVersion := TrimSpace (Plan_PreviousVersion p),
     Plan_RestoreState := trimNonEmpty (Plan_RestoreState p), Plan_Verification := trimNonEmpty (Plan_Verification p),
     Plan_Commands := map (\<lambda>c. c\<lparr>Command_Name := TrimSpace (Command_Name c), Command_Args := trimNonEmpty (Command_Args c)\<rparr>) (Plan_Commands p)\<rparr>"

record artifact_os =
  ao_Stat :: "string \<Rightarrow> string + bool \<times> int" \<comment> \<open>whether it is a directory, and the size\<close>
  ao_Open :: "string \<Rightarrow> string option"
  ao_Read :: "string \<Rightarrow> string + byte list"

definition scanArtifact :: "(byte list \<Rightarrow> byte list) \<Rightarrow> artifact_os \<Rightarrow> string \<Rightarrow> string \<Rightarrow> release_error + Artifact" where
  "scanArtifact sum256 os baseDir path =
     bind (cleanRelativeArtifactPath path) (\<lambda>cleanPath.
     let fullPath = path_Join [baseDir, cleanPath] in
     case ao_Stat os fullPath of
       Inl e \<Rightarrow> Inl (StatArtifact cleanPath e)
     | Inr (isDir, n) \<Rightarrow>
         if isDir then Inl (ArtifactIsDirectory cleanPath)
         else (case ao_Open os fullPath of
                 Some e \<Rightarrow> Inl (OpenArtifact cleanPath e)
               | None \<Rightarrow>
              (case ao_Read os fullPath of
                 Inl e \<Rightarrow> Inl (HashArtifact cleanPath e)
               | Inr data \<Rightarrow> Inr \<lparr>Artifact_Path = cleanPath, Artifact_Size = n, Artifact_SHA256 = hex_Encode (sum256 data)\<rparr>)))"

fun scan_all :: "(byte list \<Rightarrow> byte list) \<Rightarrow> artifact_os \<Rightarrow> string \<Rightarrow> string list \<Rightarrow> Artifact list \<Rightarrow> string list \<Rightarrow> release_error + Artifact list" where
  \<comment> \<open>the loop of BuildManifest with the paths seen and the artifacts so far\<close>
  "scan_all sum256 os base seen artifacts [] = Inr artifacts"
| "scan_all sum256 os base seen artifacts (rawPath # rest) =
     bind (normalizeArtifactPath base rawPath) (\<lambda>path.
     check (path \<in> set seen) (ArtifactDuplicate path) (
     bind (scanArtifact sum256 os base path) (\<lambda>artifact.
     scan_all sum256 os base (path # seen) (artifacts @ [artifact]) rest)))"

definition BuildManifest :: "(byte list \<Rightarrow> byte list) \<Rightarrow> artifact_os \<Rightarrow> string + string \<Rightarrow> time \<Rightarrow> string \<Rightarrow> string list \<Rightarrow> ManifestOptions \<Rightarrow> release_error + Manifest" where
  \<comment> \<open>sort.Slice is not stable, but the paths of a manifest that passes Validate are distinct\<close>
  "BuildManifest sum256 os cwd now baseDir artifactPaths opts =
     (let generatedAt = (if IsZero (Opts_GeneratedAt opts) then now else Opts_GeneratedAt opts);
          buildDate = (if IsZero (Opts_BuildDate opts) then generatedAt else Opts_BuildDate opts) in
      case path_Abs cwd baseDir of
        Inl e \<Rightarrow> Inl (ResolveBase e)
      | Inr base \<Rightarrow>
          bind (scan_all sum256 os base [] [] artifactPaths) (\<lambda>artifacts.
          let manifest = \<lparr>Manifest_Version = ManifestVersion, Manifest_Product = TrimSpace (Opts_Product opts),
                Manifest_ReleaseVersion = TrimSpace (Opts_ReleaseVersion opts), Manifest_Commit = TrimSpace (Opts_Commit opts),
                Manifest_BuildDate = buildDate, Manifest_GeneratedAt = generatedAt, Manifest_Change = normalizeChangeRecord (Opts_Change opts),
                Manifest_Artifacts = SliceStable (key_less Artifact_Path) artifacts,
                Manifest_Rollback = normalizeRollbackPlan (Opts_Rollback opts)\<rparr>
          in bind (Manifest_Validate manifest) (\<lambda>_. Inr manifest)))"

fun verify_artifacts :: "(byte list \<Rightarrow> byte list) \<Rightarrow> artifact_os \<Rightarrow> string \<Rightarrow> Artifact list \<Rightarrow> release_error + unit" where
  \<comment> \<open>the loop of VerifyManifest\<close>
  "verify_artifacts sum256 os base [] = Inr ()"
| "verify_artifacts sum256 os base (expected # rest) =
     bind (scanArtifact sum256 os base (Artifact_Path expected)) (\<lambda>actual.
     check (Artifact_Size actual \<noteq> Artifact_Size expected)
       (SizeMismatch (Artifact_Path expected) (Artifact_Size expected) (Artifact_Size actual)) (
     check (Artifact_SHA256 actual \<noteq> Artifact_SHA256 expected) (SHAMismatch (Artifact_Path expected)) (
     verify_artifacts sum256 os base rest)))"

definition VerifyManifest :: "(byte list \<Rightarrow> byte list) \<Rightarrow> artifact_os \<Rightarrow> string + string \<Rightarrow> string \<Rightarrow> Manifest \<Rightarrow> release_error + unit" where
  "VerifyManifest sum256 os cwd baseDir manifest =
     bind (Manifest_Validate manifest) (\<lambda>_.
     case path_Abs cwd baseDir of
       Inl e \<Rightarrow> Inl (ResolveBase e)
     | Inr base \<Rightarrow> verify_artifacts sum256 os base (Manifest_Artifacts manifest))"

definition LoadManifest :: "(byte list \<Rightarrow> string + Manifest) \<Rightarrow> string + byte list \<Rightarrow> release_error + Manifest" where
  \<comment> \<open>the second argument is the answer of os.ReadFile\<close>
  "LoadManifest dec file =
     (case file of
        Inl e \<Rightarrow> Inl (ReadManifest e)
      | Inr data \<Rightarrow>
          (case dec data of
             Inl e \<Rightarrow> Inl (DecodeManifest e)
           | Inr manifest \<Rightarrow> bind (Manifest_Validate manifest) (\<lambda>_. Inr manifest)))"

definition SaveManifest :: "(Manifest \<Rightarrow> string + byte list) \<Rightarrow> string option \<Rightarrow> write_answer \<Rightarrow> string \<Rightarrow> Manifest \<Rightarrow> byte list fs \<Rightarrow>
    release_error option \<times> byte list fs" where
  \<comment> \<open>the second and third argument answer os.MkdirAll and os.WriteFile\<close>
  "SaveManifest enc mkdir answer path manifest fs =
     (case Manifest_Validate manifest of
        Inl e \<Rightarrow> (Some e, fs)
      | Inr _ \<Rightarrow>
     (case enc manifest of
        Inl e \<Rightarrow> (Some (EncodeManifest e), fs)
      | Inr data \<Rightarrow>
     (case mkdir of
        Some e \<Rightarrow> (Some (ManifestDirectory e), fs)
      | None \<Rightarrow>
     (case WriteFile answer path (data @ [10]) fs of
        (Some e, fs) \<Rightarrow> (Some (WriteReleaseManifest e), fs)
      | (None, fs) \<Rightarrow> (None, fs)))))"

section \<open>Rollback\<close>

record RollbackResult =
  Result_PreviousVersion :: string
  Result_Commands :: "Command list"

fun run_commands :: "(Command \<Rightarrow> 'w \<Rightarrow> string option \<times> 'w) \<Rightarrow> RollbackResult \<Rightarrow> Command list \<Rightarrow> 'w \<Rightarrow> (RollbackResult \<times> release_error option) \<times> 'w" where
  \<comment> \<open>the loop of ExecuteRollback\<close>
  "run_commands run result [] w = ((result, None), w)"
| "run_commands run result (c # cs) w =
     (case run c w of
        (Some e, w) \<Rightarrow> ((result, Some (RollbackCommand (Command_Name c) e)), w)
      | (None, w) \<Rightarrow> run_commands run (result\<lparr>Result_Commands := Result_Commands result @ [c]\<rparr>) cs w)"

definition ExecuteRollback :: "RollbackPlan \<Rightarrow> (Command \<Rightarrow> 'w \<Rightarrow> string option \<times> 'w) option \<Rightarrow> 'w \<Rightarrow> (RollbackResult \<times> release_error option) \<times> 'w" where
  "ExecuteRollback plan runner w =
     (let empty = \<lparr>Result_PreviousVersion = [], Result_Commands = []\<rparr> in
      case RollbackPlan_Validate plan of
        Inl e \<Rightarrow> ((empty, Some e), w)
      | Inr _ \<Rightarrow>
          (case runner of
             None \<Rightarrow> ((empty, Some RunnerRequired), w)
           | Some run \<Rightarrow> run_commands run (empty\<lparr>Result_PreviousVersion := Plan_PreviousVersion plan\<rparr>) (Plan_Commands plan) w))"

section \<open>Clean relative paths\<close>

definition normal_elem :: "string \<Rightarrow> bool" where
  "normal_elem e \<longleftrightarrow> e \<noteq> [] \<and> e \<noteq> ''.'' \<and> e \<noteq> ''..'' \<and> CHR ''/'' \<notin> set e"

lemma split_char_elems: "e \<in> set (split_char d s) \<Longrightarrow> d \<notin> set e"
proof (induction s arbitrary: e)
  case (Cons c s)
  obtain p ps where "split_char d s = p # ps" by (meson neq_Nil_conv split_char_nonempty)
  with Cons show ?case by (auto split: if_splits)
qed simp

lemma clean_relative_shape:
  assumes "\<forall>e\<in>set es. CHR ''/'' \<notin> set e" "\<forall>e\<in>set ns. normal_elem e"
  shows "\<exists>ns' k'. clean_elems False (ns @ replicate k ''..'') es = ns' @ replicate k' ''..'' \<and> (\<forall>e\<in>set ns'. normal_elem e)"
  using assms
proof (induction es arbitrary: ns k)
  case Nil
  then show ?case by auto
next
  case (Cons e es)
  consider "e = [] \<or> e = ''.''" | "e = ''..''" | "normal_elem e" using Cons.prems(1) by (auto simp: normal_elem_def)
  then show ?case
  proof cases
    case 1
    then have "clean_elems False (ns @ replicate k ''..'') (e # es) = clean_elems False (ns @ replicate k ''..'') es" by auto
    then show ?thesis using Cons.IH [of ns k] Cons.prems by simp
  next
    case 2
    show ?thesis
    proof (cases ns)
      case Nil
      then have "clean_elems False (ns @ replicate k ''..'') (e # es) = clean_elems False ([] @ replicate (Suc k) ''..'') es"
        using 2 by (cases k) simp_all
      then show ?thesis using Cons.IH [of "[]" "Suc k"] Cons.prems(1) by simp
    next
      case (Cons n ns')
      then have "clean_elems False (ns @ replicate k ''..'') (e # es) = clean_elems False (ns' @ replicate k ''..'') es"
        using 2 Cons.prems(2) by (simp add: normal_elem_def)
      moreover have "\<forall>e\<in>set ns'. normal_elem e" using \<open>ns = n # ns'\<close> Cons.prems(2) by simp
      ultimately show ?thesis using Cons.IH [of ns' k] Cons.prems(1) by simp
    qed
  next
    case 3
    then have "clean_elems False (ns @ replicate k ''..'') (e # es) = clean_elems False ((e # ns) @ replicate k ''..'') es"
      by (simp add: normal_elem_def)
    moreover have "\<forall>e\<in>set (e # ns). normal_elem e" using 3 Cons.prems(2) by simp
    ultimately show ?thesis using Cons.IH [of "e # ns" k] Cons.prems(1) by simp
  qed
qed

lemma clean_rooted_shape:
  assumes "\<forall>e\<in>set es. CHR ''/'' \<notin> set e" "\<forall>e\<in>set ns. normal_elem e"
  shows "\<forall>e\<in>set (clean_elems True ns es). normal_elem e"
  using assms
proof (induction es arbitrary: ns)
  case (Cons e es)
  consider "e = [] \<or> e = ''.''" | "e = ''..''" | "normal_elem e" using Cons.prems(1) by (auto simp: normal_elem_def)
  then show ?case
  proof cases
    case 1
    then have "clean_elems True ns (e # es) = clean_elems True ns es" by auto
    then show ?thesis using Cons.IH [of ns] Cons.prems by simp
  next
    case 2
    then have "clean_elems True ns (e # es) = clean_elems True (tl ns) es"
      using Cons.prems(2) by (cases ns) (simp_all add: normal_elem_def)
    moreover have "\<forall>e\<in>set (tl ns). normal_elem e" using Cons.prems(2) by (cases ns) simp_all
    ultimately show ?thesis using Cons.IH [of "tl ns"] Cons.prems(1) by simp
  next
    case 3
    then have "clean_elems True ns (e # es) = clean_elems True (e # ns) es" by (simp add: normal_elem_def)
    then show ?thesis using Cons.IH [of "e # ns"] Cons.prems 3 by simp
  qed
qed simp

lemma path_Clean_rooted:
  "path_Clean (CHR ''/'' # s) = CHR ''/'' # join_char (CHR ''/'') (rev (clean_elems True [] (split_char (CHR ''/'') s)))"
  by (simp add: path_Clean_def Let_def)

lemma path_Clean_absolute:
  assumes "HasPrefix q ''/''"
  obtains bs where "path_Clean q = CHR ''/'' # join_char (CHR ''/'') bs" "\<forall>e\<in>set bs. normal_elem e"
proof -
  obtain s where "q = CHR ''/'' # s" using assms by (auto simp: HasPrefix_iff)
  then show thesis
    using that path_Clean_rooted [of s] clean_rooted_shape [of "split_char (CHR ''/'') s" "[]"] split_char_elems by simp
qed

lemma cleanRelative_elems:
  assumes "cleanRelativeArtifactPath raw = Inr p"
  obtains es where "es \<noteq> []" "\<forall>e\<in>set es. normal_elem e" "p = join_char (CHR ''/'') es"
proof -
  define q where "q = map (\<lambda>c. if of_char c = (92 :: nat) then CHR ''/'' else c) (TrimSpace raw)"
  have p: "p = path_Clean q" "p \<noteq> ''.''" "p \<noteq> []" "\<not> HasPrefix p ''/''" "p \<noteq> ''..''" "\<not> HasPrefix p ''../''"
    using assms by (auto simp: cleanRelativeArtifactPath_def Let_def q_def)
  have unrooted: "\<not> HasPrefix q ''/''"
  proof
    assume "HasPrefix q ''/''"
    then obtain bs where "path_Clean q = CHR ''/'' # join_char (CHR ''/'') bs" by (rule path_Clean_absolute)
    with p show False by (auto simp: HasPrefix_iff)
  qed
  obtain ns k where c: "clean_elems False [] (split_char (CHR ''/'') q) = ns @ replicate k ''..''" "\<forall>e\<in>set ns. normal_elem e"
    using clean_relative_shape [of "split_char (CHR ''/'') q" "[]" 0] split_char_elems by auto
  have body: "p = (if join_char (CHR ''/'') (replicate k ''..'' @ rev ns) = [] then ''.'' else join_char (CHR ''/'') (replicate k ''..'' @ rev ns))"
    using p(1) unrooted c(1) by (cases q) (auto simp: path_Clean_def Let_def HasPrefix_iff)
  have "k = 0"
  proof (rule ccontr)
    assume "k \<noteq> 0"
    then obtain j where "k = Suc j" by (cases k) auto
    then show False using body p by (cases "replicate j ''..'' @ rev ns") (auto simp: HasPrefix_iff join_char_Cons)
  qed
  moreover from this have "ns \<noteq> []" using body p(2) by auto
  ultimately show thesis using that [of "rev ns"] c(2) body p by (auto split: if_splits)
qed

section \<open>Artifacts stay below the base directory\<close>

definition below :: "string \<Rightarrow> string \<Rightarrow> bool" where
  \<comment> \<open>the names of the files and directories under a directory, none of them \<open>.\<close> or \<open>..\<close>\<close>
  "below base f \<longleftrightarrow> (\<exists>es. es \<noteq> [] \<and> (\<forall>e\<in>set es. normal_elem e) \<and>
     f = (if base = ''/'' then [] else base) @ concat (map (\<lambda>e. CHR ''/'' # e) es))"

lemma join_concat: "es \<noteq> [] \<Longrightarrow> CHR ''/'' # join_char (CHR ''/'') es = concat (map (\<lambda>e. CHR ''/'' # e) es)"
  by (induction "CHR ''/''" es rule: join_char.induct) simp_all

lemma join_normal_head:
  assumes "es \<noteq> []" "\<forall>e\<in>set es. normal_elem e"
  shows "join_char (CHR ''/'') es \<noteq> []"
proof -
  obtain e es' where es: "es = e # es'" using assms(1) by (cases es) auto
  then have "e \<noteq> []" using assms(2) by (simp add: normal_elem_def)
  then show ?thesis using es by (cases "es' = []") (simp_all add: join_char_Cons)
qed

lemma path_Clean_normal:
  "es \<noteq> [] \<Longrightarrow> \<forall>e\<in>set es. normal_elem e \<Longrightarrow> path_Clean (CHR ''/'' # join_char (CHR ''/'') es) = CHR ''/'' # join_char (CHR ''/'') es"
  by (rule path_Clean_plain) (auto simp: normal_elem_def)

lemma joined_below:
  assumes base: "base = CHR ''/'' # join_char (CHR ''/'') bs" "\<forall>e\<in>set bs. normal_elem e"
    and es: "es \<noteq> []" "\<forall>e\<in>set es. normal_elem e"
  shows "below base (path_Join [base, join_char (CHR ''/'') es])"
proof -
  have ne: "join_char (CHR ''/'') es \<noteq> []" using es by (rule join_normal_head)
  have join: "path_Join [base, join_char (CHR ''/'') es] = path_Clean (base @ CHR ''/'' # join_char (CHR ''/'') es)"
    using base(1) ne by (simp add: path_Join_def)
  show ?thesis
  proof (cases "bs = []")
    case True
    have "split_char (CHR ''/'') (join_char (CHR ''/'') es) = es" using es by (intro split_join_char) (auto simp: normal_elem_def)
    then have "path_Clean (CHR ''/'' # CHR ''/'' # join_char (CHR ''/'') es) = CHR ''/'' # join_char (CHR ''/'') es"
      using es by (simp add: path_Clean_rooted clean_elems_plain normal_elem_def)
    then show ?thesis using True base es join unfolding below_def by (intro exI [of _ es]) (simp add: join_concat)
  next
    case False
    have "base @ CHR ''/'' # join_char (CHR ''/'') es = concat (map (\<lambda>e. CHR ''/'' # e) (bs @ es))"
      using False es by (simp add: base(1) join_concat)
    also have "\<dots> = CHR ''/'' # join_char (CHR ''/'') (bs @ es)" using False join_concat [of "bs @ es"] by simp
    finally have "path_Join [base, join_char (CHR ''/'') es] = concat (map (\<lambda>e. CHR ''/'' # e) (bs @ es))"
      unfolding join using path_Clean_normal [of "bs @ es"] False base(2) es join_concat [of "bs @ es"] by auto
    moreover have "base = concat (map (\<lambda>e. CHR ''/'' # e) bs)" using False by (simp add: base(1) join_concat)
    moreover have "base \<noteq> ''/''"
      using False base join_normal_head [of bs] by simp
    ultimately show ?thesis unfolding below_def using es by (intro exI [of _ es]) simp
  qed
qed

lemma path_Abs_base:
  assumes "path_Abs cwd dir = Inr base" and "\<forall>wd. cwd = Inr wd \<longrightarrow> HasPrefix wd ''/''"
  obtains bs where "base = CHR ''/'' # join_char (CHR ''/'') bs" "\<forall>e\<in>set bs. normal_elem e"
proof (cases "HasPrefix dir ''/''")
  case True
  then show thesis using path_Clean_absolute [of dir] assms(1) that by (auto simp: path_Abs_def)
next
  case False
  then obtain wd where wd: "cwd = Inr wd" "base = path_Join [wd, dir]" using assms(1) by (auto simp: path_Abs_def split: sum.splits)
  then obtain s where s: "wd = CHR ''/'' # s" using assms(2) by (auto simp: HasPrefix_iff)
  have "base = path_Clean (if dir = [] then wd else wd @ CHR ''/'' # dir)" using wd s by (simp add: path_Join_def)
  moreover have "HasPrefix (if dir = [] then wd else wd @ CHR ''/'' # dir) ''/''" using s by (simp add: HasPrefix_iff)
  ultimately show thesis using path_Clean_absolute that by metis
qed

definition same_below :: "string \<Rightarrow> artifact_os \<Rightarrow> artifact_os \<Rightarrow> bool" where
  "same_below base os os' \<longleftrightarrow> (\<forall>f. below base f \<longrightarrow> ao_Stat os f = ao_Stat os' f \<and> ao_Open os f = ao_Open os' f \<and> ao_Read os f = ao_Read os' f)"

lemma scan_below:
  assumes "base = CHR ''/'' # join_char (CHR ''/'') bs" "\<forall>e\<in>set bs. normal_elem e" and same: "same_below base os os'"
  shows "scanArtifact h os base path = scanArtifact h os' base path"
proof (cases "cleanRelativeArtifactPath path")
  case (Inl e)
  then show ?thesis by (simp add: scanArtifact_def)
next
  case (Inr p)
  then obtain es where "es \<noteq> []" "\<forall>e\<in>set es. normal_elem e" "p = join_char (CHR ''/'') es" by (rule cleanRelative_elems)
  then have "below base (path_Join [base, p])" using joined_below [OF assms(1,2)] by simp
  then have "ao_Stat os (path_Join [base, p]) = ao_Stat os' (path_Join [base, p])" "ao_Open os (path_Join [base, p]) = ao_Open os' (path_Join [base, p])"
    "ao_Read os (path_Join [base, p]) = ao_Read os' (path_Join [base, p])" using same by (simp_all add: same_below_def)
  then show ?thesis
    using Inr
    by (cases "ao_Stat os' (path_Join [base, p])"; cases "ao_Open os' (path_Join [base, p])"; cases "ao_Read os' (path_Join [base, p])")
      (simp_all add: scanArtifact_def Let_def split: prod.splits)
qed

text \<open>C14: Building and verifying a manifest looks only at files below the release directory, whatever the paths it is given: two systems that agree there
  give the same manifest and the same verdict. (Symbolic links below the directory are what the system makes of them.)\<close>

theorem manifest_confined:
  assumes base: "path_Abs cwd dir = Inr base" and cwd: "\<forall>wd. cwd = Inr wd \<longrightarrow> HasPrefix wd ''/''" and same: "same_below base os os'"
  shows "BuildManifest h os cwd now dir paths opts = BuildManifest h os' cwd now dir paths opts \<and>
    VerifyManifest h os cwd dir m = VerifyManifest h os' cwd dir m"
proof -
  obtain bs where bs: "base = CHR ''/'' # join_char (CHR ''/'') bs" "\<forall>e\<in>set bs. normal_elem e" by (rule path_Abs_base [OF base cwd])
  note scan = scan_below [OF bs same, of h]
  have "scan_all h os base seen as ps = scan_all h os' base seen as ps" for seen as ps
    by (induction ps arbitrary: seen as) (simp_all add: scan)
  moreover have "verify_artifacts h os base as = verify_artifacts h os' base as" for as
    by (induction as) (simp_all add: scan)
  ultimately show ?thesis by (simp add: BuildManifest_def VerifyManifest_def base)
qed

section \<open>Verification after building\<close>

definition artifact_present :: "(byte list \<Rightarrow> byte list) \<Rightarrow> artifact_os \<Rightarrow> string \<Rightarrow> Artifact \<Rightarrow> bool" where
  \<comment> \<open>a file of the size and the hash the manifest gives\<close>
  "artifact_present h os base a \<longleftrightarrow>
     (let f = path_Join [base, Artifact_Path a] in
      ao_Stat os f = Inr (False, Artifact_Size a) \<and> ao_Open os f = None \<and>
      (\<exists>data. ao_Read os f = Inr data \<and> hex_Encode (h data) = Artifact_SHA256 a))"

lemma scan_present:
  assumes "scanArtifact h os base path = Inr a"
  shows "cleanRelativeArtifactPath path = Inr (Artifact_Path a) \<and> artifact_present h os base a"
proof -
  obtain p where p: "cleanRelativeArtifactPath path = Inr p" using assms by (cases "cleanRelativeArtifactPath path") (auto simp: scanArtifact_def)
  obtain d n where s: "ao_Stat os (path_Join [base, p]) = Inr (d, n)"
    using assms p by (cases "ao_Stat os (path_Join [base, p])") (auto simp: scanArtifact_def Let_def)
  show ?thesis
    using assms p s
    by (cases "d"; cases "ao_Open os (path_Join [base, p])"; cases "ao_Read os (path_Join [base, p])")
      (auto simp: scanArtifact_def artifact_present_def Let_def)
qed

lemma scan_clean:
  assumes "cleanRelativeArtifactPath (Artifact_Path a) = Inr (Artifact_Path a)"
  shows "(\<exists>b. scanArtifact h os base (Artifact_Path a) = Inr b \<and> Artifact_Size b = Artifact_Size a \<and> Artifact_SHA256 b = Artifact_SHA256 a) \<longleftrightarrow>
     artifact_present h os base a"
proof (cases "ao_Stat os (path_Join [base, Artifact_Path a])")
  case (Inr r)
  then show ?thesis
    using assms
    by (cases r; cases "ao_Open os (path_Join [base, Artifact_Path a])"; cases "ao_Read os (path_Join [base, Artifact_Path a])")
      (auto simp: scanArtifact_def artifact_present_def Let_def)
qed (simp add: assms scanArtifact_def artifact_present_def Let_def)

lemma verify_artifacts_iff:
  "\<forall>a\<in>set as. cleanRelativeArtifactPath (Artifact_Path a) = Inr (Artifact_Path a) \<Longrightarrow>
     verify_artifacts h os base as = Inr () \<longleftrightarrow> (\<forall>a\<in>set as. artifact_present h os base a)"
proof (induction as)
  case (Cons a as)
  have "verify_artifacts h os base (a # as) = Inr () \<longleftrightarrow>
      (\<exists>b. scanArtifact h os base (Artifact_Path a) = Inr b \<and> Artifact_Size b = Artifact_Size a \<and> Artifact_SHA256 b = Artifact_SHA256 a) \<and>
      verify_artifacts h os base as = Inr ()" by auto
  with Cons scan_clean [of a h os base] show ?case by simp
qed simp

lemma scan_all_present:
  "scan_all h os base seen as ps = Inr bs \<Longrightarrow> \<forall>a\<in>set as. artifact_present h os base a \<Longrightarrow> \<forall>a\<in>set bs. artifact_present h os base a"
proof (induction ps arbitrary: seen as)
  case (Cons p ps)
  from Cons.prems(1) obtain q a where a: "scanArtifact h os base q = Inr a" "scan_all h os base (q # seen) (as @ [a]) ps = Inr bs"
    by auto
  have "\<forall>a\<in>set (as @ [a]). artifact_present h os base a" using Cons.prems(2) scan_present [OF a(1)] by simp
  then show ?case by (rule Cons.IH [OF a(2)])
qed simp

lemma artifacts_check_iff:
  "artifacts_check seen as = Inr () \<longleftrightarrow>
     (\<forall>a\<in>set as. Artifact_Validate a = Inr () \<and> Artifact_Path a \<notin> set seen) \<and> distinct (map Artifact_Path as)"
proof (induction as arbitrary: seen)
  case (Cons a as)
  have "artifacts_check seen (a # as) = Inr () \<longleftrightarrow>
      Artifact_Validate a = Inr () \<and> Artifact_Path a \<notin> set seen \<and> artifacts_check (Artifact_Path a # seen) as = Inr ()" by auto
  then show ?case unfolding Cons.IH by (auto simp: image_iff; metis)
qed simp

lemma valid_artifacts:
  "Manifest_Validate m = Inr () \<Longrightarrow> distinct (map Artifact_Path (Manifest_Artifacts m)) \<and>
     (\<forall>a\<in>set (Manifest_Artifacts m). cleanRelativeArtifactPath (Artifact_Path a) = Inr (Artifact_Path a))"
  by (auto simp: Manifest_Validate_def artifacts_check_iff Artifact_Validate_def)


section \<open>Saving, loading and rolling back\<close>

lemma save_load:
  assumes "\<forall>m data. enc m = Inr data \<longrightarrow> dec (data @ [10]) = Inr m" and "SaveManifest enc mkdir answer path m fs = (None, fs')"
  shows "LoadManifest dec (read_fs fs' path) = Inr m"
  using assms
  by (auto simp: SaveManifest_def LoadManifest_def WriteFile_def read_fs_def Let_def split: sum.splits option.splits write_answer.splits)

lemma run_commands_prefix:
  "run_commands run res cs w = ((res', err), w') \<Longrightarrow>
     \<exists>k\<le>length cs. Result_Commands res' = Result_Commands res @ take k cs \<and> Result_PreviousVersion res' = Result_PreviousVersion res \<and>
       (err = None \<longleftrightarrow> k = length cs)"
proof (induction cs arbitrary: res w)
  case (Cons c cs)
  show ?case
  proof (cases "run c w")
    case (Pair e v)
    show ?thesis
    proof (cases e)
      case None
      then obtain k where "k \<le> length cs" "Result_Commands res' = Result_Commands res @ c # take k cs"
        "Result_PreviousVersion res' = Result_PreviousVersion res" "err = None \<longleftrightarrow> k = length cs"
        using Cons Pair by fastforce
      then show ?thesis by (intro exI [of _ "Suc k"]) simp
    next
      case (Some x)
      then show ?thesis using Cons.prems Pair by (intro exI [of _ 0]) auto
    qed
  qed
qed simp

lemma scanned_other_file:
  \<comment> \<open>the file the first cleaning names is not the one the second, in scanArtifact, reads\<close>
  "normalizeArtifactPath ''/r'' ''./ x'' = Inr '' x''" "cleanRelativeArtifactPath '' x'' = Inr ''x''"
  by code_simp+

section \<open>A sample release\<close>

definition sample_artifact_os :: artifact_os where
  "sample_artifact_os = \<lparr>ao_Stat = (\<lambda>_. Inr (False, 1)), ao_Open = (\<lambda>_. None), ao_Read = (\<lambda>_. Inr [9])\<rparr>"

definition sample_release :: ManifestOptions where
  "sample_release = \<lparr>Opts_Product = ''p'', Opts_ReleaseVersion = ''2'', Opts_Commit = ''c'', Opts_BuildDate = 0, Opts_GeneratedAt = 0,
     Opts_Change = \<lparr>Change_ID = [], Change_Impact = [''i''], Change_Verification = [''v'']\<rparr>,
     Opts_Rollback = \<lparr>Plan_PreviousVersion = ''1'', Plan_RestoreState = [''s''], Plan_Commands = [\<lparr>Command_Name = ''r'', Command_Args = []\<rparr>],
       Plan_Verification = [''v'']\<rparr>\<rparr>"

definition sample_hash :: "byte list \<Rightarrow> byte list" where "sample_hash data = replicate 32 (if data = [9] then 7 else 8)"

definition sample_manifest :: Manifest where
  "sample_manifest = projr (BuildManifest sample_hash sample_artifact_os (Inr ''/w'') 5 ''r'' [''b'', ''a''] sample_release)"

lemma sample_base: "path_Abs (Inr ''/w'') ''r'' = Inr ''/w/r''"
  by code_simp

definition sample_artifact :: "string \<Rightarrow> Artifact" where
  "sample_artifact path = \<lparr>Artifact_Path = path, Artifact_Size = 1, Artifact_SHA256 = hex_Encode (sample_hash [9])\<rparr>"

lemma sample_paths [simp]:
  "normalizeArtifactPath ''/w/r'' ''a'' = Inr ''a''" "normalizeArtifactPath ''/w/r'' ''b'' = Inr ''b''"
  "cleanRelativeArtifactPath ''a'' = Inr ''a''" "cleanRelativeArtifactPath ''b'' = Inr ''b''"
  by code_simp+

lemma sample_scanned:
  "scan_all sample_hash sample_artifact_os ''/w/r'' [] [] [''b'', ''a''] = Inr [sample_artifact ''b'', sample_artifact ''a'']"
  by (simp add: scanArtifact_def sample_artifact_os_def sample_artifact_def Let_def)

lemma sample_sorted: "SliceStable (key_less Artifact_Path) [sample_artifact ''b'', sample_artifact ''a''] = [sample_artifact ''a'', sample_artifact ''b'']"
  by (simp add: sample_artifact_def key_less_def)

lemma sample_artifact_valid: "p \<in> {''a'', ''b''} \<Longrightarrow> Artifact_Validate (sample_artifact p) = Inr ()"
proof -
  have "length (hex_Encode (sample_hash [9])) = 64" by (simp add: sample_hash_def)
  then show "p \<in> {''a'', ''b''} \<Longrightarrow> Artifact_Validate (sample_artifact p) = Inr ()"
    by (auto simp: Artifact_Validate_def sample_artifact_def)
qed

lemma sample_manifest_built:
  "BuildManifest sample_hash sample_artifact_os (Inr ''/w'') 5 ''r'' [''b'', ''a''] sample_release = Inr sample_manifest"
proof -
  have c: "normalizeChangeRecord (Opts_Change sample_release) = Opts_Change sample_release"
    "normalizeRollbackPlan (Opts_Rollback sample_release) = Opts_Rollback sample_release"
    "TrimSpace (Opts_Product sample_release) = ''p''" "TrimSpace (Opts_ReleaseVersion sample_release) = ''2''" "TrimSpace (Opts_Commit sample_release) = ''c''"
    "ChangeRecord_Validate (Opts_Change sample_release) = Inr ()" "RollbackPlan_Validate (Opts_Rollback sample_release) = Inr ()"
    "Opts_BuildDate sample_release = 0" "Opts_GeneratedAt sample_release = 0" "is_blank ''p'' = False" "is_blank ''2'' = False" "is_blank ''c'' = False"
    by code_simp+
  have a: "Artifact_Validate (sample_artifact ''a'') = Inr ()" "Artifact_Validate (sample_artifact ''b'') = Inr ()"
    "Artifact_Path (sample_artifact p) = p" for p
    by (simp_all add: sample_artifact_valid) (simp add: sample_artifact_def)
  have "\<exists>m. BuildManifest sample_hash sample_artifact_os (Inr ''/w'') 5 ''r'' [''b'', ''a''] sample_release = Inr m"
    unfolding BuildManifest_def
    by (simp add: Let_def sample_base sample_scanned sample_sorted c a Manifest_Validate_def IsZero_def del: scan_all.simps SliceStable_Cons)
  then show ?thesis by (auto simp: sample_manifest_def)
qed


theorem manifest_confined_witness:
  "VerifyManifest sample_hash (sample_artifact_os\<lparr>ao_Read := \<lambda>f. if f = ''/etc/passwd'' then Inr [] else Inr [9]\<rparr>) (Inr ''/w'') ''r'' sample_manifest =
   VerifyManifest sample_hash sample_artifact_os (Inr ''/w'') ''r'' sample_manifest"
proof -
  have "\<not> below ''/w/r'' ''/etc/passwd''" by (simp add: below_def)
  then have "same_below ''/w/r'' (sample_artifact_os\<lparr>ao_Read := \<lambda>f. if f = ''/etc/passwd'' then Inr [] else Inr [9]\<rparr>) sample_artifact_os"
    by (auto simp: same_below_def sample_artifact_os_def)
  moreover have "\<forall>wd. Inr ''/w'' = (Inr wd :: string + string) \<longrightarrow> HasPrefix wd ''/''" by (simp add: HasPrefix_iff)
  ultimately show ?thesis by (intro conjunct2 [OF manifest_confined [OF sample_base]])
qed

end
