(* ===== verification/Spec2Isabelle.thy ===== *)
theory Spec2Isabelle
  imports Store_File Supervisor Edge Client_Server Node_Service Service_Chain Observers Release
begin

text \<open>
  A model of AnixOps SD-WAN, a software-defined wide area network written in Go: a control plane keeps
  tenants, devices, nodes, policies and configurations and issues certificates; agents on the devices
  fetch their configuration, choose a transport and report telemetry; edges authenticate connections and
  forward them to egress nodes. File names below are relative to src/internal.

  The theories, bottom up:

  \<^item> Prelude: Go maps as association lists with distinct keys (\<open>gomap\<close>), slices as lists, errors as the
    left component of a sum (\<open>bind\<close>, \<open>check\<close>), time as nanoseconds since Go's zero time, int64 arithmetic
    with its wrap-around, float64 as rationals with NaN and the infinities.
  \<^item> Go_Text, Go_Net, Go_Base64, Go_HTTP, Go_Url: the parts of the standard library the program relies on (strings,
    strconv, path/filepath, net, encoding/base64, encoding/hex, net/http requests and responses, net/url).
  \<^item> Private_File, State_File: atomic replacement of private files (store/file.go, agent/private_file.go)
    on a file system that is a map, with the operating system's answers as an argument. A write returns
    every state it goes through, so that a crash is a prefix. \<open>state_file\<close> is the contract of the agent's
    state files.
  \<^item> Domain, Telemetry (domain/types.go, telemetry/telemetry.go): the records exchanged and their validation;
    the redaction of telemetry.
  \<^item> Policy (policy/*.go): the policy engine, rule bundles and the traffic classifier.
  \<^item> Store, Store_File (store/*.go): the in-memory repository, its snapshots, the file repository, backups.
    The locale \<open>repository_op\<close> is the contract of a mutating operation, interpreted for each of them.
  \<^item> Transport, Supervisor (transport/selector.go, runtime.go, probe.go, protocol.go, supervisor.go): the choice
    of a protocol, switching with a cooldown, probes, and the supervision of the transport process.
  \<^item> Edge (edge/*.go): rate limits, scheduling over egress nodes, admission and forwarding of connections.
  \<^item> Auth (auth/*.go): roles, sessions, passwords, OpenID Connect tokens.
  \<^item> Config_Sign (config/*.go): the configuration, signed configuration bundles, signing keys.
  \<^item> Cert, Cert_Service (cert/authority.go, status_responder.go, backup.go, publisher.go): the certificate
    authority, its status responder, backups and published revocation lists.
  \<^item> Ocsp (cert/ocsp.go): the OCSP codec over the primitives of encoding/asn1, the responder and the verification
    of its answers.
  \<^item> Control, Control_Props (control/server.go): the HTTP API of the control plane. A handler maps a request
    and the server's state to a response and the new state; the server composes the repository, the
    authorizer, the sessions, the authority and the signer. The locale \<open>api_handler\<close> is the contract of the
    handlers of tenant resources, interpreted for each of the nineteen.
  \<^item> Agent_State, Agent, Agent_Sync (agent/*.go): the agent's state files and trust policy, the service, and the
    synchronisation with the control server.
  \<^item> Agent_Control: the agent's telemetry queue composed with the control plane's repository. The locale
    \<open>telemetry_sink\<close> of Agent_Sync, the promise the queue relies on, is interpreted there on the repository.
  \<^item> Control_Client, Client_Server (controlclient/client.go): the HTTP client of the control API, and its composition with
    the server's handlers: requests are rendered, parsed and served. \<open>telemetry_sink\<close> is interpreted once more, on
    pushing reports over the API.
  \<^item> Node_Service (node/service.go): the node's snapshot, its configurations, and its synchronisation loop.
  \<^item> Contract (controlcontract/*.go): profiles and signed delivery envelopes.
  \<^item> Gateway (linuxgw/config.go, egress_plan.go, observation_plan.go, apply.go, observed_apply.go): gateway configurations,
    route plans from policies and observations, applying and rolling back. The order of its rules is interpreted as
    the strict weak order of Prelude, upwards and downwards.
  \<^item> Service_Chain (linuxgw/service_chain.go, service_chain_delivery.go): POP profiles compiled to marks, routes and rules, and
    signed deliveries of them. What nftables does with the rendered rules is stated on the structured rules
    (\<open>chain_mark\<close>, \<open>policy_mark\<close>), not on their text.
  \<^item> Observers (linuxgw/dns_observer.go, packet_observer.go, dns_journal_tail.go, packet_command.go, dns_log_tail.go,
    dns_observed_apply.go, conntrack_observed_apply.go): lines of dnsmasq and conntrack parsed to requests, streams of them.
  \<^item> Release (release/manifest.go, rollback.go): release manifests, which name only files below the release directory and verify
    exactly if those files are unchanged, and the execution of rollback plans.

  Conventions. A method that changes its receiver returns the new state; a constructor or function that may
  fail returns a sum. The readings of the clock, random values and the operating system's answers are
  arguments. Cryptography, X.509, PEM and JSON codecs are parameters, collected in records such as \<open>sign_lib\<close>
  and \<open>x509_lib\<close>; the laws a property needs of them are its named hypotheses (\<open>sign_laws\<close>, \<open>codec_ok\<close>) and each
  such property has a witness with concrete functions. A mutex is not modelled where a method holds it from
  start to end; where the program releases it early, as FileRepository does before saving, the steps are
  separate and may interleave. Loops that run until a context is done are functions of the schedule of their
  rounds, so no fuel is needed: a run is as long as its schedule.

  What the lemmas show: invariants of the reachable states of the repository, the authority and the
  supervisor and the control API; isolation of tenants in the repository, the policy engine and the API; that snapshots, backups, signed
  bundles and state files read back what was written; durability and crash behaviour of files; that telemetry
  is delivered in order without loss; that an agent runs only verified configurations and resumes after a
  restart; soundness of sessions, passwords and tokens; bounds of the rate limiter and of probe summaries;
  functional specifications of the policy engine, selector, scheduler and authorizer; that deliveries are authentic and in
  order, that service chains forward by the first matching policy, and where the gateway's rendered rules do not.

  Not modelled: the text of the embedded HTML console; the rendering of the configuration texts of the transport programs,
  WireGuard and FRR, whose correctness is that of formats defined outside the repository; the desktop user interface,
  service units and commands, which are glue and views;
  scheduling of goroutines inside a single call.
\<close>

end
